(* ===== verification/Prelude.thy ===== *)
theory Prelude
  imports Main "HOL-Library.Word" "HOL-Library.Sublist"
begin

section \<open>What the Go code takes from its language and standard library\<close>

text \<open>
  Shared types and the parts of Go's standard library the components use: errors as values
  (\<^verbatim>\<open>errors\<close>, \<^verbatim>\<open>fmt.Errorf\<close>), \<^verbatim>\<open>strings\<close> (TrimSpace, TrimPrefix, HasPrefix, Contains,
  Split, SplitN, Join, EqualFold), \<^verbatim>\<open>bufio.Scanner\<close> over lines, \<^verbatim>\<open>strconv\<close> and \<^verbatim>\<open>math/big\<close>
  conversions in base 10 and 16, \<^verbatim>\<open>encoding/hex\<close>. A Go string is a sequence of bytes: a
  \<^typ>\<open>char\<close> is one byte, so a non-ASCII literal is written as its UTF-8 bytes.
  The generic lemmas on trimming, splitting and positional numerals live here, in the
  collections \<open>go_str\<close> and \<open>go_num\<close>.
\<close>

named_theorems go_str "laws of the string operations"
named_theorems go_num "laws of the numeral conversions"

subsection \<open>Types shared by the components\<close>

text \<open>\<^verbatim>\<open>common.Address\<close> is 20 bytes, \<^verbatim>\<open>common.Hash\<close> and \<^verbatim>\<open>[32]byte\<close> are 32 bytes.\<close>

type_synonym address = "160 word"
type_synonym hash = "256 word"
type_synonym bytes = "char list"
type_synonym privkey = "256 word"

text \<open>
  A Go \<^verbatim>\<open>error\<close>: a text, a JSON-RPC error that also carries a \<^verbatim>\<open>data\<close> field (what
  \<^verbatim>\<open>ErrorData()\<close> returns), or an error that wraps another one (\<^verbatim>\<open>fmt.Errorf\<close> with
  \<^verbatim>\<open>%w\<close>). \<open>Panic\<close> is a run-time panic of the program itself.
\<close>

datatype errdata = DataNil | DataString string | DataBytes bytes | DataOther

datatype goerror =
    ErrText string
  | ErrRPC string errdata
  | ErrWrap string goerror
  | Panic string

primrec Error :: "goerror \<Rightarrow> string" where
  "Error (ErrText s) = s"
| "Error (ErrRPC s d) = s"
| "Error (ErrWrap s e) = s"
| "Error (Panic s) = s"

text \<open>\<^verbatim>\<open>errors.As(err, &dataErr)\<close>: the first error of the chain that has \<^verbatim>\<open>ErrorData\<close>.\<close>

primrec errors_As_data :: "goerror \<Rightarrow> errdata option" where
  "errors_As_data (ErrText s) = None"
| "errors_As_data (ErrRPC s d) = Some d"
| "errors_As_data (ErrWrap s e) = errors_As_data e"
| "errors_As_data (Panic s) = None"

type_synonym 'a result = "goerror + 'a"

abbreviation Ok :: "'a \<Rightarrow> 'a result" where "Ok x \<equiv> Inr x"
abbreviation Err :: "goerror \<Rightarrow> 'a result" where "Err e \<equiv> Inl e"

text \<open>The UTF-8 bytes of the em dash that several messages contain.\<close>

definition emdash :: string where
  "emdash = [CHR 0xE2, CHR 0x80, CHR 0x94]"

definition newline :: string where
  "newline = [CHR 0x0A]"

subsection \<open>Package strings\<close>

definition HasPrefix :: "string \<Rightarrow> string \<Rightarrow> bool" where
  "HasPrefix s p = prefix p s"

definition TrimPrefix :: "string \<Rightarrow> string \<Rightarrow> string" where
  "TrimPrefix s p = (if prefix p s then drop (length p) s else s)"

fun Contains :: "string \<Rightarrow> string \<Rightarrow> bool" where
  "Contains [] t = (t = [])"
| "Contains (c # s) t = (prefix t (c # s) \<or> Contains s t)"

fun Join :: "string list \<Rightarrow> string \<Rightarrow> string" where
  "Join [] sep = []"
| "Join [s] sep = s"
| "Join (s # t # ts) sep = s @ sep @ Join (t # ts) sep"

text \<open>\<^verbatim>\<open>strings.Split(s, c)\<close> for a one-byte separator: always at least one part.\<close>

fun Split :: "string \<Rightarrow> char \<Rightarrow> string list" where
  "Split [] c = [[]]"
| "Split (x # xs) c =
     (if x = c then [] # Split xs c
      else case Split xs c of p # ps \<Rightarrow> (x # p) # ps | [] \<Rightarrow> [[x]])"

text \<open>\<^verbatim>\<open>strings.SplitN(s, c, 2)\<close>: one part, or the text before and after the first separator.\<close>

definition SplitN2 :: "string \<Rightarrow> char \<Rightarrow> string list" where
  "SplitN2 s c =
     (if c \<in> set s
      then [takeWhile (\<lambda>x. x \<noteq> c) s, tl (dropWhile (\<lambda>x. x \<noteq> c) s)]
      else [s])"

text \<open>
  \<^verbatim>\<open>strings.EqualFold(s, t)\<close> for an ASCII \<open>t\<close>: simple case folding. Outside ASCII only
  U+017F (long s) and U+212A (Kelvin sign) fold to ASCII letters.
\<close>

definition ascii_lower :: "char \<Rightarrow> char" where
  "ascii_lower c =
     (let n = (of_char c :: nat) in if 65 \<le> n \<and> n \<le> 90 then char_of (n + 32) else c)"

fun fold_case :: "string \<Rightarrow> string" where
  "fold_case [] = []"
| "fold_case (c # cs) =
     (if prefix [CHR 0xC5, CHR 0xBF] (c # cs) then CHR ''s'' # fold_case (drop 1 cs)
      else if prefix [CHR 0xE2, CHR 0x84, CHR 0xAA] (c # cs) then CHR ''k'' # fold_case (drop 2 cs)
      else ascii_lower c # fold_case cs)"

definition EqualFold :: "string \<Rightarrow> string \<Rightarrow> bool" where
  "EqualFold s t = (fold_case s = fold_case t)"

text \<open>
  \<^verbatim>\<open>strings.TrimSpace\<close> removes the runes of \<^verbatim>\<open>unicode.IsSpace\<close> at both ends. A rune at an
  end is a space exactly when the bytes there are one of these UTF-8 encodings: the six
  ASCII ones, U+0085, U+00A0, U+1680, U+2000 to U+200A, U+2028, U+2029, U+202F, U+205F
  and U+3000.
\<close>

definition space_encodings :: "string list" where
  "space_encodings =
     [[CHR 0x09], [CHR 0x0A], [CHR 0x0B], [CHR 0x0C], [CHR 0x0D], [CHR 0x20],
      [CHR 0xC2, CHR 0x85], [CHR 0xC2, CHR 0xA0], [CHR 0xE1, CHR 0x9A, CHR 0x80],
      [CHR 0xE2, CHR 0x80, CHR 0x80], [CHR 0xE2, CHR 0x80, CHR 0x81],
      [CHR 0xE2, CHR 0x80, CHR 0x82], [CHR 0xE2, CHR 0x80, CHR 0x83],
      [CHR 0xE2, CHR 0x80, CHR 0x84], [CHR 0xE2, CHR 0x80, CHR 0x85],
      [CHR 0xE2, CHR 0x80, CHR 0x86], [CHR 0xE2, CHR 0x80, CHR 0x87],
      [CHR 0xE2, CHR 0x80, CHR 0x88], [CHR 0xE2, CHR 0x80, CHR 0x89],
      [CHR 0xE2, CHR 0x80, CHR 0x8A], [CHR 0xE2, CHR 0x80, CHR 0xA8],
      [CHR 0xE2, CHR 0x80, CHR 0xA9], [CHR 0xE2, CHR 0x80, CHR 0xAF],
      [CHR 0xE2, CHR 0x81, CHR 0x9F], [CHR 0xE3, CHR 0x80, CHR 0x80]]"

fun strip_one :: "string list \<Rightarrow> string \<Rightarrow> string option" where
  "strip_one [] s = None"
| "strip_one (e # es) s =
     (if e \<noteq> [] \<and> prefix e s then Some (drop (length e) s) else strip_one es s)"

lemma strip_one_shorter: "strip_one es s = Some s' \<Longrightarrow> length s' < length s"
  by (induction es s rule: strip_one.induct)
     (auto split: if_splits simp: prefix_def)

function trim_left :: "string list \<Rightarrow> string \<Rightarrow> string" where
  "trim_left es s = (case strip_one es s of None \<Rightarrow> s | Some s' \<Rightarrow> trim_left es s')"
  by pat_completeness auto
termination
  by (relation "measure (\<lambda>(es, s). length s)") (auto dest: strip_one_shorter)

declare trim_left.simps [simp del]

definition TrimSpace :: "string \<Rightarrow> string" where
  "TrimSpace s =
     rev (trim_left (map rev space_encodings) (rev (trim_left space_encodings s)))"

subsection \<open>bufio.Scanner over lines\<close>

text \<open>
  \<^verbatim>\<open>bufio.ScanLines\<close> cuts the input at line feeds and drops one trailing carriage return
  of each line; a last line without line feed counts unless it is empty. The scanner's
  buffer holds at most \<^verbatim>\<open>MaxScanTokenSize\<close> = 65536 bytes: a line that fills it ends the
  scan (\<^verbatim>\<open>Scan\<close> returns false; none of the callers looks at \<^verbatim>\<open>scanner.Err()\<close>).
\<close>

definition MaxScanTokenSize :: nat where
  "MaxScanTokenSize = 65536"

definition drop_CR :: "string \<Rightarrow> string" where
  "drop_CR l = (if l \<noteq> [] \<and> last l = CHR 0x0D then butlast l else l)"

definition raw_lines :: "string \<Rightarrow> string list" where
  "raw_lines s =
     (let ls = Split s (CHR 0x0A) in if last ls = [] then butlast ls else ls)"

definition scan_lines :: "string \<Rightarrow> string list" where
  "scan_lines s = map drop_CR (takeWhile (\<lambda>l. length l < MaxScanTokenSize) (raw_lines s))"

subsection \<open>Numerals: strconv, math/big, encoding/hex, fmt verbs\<close>

fun to_digits :: "nat \<Rightarrow> nat \<Rightarrow> nat list" where
  "to_digits b n = (if b < 2 \<or> n < b then [n] else to_digits b (n div b) @ [n mod b])"

declare to_digits.simps [simp del]

definition of_digits :: "nat \<Rightarrow> nat list \<Rightarrow> nat" where
  "of_digits b = foldl (\<lambda>a d. a * b + d) 0"

definition digit_char :: "nat \<Rightarrow> char" where
  "digit_char d = (if d < 10 then char_of (48 + d) else char_of (87 + d))"

text \<open>The value of a hexadecimal digit, either case.\<close>

definition hexval :: "char \<Rightarrow> nat option" where
  "hexval c =
     (let n = (of_char c :: nat) in
      if 48 \<le> n \<and> n \<le> 57 then Some (n - 48)
      else if 97 \<le> n \<and> n \<le> 102 then Some (n - 87)
      else if 65 \<le> n \<and> n \<le> 70 then Some (n - 55)
      else None)"

definition decval :: "char \<Rightarrow> nat option" where
  "decval c = (let n = (of_char c :: nat) in if 48 \<le> n \<and> n \<le> 57 then Some (n - 48) else None)"

fun digits_with :: "(char \<Rightarrow> nat option) \<Rightarrow> string \<Rightarrow> nat list option" where
  "digits_with f [] = Some []"
| "digits_with f (c # cs) =
     (case f c of None \<Rightarrow> None
      | Some d \<Rightarrow> (case digits_with f cs of None \<Rightarrow> None | Some ds \<Rightarrow> Some (d # ds)))"

text \<open>A non-empty run of digits; the common core of the parsers below.\<close>

definition parse_nat :: "(char \<Rightarrow> nat option) \<Rightarrow> nat \<Rightarrow> string \<Rightarrow> nat option" where
  "parse_nat f b s =
     (if s = [] then None
      else case digits_with f s of None \<Rightarrow> None | Some ds \<Rightarrow> Some (of_digits b ds))"

definition dec_of_nat :: "nat \<Rightarrow> string" where
  "dec_of_nat n = map digit_char (to_digits 10 n)"

definition hex_of_nat :: "nat \<Rightarrow> string" where
  "hex_of_nat n = map digit_char (to_digits 16 n)"

text \<open>\<^verbatim>\<open>%d\<close> of an integer, \<^verbatim>\<open>(*big.Int).String()\<close>.\<close>

definition dec_of_int :: "int \<Rightarrow> string" where
  "dec_of_int i = (if i < 0 then CHR ''-'' # dec_of_nat (nat (- i)) else dec_of_nat (nat i))"

text \<open>An optional sign, then decimal digits: \<^verbatim>\<open>big.Int.SetString(s, 10)\<close>.\<close>

definition SetString10 :: "string \<Rightarrow> int option" where
  "SetString10 s =
     (case s of
        [] \<Rightarrow> None
      | c # cs \<Rightarrow>
          if c = CHR ''-'' then map_option (\<lambda>n. - int n) (parse_nat decval 10 cs)
          else if c = CHR ''+'' then map_option int (parse_nat decval 10 cs)
          else map_option int (parse_nat decval 10 s))"

text \<open>\<^verbatim>\<open>strconv.Atoi\<close>: the same syntax, and a range error outside the 64-bit \<^verbatim>\<open>int\<close>.\<close>

definition Atoi :: "string \<Rightarrow> int option" where
  "Atoi s =
     (case SetString10 s of
        None \<Rightarrow> None
      | Some i \<Rightarrow> if - (2 ^ 63) \<le> i \<and> i < 2 ^ 63 then Some i else None)"

text \<open>\<^verbatim>\<open>strconv.ParseUint(s, 10, 64)\<close>: no sign, and a range error from \<open>2 ^ 64\<close> on.\<close>

definition ParseUint :: "string \<Rightarrow> 64 word option" where
  "ParseUint s =
     (case parse_nat decval 10 s of
        None \<Rightarrow> None
      | Some n \<Rightarrow> if n < 2 ^ 64 then Some (of_nat n) else None)"

definition pad0 :: "nat \<Rightarrow> string \<Rightarrow> string" where
  "pad0 w s = replicate (w - length s) (CHR ''0'') @ s"

text \<open>\<^verbatim>\<open>hex.EncodeToString\<close> and \<^verbatim>\<open>hex.DecodeString\<close> (None is its error).\<close>

definition hex_byte :: "char \<Rightarrow> string" where
  "hex_byte c = [digit_char (of_char c div 16), digit_char (of_char c mod 16)]"

definition hex_encode :: "bytes \<Rightarrow> string" where
  "hex_encode bs = concat (map hex_byte bs)"

fun hex_decode :: "string \<Rightarrow> bytes option" where
  "hex_decode [] = Some []"
| "hex_decode [c] = None"
| "hex_decode (c # d # cs) =
     (case (hexval c, hexval d) of
        (Some h, Some l) \<Rightarrow> map_option (\<lambda>bs. char_of (16 * h + l) # bs) (hex_decode cs)
      | _ \<Rightarrow> None)"

subsection \<open>Laws: trimming and splitting\<close>

lemma strip_one_append:
  "strip_one es s = Some s' \<Longrightarrow> \<exists>u. u \<noteq> [] \<and> s = u @ s'"
  by (induction es s rule: strip_one.induct) (auto split: if_splits simp: prefix_def)

lemma strip_one_prefix: "strip_one es (s @ t) = None \<Longrightarrow> strip_one es s = None"
  by (induction es s rule: strip_one.induct) (auto split: if_splits simp: prefix_def)

lemma strip_one_None_hd:
  "s \<noteq> [] \<Longrightarrow> (\<And>e. e \<in> set es \<Longrightarrow> e \<noteq> [] \<and> hd e \<noteq> hd s) \<Longrightarrow> strip_one es s = None"
proof (induction es)
  case (Cons e es)
  from Cons.prems(2) [of e] Cons.prems(1) have "e \<noteq> []" "\<not> prefix e s"
    by (auto simp: prefix_def)
  with Cons show ?case by simp
qed simp

lemma strip_one_Nil [simp]: "strip_one es [] = None"
  by (induction es) auto

lemma trim_left_stops: "strip_one es (trim_left es s) = None"
proof (induction es s rule: trim_left.induct)
  case (1 es s)
  then show ?case
    by (cases "strip_one es s") (simp_all add: trim_left.simps [of es s])
qed

lemma trim_left_id: "strip_one es s = None \<Longrightarrow> trim_left es s = s"
  by (simp add: trim_left.simps)

lemma trim_left_suffix: "\<exists>u. s = u @ trim_left es s"
proof (induction es s rule: trim_left.induct)
  case (1 es s)
  show ?case
  proof (cases "strip_one es s")
    case None
    then show ?thesis by (simp add: trim_left_id)
  next
    case (Some s')
    with 1 obtain u where "s' = u @ trim_left es s'" by blast
    moreover from Some obtain v where "s = v @ s'" using strip_one_append by blast
    moreover from Some have "trim_left es s = trim_left es s'"
      by (simp add: trim_left.simps [of es s])
    ultimately show ?thesis by (metis append_assoc)
  qed
qed

text \<open>Trimming on the right leaves a prefix, so it cannot uncover a space on the left.\<close>

lemma TrimSpace_left_clean: "strip_one space_encodings (TrimSpace s) = None"
proof -
  let ?l = "trim_left space_encodings s"
  let ?r = "trim_left (map rev space_encodings) (rev ?l)"
  obtain u where "rev ?l = u @ ?r" using trim_left_suffix by blast
  then have "?l = rev ?r @ rev u" by (metis rev_append rev_rev_ident)
  moreover have "strip_one space_encodings ?l = None" by (rule trim_left_stops)
  ultimately have "strip_one space_encodings (rev ?r) = None"
    using strip_one_prefix by metis
  then show ?thesis by (simp add: TrimSpace_def)
qed

lemma TrimSpace_right_clean: "strip_one (map rev space_encodings) (rev (TrimSpace s)) = None"
  by (simp add: TrimSpace_def trim_left_stops)

lemma TrimSpace_id:
  "strip_one space_encodings s = None \<Longrightarrow> strip_one (map rev space_encodings) (rev s) = None
   \<Longrightarrow> TrimSpace s = s"
  by (simp add: TrimSpace_def trim_left_id)

lemma TrimSpace_idem [go_str]: "TrimSpace (TrimSpace s) = TrimSpace s"
  by (rule TrimSpace_id) (rule TrimSpace_left_clean TrimSpace_right_clean)+

lemma TrimSpace_Nil [simp]: "TrimSpace [] = []"
  by (simp add: TrimSpace_id)

text \<open>Printable ASCII other than the blank at both ends: nothing to trim.\<close>

definition graphic :: "char \<Rightarrow> bool" where
  "graphic c \<longleftrightarrow> 33 \<le> (of_char c :: nat) \<and> (of_char c :: nat) \<le> 126"

lemma space_encodings_hd:
  "e \<in> set space_encodings \<Longrightarrow> e \<noteq> [] \<and> \<not> graphic (hd e)"
  by (auto simp: space_encodings_def graphic_def)

lemma space_encodings_last:
  "e \<in> set (map rev space_encodings) \<Longrightarrow> e \<noteq> [] \<and> \<not> graphic (hd e)"
  by (auto simp: space_encodings_def graphic_def)

lemma TrimSpace_graphic [go_str]:
  assumes "s \<noteq> [] \<Longrightarrow> graphic (hd s) \<and> graphic (last s)"
  shows "TrimSpace s = s"
proof (cases "s = []")
  case False
  with assms have g: "graphic (hd s)" "graphic (hd (rev s))" by (auto simp: hd_rev)
  have "strip_one space_encodings s = None"
    using False g(1) space_encodings_hd by (intro strip_one_None_hd) metis+
  moreover have "strip_one (map rev space_encodings) (rev s) = None"
    using False g(2) space_encodings_last by (intro strip_one_None_hd) (simp, metis)
  ultimately show ?thesis by (rule TrimSpace_id)
qed simp

text \<open>The six ASCII blanks around such a text, or around nothing, are trimmed.\<close>

definition ascii_space :: "char \<Rightarrow> bool" where
  "ascii_space c \<longleftrightarrow> c \<in> {CHR 0x09, CHR 0x0A, CHR 0x0B, CHR 0x0C, CHR 0x0D, CHR 0x20}"

lemma strip_ascii_space:
  assumes "ascii_space c"
  shows "strip_one space_encodings (c # s) = Some s" "strip_one (map rev space_encodings) (c # s) = Some s"
proof -
  consider "c = CHR 0x09" | "c = CHR 0x0A" | "c = CHR 0x0B" | "c = CHR 0x0C" | "c = CHR 0x0D" | "c = CHR 0x20"
    using assms unfolding ascii_space_def by blast
  then show "strip_one space_encodings (c # s) = Some s" "strip_one (map rev space_encodings) (c # s) = Some s"
    by (cases; simp add: space_encodings_def)+
qed

lemma trim_left_spaces:
  assumes "list_all ascii_space u" "\<And>c s. ascii_space c \<Longrightarrow> strip_one es (c # s) = Some s"
  shows "trim_left es (u @ s) = trim_left es s"
  using assms(1)
proof (induction u)
  case (Cons c u)
  then show ?case using assms(2) [of c "u @ s"] by (simp add: trim_left.simps [of es "c # u @ s"])
qed simp

lemma TrimSpace_spaces:
  assumes "list_all ascii_space l" "list_all ascii_space r" "s \<noteq> [] \<Longrightarrow> graphic (hd s) \<and> graphic (last s)"
  shows "TrimSpace (l @ s @ r) = s"
proof -
  note left = trim_left_spaces [OF _ strip_ascii_space(1)] and right = trim_left_spaces [OF _ strip_ascii_space(2)]
  have "trim_left space_encodings (l @ s @ r) = (if s = [] then [] else s @ r)"
  proof (cases "s = []")
    case True
    then show ?thesis using left [of "l @ r" "[]"] assms by (simp add: trim_left_id)
  next
    case False
    then have "strip_one space_encodings (s @ r) = None"
      using assms(3) space_encodings_hd by (intro strip_one_None_hd) (auto, metis)
    then show ?thesis using left [of l "s @ r"] assms(1) False by (simp add: trim_left_id)
  qed
  moreover have "trim_left (map rev space_encodings) (rev r @ rev s) = rev s"
    using right [of "rev r" "rev s"] TrimSpace_graphic [of s] TrimSpace_right_clean [of s] assms by (simp add: trim_left_id)
  ultimately show ?thesis by (simp add: TrimSpace_def trim_left_id)
qed

lemma Split_not_Nil [simp]: "Split s c \<noteq> []"
  by (cases s) (auto split: list.splits)

lemma Join_Split [go_str]: "Join (Split s c) [c] = s"
proof (induction s)
  case (Cons x xs)
  obtain p ps where "Split xs c = p # ps" by (cases "Split xs c") auto
  with Cons show ?case by (cases ps) auto
qed simp

lemma Split_parts: "list_all (\<lambda>s. c \<notin> set s) (Split s c)"
proof (induction s c rule: Split.induct)
  case (2 x xs c)
  then show ?case by (cases "Split xs c") auto
qed simp

lemma Join_snoc_Nil: "ss \<noteq> [] \<Longrightarrow> Join (ss @ [[]]) sep = Join ss sep @ sep"
  by (induction ss sep rule: Join.induct) simp_all

lemma Join_last:
  assumes "ss \<noteq> []" "last ss \<noteq> []"
  shows "Join ss sep \<noteq> [] \<and> last (Join ss sep) \<in> set (last ss)"
  using assms by (induction ss sep rule: Join.induct) auto

lemma Split_no_sep: "c \<notin> set s \<Longrightarrow> Split s c = [s]"
  by (induction s) auto

lemma Split_append_sep: "c \<notin> set s \<Longrightarrow> Split (s @ c # t) c = s # Split t c"
  by (induction s) auto

text \<open>Lines that end in a line feed are the lines that are read back.\<close>

lemma Split_Join:
  "ss \<noteq> [] \<Longrightarrow> list_all (\<lambda>s. c \<notin> set s) ss \<Longrightarrow> Split (Join ss [c]) c = ss"
proof (induction ss "[c]" rule: Join.induct)
  case (2 s)
  then show ?case by (simp add: Split_no_sep)
next
  case (3 s t ts)
  then show ?case by (simp add: Split_append_sep)
qed simp

lemma raw_lines_concat:
  "list_all (\<lambda>l. CHR 0x0A \<notin> set l) ls \<Longrightarrow> raw_lines (concat (map (\<lambda>l. l @ [CHR 0x0A]) ls)) = ls"
proof -
  assume "list_all (\<lambda>l. CHR 0x0A \<notin> set l) ls"
  then have "Split (concat (map (\<lambda>l. l @ [CHR 0x0A]) ls)) (CHR 0x0A) = ls @ [[]]"
    by (induction ls) (simp_all add: Split_append_sep)
  then show ?thesis by (simp add: raw_lines_def)
qed

lemma HasPrefix_subset: "HasPrefix s p \<Longrightarrow> set p \<subseteq> set s"
  by (simp add: HasPrefix_def set_mono_prefix)

lemma SplitN2_sep [go_str]: "c \<notin> set k \<Longrightarrow> SplitN2 (k @ c # v) c = [k, v]"
  by (induction k) (auto simp: SplitN2_def)

lemma SplitN2_cases:
  obtains (none) "c \<notin> set s" "SplitN2 s c = [s]"
  | (two) k v where "s = k @ c # v" "c \<notin> set k" "SplitN2 s c = [k, v]"
proof (cases "c \<in> set s")
  case True
  then obtain k v where "s = k @ c # v" "c \<notin> set k" by (meson split_list_first)
  then show ?thesis using two SplitN2_sep by blast
next
  case False
  then show ?thesis using none by (simp add: SplitN2_def)
qed

lemma Contains_iff [go_str]: "Contains s t \<longleftrightarrow> (\<exists>u v. s = u @ t @ v)"
proof (induction s)
  case (Cons c s)
  have "(\<exists>u v. c # s = u @ t @ v) \<longleftrightarrow> (\<exists>v. c # s = t @ v) \<or> (\<exists>u v. s = u @ t @ v)"
    by (metis append_Cons append_Nil list.inject neq_Nil_conv)
  with Cons show ?case by (auto simp: prefix_def)
qed auto

lemma Contains_char [simp]: "Contains s [c] \<longleftrightarrow> c \<in> set s"
  by (induction s) (auto simp: prefix_def)

subsection \<open>Laws: numerals\<close>

lemma of_digits_snoc [simp]: "of_digits b (ds @ [d]) = of_digits b ds * b + d"
  by (simp add: of_digits_def)

lemma of_digits_Nil [simp]: "of_digits b [] = 0"
  by (simp add: of_digits_def)

lemma of_digits_to_digits [go_num]: "2 \<le> b \<Longrightarrow> of_digits b (to_digits b n) = n"
proof (induction b n rule: to_digits.induct)
  case (1 b n)
  show ?case
  proof (cases "n < b")
    case True
    then show ?thesis by (simp add: to_digits.simps [of b n] of_digits_def)
  next
    case False
    with 1 show ?thesis by (simp add: to_digits.simps [of b n])
  qed
qed

lemma to_digits_bound [go_num]: "2 \<le> b \<Longrightarrow> d \<in> set (to_digits b n) \<Longrightarrow> d < b"
proof (induction b n rule: to_digits.induct)
  case (1 b n)
  then show ?case
    by (cases "n < b") (auto simp: to_digits.simps [of b n])
qed

lemma to_digits_not_Nil [simp]: "to_digits b n \<noteq> []"
  by (simp add: to_digits.simps [of b n])

lemma length_to_digits:
  "2 \<le> b \<Longrightarrow> n < b ^ k \<Longrightarrow> 0 < k \<Longrightarrow> length (to_digits b n) \<le> k"
proof (induction k arbitrary: n)
  case (Suc k)
  show ?case
  proof (cases "n < b")
    case True
    then show ?thesis by (simp add: to_digits.simps [of b n])
  next
    case False
    with Suc.prems have k: "0 < k" by (cases k) auto
    from Suc.prems have "n div b < b ^ k"
      by (simp add: less_mult_imp_div_less mult.commute)
    with Suc k have "length (to_digits b (n div b)) \<le> k" by blast
    with False Suc.prems show ?thesis by (simp add: to_digits.simps [of b n])
  qed
qed simp

lemma of_digits_replicate0 [simp]: "of_digits b (replicate k 0 @ ds) = of_digits b ds"
proof -
  have "foldl (\<lambda>a d. a * b + d) 0 (replicate k 0) = (0::nat)"
    by (induction k) auto
  then show ?thesis by (simp add: of_digits_def)
qed

lemma of_char_digit: "d < 16 \<Longrightarrow> (of_char (digit_char d) :: nat) = (if d < 10 then 48 + d else 87 + d)"
  by (auto simp: digit_char_def)

lemma hexval_digit [simp]: "d < 16 \<Longrightarrow> hexval (digit_char d) = Some d"
  by (auto simp: hexval_def Let_def of_char_digit)

lemma decval_digit [simp]: "d < 10 \<Longrightarrow> decval (digit_char d) = Some d"
  by (auto simp: decval_def Let_def of_char_digit)

lemma digits_with_map:
  "(\<And>d. d \<in> set ds \<Longrightarrow> f (g d) = Some d) \<Longrightarrow> digits_with f (map g ds) = Some ds"
  by (induction ds) auto

lemma parse_dec_of_nat [go_num]: "parse_nat decval 10 (dec_of_nat n) = Some n"
proof -
  have "digits_with decval (dec_of_nat n) = Some (to_digits 10 n)"
    unfolding dec_of_nat_def by (rule digits_with_map) (auto dest: to_digits_bound [rotated])
  then show ?thesis by (simp add: parse_nat_def dec_of_nat_def of_digits_to_digits)
qed

lemma parse_hex_of_nat [go_num]: "parse_nat hexval 16 (hex_of_nat n) = Some n"
proof -
  have "digits_with hexval (hex_of_nat n) = Some (to_digits 16 n)"
    unfolding hex_of_nat_def by (rule digits_with_map) (auto dest: to_digits_bound [rotated])
  then show ?thesis by (simp add: parse_nat_def hex_of_nat_def of_digits_to_digits)
qed

lemma dec_of_nat_hd: "\<exists>d ds. dec_of_nat n = digit_char d # ds \<and> d < 10"
proof -
  obtain d ds where "to_digits 10 n = d # ds" by (cases "to_digits 10 n") auto
  moreover from this have "d < 10" using to_digits_bound [of 10 d n] by simp
  ultimately show ?thesis by (auto simp: dec_of_nat_def)
qed

lemma digit_char_not_sign:
  "d < 10 \<Longrightarrow> digit_char d \<noteq> CHR ''-'' \<and> digit_char d \<noteq> CHR ''+''"
proof -
  assume "d < 10"
  then have "(of_char (digit_char d) :: nat) \<noteq> of_char (CHR ''-'')"
    and "(of_char (digit_char d) :: nat) \<noteq> of_char (CHR ''+'')"
    by (auto simp: of_char_digit)
  then show ?thesis by auto
qed

lemma SetString10_dec [go_num]: "SetString10 (dec_of_int i) = Some i"
proof -
  obtain d ds where "dec_of_nat (nat i) = digit_char d # ds" "d < 10"
    using dec_of_nat_hd by blast
  then show ?thesis
    using parse_dec_of_nat [of "nat i"] digit_char_not_sign [of d]
    by (auto simp: SetString10_def dec_of_int_def parse_dec_of_nat)
qed

lemma Atoi_dec [go_num]: "- (2 ^ 63) \<le> i \<Longrightarrow> i < 2 ^ 63 \<Longrightarrow> Atoi (dec_of_int i) = Some i"
  by (simp add: Atoi_def SetString10_dec)

lemma hex_decode_hex_byte:
  "hex_decode (hex_byte c @ s) = map_option ((#) c) (hex_decode s)"
proof -
  have "(of_char c :: nat) div 16 < 16" "(of_char c :: nat) mod 16 < 16"
    using nat_of_char_less_256 [of c] by (simp_all add: less_mult_imp_div_less)
  then show ?thesis by (simp add: hex_byte_def)
qed

lemma hex_decode_encode [go_num]: "hex_decode (hex_encode bs) = Some bs"
  by (induction bs) (simp_all add: hex_encode_def hex_decode_hex_byte)

lemma length_hex_encode [simp]: "length (hex_encode bs) = 2 * length bs"
  by (induction bs) (simp_all add: hex_encode_def hex_byte_def)

end
