(* ===== verification/World.thy ===== *)
theory World
  imports Prelude
begin

section \<open>The world outside the program, and quoting\<close>

text \<open>
  What the tools read from outside themselves. \<open>ext\<close> holds the third-party functions and
  constants the code calls (go-ethereum, tee-node; \<open>AddressUnmarshal\<close> and \<open>HashUnmarshal\<close> are
  \<^verbatim>\<open>UnmarshalJSON\<close> of the two types on the content of a JSON string, other JSON values are refused by
  them), the Unicode table of Go's \<^verbatim>\<open>strconv.IsPrint\<close> for the code points above ASCII and the
  wording of the errors of \<^verbatim>\<open>encoding/json\<close> for an input; \<open>host\<close> is a snapshot of the
  operating system (environment, files, sockets, HTTP); \<open>client\<close>, \<open>registry\<close> and
  \<open>allowlist\<close> are read-only views of the chain, where \<^verbatim>\<open>nil\<close> pointers are \<^const>\<open>None\<close> at
  the use sites. None of them is interpreted: they are arguments of the definitions.
  The second half is Go's \<^verbatim>\<open>%q\<close> (\<^verbatim>\<open>strconv.Quote\<close>) over UTF-8.
\<close>

record ext =
  AddressHex :: "address \<Rightarrow> string"
  HexToAddress :: "string \<Rightarrow> address"
  HashHex :: "hash \<Rightarrow> string"
  HexToHash :: "string \<Rightarrow> hash"
  PubkeyToAddress :: "privkey \<Rightarrow> address"
  HexToECDSA :: "string \<Rightarrow> privkey result"
  EVMType :: hash
  AddressUnmarshal :: "string \<Rightarrow> address option"
  HashUnmarshal :: "string \<Rightarrow> hash option"
  IsPrintHigh :: "nat \<Rightarrow> bool"
  JSONError :: "string \<Rightarrow> string"

record host =
  Getenv :: "string \<Rightarrow> string"
  OpenFile :: "string \<Rightarrow> bytes option"
  StatNotExist :: "string \<Rightarrow> bool"
  DialTCP :: "string \<Rightarrow> bool"
  HttpGet :: "string \<Rightarrow> nat result"

record client =
  CodeAt :: "address \<Rightarrow> bytes result"
  BalanceAt :: "address \<Rightarrow> int result"
  ChainID :: "int result"

record registry =
  NextPublicExtensionId :: "int result"
  GetTeeExtensionInstructionsSender :: "int \<Rightarrow> address result"
  IsKeyTypeSupported :: "int \<Rightarrow> hash \<Rightarrow> bool result"

record allowlist =
  IsAllowedTeeMachineOwner :: "int \<Rightarrow> address \<Rightarrow> bool result"

text \<open>A concrete outside world for the witnesses: no environment, one file \<open>f\<close> at one path,
  and the library functions replaced by constant or injective ones.\<close>

definition demo_ext :: ext where
  "demo_ext =
     \<lparr>AddressHex = (\<lambda>a. ''0x'' @ hex_of_nat (unat a)), HexToAddress = (\<lambda>s. of_nat (length s)),
      HashHex = (\<lambda>h. ''0x'' @ hex_of_nat (unat h)), HexToHash = (\<lambda>s. of_nat (length s)),
      PubkeyToAddress = (\<lambda>k. ucast k), HexToECDSA = (\<lambda>s. Ok (of_nat (length s))), EVMType = 1,
      AddressUnmarshal = (\<lambda>s. Some (of_nat (length s))), HashUnmarshal = (\<lambda>s. Some (of_nat (length s))),
      IsPrintHigh = (\<lambda>_. True), JSONError = (\<lambda>_. ''bad JSON'')\<rparr>"

definition demo_host :: "string \<Rightarrow> bytes option \<Rightarrow> host" where
  "demo_host path f =
     \<lparr>Getenv = (\<lambda>_. []), OpenFile = (\<lambda>p. if p = path then f else None),
      StatNotExist = (\<lambda>p. p \<noteq> path \<or> f = None), DialTCP = (\<lambda>_. False),
      HttpGet = (\<lambda>_. Err (ErrText ''connection refused''))\<rparr>"

definition demo_client :: client where
  "demo_client = \<lparr>CodeAt = (\<lambda>_. Ok ''code''), BalanceAt = (\<lambda>_. Ok (10 ^ 18)), ChainID = Ok 31337\<rparr>"

subsection \<open>UTF-8\<close>

definition RuneError :: nat where
  "RuneError = 0xFFFD"

text \<open>\<^verbatim>\<open>utf8.DecodeRuneInString\<close>: the first rune and its width; an invalid or truncated
  sequence is the replacement character with width 1, the empty string has width 0.\<close>

fun decode_codes :: "nat list \<Rightarrow> nat \<times> nat" where
  "decode_codes [] = (RuneError, 0)"
| "decode_codes (b0 # bs) =
     (if b0 < 0x80 then (b0, 1)
      else if 0xC2 \<le> b0 \<and> b0 \<le> 0xDF then
        (case bs of
           b1 # _ \<Rightarrow>
             if 0x80 \<le> b1 \<and> b1 \<le> 0xBF then (b0 mod 32 * 64 + b1 mod 64, 2) else (RuneError, 1)
         | [] \<Rightarrow> (RuneError, 1))
      else if 0xE0 \<le> b0 \<and> b0 \<le> 0xEF then
        (case bs of
           b1 # b2 # _ \<Rightarrow>
             if (if b0 = 0xE0 then 0xA0 else 0x80) \<le> b1 \<and> b1 \<le> (if b0 = 0xED then 0x9F else 0xBF)
                \<and> 0x80 \<le> b2 \<and> b2 \<le> 0xBF
             then (b0 mod 16 * 4096 + b1 mod 64 * 64 + b2 mod 64, 3) else (RuneError, 1)
         | _ \<Rightarrow> (RuneError, 1))
      else if 0xF0 \<le> b0 \<and> b0 \<le> 0xF4 then
        (case bs of
           b1 # b2 # b3 # _ \<Rightarrow>
             if (if b0 = 0xF0 then 0x90 else 0x80) \<le> b1 \<and> b1 \<le> (if b0 = 0xF4 then 0x8F else 0xBF)
                \<and> 0x80 \<le> b2 \<and> b2 \<le> 0xBF \<and> 0x80 \<le> b3 \<and> b3 \<le> 0xBF
             then (b0 mod 8 * 262144 + b1 mod 64 * 4096 + b2 mod 64 * 64 + b3 mod 64, 4)
             else (RuneError, 1)
         | _ \<Rightarrow> (RuneError, 1))
      else (RuneError, 1))"

definition DecodeRune :: "string \<Rightarrow> nat \<times> nat" where
  "DecodeRune s = decode_codes (map of_char s)"

lemma DecodeRune_width: "s \<noteq> [] \<Longrightarrow> 0 < snd (DecodeRune s)"
  by (cases s) (auto simp: DecodeRune_def split: list.splits)

subsection \<open>strconv.Quote, the verb %q\<close>

definition IsPrint :: "(nat \<Rightarrow> bool) \<Rightarrow> nat \<Rightarrow> bool" where
  "IsPrint high r = (if r < 0x80 then 0x20 \<le> r \<and> r \<le> 0x7E else high r)"

definition hex_width :: "nat \<Rightarrow> nat \<Rightarrow> string" where
  "hex_width w n = pad0 w (hex_of_nat n)"

text \<open>The rune \<open>r\<close>, spelled \<open>enc\<close> in the source string, as \<^verbatim>\<open>appendEscapedRune\<close> writes it.\<close>

definition quote_rune :: "(nat \<Rightarrow> bool) \<Rightarrow> nat \<Rightarrow> string \<Rightarrow> string" where
  "quote_rune high r enc =
     (if r = 0x22 \<or> r = 0x5C then CHR 0x5C # enc
      else if IsPrint high r then enc
      else if r = 0x07 then CHR 0x5C # ''a''
      else if r = 0x08 then CHR 0x5C # ''b''
      else if r = 0x0C then CHR 0x5C # ''f''
      else if r = 0x0A then CHR 0x5C # ''n''
      else if r = 0x0D then CHR 0x5C # ''r''
      else if r = 0x09 then CHR 0x5C # ''t''
      else if r = 0x0B then CHR 0x5C # ''v''
      else if r < 0x20 \<or> r = 0x7F then CHR 0x5C # ''x'' @ hex_width 2 r
      else if r < 0x10000 then CHR 0x5C # ''u'' @ hex_width 4 r
      else CHR 0x5C # ''U'' @ hex_width 8 r)"

function quote_body :: "(nat \<Rightarrow> bool) \<Rightarrow> string \<Rightarrow> string" where
  "quote_body high [] = []"
| "quote_body high (c # cs) =
     (let (r, w) = DecodeRune (c # cs) in
      if w = 1 \<and> r = RuneError
      then CHR 0x5C # ''x'' @ hex_width 2 (of_char c) @ quote_body high cs
      else quote_rune high r (take w (c # cs)) @ quote_body high (drop w (c # cs)))"
  by pat_completeness auto
termination
proof (relation "measure (length \<circ> snd)", goal_cases)
  case (3 high c cs x r w)
  then have "snd (DecodeRune (c # cs)) = w" by (metis snd_conv)
  then have "0 < w" using DecodeRune_width [of "c # cs"] by simp
  then show ?case by (cases w) auto
qed auto

definition Quote :: "(nat \<Rightarrow> bool) \<Rightarrow> string \<Rightarrow> string" where
  "Quote high s = CHR 0x22 # quote_body high s @ [CHR 0x22]"

text \<open>Printable ASCII other than the quote and the backslash is quoted as it is.\<close>

definition plain :: "char \<Rightarrow> bool" where
  "plain c \<longleftrightarrow> 32 \<le> (of_char c :: nat) \<and> (of_char c :: nat) \<le> 126 \<and> (of_char c :: nat) \<noteq> 0x22 \<and> (of_char c :: nat) \<noteq> 0x5C"

lemma quote_body_plain: "list_all plain s \<Longrightarrow> quote_body high s = s"
proof (induction s)
  case (Cons c cs)
  then have c: "plain c" by simp
  then have "DecodeRune (c # cs) = (of_char c, 1)" by (simp add: DecodeRune_def plain_def Let_def)
  moreover have "of_char c \<noteq> RuneError" using c by (simp add: plain_def RuneError_def)
  moreover have "quote_rune high (of_char c) [c] = [c]" using c by (simp add: quote_rune_def IsPrint_def plain_def)
  ultimately show ?case using Cons by (simp add: Let_def)
qed simp

lemma Quote_plain: "list_all plain s \<Longrightarrow> Quote high s = [CHR 0x22] @ s @ [CHR 0x22]"
  by (simp add: Quote_def quote_body_plain)

end
