(* ===== verification/Report.thy ===== *)
theory Report
  imports World "HOL-Library.Multiset"
begin

section \<open>Verification reports (tools/pkg/validate/report.go)\<close>

text \<open>
  The report every deployment check writes into: \<open>Status\<close>, \<open>CheckResult\<close>, \<open>Report\<close> with
  \<open>Add\<close>, \<open>HasFailures\<close>, \<open>Summary\<close> and the terminal rendering \<open>Fprint\<close>. A Go \<^verbatim>\<open>Status\<close> is an
  int: the constructor \<open>Status_other\<close> keeps the values outside the four constants, for
  which the source has default branches. The lemmas show that the report only grows, what
  the exit condition and the counters mean, and that the grouped rendering prints every
  result exactly once. The locale \<open>check_group\<close> is the contract of the six groups of checks.
\<close>

subsection \<open>Data and operations\<close>

datatype Status = PASS | WARN | FAIL | SKIP | Status_other int

fun Status_String :: "Status \<Rightarrow> string" where
  "Status_String PASS = ''PASS''"
| "Status_String WARN = ''WARN''"
| "Status_String FAIL = ''FAIL''"
| "Status_String SKIP = ''SKIP''"
| "Status_String (Status_other _) = ''UNKNOWN''"

record CheckResult =
  Step :: string
  ID :: string
  Name :: string
  CStatus :: Status
  Message :: string
  Fix :: string

abbreviation check :: "string \<Rightarrow> string \<Rightarrow> string \<Rightarrow> Status \<Rightarrow> string \<Rightarrow> string \<Rightarrow> CheckResult" where
  "check s i n st m f \<equiv>
     \<lparr>Step = s, ID = i, Name = n, CStatus = st, Message = m, Fix = f\<rparr>"

record Report =
  Results :: "CheckResult list"

definition Add :: "Report \<Rightarrow> CheckResult \<Rightarrow> Report" where
  "Add r res = r\<lparr>Results := Results r @ [res]\<rparr>"

fun has_fail :: "CheckResult list \<Rightarrow> bool" where
  "has_fail [] = False"
| "has_fail (res # rs) = (if CStatus res = FAIL then True else has_fail rs)"

definition HasFailures :: "Report \<Rightarrow> bool" where
  "HasFailures r = has_fail (Results r)"

text \<open>The loop of \<^verbatim>\<open>Summary\<close> over the counters passed, warning, failed, skipped.\<close>

fun count_status :: "nat \<times> nat \<times> nat \<times> nat \<Rightarrow> CheckResult list \<Rightarrow> nat \<times> nat \<times> nat \<times> nat" where
  "count_status acc [] = acc"
| "count_status (p, w, f, k) (res # rs) =
     count_status
       (case CStatus res of
          PASS \<Rightarrow> (Suc p, w, f, k)
        | WARN \<Rightarrow> (p, Suc w, f, k)
        | FAIL \<Rightarrow> (p, w, Suc f, k)
        | SKIP \<Rightarrow> (p, w, f, Suc k)
        | Status_other _ \<Rightarrow> (p, w, f, k)) rs"

definition Summary :: "Report \<Rightarrow> string" where
  "Summary r =
     (case count_status (0, 0, 0, 0) (Results r) of
        (passed, warning, failed, skipped) \<Rightarrow>
          dec_of_nat passed @ '' passed, '' @ dec_of_nat warning @ '' warning, '' @
          dec_of_nat failed @ '' failed, '' @ dec_of_nat skipped @ '' skipped'')"

subsection \<open>The terminal rendering\<close>

definition ansi :: "string \<Rightarrow> string" where
  "ansi code = CHR 0x1B # code"

definition colorReset :: string where "colorReset = ansi ''[0m''"
definition colorRed :: string where "colorRed = ansi ''[31m''"
definition colorGreen :: string where "colorGreen = ansi ''[32m''"
definition colorYellow :: string where "colorYellow = ansi ''[33m''"
definition colorCyan :: string where "colorCyan = ansi ''[36m''"
definition colorGray :: string where "colorGray = ansi ''[90m''"

text \<open>A Go map lookup of an absent key gives the zero value, here the empty string.\<close>

definition stepLabel :: "string \<Rightarrow> string" where
  "stepLabel s =
     (if s = ''deploy'' then ''Contract Deployment''
      else if s = ''register'' then ''Extension Registration''
      else if s = ''services'' then ''Service Startup''
      else if s = ''tee-version'' then ''TEE Version Registration''
      else if s = ''tee-machine'' then ''TEE Machine Registration''
      else if s = ''test'' then ''Testing''
      else [])"

fun statusColor :: "Status \<Rightarrow> string" where
  "statusColor PASS = colorGreen"
| "statusColor WARN = colorYellow"
| "statusColor FAIL = colorRed"
| "statusColor SKIP = colorGray"
| "statusColor (Status_other _) = colorReset"

text \<open>The unique steps in order of first appearance, with the \<^verbatim>\<open>seen\<close> map of the loop.\<close>

fun collect_steps :: "(string \<Rightarrow> bool) \<Rightarrow> CheckResult list \<Rightarrow> string list" where
  "collect_steps seen [] = []"
| "collect_steps seen (res # rs) =
     (if \<not> seen (Step res) then Step res # collect_steps (seen(Step res := True)) rs
      else collect_steps seen rs)"

definition report_steps :: "CheckResult list \<Rightarrow> string list" where
  "report_steps rs = collect_steps (\<lambda>_. False) rs"

definition print_result :: "CheckResult \<Rightarrow> string" where
  "print_result res =
     ''  '' @ statusColor (CStatus res) @ ''['' @ Status_String (CStatus res) @ '']'' @ colorReset @
     '' '' @ ID res @ ''  '' @ Name res @ newline @
     (if CStatus res = FAIL \<or> CStatus res = WARN
      then (if Message res \<noteq> [] then ''         '' @ Message res @ newline else []) @
           (if Fix res \<noteq> [] then ''         Fix: '' @ Fix res @ newline else [])
      else [])"

definition print_step :: "CheckResult list \<Rightarrow> string \<Rightarrow> string" where
  "print_step rs step =
     (let label = (if stepLabel step = [] then step else stepLabel step) in
      label @ '':'' @ newline @
      concat (map print_result (filter (\<lambda>res. Step res = step) rs)) @ newline)"

definition Fprint :: "Report \<Rightarrow> string" where
  "Fprint r =
     newline @ colorCyan @ ''=== Deployment Verification Report ==='' @ colorReset @ newline @ newline @
     concat (map (print_step (Results r)) (report_steps (Results r))) @
     Summary r @ newline"

subsection \<open>The value behind the JSON output\<close>

record jsonResult =
  jStep :: string
  jID :: string
  jName :: string
  jStatus :: string
  jMessage :: string
  jFix :: string

record jsonReport =
  jResults :: "jsonResult list"
  jSummary :: string

definition to_jsonResult :: "CheckResult \<Rightarrow> jsonResult" where
  "to_jsonResult res =
     \<lparr>jStep = Step res, jID = ID res, jName = Name res, jStatus = Status_String (CStatus res),
      jMessage = TrimSpace (Message res), jFix = TrimSpace (Fix res)\<rparr>"

definition to_jsonReport :: "Report \<Rightarrow> jsonReport" where
  "to_jsonReport r = \<lparr>jResults = map to_jsonResult (Results r), jSummary = Summary r\<rparr>"

subsection \<open>Well-formed results\<close>

text \<open>
  What the comments of the source promise of a result: one of the four statuses, and a fix
  only with FAIL or WARN. A check also names itself.
\<close>

definition wf_result :: "CheckResult \<Rightarrow> bool" where
  "wf_result x \<longleftrightarrow>
     CStatus x \<in> {PASS, WARN, FAIL, SKIP} \<and> Name x \<noteq> [] \<and>
     (Fix x \<noteq> [] \<longrightarrow> CStatus x \<in> {WARN, FAIL})"

lemma wf_result_check [simp]:
  "wf_result (check s i n st m f) \<longleftrightarrow>
     st \<in> {PASS, WARN, FAIL, SKIP} \<and> n \<noteq> [] \<and> (f \<noteq> [] \<longrightarrow> st \<in> {WARN, FAIL})"
  by (simp add: wf_result_def)

subsection \<open>Lemmas\<close>

lemma Results_Add [simp]: "Results (Add r res) = Results r @ [res]"
  by (simp add: Add_def)

lemma has_fail_iff: "has_fail rs \<longleftrightarrow> (\<exists>x\<in>set rs. CStatus x = FAIL)"
  by (induction rs) auto

lemma has_fail_append [simp]: "has_fail (xs @ ys) \<longleftrightarrow> has_fail xs \<or> has_fail ys"
  by (induction xs) auto

abbreviation count_of :: "Status \<Rightarrow> CheckResult list \<Rightarrow> nat" where
  "count_of st rs \<equiv> length (filter (\<lambda>x. CStatus x = st) rs)"

lemma count_status_filter:
  "count_status (p, w, f, k) rs =
     (p + count_of PASS rs, w + count_of WARN rs, f + count_of FAIL rs, k + count_of SKIP rs)"
  by (induction rs arbitrary: p w f k) (auto split: Status.split)

lemma count_of_total:
  "\<forall>x\<in>set rs. CStatus x \<in> {PASS, WARN, FAIL, SKIP} \<Longrightarrow>
   count_of PASS rs + count_of WARN rs + count_of FAIL rs + count_of SKIP rs = length rs"
  by (induction rs) auto

lemma count_of_FAIL_0: "count_of FAIL rs = 0 \<longleftrightarrow> \<not> has_fail rs"
  by (induction rs) auto

lemma set_collect_steps: "set (collect_steps seen rs) = Step ` set rs - {s. seen s}"
  by (induction rs arbitrary: seen) (auto split: if_splits)

lemma distinct_collect_steps: "distinct (collect_steps seen rs)"
  by (induction rs arbitrary: seen) (auto simp: set_collect_steps)

lemma report_steps_cover: "set (report_steps rs) = Step ` set rs" "distinct (report_steps rs)"
  by (simp_all add: report_steps_def set_collect_steps distinct_collect_steps)

lemma mset_concat_groups:
  "distinct ss \<Longrightarrow> set (map Step rs) \<subseteq> set ss \<Longrightarrow>
   mset (concat (map (\<lambda>s. filter (\<lambda>x. Step x = s) rs) ss)) = mset rs"
proof (induction ss arbitrary: rs)
  case (Cons s ss)
  let ?rest = "filter (\<lambda>x. Step x \<noteq> s) rs"
  have "map (\<lambda>t. filter (\<lambda>x. Step x = t) rs) ss = map (\<lambda>t. filter (\<lambda>x. Step x = t) ?rest) ss"
    using Cons.prems(1) by (auto intro!: filter_cong)
  moreover have "mset (concat (map (\<lambda>t. filter (\<lambda>x. Step x = t) ?rest) ss)) = mset ?rest"
    using Cons.prems by (intro Cons.IH) auto
  ultimately have "mset (concat (map (\<lambda>t. filter (\<lambda>x. Step x = t) rs) ss)) = mset ?rest"
    by (simp only:)
  then show ?case by (simp add: multiset_partition [symmetric])
qed simp

subsection \<open>The contract of a group of checks\<close>

text \<open>
  A group of checks is a function on the report. The contract: it appends results that do
  not depend on what the report already holds, all of them well formed and filed under the
  group's step. What a client of a group (the verify-deploy command) may conclude is
  proved here once.
\<close>

locale check_group =
  fixes run :: "Report \<Rightarrow> Report"
    and step :: string
  assumes run_appends: "Results (run r) = Results r @ Results (run \<lparr>Results = []\<rparr>)"
    and run_wf: "x \<in> set (Results (run \<lparr>Results = []\<rparr>)) \<Longrightarrow> wf_result x \<and> Step x = step"
begin

lemma keeps: "prefix (Results r) (Results (run r))"
  by (metis prefixI run_appends)

lemma failures: "HasFailures (run r) \<longleftrightarrow> HasFailures r \<or> HasFailures (run \<lparr>Results = []\<rparr>)"
  unfolding HasFailures_def by (subst run_appends) simp

lemma keeps_wf:
  "(\<And>x. x \<in> set (Results r) \<Longrightarrow> wf_result x) \<Longrightarrow> x \<in> set (Results (run r)) \<Longrightarrow> wf_result x"
  using run_wf by (subst (asm) run_appends) auto

lemma steps_added: "set (map Step (Results (run r))) \<subseteq> insert step (set (map Step (Results r)))"
  using run_wf by (subst run_appends) auto

end

end
