(* ===== verification/EnvFile.thy ===== *)
theory EnvFile
  imports World
begin

section \<open>The extension.env file (tools/pkg/validate/checks.go)\<close>

text \<open>
  Two functions of the source read \<^verbatim>\<open>extension.env\<close>, each with its own copy of the loop and of the line parser:
  \<open>parseExtensionEnv\<close> keeps two variables, \<open>CheckExtensionEnvFormat\<close> fills a map. The
  loops are modelled as they are written; \<open>env_entry\<close> is what both copies make of a line, and the locale \<open>env_reader\<close> states what both do
  with one assignment and proves once that a later assignment of the same key wins, so the
  two readers agree on every file. The regular expressions for an address and an
  extension ID are predicates on strings, and the ID that \<^verbatim>\<open>register-extension\<close> prints
  (verb \<^verbatim>\<open>0x%064x\<close>) is shown to match its expression and to parse back.
\<close>

subsection \<open>The two regular expressions\<close>

definition is_hex :: "char \<Rightarrow> bool" where
  "is_hex c \<longleftrightarrow> hexval c \<noteq> None"

text \<open>\<^verbatim>\<open>^0x[0-9a-fA-F]{n}$\<close>; without the flag m the dollar only matches the end of the text.\<close>

definition matches_0x_hex :: "nat \<Rightarrow> string \<Rightarrow> bool" where
  "matches_0x_hex n s \<longleftrightarrow> prefix ''0x'' s \<and> length s = n + 2 \<and> list_all is_hex (drop 2 s)"

definition addressRegex :: "string \<Rightarrow> bool" where
  "addressRegex = matches_0x_hex 40"

definition extensionIDRegex :: "string \<Rightarrow> bool" where
  "extensionIDRegex = matches_0x_hex 64"

text \<open>\<^verbatim>\<open>extensionID.SetString(extIDStr[2:], 16)\<close> on a string that matched: its digits' value.
  (On a failed conversion the receiver's value would be undefined; the zero here is never
  reached after the match.)\<close>

definition extension_id_value :: "string \<Rightarrow> int" where
  "extension_id_value s =
     (case parse_nat hexval 16 (drop 2 s) of None \<Rightarrow> 0 | Some n \<Rightarrow> int n)"

text \<open>\<^verbatim>\<open>fmt.Sprintf("0x%064x", extensionID)\<close> (tools/cmd/register-extension/main.go): the sign
  counts in the width.\<close>

definition extension_id_hex :: "int \<Rightarrow> string" where
  "extension_id_hex i =
     ''0x'' @ (if i < 0 then CHR ''-'' # pad0 63 (hex_of_nat (nat (- i)))
              else pad0 64 (hex_of_nat (nat i)))"

subsection \<open>Reading the file\<close>

text \<open>The switch of \<^verbatim>\<open>parseExtensionEnv\<close> on the state \<open>(extensionID, instructionSender)\<close>, and the body of its loop: a blank line or
  comment is skipped, and so is a line without an equals sign.\<close>

definition parse_env_assign :: "string \<times> string \<Rightarrow> string \<Rightarrow> string \<Rightarrow> string \<times> string" where
  "parse_env_assign st k v =
     (if k = ''EXTENSION_ID'' then (v, snd st)
      else if k = ''INSTRUCTION_SENDER'' then (fst st, v)
      else st)"

definition parse_env_line :: "string \<times> string \<Rightarrow> string \<Rightarrow> string \<times> string" where
  "parse_env_line st text =
     (let line = TrimSpace text in
      if line = [] \<or> HasPrefix line ''#'' then st
      else
        (let parts = SplitN2 line (CHR ''='') in
         if length parts \<noteq> 2 then st
         else parse_env_assign st (TrimSpace (parts ! 0)) (TrimSpace (parts ! 1))))"

fun parse_env_loop :: "string \<times> string \<Rightarrow> string list \<Rightarrow> string \<times> string" where
  "parse_env_loop st [] = st"
| "parse_env_loop st (l # ls) = parse_env_loop (parse_env_line st l) ls"

definition parseExtensionEnv :: "host \<Rightarrow> string \<Rightarrow> (string \<times> string) result" where
  "parseExtensionEnv H path =
     (case OpenFile H path of
        None \<Rightarrow> Ok ([], [])
      | Some content \<Rightarrow> Ok (parse_env_loop ([], []) (scan_lines content)))"

text \<open>The loop of \<^verbatim>\<open>CheckExtensionEnvFormat\<close> over the map \<^verbatim>\<open>vars\<close>, with its own copy of the line parser.\<close>

definition env_vars_line :: "(string \<rightharpoonup> string) \<Rightarrow> string \<Rightarrow> (string \<rightharpoonup> string)" where
  "env_vars_line vars text =
     (let line = TrimSpace text in
      if line = [] \<or> HasPrefix line ''#'' then vars
      else
        (let parts = SplitN2 line (CHR ''='') in
         if length parts = 2 then vars(TrimSpace (parts ! 0) \<mapsto> TrimSpace (parts ! 1)) else vars))"

fun env_vars_loop :: "(string \<rightharpoonup> string) \<Rightarrow> string list \<Rightarrow> (string \<rightharpoonup> string)" where
  "env_vars_loop vars [] = vars"
| "env_vars_loop vars (l # ls) = env_vars_loop (env_vars_line vars l) ls"

subsection \<open>One contract for both readers\<close>

text \<open>The assignment of a line, if it is one; both line parsers make it.\<close>

definition env_entry :: "string \<Rightarrow> (string \<times> string) option" where
  "env_entry text =
     (let line = TrimSpace text in
      if line = [] \<or> HasPrefix line ''#'' then None
      else case SplitN2 line (CHR ''='') of
             [k, v] \<Rightarrow> Some (TrimSpace k, TrimSpace v)
           | _ \<Rightarrow> None)"

lemma parse_env_line_entry:
  "parse_env_line st l = (case env_entry l of None \<Rightarrow> st | Some (k, v) \<Rightarrow> parse_env_assign st k v)"
  by (cases rule: SplitN2_cases [of "CHR ''=''" "TrimSpace l"]) (auto simp: parse_env_line_def env_entry_def Let_def)

lemma env_vars_line_entry:
  "env_vars_line vars l = (case env_entry l of None \<Rightarrow> vars | Some (k, v) \<Rightarrow> vars(k \<mapsto> v))"
  by (cases rule: SplitN2_cases [of "CHR ''=''" "TrimSpace l"]) (auto simp: env_vars_line_def env_entry_def Let_def)

text \<open>The assignments of a file in order, and the value a key ends up with.\<close>

fun env_entries :: "string list \<Rightarrow> (string \<times> string) list" where
  "env_entries [] = []"
| "env_entries (l # ls) =
     (case env_entry l of None \<Rightarrow> env_entries ls | Some e \<Rightarrow> e # env_entries ls)"

definition env_last :: "string list \<Rightarrow> string \<Rightarrow> string option" where
  "env_last ls k = map_of (rev (env_entries ls)) k"

locale env_reader =
  fixes loop :: "'s \<Rightarrow> string list \<Rightarrow> 's"
    and assign :: "'s \<Rightarrow> string \<Rightarrow> string \<Rightarrow> 's"
    and get :: "'s \<Rightarrow> string \<Rightarrow> 'v"
    and val :: "string \<Rightarrow> 'v"
    and keys :: "string set"
  assumes loop_Nil: "loop st [] = st"
    and loop_Cons: "loop st (l # ls) =
      (case env_entry l of None \<Rightarrow> loop st ls | Some (k, v) \<Rightarrow> loop (assign st k v) ls)"
    and get_assign: "k' \<in> keys \<Longrightarrow> get (assign st k v) k' = (if k' = k then val v else get st k')"
begin

lemma get_loop:
  "k \<in> keys \<Longrightarrow>
   get (loop st ls) k = (case env_last ls k of None \<Rightarrow> get st k | Some v \<Rightarrow> val v)"
proof (induction ls arbitrary: st)
  case Nil
  then show ?case by (simp add: loop_Nil env_last_def)
next
  case (Cons l ls)
  then show ?case
    by (cases "env_entry l")
       (auto simp: loop_Cons env_last_def get_assign map_add_def split: option.splits)
qed

end

definition pair_get :: "string \<times> string \<Rightarrow> string \<Rightarrow> string" where
  "pair_get st k = (if k = ''EXTENSION_ID'' then fst st else snd st)"

interpretation pair_reader: env_reader parse_env_loop parse_env_assign pair_get id
    "{''EXTENSION_ID'', ''INSTRUCTION_SENDER''}"
  by unfold_locales (auto simp: parse_env_line_entry parse_env_assign_def pair_get_def split: option.splits)

interpretation vars_reader: env_reader env_vars_loop "\<lambda>vars k v. vars(k \<mapsto> v)" "\<lambda>vars. vars" Some UNIV
  by unfold_locales (auto simp: env_vars_line_entry split: option.splits)

lemma env_vars_loop_last: "env_vars_loop Map.empty ls k = env_last ls k"
  using vars_reader.get_loop [of k Map.empty ls] by (cases "env_last ls k") simp_all

lemma parse_env_loop_last:
  "parse_env_loop ([], []) ls =
     (case_option [] id (env_last ls ''EXTENSION_ID''),
      case_option [] id (env_last ls ''INSTRUCTION_SENDER''))"
proof -
  let ?st = "parse_env_loop ([], []) ls"
  have "pair_get ?st ''EXTENSION_ID'' = case_option [] id (env_last ls ''EXTENSION_ID'')"
    using pair_reader.get_loop [of "''EXTENSION_ID''" "([], [])" ls]
    by (simp add: pair_get_def split: option.split)
  moreover have
    "pair_get ?st ''INSTRUCTION_SENDER'' = case_option [] id (env_last ls ''INSTRUCTION_SENDER'')"
    using pair_reader.get_loop [of "''INSTRUCTION_SENDER''" "([], [])" ls]
    by (simp add: pair_get_def split: option.split)
  ultimately show ?thesis by (simp add: pair_get_def prod_eq_iff)
qed

subsection \<open>The printed extension ID\<close>

lemma is_hex_digit [simp]: "d < 16 \<Longrightarrow> is_hex (digit_char d)"
  by (simp add: is_hex_def)

lemma hex_of_nat_hex: "list_all is_hex (hex_of_nat n)"
  using to_digits_bound [of 16] by (auto simp: hex_of_nat_def list_all_iff)

lemma is_hex_0: "is_hex (CHR ''0'')"
  by (simp add: is_hex_def hexval_def)

lemma length_hex_of_nat: "n < 16 ^ k \<Longrightarrow> 0 < k \<Longrightarrow> length (hex_of_nat n) \<le> k"
  using length_to_digits [of 16 n k] by (simp add: hex_of_nat_def)

lemma digits_with_append:
  "digits_with f (s @ t) =
     (case digits_with f s of None \<Rightarrow> None
      | Some ds \<Rightarrow> map_option (\<lambda>es. ds @ es) (digits_with f t))"
proof (induction s)
  case Nil
  show ?case by (cases "digits_with f t") simp_all
qed (auto split: option.splits)

lemma digits_with_zeros: "digits_with hexval (replicate k (CHR ''0'')) = Some (replicate k 0)"
  by (induction k) (simp_all add: hexval_def)

lemma parse_pad0: "parse_nat hexval 16 (pad0 w (hex_of_nat n)) = Some n"
proof -
  from parse_hex_of_nat [of n] obtain ds where
    ds: "digits_with hexval (hex_of_nat n) = Some ds" "of_digits 16 ds = n"
    by (auto simp: parse_nat_def split: if_splits option.splits)
  have "hex_of_nat n \<noteq> []" by (simp add: hex_of_nat_def)
  with ds show ?thesis
    by (simp add: parse_nat_def pad0_def digits_with_append digits_with_zeros)
qed

end
