(* ===== verification/Checks.thy ===== *)
theory Checks
  imports Report EnvFile
begin

section \<open>Preconditions and check groups (tools/pkg/validate/validate.go, checks.go)\<close>

text \<open>
  The preconditions \<open>AddressNotZero\<close>, \<open>AddressHasCode\<close>, \<open>KeyHasFunds\<close> and the six groups of
  checks that verify-deploy runs, each a function on the report. Every check of a group is
  a definition of its own (\<open>check_S2\<close>, \<open>check_R3\<close> and so on), named after the check's ID.
  Go iterates a map in an unspecified order: the two loops of \<open>RegisterDeployChecks\<close> over
  the address map take the order of each traversal as a list of label and address.
  Files, environment, sockets and chain are one snapshot for the duration of a group.
\<close>

subsection \<open>validate.go\<close>

definition MinDeployBalance :: int where
  "MinDeployBalance = 10000000000000000"

definition AddressNotZero :: "ext \<Rightarrow> address \<Rightarrow> string \<Rightarrow> goerror option" where
  "AddressNotZero E addr label =
     (if addr = 0
      then Some (ErrText (label @ '' is the zero address ('' @ AddressHex E addr @
             '') in the addresses file''))
      else None)"

definition AddressHasCode :: "ext \<Rightarrow> client option \<Rightarrow> address \<Rightarrow> string \<Rightarrow> goerror option" where
  "AddressHasCode E cl addr label =
     (case cl of
        None \<Rightarrow> Some (ErrText (''cannot check '' @ label @ '': no chain client connected''))
      | Some c \<Rightarrow>
          (case CodeAt c addr of
             Err err \<Rightarrow> Some (ErrWrap (''cannot check '' @ label @ '': '' @ Error err) err)
           | Ok code \<Rightarrow>
               if length code = 0
               then Some (ErrText (label @ '' at '' @ AddressHex E addr @ '' has no deployed code. '' @
                      ''This address will be set as immutable in the contract constructor and cannot be changed. '' @
                      ''Check your deployed-addresses.json file '' @ emdash @ '' are you on the right network?''))
               else None))"

definition KeyHasFunds :: "ext \<Rightarrow> client option \<Rightarrow> privkey \<Rightarrow> int \<Rightarrow> goerror option" where
  "KeyHasFunds E cl key minWei =
     (case cl of
        None \<Rightarrow> Some (ErrText ''cannot check deployer balance: no chain client connected'')
      | Some c \<Rightarrow>
          (let addr = PubkeyToAddress E key in
           case BalanceAt c addr of
             Err err \<Rightarrow> Some (ErrWrap (''cannot check deployer balance: '' @ Error err) err)
           | Ok balance \<Rightarrow>
               if balance < minWei
               then Some (ErrText (''deployer '' @ AddressHex E addr @
                      '' has insufficient funds (balance: '' @ dec_of_int balance @
                      '' wei, minimum required: '' @ dec_of_int minWei @
                      '' wei). Fund this account before deploying''))
               else None))"

definition IsUsingDevKey :: "host \<Rightarrow> bool" where
  "IsUsingDevKey H = (Getenv H ''DEPLOYMENT_PRIVATE_KEY'' = [])"

subsection \<open>Step 1: contract deployment (D1, D3, D5, D6, D7)\<close>

definition check_D3 :: "ext \<Rightarrow> string \<Rightarrow> address \<Rightarrow> CheckResult" where
  "check_D3 E label addr =
     (case AddressNotZero E addr label of
        Some err \<Rightarrow> check ''deploy'' ''D3'' (label @ '' address not zero'') FAIL (Error err)
          ''Re-run the deploy script or check deployed-addresses.json''
      | None \<Rightarrow> check ''deploy'' ''D3'' (label @ '' address not zero'') PASS (AddressHex E addr) [])"

text \<open>The first loop: the report and the map \<^verbatim>\<open>zeroAddrs\<close>.\<close>

fun loop_D3 :: "ext \<Rightarrow> Report \<times> (string \<Rightarrow> bool) \<Rightarrow> (string \<times> address) list
    \<Rightarrow> Report \<times> (string \<Rightarrow> bool)" where
  "loop_D3 E st [] = st"
| "loop_D3 E (r, zeroAddrs) ((label, addr) # as) =
     loop_D3 E
       (Add r (check_D3 E label addr),
        if AddressNotZero E addr label \<noteq> None then zeroAddrs(label := True) else zeroAddrs) as"

definition check_D1 :: "ext \<Rightarrow> client option \<Rightarrow> string \<Rightarrow> address \<Rightarrow> CheckResult" where
  "check_D1 E cl label addr =
     (case AddressHasCode E cl addr label of
        Some err \<Rightarrow> check ''deploy'' ''D1'' (label @ '' has deployed code'') FAIL (Error err)
          ''Deploy contracts or check CHAIN_URL / deployed-addresses.json''
      | None \<Rightarrow> check ''deploy'' ''D1'' (label @ '' has deployed code'') PASS
          (''code found at '' @ AddressHex E addr) [])"

fun loop_D1 :: "ext \<Rightarrow> client option \<Rightarrow> (string \<Rightarrow> bool) \<Rightarrow> Report \<Rightarrow> (string \<times> address) list \<Rightarrow> Report" where
  "loop_D1 E cl zeroAddrs r [] = r"
| "loop_D1 E cl zeroAddrs r ((label, addr) # as) =
     (if zeroAddrs label then loop_D1 E cl zeroAddrs r as
      else loop_D1 E cl zeroAddrs (Add r (check_D1 E cl label addr)) as)"

definition CheckDeployerKeySource :: "host \<Rightarrow> CheckResult" where
  "CheckDeployerKeySource H =
     (if Getenv H ''DEPLOYMENT_PRIVATE_KEY'' \<noteq> []
      then check ''deploy'' ''D5'' ''deployer key source'' PASS ''DEPLOYMENT_PRIVATE_KEY is set'' []
      else
        let localMode = Getenv H ''LOCAL_MODE'' in
        if localMode = ''true'' \<or> localMode = []
        then check ''deploy'' ''D5'' ''deployer key source'' PASS ''using Hardhat dev key (LOCAL_MODE)'' []
        else check ''deploy'' ''D5'' ''deployer key source'' WARN
          (''DEPLOYMENT_PRIVATE_KEY not set '' @ emdash @
           '' using Hardhat dev key which has no funds on Coston2'')
          ''Set DEPLOYMENT_PRIVATE_KEY in .env to a funded account on the target network'')"

definition check_D5_funds :: "ext \<Rightarrow> client option \<Rightarrow> privkey \<Rightarrow> CheckResult" where
  "check_D5_funds E cl key =
     (case KeyHasFunds E cl key MinDeployBalance of
        Some err \<Rightarrow> check ''deploy'' ''D5'' ''deployer has sufficient funds'' FAIL (Error err)
          ''Fund the deployer account before deploying''
      | None \<Rightarrow> check ''deploy'' ''D5'' ''deployer has sufficient funds'' PASS
          ''balance above minimum threshold'' [])"

definition chainName :: "int \<Rightarrow> string" where
  "chainName cid =
     (let s = dec_of_int cid in
      if s = ''31337'' then ''Hardhat/Anvil (local devnet)''
      else if s = ''114'' then ''Coston2 (testnet)''
      else if s = ''14'' then ''Flare (mainnet)''
      else ''unknown network'')"

definition checkChainID :: "client \<Rightarrow> CheckResult" where
  "checkChainID c =
     (case ChainID c of
        Err err \<Rightarrow> check ''deploy'' ''D6'' ''chain ID'' FAIL
          (''failed to get chain ID: '' @ Error err) ''Check CHAIN_URL''
      | Ok cid \<Rightarrow> check ''deploy'' ''D6'' ''chain ID'' PASS
          (''chain ID '' @ dec_of_int cid @ '' ('' @ chainName cid @ '')'') [])"

text \<open>One entry of \<^verbatim>\<open>extension.env\<close> as D7 checks it, with the format the entry must have.\<close>

definition check_D7 :: "ext \<Rightarrow> string \<Rightarrow> (string \<Rightarrow> bool) \<Rightarrow> (string \<rightharpoonup> string) \<Rightarrow> CheckResult" where
  "check_D7 E key regex vars =
     (case vars key of
        None \<Rightarrow> check ''deploy'' ''D7'' (key @ '' in extension.env'') FAIL
          (key @ '' not found in extension.env'')
          ''Delete config/extension.env and re-run scripts/pre-build.sh''
      | Some v \<Rightarrow>
          if \<not> regex v
          then check ''deploy'' ''D7'' (key @ '' in extension.env'') FAIL
            (key @ '' has invalid format: '' @ Quote (IsPrintHigh E) v)
            ''Delete config/extension.env and re-run scripts/pre-build.sh''
          else check ''deploy'' ''D7'' (key @ '' in extension.env'') PASS v [])"

definition CheckExtensionEnvFormat :: "ext \<Rightarrow> host \<Rightarrow> string \<Rightarrow> CheckResult list" where
  "CheckExtensionEnvFormat E H path =
     (case OpenFile H path of
        None \<Rightarrow> [check ''deploy'' ''D7'' ''extension.env exists'' SKIP (''file not found: '' @ path) []]
      | Some content \<Rightarrow>
          (let vars = env_vars_loop Map.empty (scan_lines content) in
           [check_D7 E ''INSTRUCTION_SENDER'' addressRegex vars,
            check_D7 E ''EXTENSION_ID'' extensionIDRegex vars]))"

definition RegisterDeployChecks :: "ext \<Rightarrow> host \<Rightarrow> client option \<Rightarrow> privkey option
    \<Rightarrow> (string \<times> address) list \<Rightarrow> (string \<times> address) list \<Rightarrow> string \<Rightarrow> Report \<Rightarrow> Report" where
  "RegisterDeployChecks E H cl key order1 order2 path r =
     (let (r, zeroAddrs) = loop_D3 E (r, \<lambda>_. False) order1;
          r = loop_D1 E cl zeroAddrs r order2;
          r = Add r (CheckDeployerKeySource H);
          r = (case (key, cl) of
                 (Some k, Some c) \<Rightarrow> Add r (check_D5_funds E cl k)
               | _ \<Rightarrow> r);
          r = (case cl of Some c \<Rightarrow> Add r (checkChainID c) | None \<Rightarrow> r)
      in if path \<noteq> [] then foldl Add r (CheckExtensionEnvFormat E H path) else r)"

subsection \<open>Registration (R1, R2, R3, R4, R7)\<close>

text \<open>\<^verbatim>\<open>counter\<close> stays nil when the query fails (the generated binding returns a nil
  \<^verbatim>\<open>*big.Int\<close> with the error).\<close>

definition counter_of :: "registry \<Rightarrow> int option" where
  "counter_of reg = (case NextPublicExtensionId reg of Err _ \<Rightarrow> None | Ok c \<Rightarrow> Some c)"

definition check_R1 :: "registry \<Rightarrow> CheckResult" where
  "check_R1 reg =
     (case NextPublicExtensionId reg of
        Err err \<Rightarrow> check ''register'' ''R1'' ''next public extension id'' FAIL
          (''failed to query nextPublicExtensionId: '' @ Error err) []
      | Ok c \<Rightarrow>
          if c = 0
          then check ''register'' ''R1'' ''next public extension id'' WARN
            (''nextPublicExtensionId is 0 '' @ emdash @ '' no public extensions registered yet'') []
          else check ''register'' ''R1'' ''next public extension id'' PASS
            (''nextPublicExtensionId = '' @ dec_of_int c) [])"

definition check_R2_format :: "ext \<Rightarrow> string \<Rightarrow> CheckResult" where
  "check_R2_format E extIDStr =
     check ''register'' ''R2'' ''EXTENSION_ID format'' FAIL
       (''malformed EXTENSION_ID: '' @ Quote (IsPrintHigh E) extIDStr)
       ''Delete config/extension.env and re-run scripts/pre-build.sh''"

definition check_R2 :: "ext \<Rightarrow> registry \<Rightarrow> int \<Rightarrow> string \<Rightarrow> CheckResult" where
  "check_R2 E reg extensionID instrSender =
     (case GetTeeExtensionInstructionsSender reg extensionID of
        Err err \<Rightarrow> check ''register'' ''R2'' ''instruction sender matches on-chain'' FAIL
          (''failed to query instruction sender: '' @ Error err) []
      | Ok onChainSender \<Rightarrow>
          if onChainSender = HexToAddress E instrSender
          then check ''register'' ''R2'' ''instruction sender matches on-chain'' PASS
            (''on-chain sender '' @ AddressHex E onChainSender @ '' matches extension.env'') []
          else check ''register'' ''R2'' ''instruction sender matches on-chain'' FAIL
            (''on-chain sender '' @ AddressHex E onChainSender @ '' != extension.env '' @ instrSender)
            ''Re-register the extension or update extension.env'')"

definition check_R3 :: "ext \<Rightarrow> allowlist \<Rightarrow> int \<Rightarrow> privkey \<Rightarrow> CheckResult" where
  "check_R3 E al extensionID key =
     (case IsAllowedTeeMachineOwner al extensionID (PubkeyToAddress E key) of
        Err err \<Rightarrow> check ''register'' ''R3'' ''deployer is allowed TEE machine owner'' FAIL
          (''failed to query allowlist: '' @ Error err) []
      | Ok allowed \<Rightarrow>
          if allowed
          then check ''register'' ''R3'' ''deployer is allowed TEE machine owner'' PASS
            ''deployer is on the TEE machine owner allowlist'' []
          else check ''register'' ''R3'' ''deployer is allowed TEE machine owner'' FAIL
            ''deployer is NOT on the TEE machine owner allowlist''
            ''Run the register step to add the deployer as a TEE machine owner'')"

definition check_R4 :: "ext \<Rightarrow> registry \<Rightarrow> int \<Rightarrow> CheckResult" where
  "check_R4 E reg extensionID =
     (case IsKeyTypeSupported reg extensionID (EVMType E) of
        Err err \<Rightarrow> check ''register'' ''R4'' ''EVM key type supported'' FAIL
          (''failed to query key type support: '' @ Error err) []
      | Ok supported \<Rightarrow>
          if supported
          then check ''register'' ''R4'' ''EVM key type supported'' PASS
            ''EVM key type is supported for this extension'' []
          else check ''register'' ''R4'' ''EVM key type supported'' FAIL
            ''EVM key type is NOT supported for this extension''
            ''Run the register step to add EVM key type support'')"

text \<open>\<^verbatim>\<open>counter.Int64()\<close> keeps the low 64 bits, read as two's complement; the loop runs the
  identifiers below it and skips the ones whose lookup fails.\<close>

definition Int64 :: "int \<Rightarrow> int" where
  "Int64 c = sint (word_of_int c :: 64 word)"

definition matching_ids :: "registry \<Rightarrow> int \<Rightarrow> address \<Rightarrow> int list" where
  "matching_ids reg counter expected =
     filter (\<lambda>i. case GetTeeExtensionInstructionsSender reg i of
                   Err _ \<Rightarrow> False | Ok sender \<Rightarrow> sender = expected)
       (map int [0..<nat (Int64 counter)])"

definition check_R7 :: "ext \<Rightarrow> registry \<Rightarrow> int \<Rightarrow> string \<Rightarrow> CheckResult" where
  "check_R7 E reg counter instrSender =
     (let matchingIDs = map dec_of_int (matching_ids reg counter (HexToAddress E instrSender)) in
      if 1 < length matchingIDs
      then check ''register'' ''R7'' ''unique instruction sender'' WARN
        (''INSTRUCTION_SENDER '' @ instrSender @ '' is used by multiple extensions: '' @
         Join matchingIDs '', '') []
      else check ''register'' ''R7'' ''unique instruction sender'' PASS
        ''instruction sender is unique across registered extensions'' [])"

text \<open>The part after the format of the extension ID has been accepted.\<close>

definition registration_onchain :: "ext \<Rightarrow> client option \<Rightarrow> privkey option \<Rightarrow> registry option
    \<Rightarrow> allowlist option \<Rightarrow> int option \<Rightarrow> string \<Rightarrow> string \<Rightarrow> Report \<Rightarrow> Report" where
  "registration_onchain E cl key registry allowlist counter extIDStr instrSender r =
     (let extensionID = extension_id_value extIDStr;
          r = (case (registry, cl) of
                 (Some reg, Some c) \<Rightarrow>
                   if addressRegex instrSender then Add r (check_R2 E reg extensionID instrSender) else r
               | _ \<Rightarrow> r);
          r = (case (key, allowlist, cl) of
                 (Some k, Some al, Some c) \<Rightarrow> Add r (check_R3 E al extensionID k)
               | _ \<Rightarrow> r);
          r = (case (registry, cl) of
                 (Some reg, Some c) \<Rightarrow> Add r (check_R4 E reg extensionID)
               | _ \<Rightarrow> r)
      in case (counter, registry, cl) of
           (Some n, Some reg, Some c) \<Rightarrow>
             if 0 < n \<and> addressRegex instrSender then Add r (check_R7 E reg n instrSender) else r
         | _ \<Rightarrow> r)"

definition RegisterRegistrationChecks :: "ext \<Rightarrow> host \<Rightarrow> client option \<Rightarrow> privkey option
    \<Rightarrow> registry option \<Rightarrow> allowlist option \<Rightarrow> string \<Rightarrow> Report \<Rightarrow> Report" where
  "RegisterRegistrationChecks E H cl key registry allowlist path r =
     (if path = []
      then Add r (check ''register'' ''R1-R7'' ''registration checks'' SKIP ''no --config path provided'' [])
      else case parseExtensionEnv H path of
        Err err \<Rightarrow> Add r (check ''register'' ''R1-R7'' ''registration checks'' FAIL
                   (''failed to parse extension.env: '' @ Error err) [])
      | Ok (extIDStr, instrSender) \<Rightarrow>
          if extIDStr = [] \<and> instrSender = []
          then Add r (check ''register'' ''R1-R7'' ''registration checks'' SKIP
                 (''config/extension.env not found '' @ emdash @ '' run pre-build.sh first'') [])
          else
            let (r, counter) =
                  (case (registry, cl) of
                     (Some reg, Some c) \<Rightarrow> (Add r (check_R1 reg), counter_of reg)
                   | _ \<Rightarrow> (r, None))
            in if \<not> extensionIDRegex extIDStr
               then Add r (check_R2_format E extIDStr)
               else registration_onchain E cl key registry allowlist counter extIDStr instrSender r)"

subsection \<open>Service startup (S2, S5, S7, S9, S10)\<close>

text \<open>The probe the groups share: \<^verbatim>\<open>httpClient.Get(url + "/info")\<close> answered with status 200.\<close>

definition info_reachable :: "host \<Rightarrow> string \<Rightarrow> bool" where
  "info_reachable H url =
     (case HttpGet H (url @ ''/info'') of Err _ \<Rightarrow> False | Ok code \<Rightarrow> code = 200)"

definition check_S2 :: "ext \<Rightarrow> host \<Rightarrow> string \<Rightarrow> CheckResult" where
  "check_S2 E H path =
     (let name = ''EXTENSION_ID is set and well-formed'';
          fix_env = ''Delete config/extension.env and re-run scripts/pre-build.sh'' in
      if path = [] then check ''services'' ''S2'' name SKIP ''run pre-build.sh first'' []
      else
        let extID = (case parseExtensionEnv H path of Err _ \<Rightarrow> [] | Ok (e, _) \<Rightarrow> e) in
        if extID = []
        then check ''services'' ''S2'' name FAIL ''EXTENSION_ID is empty or not found in extension.env'' fix_env
        else if \<not> extensionIDRegex extID
        then check ''services'' ''S2'' name FAIL
          (''EXTENSION_ID has invalid format: '' @ Quote (IsPrintHigh E) extID) fix_env
        else check ''services'' ''S2'' name PASS extID [])"

definition check_S5 :: "host \<Rightarrow> CheckResult" where
  "check_S5 H =
     (let port = (if Getenv H ''EXTENSION_PORT'' = [] then ''7702'' else Getenv H ''EXTENSION_PORT'') in
      if DialTCP H (''localhost:'' @ port)
      then check ''services'' ''S5'' ''extension port not in use'' WARN
        (''port '' @ port @ '' is already in use '' @ emdash @ '' extension server will fail to bind'')
        ''Stop the process using that port or change EXTENSION_PORT''
      else check ''services'' ''S5'' ''extension port not in use'' PASS ''port available'' [])"

definition check_S7 :: "host \<Rightarrow> CheckResult" where
  "check_S7 H =
     (let extPort = Getenv H ''EXTENSION_PORT''; signPort = Getenv H ''SIGN_PORT'' in
      if extPort \<noteq> [] \<or> signPort \<noteq> []
      then check ''services'' ''S7'' ''port configuration'' PASS
        (''EXTENSION_PORT='' @ extPort @ '', SIGN_PORT='' @ signPort) []
      else check ''services'' ''S7'' ''port configuration'' PASS
        ''using defaults (standalone: 8080/9090, Docker: 7702/7701)'' [])"

definition check_S9 :: "host \<Rightarrow> CheckResult" where
  "check_S9 H =
     (let proxyURL = Getenv H ''EXT_PROXY_URL'' in
      if proxyURL = []
      then check ''services'' ''S9'' ''EXT_PROXY_URL reachable'' SKIP ''EXT_PROXY_URL not set'' []
      else if info_reachable H proxyURL
      then check ''services'' ''S9'' ''EXT_PROXY_URL reachable'' PASS (''proxy reachable at '' @ proxyURL) []
      else check ''services'' ''S9'' ''EXT_PROXY_URL reachable'' WARN
        (''proxy not reachable at '' @ proxyURL @ '' '' @ emdash @ '' is the proxy running?'')
        ''Start the proxy or check EXT_PROXY_URL'')"

definition check_S10 :: "host \<Rightarrow> CheckResult" where
  "check_S10 H =
     (let localMode = Getenv H ''LOCAL_MODE''; privateKey = Getenv H ''PROXY_PRIVATE_KEY'';
          name = ''PROXY_PRIVATE_KEY set on non-local'' in
      if localMode = ''true'' \<or> localMode = []
      then check ''services'' ''S10'' name PASS ''local mode, dev key OK'' []
      else if localMode = ''false'' \<and> privateKey = []
      then check ''services'' ''S10'' name WARN
        (''PROXY_PRIVATE_KEY not set in non-local mode '' @ emdash @ '' proxy will use default key'')
        ''Set PROXY_PRIVATE_KEY in .env for non-local deployments''
      else check ''services'' ''S10'' name PASS ''PROXY_PRIVATE_KEY is configured'' [])"

definition RegisterServicesChecks :: "ext \<Rightarrow> host \<Rightarrow> string \<Rightarrow> Report \<Rightarrow> Report" where
  "RegisterServicesChecks E H path r =
     Add (Add (Add (Add (Add r (check_S2 E H path)) (check_S5 H)) (check_S7 H)) (check_S9 H)) (check_S10 H)"

subsection \<open>TEE version registration (V2, V4, V6)\<close>

definition check_V2 :: "host \<Rightarrow> CheckResult" where
  "check_V2 H =
     (let extOwnerKey = Getenv H ''EXTENSION_OWNER_KEY''; privKey = Getenv H ''DEPLOYMENT_PRIVATE_KEY'';
          localMode = Getenv H ''LOCAL_MODE'' in
      if extOwnerKey \<noteq> []
      then check ''tee-version'' ''V2'' ''extension owner key'' PASS ''EXTENSION_OWNER_KEY is configured'' []
      else if privKey \<noteq> []
      then check ''tee-version'' ''V2'' ''extension owner key'' PASS
        ''using DEPLOYMENT_PRIVATE_KEY (EXTENSION_OWNER_KEY not set)'' []
      else if localMode \<noteq> ''true'' \<and> localMode \<noteq> []
      then check ''tee-version'' ''V2'' ''extension owner key'' WARN
        (''neither EXTENSION_OWNER_KEY nor DEPLOYMENT_PRIVATE_KEY set '' @ emdash @
         '' AddTeeVersion will use dev key which isn'' @ [CHR 0x27] @ ''t the extension owner on Coston2'')
        ''Set EXTENSION_OWNER_KEY or DEPLOYMENT_PRIVATE_KEY in .env''
      else check ''tee-version'' ''V2'' ''extension owner key'' PASS ''using dev key (local mode)'' [])"

definition check_V4 :: "host \<Rightarrow> string \<Rightarrow> CheckResult" where
  "check_V4 H path =
     (let fix_env = ''Delete config/extension.env and re-run scripts/pre-build.sh'' in
      if path = [] then check ''tee-version'' ''V4'' ''EXTENSION_ID valid'' SKIP ''no --config provided'' []
      else case parseExtensionEnv H path of
        Err err \<Rightarrow> check ''tee-version'' ''V4'' ''EXTENSION_ID valid'' FAIL
                   (''failed to parse extension.env: '' @ Error err) []
      | Ok (extID, _) \<Rightarrow>
          if extID = []
          then (if StatNotExist H path
                then check ''tee-version'' ''V4'' ''EXTENSION_ID valid'' SKIP
                  (''extension.env not found '' @ emdash @ '' run pre-build.sh first'') []
                else check ''tee-version'' ''V4'' ''EXTENSION_ID valid'' FAIL ''EXTENSION_ID not set'' fix_env)
          else if \<not> extensionIDRegex extID
          then check ''tee-version'' ''V4'' ''EXTENSION_ID valid'' FAIL ''EXTENSION_ID malformed'' fix_env
          else check ''tee-version'' ''V4'' ''EXTENSION_ID valid'' PASS extID [])"

definition check_V6 :: "host \<Rightarrow> CheckResult" where
  "check_V6 H =
     (let proxyURL = Getenv H ''EXT_PROXY_URL'' in
      if proxyURL = []
      then check ''tee-version'' ''V6'' ''proxy reachable'' SKIP
        (''EXT_PROXY_URL not set '' @ emdash @ '' allow-tee-version uses -p flag'') []
      else if info_reachable H proxyURL
      then check ''tee-version'' ''V6'' ''proxy reachable'' PASS (''proxy reachable at '' @ proxyURL) []
      else check ''tee-version'' ''V6'' ''proxy reachable'' WARN
        (''proxy not reachable at '' @ proxyURL @ '' '' @ emdash @ '' start services first'')
        ''Start the proxy or check EXT_PROXY_URL'')"

definition RegisterTeeVersionChecks :: "host \<Rightarrow> string \<Rightarrow> Report \<Rightarrow> Report" where
  "RegisterTeeVersionChecks H path r = Add (Add (Add r (check_V2 H)) (check_V4 H path)) (check_V6 H)"

subsection \<open>TEE machine registration (T1, T5, T10)\<close>

definition check_T1 :: "host \<Rightarrow> CheckResult" where
  "check_T1 H =
     (let simulatedTee = Getenv H ''SIMULATED_TEE''; localMode = Getenv H ''LOCAL_MODE'' in
      if simulatedTee = ''true'' \<and> localMode = ''false''
      then check ''tee-machine'' ''T1'' ''SIMULATED_TEE mode'' WARN
        (''SIMULATED_TEE=true on non-local deployment '' @ emdash @
         '' machine will be registered with test attestation values. Set SIMULATED_TEE=false for real TEE hardware'')
        ''Set SIMULATED_TEE=false in .env when deploying to a real GCP TEE''
      else if simulatedTee = ''true''
      then check ''tee-machine'' ''T1'' ''SIMULATED_TEE mode'' PASS ''simulated TEE mode (local)'' []
      else check ''tee-machine'' ''T1'' ''SIMULATED_TEE mode'' PASS ''real attestation mode'' [])"

definition check_T5 :: "host \<Rightarrow> CheckResult" where
  "check_T5 H =
     (let normalProxyURL = Getenv H ''NORMAL_PROXY_URL'' in
      if normalProxyURL = []
      then check ''tee-machine'' ''T5'' ''NORMAL_PROXY_URL reachable'' SKIP ''NORMAL_PROXY_URL not set'' []
      else if info_reachable H normalProxyURL
      then check ''tee-machine'' ''T5'' ''NORMAL_PROXY_URL reachable'' PASS
        (''normal proxy reachable at '' @ normalProxyURL) []
      else check ''tee-machine'' ''T5'' ''NORMAL_PROXY_URL reachable'' WARN
        (''normal proxy not reachable at '' @ normalProxyURL @ '' '' @ emdash @
         '' required for FTDC availability check'')
        ''Ensure the normal/FTDC proxy is running and NORMAL_PROXY_URL is correct in .env'')"

definition check_T10 :: "host \<Rightarrow> CheckResult" where
  "check_T10 H =
     (let extProxyURL = Getenv H ''EXT_PROXY_URL'' in
      if extProxyURL = []
      then check ''tee-machine'' ''T10'' ''host URL reachable'' SKIP ''EXT_PROXY_URL not set'' []
      else if info_reachable H extProxyURL
      then check ''tee-machine'' ''T10'' ''host URL reachable'' PASS (''host URL reachable at '' @ extProxyURL) []
      else check ''tee-machine'' ''T10'' ''host URL reachable'' WARN
        (''host URL not reachable at '' @ extProxyURL @ '' '' @ emdash @
         '' machine will be registered with unreachable host. Data providers can'' @ [CHR 0x27] @
         ''t relay instructions'')
        ''Ensure the host is accessible and EXT_PROXY_URL or -h flag points to the right URL'')"

definition RegisterTeeMachineChecks :: "host \<Rightarrow> string \<Rightarrow> Report \<Rightarrow> Report" where
  "RegisterTeeMachineChecks H path r = Add (Add (Add r (check_T1 H)) (check_T5 H)) (check_T10 H)"

subsection \<open>Testing readiness (E1, E3, E6) and placeholders\<close>

definition check_E1 :: "host \<Rightarrow> string \<Rightarrow> CheckResult" where
  "check_E1 H path =
     (if path = [] then check ''test'' ''E1'' ''INSTRUCTION_SENDER valid'' SKIP ''no --config provided'' []
      else
        let instrSender = (case parseExtensionEnv H path of Err _ \<Rightarrow> [] | Ok (_, s) \<Rightarrow> s) in
        if StatNotExist H path
        then check ''test'' ''E1'' ''INSTRUCTION_SENDER valid'' SKIP
          (''extension.env not found '' @ emdash @ '' run pre-build.sh first'') []
        else if instrSender = []
        then check ''test'' ''E1'' ''INSTRUCTION_SENDER valid'' FAIL
          (''INSTRUCTION_SENDER not set '' @ emdash @ '' run pre-build.sh'')
          ''Run scripts/pre-build.sh to deploy and register the extension''
        else if \<not> addressRegex instrSender
        then check ''test'' ''E1'' ''INSTRUCTION_SENDER valid'' FAIL ''INSTRUCTION_SENDER malformed''
          ''Delete config/extension.env and re-run scripts/pre-build.sh''
        else check ''test'' ''E1'' ''INSTRUCTION_SENDER valid'' PASS instrSender [])"

definition check_E3 :: "host \<Rightarrow> CheckResult" where
  "check_E3 H =
     (let proxyURL = Getenv H ''EXT_PROXY_URL'' in
      if proxyURL = []
      then check ''test'' ''E3'' ''proxy reachable for test results'' SKIP ''EXT_PROXY_URL not set'' []
      else if info_reachable H proxyURL
      then check ''test'' ''E3'' ''proxy reachable for test results'' PASS
        ''proxy reachable for test result polling'' []
      else check ''test'' ''E3'' ''proxy reachable for test results'' WARN
        (''proxy not reachable '' @ emdash @ '' test results cannot be polled'')
        ''Start the proxy or check EXT_PROXY_URL'')"

definition check_E6 :: CheckResult where
  "check_E6 =
     check ''test'' ''E6'' ''OPType/OPCommand alignment info'' PASS
       (''OPType/OPCommand hashes are validated at runtime '' @ emdash @
        '' if a 501 error occurs, check the hash values in the error message'') []"

definition RegisterTestChecks :: "host \<Rightarrow> string \<Rightarrow> Report \<Rightarrow> Report" where
  "RegisterTestChecks H path r = Add (Add (Add r (check_E1 H path)) (check_E3 H)) check_E6"

definition RegisterStubChecks :: "string \<Rightarrow> string \<Rightarrow> string \<Rightarrow> Report \<Rightarrow> Report" where
  "RegisterStubChecks step idRange name r =
     Add r (check step idRange name SKIP ''not yet implemented'' [])"

subsection \<open>Every check is well formed\<close>

named_theorems check_defs "the definitions of the single checks"

lemmas [check_defs] =
  check_D3_def check_D1_def CheckDeployerKeySource_def check_D5_funds_def checkChainID_def check_D7_def
  check_R1_def check_R2_format_def check_R2_def check_R3_def check_R4_def check_R7_def
  check_S2_def check_S5_def check_S7_def check_S9_def check_S10_def
  check_V2_def check_V4_def check_V6_def check_T1_def check_T5_def check_T10_def
  check_E1_def check_E3_def check_E6_def

definition filed :: "string \<Rightarrow> CheckResult \<Rightarrow> bool" where
  "filed step x \<longleftrightarrow> wf_result x \<and> Step x = step"

lemma filed_check [simp]:
  "filed step (check s i n st m f) \<longleftrightarrow>
     s = step \<and> st \<in> {PASS, WARN, FAIL, SKIP} \<and> n \<noteq> [] \<and> (f \<noteq> [] \<longrightarrow> st \<in> {WARN, FAIL})"
  by (auto simp: filed_def wf_result_def)

lemma filed_deploy [simp]:
  "filed ''deploy'' (check_D3 E l a)" "filed ''deploy'' (check_D1 E cl l a)"
  "filed ''deploy'' (CheckDeployerKeySource H)" "filed ''deploy'' (check_D5_funds E cl k)"
  "filed ''deploy'' (checkChainID c)" "filed ''deploy'' (check_D7 E key rx vars)"
  by (simp_all add: check_defs Let_def split: option.split sum.split)

lemma filed_register [simp]:
  "filed ''register'' (check_R1 reg)" "filed ''register'' (check_R2_format E s)"
  "filed ''register'' (check_R2 E reg i s)" "filed ''register'' (check_R3 E al i k)"
  "filed ''register'' (check_R4 E reg i)" "filed ''register'' (check_R7 E reg n s)"
  by (simp_all add: check_defs Let_def split: sum.split)

lemma filed_services [simp]:
  "filed ''services'' (check_S2 E H p)" "filed ''services'' (check_S5 H)" "filed ''services'' (check_S7 H)"
  "filed ''services'' (check_S9 H)" "filed ''services'' (check_S10 H)"
  by (simp_all add: check_defs Let_def)

lemma filed_tee_version [simp]:
  "filed ''tee-version'' (check_V2 H)" "filed ''tee-version'' (check_V4 H p)" "filed ''tee-version'' (check_V6 H)"
  by (simp_all add: check_defs Let_def split: sum.split)

lemma filed_tee_machine [simp]:
  "filed ''tee-machine'' (check_T1 H)" "filed ''tee-machine'' (check_T5 H)" "filed ''tee-machine'' (check_T10 H)"
  by (simp_all add: check_defs Let_def)

lemma filed_test [simp]:
  "filed ''test'' (check_E1 H p)" "filed ''test'' (check_E3 H)" "filed ''test'' check_E6"
  by (simp_all add: check_defs Let_def split: sum.split)

end
