(* ===== verification/CheckGroups.thy ===== *)
theory CheckGroups
  imports Checks
begin

section \<open>What the check groups add to a report\<close>

text \<open>
  The closed form of every group of checks (the list of results it appends), the
  interpretation of \<open>check_group\<close> on the six groups and the placeholder, and the
  properties of the groups: which chain, file and environment states give a report
  without failures, independence of Go's map iteration order, and agreement of the checks
  that judge the same entry of \<^verbatim>\<open>extension.env\<close>.
\<close>

subsection \<open>Closed forms\<close>

lemma check_groupI:
  assumes "\<And>r. Results (run r) = Results r @ rs" "list_all (filed step) rs"
  shows "check_group run step"
  using assms by unfold_locales (auto simp: list_all_iff filed_def)

lemma Results_foldl_Add [simp]: "Results (foldl Add r xs) = Results r @ xs"
  by (induction xs arbitrary: r) auto

lemma loop_D3_closed:
  "loop_D3 E (r, z) as =
     (foldl Add r (map (\<lambda>(l, a). check_D3 E l a) as),
      \<lambda>l. z l \<or> (\<exists>a. (l, a) \<in> set as \<and> a = 0))"
  by (induction as arbitrary: r z) (auto simp: AddressNotZero_def fun_eq_iff)

lemma loop_D1_closed:
  "loop_D1 E cl z r as = foldl Add r (map (\<lambda>(l, a). check_D1 E cl l a) (filter (\<lambda>(l, a). \<not> z l) as))"
  by (induction as arbitrary: r) auto

text \<open>The results of the deploy group after the two loops.\<close>

definition deploy_tail :: "ext \<Rightarrow> host \<Rightarrow> client option \<Rightarrow> privkey option \<Rightarrow> string \<Rightarrow> CheckResult list" where
  "deploy_tail E H cl key path =
     CheckDeployerKeySource H #
     (case (key, cl) of (Some k, Some c) \<Rightarrow> [check_D5_funds E cl k] | _ \<Rightarrow> []) @
     (case cl of Some c \<Rightarrow> [checkChainID c] | None \<Rightarrow> []) @
     (if path \<noteq> [] then CheckExtensionEnvFormat E H path else [])"

lemma RegisterDeployChecks_results:
  "Results (RegisterDeployChecks E H cl key o1 o2 path r) =
     Results r @ map (\<lambda>(l, a). check_D3 E l a) o1 @
     map (\<lambda>(l, a). check_D1 E cl l a) (filter (\<lambda>(l, a). (l, 0) \<notin> set o1) o2) @
     deploy_tail E H cl key path"
  by (simp add: RegisterDeployChecks_def loop_D3_closed loop_D1_closed deploy_tail_def
      split: option.split)

definition registration_results :: "ext \<Rightarrow> client option \<Rightarrow> privkey option \<Rightarrow> registry option
    \<Rightarrow> allowlist option \<Rightarrow> string \<Rightarrow> string \<Rightarrow> CheckResult list" where
  "registration_results E cl key registry allowlist extIDStr instrSender =
     (let i = extension_id_value extIDStr in
      (case (registry, cl) of (Some reg, Some c) \<Rightarrow> [check_R1 reg] | _ \<Rightarrow> []) @
      (if \<not> extensionIDRegex extIDStr then [check_R2_format E extIDStr]
       else
         (case (registry, cl) of
            (Some reg, Some c) \<Rightarrow>
              if addressRegex instrSender then [check_R2 E reg i instrSender] else []
          | _ \<Rightarrow> []) @
         (case (key, allowlist, cl) of (Some k, Some al, Some c) \<Rightarrow> [check_R3 E al i k] | _ \<Rightarrow> []) @
         (case (registry, cl) of
            (Some reg, Some c) \<Rightarrow>
              check_R4 E reg i #
              (case NextPublicExtensionId reg of
                 Ok n \<Rightarrow> if 0 < n \<and> addressRegex instrSender then [check_R7 E reg n instrSender] else []
               | Err _ \<Rightarrow> [])
          | _ \<Rightarrow> [])))"

lemma RegisterRegistrationChecks_results:
  assumes "path \<noteq> []" "parseExtensionEnv H path = Ok (i, s)" "i \<noteq> [] \<or> s \<noteq> []"
  shows "Results (RegisterRegistrationChecks E H cl key registry allowlist path r) =
           Results r @ registration_results E cl key registry allowlist i s"
proof -
  have "(i = [] \<and> s = []) = False" using assms(3) by blast
  then show ?thesis
    using assms(1,2)
    by (cases registry; cases cl; cases key; cases allowlist)
       (simp_all add: RegisterRegistrationChecks_def registration_results_def registration_onchain_def
         counter_of_def Let_def split: sum.split del: conj_imp_eq_imp_imp de_Morgan_conj)
qed

lemma RegisterServicesChecks_results:
  "Results (RegisterServicesChecks E H path r) =
     Results r @ [check_S2 E H path, check_S5 H, check_S7 H, check_S9 H, check_S10 H]"
  by (simp add: RegisterServicesChecks_def)

lemma RegisterTeeVersionChecks_results:
  "Results (RegisterTeeVersionChecks H path r) = Results r @ [check_V2 H, check_V4 H path, check_V6 H]"
  by (simp add: RegisterTeeVersionChecks_def)

lemma RegisterTeeMachineChecks_results:
  "Results (RegisterTeeMachineChecks H path r) = Results r @ [check_T1 H, check_T5 H, check_T10 H]"
  by (simp add: RegisterTeeMachineChecks_def)

lemma RegisterTestChecks_results:
  "Results (RegisterTestChecks H path r) = Results r @ [check_E1 H path, check_E3 H, check_E6]"
  by (simp add: RegisterTestChecks_def)

lemmas group_results =
  RegisterServicesChecks_results RegisterTeeVersionChecks_results RegisterTeeMachineChecks_results
  RegisterTestChecks_results

subsection \<open>Every group meets the contract\<close>

lemma filed_env_format: "list_all (filed ''deploy'') (CheckExtensionEnvFormat E H path)"
  by (simp add: CheckExtensionEnvFormat_def Let_def split: option.split)

lemma filed_deploy_tail: "list_all (filed ''deploy'') (deploy_tail E H cl key path)"
  using filed_env_format by (simp add: deploy_tail_def split: option.split)

lemma filed_registration: "list_all (filed ''register'') (registration_results E cl key registry allowlist i s)"
  by (simp add: registration_results_def Let_def split: option.split sum.split)

interpretation deploy_group: check_group "RegisterDeployChecks E H cl key o1 o2 path" "''deploy''"
  for E H cl key o1 o2 path
  by (rule check_groupI, rule RegisterDeployChecks_results)
     (use filed_deploy_tail in \<open>auto simp: list_all_iff\<close>)

lemma parseExtensionEnv_Ok: "\<exists>i s. parseExtensionEnv H path = Ok (i, s)"
  by (auto simp: parseExtensionEnv_def split: option.split)

lemma registration_check_group:
  "check_group (RegisterRegistrationChecks E H cl key registry allowlist path) ''register''"
proof -
  obtain i s where p: "parseExtensionEnv H path = Ok (i, s)" using parseExtensionEnv_Ok by blast
  show ?thesis
  proof (cases "path \<noteq> [] \<and> (i \<noteq> [] \<or> s \<noteq> [])")
    case True
    then show ?thesis
      by (intro check_groupI [OF RegisterRegistrationChecks_results [OF _ p] filed_registration]) auto
  next
    case False
    then have "\<exists>x. filed ''register'' x \<and>
        (\<forall>r. RegisterRegistrationChecks E H cl key registry allowlist path r = Add r x)"
      using p by (cases "path = []") (auto simp: RegisterRegistrationChecks_def intro!: exI)
    then obtain x where "filed ''register'' x"
      "\<And>r. RegisterRegistrationChecks E H cl key registry allowlist path r = Add r x" by blast
    then show ?thesis by (intro check_groupI [where rs = "[x]"]) auto
  qed
qed

interpretation registration_group:
  check_group "RegisterRegistrationChecks E H cl key registry allowlist path" "''register''"
  for E H cl key registry allowlist path
  by (rule registration_check_group)

interpretation services_group: check_group "RegisterServicesChecks E H path" "''services''" for E H path
  by (rule check_groupI, rule group_results) simp

interpretation tee_version_group: check_group "RegisterTeeVersionChecks H path" "''tee-version''" for H path
  by (rule check_groupI, rule group_results) simp

interpretation tee_machine_group: check_group "RegisterTeeMachineChecks H path" "''tee-machine''" for H path
  by (rule check_groupI, rule group_results) simp

interpretation test_group: check_group "RegisterTestChecks H path" "''test''" for H path
  by (rule check_groupI, rule group_results) simp

subsection \<open>When the deploy group reports no failure\<close>

definition has_code :: "client option \<Rightarrow> address \<Rightarrow> bool" where
  "has_code cl a \<longleftrightarrow> (\<exists>c code. cl = Some c \<and> CodeAt c a = Ok code \<and> code \<noteq> [])"

lemma fail_iffs:
  "CStatus (check_D3 E l a) = FAIL \<longleftrightarrow> a = 0"
  "CStatus (check_D1 E cl l a) = FAIL \<longleftrightarrow> \<not> has_code cl a"
  "CStatus (CheckDeployerKeySource H) \<noteq> FAIL"
  "CStatus (check_D5_funds E (Some c) k) = FAIL \<longleftrightarrow>
     \<not> (\<exists>b. BalanceAt c (PubkeyToAddress E k) = Ok b \<and> MinDeployBalance \<le> b)"
  "CStatus (checkChainID c) = FAIL \<longleftrightarrow> \<not> (\<exists>cid. ChainID c = Ok cid)"
  "CStatus (check_D7 E key rx vars) = FAIL \<longleftrightarrow> \<not> (\<exists>v. vars key = Some v \<and> rx v)"
  by (auto simp: check_defs AddressNotZero_def AddressHasCode_def KeyHasFunds_def has_code_def Let_def
      split: option.splits sum.splits if_splits)

lemma has_fail_map: "has_fail (map f xs) \<longleftrightarrow> (\<exists>x\<in>set xs. CStatus (f x) = FAIL)"
  by (induction xs) auto

lemma env_format_fails:
  "has_fail (CheckExtensionEnvFormat E H path) \<longleftrightarrow>
     (\<exists>content. OpenFile H path = Some content \<and>
        \<not> ((\<exists>v. env_last (scan_lines content) ''INSTRUCTION_SENDER'' = Some v \<and> addressRegex v) \<and>
           (\<exists>v. env_last (scan_lines content) ''EXTENSION_ID'' = Some v \<and> extensionIDRegex v)))"
  by (simp add: CheckExtensionEnvFormat_def fail_iffs env_vars_loop_last Let_def split: option.split)

lemma deploy_loops_fail:
  assumes "set o2 = set o1"
  shows "has_fail (map (\<lambda>(l, a). check_D3 E l a) o1) \<or>
      has_fail (map (\<lambda>(l, a). check_D1 E cl l a) (filter (\<lambda>(l, a). (l, 0) \<notin> set o1) o2)) \<longleftrightarrow>
      (\<exists>l a. (l, a) \<in> set o1 \<and> (a = 0 \<or> \<not> has_code cl a))" (is "?d3 \<or> ?d1 \<longleftrightarrow> ?bad")
proof -
  have "?d3 \<longleftrightarrow> (\<exists>l. (l, 0) \<in> set o1)"
    by (force simp: has_fail_map fail_iffs)
  moreover have "?d1 \<longleftrightarrow> (\<exists>l a. (l, a) \<in> set o1 \<and> (l, 0) \<notin> set o1 \<and> \<not> has_code cl a)"
    using assms by (force simp: has_fail_map fail_iffs)
  ultimately show ?thesis by metis
qed

lemma deploy_checks_closed:
  assumes "mset o2 = mset o1"
  shows "\<not> HasFailures (RegisterDeployChecks E H cl key o1 o2 path \<lparr>Results = []\<rparr>) \<longleftrightarrow>
     (\<forall>l a. (l, a) \<in> set o1 \<longrightarrow> a \<noteq> 0 \<and> has_code cl a) \<and>
     (\<forall>k c. key = Some k \<and> cl = Some c \<longrightarrow>
        (\<exists>b. BalanceAt c (PubkeyToAddress E k) = Ok b \<and> MinDeployBalance \<le> b)) \<and>
     (\<forall>c. cl = Some c \<longrightarrow> (\<exists>cid. ChainID c = Ok cid)) \<and>
     \<not> (path \<noteq> [] \<and> has_fail (CheckExtensionEnvFormat E H path))"
proof -
  have s: "set o2 = set o1" using assms by (metis set_mset_mset)
  have loops: "(\<forall>l a. (l, a) \<in> set o1 \<longrightarrow> a \<noteq> 0 \<and> has_code cl a) \<longleftrightarrow>
      \<not> has_fail (map (\<lambda>(l, a). check_D3 E l a) o1) \<and>
      \<not> has_fail (map (\<lambda>(l, a). check_D1 E cl l a) (filter (\<lambda>(l, a). (l, 0) \<notin> set o1) o2))"
    using deploy_loops_fail [OF s, of E cl] by blast
  have tail: "\<not> has_fail (deploy_tail E H cl key path) \<longleftrightarrow>
      (\<forall>k c. key = Some k \<and> cl = Some c \<longrightarrow>
         (\<exists>b. BalanceAt c (PubkeyToAddress E k) = Ok b \<and> MinDeployBalance \<le> b)) \<and>
      (\<forall>c. cl = Some c \<longrightarrow> (\<exists>cid. ChainID c = Ok cid)) \<and>
      \<not> (path \<noteq> [] \<and> has_fail (CheckExtensionEnvFormat E H path))"
    by (cases cl; cases key) (auto simp add: deploy_tail_def fail_iffs)
  show ?thesis unfolding HasFailures_def RegisterDeployChecks_results loops by (simp add: tail)
qed

text \<open>C5: The deploy group ends without a failure exactly when every address of the map is
  non-zero and has code at the connected chain, the deployer (if a key is given) holds the minimum
  balance, the chain ID can be read, and an existing extension.env gives both variables a value of
  the required format; the two traversals of the map may come in any order.\<close>

theorem deploy_checks_no_failure_iff:
  assumes "mset o2 = mset o1"
  shows "\<not> HasFailures (RegisterDeployChecks E H cl key o1 o2 path \<lparr>Results = []\<rparr>) \<longleftrightarrow>
     (\<forall>l a. (l, a) \<in> set o1 \<longrightarrow> a \<noteq> 0 \<and> (\<exists>c code. cl = Some c \<and> CodeAt c a = Ok code \<and> code \<noteq> [])) \<and>
     (\<forall>k c. key = Some k \<and> cl = Some c \<longrightarrow>
        (\<exists>b. BalanceAt c (PubkeyToAddress E k) = Ok b \<and> 10 ^ 16 \<le> b)) \<and>
     (\<forall>c. cl = Some c \<longrightarrow> (\<exists>cid. ChainID c = Ok cid)) \<and>
     (\<forall>content. path \<noteq> [] \<and> OpenFile H path = Some content \<longrightarrow>
        (\<exists>v. env_last (scan_lines content) ''INSTRUCTION_SENDER'' = Some v \<and> addressRegex v) \<and>
        (\<exists>v. env_last (scan_lines content) ''EXTENSION_ID'' = Some v \<and> extensionIDRegex v))"
proof -
  have env: "(\<forall>content. path \<noteq> [] \<and> OpenFile H path = Some content \<longrightarrow>
        (\<exists>v. env_last (scan_lines content) ''INSTRUCTION_SENDER'' = Some v \<and> addressRegex v) \<and>
        (\<exists>v. env_last (scan_lines content) ''EXTENSION_ID'' = Some v \<and> extensionIDRegex v)) \<longleftrightarrow>
      \<not> (path \<noteq> [] \<and> has_fail (CheckExtensionEnvFormat E H path))"
    unfolding env_format_fails by blast
  have b: "(10 ^ 16 :: int) = MinDeployBalance" by (simp add: MinDeployBalance_def)
  show ?thesis unfolding deploy_checks_closed [OF assms] env b has_code_def ..
qed

text \<open>C39: What the deploy group reports does not depend on the order in which Go
  iterates the address map: any two pairs of traversals give the same results up to order.\<close>

theorem deploy_checks_order_independent:
  assumes "mset o1 = mset p1" "mset o2 = mset p2"
  shows "mset (Results (RegisterDeployChecks E H cl key o1 o2 path r)) =
           mset (Results (RegisterDeployChecks E H cl key p1 p2 path r)) \<and>
         HasFailures (RegisterDeployChecks E H cl key o1 o2 path r) =
           HasFailures (RegisterDeployChecks E H cl key p1 p2 path r)"
proof -
  have s: "set o1 = set p1" using assms(1) by (metis set_mset_mset)
  have m: "mset (Results (RegisterDeployChecks E H cl key o1 o2 path r)) =
      mset (Results (RegisterDeployChecks E H cl key p1 p2 path r))"
    unfolding RegisterDeployChecks_results by (simp add: s assms)
  then have "set (Results (RegisterDeployChecks E H cl key o1 o2 path r)) =
      set (Results (RegisterDeployChecks E H cl key p1 p2 path r))"
    by (metis set_mset_mset)
  with m show ?thesis by (simp add: HasFailures_def has_fail_iff)
qed

theorem deploy_checks_no_failure_iff_witness:
  "\<not> HasFailures (RegisterDeployChecks demo_ext (demo_host ''extension.env'' None) (Some demo_client) None
       [(''FlareTeeManager'', 7)] [(''FlareTeeManager'', 7)] [] \<lparr>Results = []\<rparr>)"
  by (subst deploy_checks_no_failure_iff) (simp_all add: demo_client_def)

theorem deploy_checks_order_independent_witness:
  "mset [(''A'', 1 :: address), (''B'', 0)] = mset [(''B'', 0), (''A'', 1)] \<and>
   HasFailures (RegisterDeployChecks demo_ext (demo_host ''extension.env'' None) None None
     [(''A'', 1), (''B'', 0)] [(''A'', 1), (''B'', 0)] [] \<lparr>Results = []\<rparr>) =
   HasFailures (RegisterDeployChecks demo_ext (demo_host ''extension.env'' None) None None
     [(''B'', 0), (''A'', 1)] [(''A'', 1), (''B'', 0)] [] \<lparr>Results = []\<rparr>)"
  using deploy_checks_order_independent [of "[(''A'', 1), (''B'', 0)]" "[(''B'', 0), (''A'', 1)]"
      "[(''A'', 1), (''B'', 0)]" "[(''A'', 1), (''B'', 0)]" demo_ext "demo_host ''extension.env'' None"
      None None "[]" "\<lparr>Results = []\<rparr>"]
  by (simp add: add_mset_commute)

subsection \<open>When the registration group reports no failure\<close>

lemma registration_fail_iffs:
  "CStatus (check_R1 reg) = FAIL \<longleftrightarrow> \<not> (\<exists>n. NextPublicExtensionId reg = Ok n)"
  "CStatus (check_R2_format E e) = FAIL"
  "CStatus (check_R2 E reg i s) = FAIL \<longleftrightarrow>
     GetTeeExtensionInstructionsSender reg i \<noteq> Ok (HexToAddress E s)"
  "CStatus (check_R3 E al i k) = FAIL \<longleftrightarrow> IsAllowedTeeMachineOwner al i (PubkeyToAddress E k) \<noteq> Ok True"
  "CStatus (check_R4 E reg i) = FAIL \<longleftrightarrow> IsKeyTypeSupported reg i (EVMType E) \<noteq> Ok True"
  "CStatus (check_R7 E reg n s) \<noteq> FAIL"
  by (auto simp: check_defs Let_def split: sum.splits)

text \<open>C10: With a configuration file that names an extension and all chain bindings present, the
  registration group ends without a failure exactly when the extension counter can be read, the
  extension ID is well formed, and the extension of that ID has the file's instruction sender
  (if the sender is well formed), the deployer among its allowed machine owners and the EVM key
  type among its supported ones.\<close>

theorem registration_checks_no_failure_iff:
  assumes "path \<noteq> []" "parseExtensionEnv H path = Ok (i, s)" "i \<noteq> [] \<or> s \<noteq> []"
  shows "\<not> HasFailures (RegisterRegistrationChecks E H (Some c) (Some k) (Some reg) (Some al) path
             \<lparr>Results = []\<rparr>) \<longleftrightarrow>
     (\<exists>n. NextPublicExtensionId reg = Ok n) \<and> extensionIDRegex i \<and>
     (addressRegex s \<longrightarrow>
        GetTeeExtensionInstructionsSender reg (extension_id_value i) = Ok (HexToAddress E s)) \<and>
     IsAllowedTeeMachineOwner al (extension_id_value i) (PubkeyToAddress E k) = Ok True \<and>
     IsKeyTypeSupported reg (extension_id_value i) (EVMType E) = Ok True"
  unfolding HasFailures_def RegisterRegistrationChecks_results [OF assms]
  by (auto simp: registration_results_def registration_fail_iffs Let_def split: sum.splits)

subsection \<open>Uniqueness of the instruction sender\<close>

lemma Int64_id: "0 \<le> n \<Longrightarrow> n < 2 ^ 63 \<Longrightarrow> Int64 n = n"
  unfolding Int64_def by (subst signed_of_int) (simp add: signed_take_bit_int_eq_self)

lemma card_gt_1_int:
  fixes A :: "int set"
  assumes "finite A"
  shows "1 < card A \<longleftrightarrow> (\<exists>i\<in>A. \<exists>j\<in>A. i < j)"
  using card_le_Suc0_iff_eq [OF assms] by (metis One_nat_def linorder_neqE not_le order_less_irrefl)

lemma lookup_Ok_iff: "(case x of Err _ \<Rightarrow> False | Ok y \<Rightarrow> y = e) \<longleftrightarrow> x = Ok e"
  by (auto split: sum.split)

text \<open>For a counter in the range of an int64, R7 warns exactly when two different registered
  extensions (identifiers below the counter) have the instruction sender of the configuration
  file; otherwise it passes.\<close>

lemma R7_warns_iff_shared_sender:
  assumes "0 \<le> n" "n < 2 ^ 63"
  shows "CStatus (check_R7 E reg n s) =
     (if \<exists>i j. 0 \<le> i \<and> i < j \<and> j < n \<and>
           GetTeeExtensionInstructionsSender reg i = Ok (HexToAddress E s) \<and>
           GetTeeExtensionInstructionsSender reg j = Ok (HexToAddress E s)
      then WARN else PASS)"
proof -
  let ?P = "\<lambda>i. GetTeeExtensionInstructionsSender reg i = Ok (HexToAddress E s)"
  let ?ids = "matching_ids reg n (HexToAddress E s)"
  have ids: "set ?ids = {i. 0 \<le> i \<and> i < n \<and> ?P i}" "distinct ?ids"
    using assms by (auto simp: matching_ids_def Int64_id lookup_Ok_iff distinct_map image_iff
        intro!: inj_onI bexI [of _ "nat _"])
  have "1 < length ?ids \<longleftrightarrow> (\<exists>i\<in>set ?ids. \<exists>j\<in>set ?ids. i < j)"
    using card_gt_1_int [of "set ?ids"] distinct_card [OF ids(2)] by simp
  also have "\<dots> \<longleftrightarrow> (\<exists>i j. 0 \<le> i \<and> i < j \<and> j < n \<and> ?P i \<and> ?P j)"
    unfolding ids(1) by (auto intro: order.strict_trans) (meson order.strict_trans order_le_less_trans less_imp_le)
  finally have "1 < length ?ids \<longleftrightarrow> (\<exists>i j. 0 \<le> i \<and> i < j \<and> j < n \<and> ?P i \<and> ?P j)" .
  moreover have "CStatus (check_R7 E reg n s) = (if 1 < length ?ids then WARN else PASS)"
    by (simp add: check_R7_def Let_def)
  ultimately show ?thesis by (simp only:)
qed

subsection \<open>The checks that judge the same entry agree\<close>

lemma parseExtensionEnv_last:
  "OpenFile H path = Some content \<Longrightarrow>
   parseExtensionEnv H path =
     Ok (case_option [] id (env_last (scan_lines content) ''EXTENSION_ID''),
         case_option [] id (env_last (scan_lines content) ''INSTRUCTION_SENDER''))"
  by (simp add: parseExtensionEnv_def parse_env_loop_last)

lemma regex_not_Nil: "\<not> extensionIDRegex []" "\<not> addressRegex []"
  by (simp_all add: extensionIDRegex_def addressRegex_def matches_0x_hex_def)

text \<open>C34: On a configuration file that can be opened, the three checks of EXTENSION_ID (D7, S2,
  V4) give the same verdict, PASS exactly when the last assignment in the file is well formed and
  FAIL otherwise, and so do the two checks of INSTRUCTION_SENDER (D7, E1), although the file is read by two
  different loops.\<close>

theorem extension_env_verdicts_agree:
  assumes "path \<noteq> []" "OpenFile H path = Some content" "\<not> StatNotExist H path"
  shows "\<exists>vars. CheckExtensionEnvFormat E H path =
           [check_D7 E ''INSTRUCTION_SENDER'' addressRegex vars, check_D7 E ''EXTENSION_ID'' extensionIDRegex vars] \<and>
         vars = env_last (scan_lines content) \<and>
         {CStatus (check_D7 E ''EXTENSION_ID'' extensionIDRegex vars), CStatus (check_S2 E H path),
          CStatus (check_V4 H path)} =
           {if \<exists>v. vars ''EXTENSION_ID'' = Some v \<and> extensionIDRegex v then PASS else FAIL} \<and>
         {CStatus (check_D7 E ''INSTRUCTION_SENDER'' addressRegex vars), CStatus (check_E1 H path)} =
           {if \<exists>v. vars ''INSTRUCTION_SENDER'' = Some v \<and> addressRegex v then PASS else FAIL}"
proof (intro exI conjI)
  let ?vars = "env_last (scan_lines content)"
  have loop: "env_vars_loop Map.empty (scan_lines content) = ?vars"
    by (rule ext) (rule env_vars_loop_last)
  show "CheckExtensionEnvFormat E H path =
      [check_D7 E ''INSTRUCTION_SENDER'' addressRegex ?vars, check_D7 E ''EXTENSION_ID'' extensionIDRegex ?vars]"
    by (simp add: CheckExtensionEnvFormat_def assms(2) loop Let_def)
  note p = parseExtensionEnv_last [OF assms(2)]
  show "{CStatus (check_D7 E ''EXTENSION_ID'' extensionIDRegex ?vars), CStatus (check_S2 E H path),
      CStatus (check_V4 H path)} =
      {if \<exists>v. ?vars ''EXTENSION_ID'' = Some v \<and> extensionIDRegex v then PASS else FAIL}"
    using assms(1,3)
    by (cases "?vars ''EXTENSION_ID''")
       (auto simp: check_D7_def check_S2_def check_V4_def p Let_def regex_not_Nil)
  show "{CStatus (check_D7 E ''INSTRUCTION_SENDER'' addressRegex ?vars), CStatus (check_E1 H path)} =
      {if \<exists>v. ?vars ''INSTRUCTION_SENDER'' = Some v \<and> addressRegex v then PASS else FAIL}"
    using assms(1,3)
    by (cases "?vars ''INSTRUCTION_SENDER''")
       (auto simp: check_D7_def check_E1_def p Let_def regex_not_Nil)
qed simp

subsection \<open>The extension ID from the registration tool to the checks\<close>

lemma matches_0x_hexI: "length s = n \<Longrightarrow> list_all is_hex s \<Longrightarrow> matches_0x_hex n (''0x'' @ s)"
  by (simp add: matches_0x_hex_def)

lemma list_all_zeros: "list_all is_hex (replicate k (CHR ''0''))"
  by (induction k) (simp_all add: is_hex_0)

lemma extension_id_hex_regex:
  assumes "0 \<le> i" "i < 2 ^ 256"
  shows "extensionIDRegex (extension_id_hex i)"
proof -
  have "nat i < 16 ^ 64" using assms by (simp add: nat_less_iff)
  then have "length (hex_of_nat (nat i)) \<le> 64" by (rule length_hex_of_nat) simp
  then show ?thesis
    unfolding extensionIDRegex_def extension_id_hex_def using assms(1)
    by (simp only: if_not_P not_less)
      (intro matches_0x_hexI, simp_all add: pad0_def hex_of_nat_hex is_hex_0 list_all_zeros)
qed

lemma extension_id_value_hex: "0 \<le> i \<Longrightarrow> extension_id_value (extension_id_hex i) = i"
  by (simp add: extension_id_value_def extension_id_hex_def parse_pad0)

lemma is_hex_graphic: "is_hex c \<Longrightarrow> graphic c \<and> c \<noteq> CHR ''=''"
  by (auto simp: is_hex_def hexval_def graphic_def Let_def split: if_splits)

lemma matches_graphic: "matches_0x_hex n s \<Longrightarrow> c \<in> set s \<Longrightarrow> graphic c"
proof -
  assume m: "matches_0x_hex n s" and c: "c \<in> set s"
  then obtain t where s: "s = ''0x'' @ t" by (auto simp: matches_0x_hex_def prefix_def)
  then have "list_all is_hex t" using m by (simp add: matches_0x_hex_def)
  then have "c \<in> set t \<Longrightarrow> graphic c" by (auto simp: list_all_iff is_hex_graphic)
  moreover have "graphic (CHR ''0'')" "graphic (CHR ''x'')" by (simp_all add: graphic_def)
  ultimately show ?thesis using c s by auto
qed

text \<open>A line \<open>KEY=VALUE\<close> of printable characters is one assignment.\<close>

lemma env_entry_assign:
  assumes "k \<noteq> []" "v \<noteq> []" "list_all graphic k" "list_all graphic v" "CHR ''='' \<notin> set k" "hd k \<noteq> CHR ''#''"
  shows "env_entry (k @ CHR ''='' # v) = Some (k, v)"
proof -
  have g: "graphic (hd k)" "graphic (last k)" "graphic (hd v)" "graphic (last v)"
    using assms(1-4) by (auto simp: list_all_iff)
  have t: "TrimSpace k = k" "TrimSpace v = v" "TrimSpace (k @ CHR ''='' # v) = k @ CHR ''='' # v"
    using g assms(1,2) by (auto intro!: TrimSpace_graphic)
  have "\<not> HasPrefix (k @ CHR ''='' # v) ''#''"
    using assms(1,6) by (cases k) (auto simp: HasPrefix_def)
  then show ?thesis using t assms(1,5) by (simp add: env_entry_def SplitN2_sep)
qed

lemma raw_lines_two:
  "CHR 0x0A \<notin> set a \<Longrightarrow> CHR 0x0A \<notin> set b \<Longrightarrow>
   raw_lines (a @ CHR 0x0A # b @ [CHR 0x0A]) = [a, b]"
  using raw_lines_concat [of "[a, b]"] by simp

lemma graphic_line:
  assumes "list_all graphic l"
  shows "CHR 0x0A \<notin> set l" "drop_CR l = l"
proof -
  have "c \<in> set l \<Longrightarrow> c \<noteq> CHR 0x0A \<and> c \<noteq> CHR 0x0D" for c
    using assms by (auto simp: list_all_iff graphic_def)
  then show "CHR 0x0A \<notin> set l" "drop_CR l = l"
    using last_in_set [of l] by (auto simp: drop_CR_def)
qed

text \<open>A line that assigns neither of the two variables and fits the scanner's buffer.\<close>

definition other_line :: "string \<Rightarrow> bool" where
  "other_line l \<longleftrightarrow> CHR 0x0A \<notin> set l \<and> length l < MaxScanTokenSize \<and>
     (case env_entry (drop_CR l) of None \<Rightarrow> True | Some (k, _) \<Rightarrow> k \<noteq> ''EXTENSION_ID'' \<and> k \<noteq> ''INSTRUCTION_SENDER'')"

lemma env_entries_append: "env_entries (xs @ ys) = env_entries xs @ env_entries ys"
  by (induction xs) (auto split: option.split)

lemma env_last_others:
  "list_all other_line ls \<Longrightarrow> k \<in> {''EXTENSION_ID'', ''INSTRUCTION_SENDER''} \<Longrightarrow> map_of (rev (env_entries (map drop_CR ls))) k = None"
  by (induction ls) (auto simp: other_line_def map_add_def split: option.splits)

lemma scan_lines_concat:
  assumes "list_all (\<lambda>l. CHR 0x0A \<notin> set l \<and> length l < MaxScanTokenSize) ls"
  shows "scan_lines (concat (map (\<lambda>l. l @ newline) ls)) = map drop_CR ls"
proof -
  have "raw_lines (concat (map (\<lambda>l. l @ newline) ls)) = ls"
    using assms by (auto simp: newline_def list_all_iff intro: raw_lines_concat)
  moreover have "takeWhile (\<lambda>l. length l < MaxScanTokenSize) ls = ls" using assms by (auto simp: takeWhile_eq_all_conv list_all_iff)
  ultimately show ?thesis by (simp only: scan_lines_def)
qed

text \<open>The extension ID that register-extension prints, written with the sender address into extension.env between lines that assign neither of the
  two, is read back by the checks: the file parses to the two strings, the ID check S2 passes, and the number the registration checks
  then use is the registered ID.\<close>

lemma extension_env_read_back:
  assumes "0 \<le> i" "i < 2 ^ 256" "addressRegex a" "path \<noteq> []" "list_all other_line (before @ after)"
    "OpenFile H path = Some (concat (map (\<lambda>l. l @ newline)
       (before @ [''EXTENSION_ID='' @ extension_id_hex i, ''INSTRUCTION_SENDER='' @ a] @ after)))"
  shows "parseExtensionEnv H path = Ok (extension_id_hex i, a) \<and>
         CStatus (check_S2 E H path) = PASS \<and>
         extension_id_value (extension_id_hex i) = i"
proof -
  let ?l1 = "''EXTENSION_ID='' @ extension_id_hex i" and ?l2 = "''INSTRUCTION_SENDER='' @ a"
  have rx: "extensionIDRegex (extension_id_hex i)" using assms(1,2) by (rule extension_id_hex_regex)
  have ne: "extension_id_hex i \<noteq> []" "a \<noteq> []" using rx assms(3) regex_not_Nil by auto
  have g: "list_all graphic (extension_id_hex i)" "list_all graphic a"
    using rx assms(3) matches_graphic by (auto simp: extensionIDRegex_def addressRegex_def list_all_iff)
  have keys: "list_all graphic ''EXTENSION_ID''" "list_all graphic ''INSTRUCTION_SENDER''"
    by (simp_all add: graphic_def)
  have gl: "list_all graphic ?l1" "list_all graphic ?l2" using g by (simp_all add: graphic_def)
  have len: "length (extension_id_hex i) = 66" "length a = 42"
    using rx assms(3) by (simp_all add: extensionIDRegex_def addressRegex_def matches_0x_hex_def)
  have "scan_lines (concat (map (\<lambda>l. l @ newline) (before @ [?l1, ?l2] @ after))) = map drop_CR before @ [?l1, ?l2] @ map drop_CR after"
    using assms(5) graphic_line [OF gl(1)] graphic_line [OF gl(2)] len
    by (subst scan_lines_concat) (auto simp: list_all_iff other_line_def MaxScanTokenSize_def)
  moreover have e1: "env_entry ?l1 = Some (''EXTENSION_ID'', extension_id_hex i)"
    using env_entry_assign [of "''EXTENSION_ID''" "extension_id_hex i"] ne g keys by simp
  moreover have e2: "env_entry ?l2 = Some (''INSTRUCTION_SENDER'', a)"
    using env_entry_assign [of "''INSTRUCTION_SENDER''" a] ne g keys by simp
  moreover have "env_last (map drop_CR before @ [?l1, ?l2] @ map drop_CR after) k = map_of [(''EXTENSION_ID'', extension_id_hex i), (''INSTRUCTION_SENDER'', a)] k"
    if "k \<in> {''EXTENSION_ID'', ''INSTRUCTION_SENDER''}" for k
  proof -
    have "env_entries [?l1, ?l2] = [(''EXTENSION_ID'', extension_id_hex i), (''INSTRUCTION_SENDER'', a)]" using e1 e2 by simp
    then show ?thesis
      using assms(5) that env_last_others [of before k] env_last_others [of after k]
      unfolding env_last_def env_entries_append by (auto simp: map_add_def)
  qed
  ultimately have p: "parseExtensionEnv H path = Ok (extension_id_hex i, a)"
    using assms(6) by (simp add: parseExtensionEnv_def parse_env_loop_last del: map_append concat_append)
  then have "CStatus (check_S2 E H path) = PASS"
    using rx ne assms(4) by (simp add: check_S2_def Let_def)
  with p show ?thesis using assms(1) by (simp add: extension_id_value_hex)
qed

subsection \<open>Witnesses on a concrete configuration\<close>

text \<open>The file that scripts/pre-build.sh writes.\<close>

definition demo_comment :: string where
  "demo_comment = ''# Auto-generated by pre-build.sh '' @ emdash @ '' do not edit manually''"

definition demo_tokens :: "string list" where
  "demo_tokens = [''BASE_TOKEN=0xb'', ''QUOTE_TOKEN=0xc'']"

definition demo_env :: string where
  "demo_env = concat (map (\<lambda>l. l @ newline) ([demo_comment] @
     [''EXTENSION_ID='' @ extension_id_hex 7, ''INSTRUCTION_SENDER='' @ (''0x'' @ replicate 40 (CHR ''a''))] @ demo_tokens))"

lemma demo_other_lines: "list_all other_line ([demo_comment] @ demo_tokens)"
proof -
  have "TrimSpace demo_comment = demo_comment" by (rule TrimSpace_graphic) (simp add: demo_comment_def graphic_def)
  then have "env_entry (drop_CR demo_comment) = None"
    by (simp add: env_entry_def drop_CR_def HasPrefix_def demo_comment_def)
  moreover have "env_entry ''BASE_TOKEN=0xb'' = Some (''BASE_TOKEN'', ''0xb'')"
    using env_entry_assign [of "''BASE_TOKEN''" "''0xb''"] by (simp add: graphic_def)
  moreover have "env_entry ''QUOTE_TOKEN=0xc'' = Some (''QUOTE_TOKEN'', ''0xc'')"
    using env_entry_assign [of "''QUOTE_TOKEN''" "''0xc''"] by (simp add: graphic_def)
  ultimately show ?thesis
    by (simp add: other_line_def demo_tokens_def drop_CR_def MaxScanTokenSize_def) (simp add: demo_comment_def emdash_def)
qed

definition demo_registry :: registry where
  "demo_registry =
     \<lparr>NextPublicExtensionId = Ok 9, GetTeeExtensionInstructionsSender = (\<lambda>i. Ok (if i \<in> {3, 7} then 42 else 0)),
      IsKeyTypeSupported = (\<lambda>_ _. Ok True)\<rparr>"

definition demo_allowlist :: allowlist where
  "demo_allowlist = \<lparr>IsAllowedTeeMachineOwner = (\<lambda>_ _. Ok True)\<rparr>"

lemma demo_address: "addressRegex (''0x'' @ replicate 40 (CHR ''a''))"
  by (simp add: addressRegex_def matches_0x_hex_def is_hex_def hexval_def numeral_eq_Suc)

theorem registration_checks_no_failure_iff_witness:
  "\<not> HasFailures (RegisterRegistrationChecks demo_ext
       (demo_host ''e'' (Some (''EXTENSION_ID=0x'' @ replicate 64 (CHR ''0'')))) (Some demo_client) (Some 1)
       (Some demo_registry) (Some demo_allowlist) ''e'' \<lparr>Results = []\<rparr>)"
proof -
  let ?i = "''0x'' @ replicate 64 (CHR ''0'')"
  let ?H = "demo_host ''e'' (Some (''EXTENSION_ID=0x'' @ replicate 64 (CHR ''0'')))"
  have l: "scan_lines (''EXTENSION_ID=0x'' @ replicate 64 (CHR ''0'')) = [''EXTENSION_ID'' @ CHR ''='' # ?i]"
    by (simp add: scan_lines_def raw_lines_def Split_no_sep drop_CR_def MaxScanTokenSize_def Let_def)
  have e: "env_entry (''EXTENSION_ID'' @ CHR ''='' # ?i) = Some (''EXTENSION_ID'', ?i)"
    by (rule env_entry_assign) (simp_all add: graphic_def list_all_iff)
  have p: "parseExtensionEnv ?H ''e'' = Ok (?i, [])"
    by (simp add: parseExtensionEnv_def demo_host_def l e parse_env_line_entry parse_env_assign_def del: append_Cons append.simps(2))
  have "extensionIDRegex ?i"
    by (simp add: extensionIDRegex_def matches_0x_hex_def list_all_zeros)
  then show ?thesis
    by (subst registration_checks_no_failure_iff [OF _ p])
       (simp_all add: demo_registry_def demo_allowlist_def regex_not_Nil)
qed

theorem extension_env_verdicts_agree_witness:
  "\<exists>vars. CheckExtensionEnvFormat demo_ext (demo_host ''e'' (Some ''X=1'')) ''e'' =
     [check_D7 demo_ext ''INSTRUCTION_SENDER'' addressRegex vars, check_D7 demo_ext ''EXTENSION_ID'' extensionIDRegex vars]"
  using extension_env_verdicts_agree [of "''e''" "demo_host ''e'' (Some ''X=1'')" "''X=1''" demo_ext]
  by (auto simp: demo_host_def)

subsection \<open>Key warnings\<close>

text \<open>S10, whose name promises that PROXY_PRIVATE_KEY is set on a non-local deployment, reports
  a configured key exactly when LOCAL_MODE is neither empty nor true and either the key is set or
  LOCAL_MODE is not literally false: with LOCAL_MODE=False and no key at all it passes.\<close>

lemma S10_passes_without_key:
  "(CStatus (check_S10 H) = PASS \<and> Message (check_S10 H) = ''PROXY_PRIVATE_KEY is configured'') \<longleftrightarrow>
     Getenv H ''LOCAL_MODE'' \<notin> {[], ''true''} \<and>
     (Getenv H ''PROXY_PRIVATE_KEY'' \<noteq> [] \<or> Getenv H ''LOCAL_MODE'' \<noteq> ''false'')"
  by (auto simp: check_S10_def Let_def)

end
