(* ===== verification/JSON.thy ===== *)
theory JSON
  imports World
begin

section \<open>encoding/json, as far as the program uses it\<close>

text \<open>
  JSON values, the encoder (compact as \<^verbatim>\<open>json.Marshal\<close> writes it and indented as
  \<^verbatim>\<open>SetIndent("", "  ")\<close> and \<^verbatim>\<open>MarshalIndent\<close> do, with Go's HTML-safe escaping and its
  replacement of invalid UTF-8), and the decoder as a token-driven machine with Go's limit
  of 10000 nested containers: \<open>decode_first\<close> reads one value and leaves the rest, as
  \<^verbatim>\<open>Decoder.Decode\<close> does, \<open>Unmarshal\<close> refuses anything but blanks after it. The main lemma
  is the round trip: decoding what the encoder wrote, in any layout, gives the value back.
  The wording of the package's error messages is not modelled.
\<close>

datatype json =
    JNull
  | JBool bool
  | JNum string
  | JStr string
  | JArr "json list"
  | JObj "(string \<times> json) list"

subsection \<open>Strings\<close>

function json_escape :: "string \<Rightarrow> string" where
  "json_escape [] = []"
| "json_escape (c # cs) =
     (let n = (of_char c :: nat) in
      if n < 0x80 then
        (if n = 0x22 \<or> n = 0x5C then [CHR 0x5C, c]
         else if n = 0x08 then CHR 0x5C # ''b''
         else if n = 0x0C then CHR 0x5C # ''f''
         else if n = 0x0A then CHR 0x5C # ''n''
         else if n = 0x0D then CHR 0x5C # ''r''
         else if n = 0x09 then CHR 0x5C # ''t''
         else if n < 0x20 \<or> n = 0x3C \<or> n = 0x3E \<or> n = 0x26 then CHR 0x5C # ''u00'' @ hex_byte c
         else [c]) @ json_escape cs
      else
        let (r, w) = DecodeRune (c # cs) in
        if w = 1 \<and> r = RuneError then CHR 0x5C # ''ufffd'' @ json_escape cs
        else (if r = 0x2028 then CHR 0x5C # ''u2028''
              else if r = 0x2029 then CHR 0x5C # ''u2029''
              else take w (c # cs)) @ json_escape (drop w (c # cs)))"
  by pat_completeness auto
termination
proof (relation "measure length", goal_cases)
  case (4 c cs x xa r w)
  then have "snd (DecodeRune (c # cs)) = w" by (metis snd_conv)
  then have "0 < w" using DecodeRune_width [of "c # cs"] by simp
  then show ?case by (cases w) auto
qed auto

declare json_escape.simps(2) [simp del]

text \<open>\<^verbatim>\<open>utf8.AppendRune\<close> for a rune that is not a surrogate.\<close>

definition encode_rune :: "nat \<Rightarrow> string" where
  "encode_rune r =
     (if r < 0x80 then [char_of r]
      else if r < 0x800 then [char_of (0xC0 + r div 64), char_of (0x80 + r mod 64)]
      else if r < 0x10000 then
        [char_of (0xE0 + r div 4096), char_of (0x80 + r div 64 mod 64), char_of (0x80 + r mod 64)]
      else [char_of (0xF0 + r div 262144), char_of (0x80 + r div 4096 mod 64),
            char_of (0x80 + r div 64 mod 64), char_of (0x80 + r mod 64)])"

text \<open>The four digits after a backslash and u.\<close>

fun get_u4 :: "string \<Rightarrow> (nat \<times> string) option" where
  "get_u4 (a # b # c # d # s) =
     (case digits_with hexval [a, b, c, d] of None \<Rightarrow> None | Some ds \<Rightarrow> Some (of_digits 16 ds, s))"
| "get_u4 _ = None"

definition is_surrogate :: "nat \<Rightarrow> bool" where
  "is_surrogate r \<longleftrightarrow> 0xD800 \<le> r \<and> r < 0xE000"

text \<open>The rune of an escape whose digits are \<open>r\<close>, and what follows it: a high surrogate
  followed by an escaped low one is one rune, any other surrogate is the replacement
  character.\<close>

definition escaped_rune :: "nat \<Rightarrow> string \<Rightarrow> nat \<times> string" where
  "escaped_rune r s =
     (if \<not> is_surrogate r then (r, s)
      else case s of
        b # u # s' \<Rightarrow>
          if b = CHR 0x5C \<and> u = CHR ''u'' then
            (case get_u4 s' of
               Some (r2, s'') \<Rightarrow>
                 if r < 0xDC00 \<and> 0xDC00 \<le> r2 \<and> r2 < 0xE000
                 then (0x10000 + (r - 0xD800) * 1024 + (r2 - 0xDC00), s'')
                 else (RuneError, s)
             | None \<Rightarrow> (RuneError, s))
          else (RuneError, s)
      | _ \<Rightarrow> (RuneError, s))"

definition simple_escape :: "char \<Rightarrow> char option" where
  "simple_escape e =
     (if e = CHR 0x22 \<or> e = CHR 0x5C \<or> e = CHR ''/'' then Some e
      else if e = CHR ''b'' then Some (CHR 0x08)
      else if e = CHR ''f'' then Some (CHR 0x0C)
      else if e = CHR ''n'' then Some (CHR 0x0A)
      else if e = CHR ''r'' then Some (CHR 0x0D)
      else if e = CHR ''t'' then Some (CHR 0x09)
      else None)"

text \<open>One character or escape of a string literal: the bytes it stands for, and the rest.
  None is a syntax error (a control character, a bad escape, the end of the input).\<close>

definition unquote_one :: "string \<Rightarrow> (string \<times> string) option" where
  "unquote_one s =
     (case s of
        [] \<Rightarrow> None
      | c # cs \<Rightarrow>
          if (of_char c :: nat) < 0x20 then None
          else if c = CHR 0x5C then
            (case cs of
               [] \<Rightarrow> None
             | e # cs' \<Rightarrow>
                 if e = CHR ''u'' then
                   (case get_u4 cs' of
                      None \<Rightarrow> None
                    | Some (r, cs'') \<Rightarrow> (case escaped_rune r cs'' of (r', t) \<Rightarrow> Some (encode_rune r', t)))
                 else map_option (\<lambda>x. ([x], cs')) (simple_escape e))
          else if (of_char c :: nat) < 0x80 then Some ([c], cs)
          else
            (let (r, w) = DecodeRune s in
             if w = 1 \<and> r = RuneError then Some (encode_rune RuneError, cs)
             else Some (take w s, drop w s)))"

lemma get_u4_shorter: "get_u4 s = Some (r, s') \<Longrightarrow> length s' < length s"
  by (induction s rule: get_u4.induct) (auto split: option.splits)

lemma escaped_rune_shorter: "length (snd (escaped_rune r s)) \<le> length s"
  by (auto simp: escaped_rune_def split: list.split option.split dest!: get_u4_shorter)

lemma unquote_one_shorter: "unquote_one s = Some (x, s') \<Longrightarrow> length s' < length s"
proof (cases s)
  case (Cons c cs)
  assume u: "unquote_one s = Some (x, s')"
  have w: "0 < snd (DecodeRune s)" using Cons by (simp add: DecodeRune_width)
  have e: "get_u4 t = Some (r, t') \<Longrightarrow> escaped_rune r t' = (r', t'') \<Longrightarrow> length t'' < length t"
    for t t' t'' r r'
    using escaped_rune_shorter [of r t'] get_u4_shorter [of t r t'] by simp
  show ?thesis
    using u w Cons
    by (auto simp: unquote_one_def Let_def split: if_splits list.splits option.splits prod.splits
        dest!: e)
qed (simp add: unquote_one_def)

function json_unquote :: "string \<Rightarrow> (string \<times> string) option" where
  "json_unquote s =
     (case s of
        c # cs \<Rightarrow>
          if c = CHR 0x22 then Some ([], cs)
          else
            (case unquote_one s of
               None \<Rightarrow> None
             | Some (x, s') \<Rightarrow>
                 (case json_unquote s' of None \<Rightarrow> None | Some (y, t) \<Rightarrow> Some (x @ y, t)))
      | [] \<Rightarrow> None)"
  by pat_completeness auto
termination
  by (relation "measure length") (auto dest: unquote_one_shorter)

declare json_unquote.simps [simp del]

lemma json_unquote_shorter: "json_unquote s = Some (x, t) \<Longrightarrow> length t < length s"
proof (induction s arbitrary: x rule: measure_induct_rule [of length])
  case (less s)
  then obtain c cs where s: "s = c # cs" by (subst (asm) json_unquote.simps) (auto split: list.splits)
  show ?case
  proof (cases "c = CHR 0x22")
    case True
    with less.prems s show ?thesis by (simp add: json_unquote.simps)
  next
    case False
    with less.prems s obtain a b y where ab: "unquote_one s = Some (a, b)" "json_unquote b = Some (y, t)"
      by (subst (asm) json_unquote.simps) (auto split: option.splits)
    from unquote_one_shorter [OF ab(1)] less.IH [OF _ ab(2)] show ?thesis by simp
  qed
qed

subsection \<open>Tokens\<close>

datatype token =
    LBrace | RBrace | LBrack | RBrack | Comma | Colon
  | TNull | TBool bool | TNum string | TStr string

definition is_ws :: "char \<Rightarrow> bool" where
  "is_ws c \<longleftrightarrow> c = CHR 0x20 \<or> c = CHR 0x09 \<or> c = CHR 0x0D \<or> c = CHR 0x0A"

definition is_digit :: "char \<Rightarrow> bool" where
  "is_digit c \<longleftrightarrow> decval c \<noteq> None"

text \<open>An integer part: a zero, or digits that do not start with one.\<close>

definition lex_int :: "string \<Rightarrow> (string \<times> string) option" where
  "lex_int s =
     (case s of
        [] \<Rightarrow> None
      | c # cs \<Rightarrow>
          if c = CHR ''0'' then Some ([c], cs)
          else if is_digit c then Some (takeWhile is_digit s, dropWhile is_digit s)
          else None)"

definition lex_digits :: "string \<Rightarrow> (string \<times> string) option" where
  "lex_digits s =
     (let d = takeWhile is_digit s in if d = [] then None else Some (d, dropWhile is_digit s))"

definition lex_frac :: "string \<Rightarrow> (string \<times> string) option" where
  "lex_frac s =
     (case s of
        c # cs \<Rightarrow>
          if c = CHR ''.'' then map_option (\<lambda>(d, t). (c # d, t)) (lex_digits cs) else Some ([], s)
      | [] \<Rightarrow> Some ([], []))"

definition lex_exp :: "string \<Rightarrow> (string \<times> string) option" where
  "lex_exp s =
     (case s of
        c # cs \<Rightarrow>
          if c = CHR ''e'' \<or> c = CHR ''E'' then
            (case cs of
               g # cs' \<Rightarrow>
                 if g = CHR ''+'' \<or> g = CHR ''-''
                 then map_option (\<lambda>(d, t). (c # g # d, t)) (lex_digits cs')
                 else map_option (\<lambda>(d, t). (c # d, t)) (lex_digits cs)
             | [] \<Rightarrow> None)
          else Some ([], s)
      | [] \<Rightarrow> Some ([], []))"

definition lex_number :: "string \<Rightarrow> (string \<times> string) option" where
  "lex_number s =
     (let (g, s1) = (case s of c # cs \<Rightarrow> if c = CHR ''-'' then ([c], cs) else ([], s) | [] \<Rightarrow> ([], [])) in
      case lex_int s1 of
        None \<Rightarrow> None
      | Some (i, s2) \<Rightarrow>
          (case lex_frac s2 of
             None \<Rightarrow> None
           | Some (f, s3) \<Rightarrow>
               (case lex_exp s3 of
                  None \<Rightarrow> None
                | Some (e, s4) \<Rightarrow> Some (g @ i @ f @ e, s4))))"

definition lex_word :: "string \<Rightarrow> token \<Rightarrow> string \<Rightarrow> (token \<times> string) option" where
  "lex_word w t s = (if prefix w s then Some (t, drop (length w) s) else None)"

definition lex1 :: "string \<Rightarrow> (token \<times> string) option" where
  "lex1 s0 =
     (let s = dropWhile is_ws s0 in
      case s of
        [] \<Rightarrow> None
      | c # cs \<Rightarrow>
          if c = CHR ''{'' then Some (LBrace, cs)
          else if c = CHR ''}'' then Some (RBrace, cs)
          else if c = CHR ''['' then Some (LBrack, cs)
          else if c = CHR '']'' then Some (RBrack, cs)
          else if c = CHR '','' then Some (Comma, cs)
          else if c = CHR '':'' then Some (Colon, cs)
          else if c = CHR 0x22 then map_option (\<lambda>(x, t). (TStr x, t)) (json_unquote cs)
          else if c = CHR ''n'' then lex_word ''null'' TNull s
          else if c = CHR ''t'' then lex_word ''true'' (TBool True) s
          else if c = CHR ''f'' then lex_word ''false'' (TBool False) s
          else map_option (\<lambda>(x, t). (TNum x, t)) (lex_number s))"

lemma lex_digits_append: "lex_digits s = Some (d, t) \<Longrightarrow> s = d @ t \<and> d \<noteq> []"
  by (auto simp: lex_digits_def Let_def split: if_splits)

lemma lex_int_append: "lex_int s = Some (i, t) \<Longrightarrow> s = i @ t \<and> i \<noteq> []"
  by (auto simp: lex_int_def split: list.splits if_splits)

lemma lex_frac_append: "lex_frac s = Some (f, t) \<Longrightarrow> s = f @ t"
  by (auto simp: lex_frac_def split: list.splits if_splits dest: lex_digits_append)

lemma lex_exp_append: "lex_exp s = Some (e, t) \<Longrightarrow> s = e @ t"
  by (auto simp: lex_exp_def split: list.splits if_splits dest: lex_digits_append)

lemma lex_number_append: "lex_number s = Some (n, t) \<Longrightarrow> s = n @ t \<and> n \<noteq> []"
  by (auto simp: lex_number_def Let_def split: list.splits if_splits option.splits prod.splits
      dest!: lex_int_append lex_frac_append lex_exp_append)

lemma lex_number_shorter: "lex_number s = Some (n, t) \<Longrightarrow> length t < length s"
  using lex_number_append by fastforce

lemma lex1_shorter: "lex1 s = Some (tok, t) \<Longrightarrow> length t < length s"
proof -
  assume l: "lex1 s = Some (tok, t)"
  have ws: "length (dropWhile is_ws s) \<le> length s" by (rule length_dropWhile_le)
  obtain c cs where d: "dropWhile is_ws s = c # cs"
    using l by (cases "dropWhile is_ws s") (auto simp: lex1_def Let_def)
  have "length t < length (c # cs)"
    using l unfolding lex1_def Let_def d
    by (auto simp: lex_word_def prefix_def split: if_splits
        dest!: json_unquote_shorter lex_number_shorter)
  with ws d show ?thesis by simp
qed

subsection \<open>The decoder\<close>

text \<open>The open containers, innermost first: an array, an object, or an object that waits
  for the value of a key. A mode says which tokens may come next.\<close>

datatype frame =
    FArr "json list"
  | FObj "(string \<times> json) list"
  | FObjV "(string \<times> json) list" string

datatype mode = MVal | MValOrEnd | MKeyOrEnd | MKey | MColon string | MAfter

datatype outcome = Fail | Done json | Cont "frame list" mode

definition maxNestingDepth :: nat where
  "maxNestingDepth = 10000"

fun complete :: "frame list \<Rightarrow> json \<Rightarrow> outcome" where
  "complete [] v = Done v"
| "complete (FArr vs # stk) v = Cont (FArr (vs @ [v]) # stk) MAfter"
| "complete (FObjV ms k # stk) v = Cont (FObj (ms @ [(k, v)]) # stk) MAfter"
| "complete (FObj ms # stk) v = Fail"

definition push :: "frame \<Rightarrow> mode \<Rightarrow> frame list \<Rightarrow> outcome" where
  "push f m stk = (if length stk < maxNestingDepth then Cont (f # stk) m else Fail)"

fun begin_value :: "frame list \<Rightarrow> token \<Rightarrow> outcome" where
  "begin_value stk TNull = complete stk JNull"
| "begin_value stk (TBool b) = complete stk (JBool b)"
| "begin_value stk (TNum n) = complete stk (JNum n)"
| "begin_value stk (TStr x) = complete stk (JStr x)"
| "begin_value stk LBrack = push (FArr []) MValOrEnd stk"
| "begin_value stk LBrace = push (FObj []) MKeyOrEnd stk"
| "begin_value stk _ = Fail"

fun end_container :: "frame list \<Rightarrow> token \<Rightarrow> outcome" where
  "end_container (FArr vs # stk) RBrack = complete stk (JArr vs)"
| "end_container (FObj ms # stk) RBrace = complete stk (JObj ms)"
| "end_container _ _ = Fail"

fun json_step :: "frame list \<Rightarrow> mode \<Rightarrow> token \<Rightarrow> outcome" where
  "json_step stk MVal t = begin_value stk t"
| "json_step stk MValOrEnd t = (if t = RBrack then end_container stk t else begin_value stk t)"
| "json_step stk MKeyOrEnd t =
     (case t of TStr k \<Rightarrow> Cont stk (MColon k) | RBrace \<Rightarrow> end_container stk t | _ \<Rightarrow> Fail)"
| "json_step stk MKey t = (case t of TStr k \<Rightarrow> Cont stk (MColon k) | _ \<Rightarrow> Fail)"
| "json_step (FObj ms # stk) (MColon k) Colon = Cont (FObjV ms k # stk) MVal"
| "json_step stk (MColon k) t = Fail"
| "json_step (FArr vs # stk) MAfter Comma = Cont (FArr vs # stk) MVal"
| "json_step (FObj ms # stk) MAfter Comma = Cont (FObj ms # stk) MKey"
| "json_step stk MAfter t = end_container stk t"

function json_run :: "frame list \<Rightarrow> mode \<Rightarrow> string \<Rightarrow> (json \<times> string) option" where
  "json_run stk m s =
     (case lex1 s of
        None \<Rightarrow> None
      | Some (t, s') \<Rightarrow>
          (case json_step stk m t of
             Fail \<Rightarrow> None
           | Done v \<Rightarrow> Some (v, s')
           | Cont stk' m' \<Rightarrow> json_run stk' m' s'))"
  by pat_completeness auto
termination
  by (relation "measure (\<lambda>(stk, m, s). length s)") (auto dest: lex1_shorter)

declare json_run.simps [simp del]

text \<open>\<^verbatim>\<open>Decoder.Decode\<close> reads the first value of the stream, \<^verbatim>\<open>json.Unmarshal\<close> all of the input.\<close>

definition decode_first :: "string \<Rightarrow> (json \<times> string) option" where
  "decode_first s = json_run [] MVal s"

definition Unmarshal :: "string \<Rightarrow> json option" where
  "Unmarshal s =
     (case decode_first s of
        None \<Rightarrow> None
      | Some (v, t) \<Rightarrow> if list_all is_ws t then Some v else None)"

subsection \<open>The encoder\<close>

text \<open>A layout: what stands before an element or closing bracket at a depth, and what
  follows a colon. The compact layout is \<^verbatim>\<open>json.Marshal\<close>'s, the other one indents by two
  blanks per level.\<close>

record layout =
  brk :: "nat \<Rightarrow> string"
  gap :: string

definition compact :: layout where
  "compact = \<lparr>brk = (\<lambda>_. []), gap = []\<rparr>"

definition indent2 :: layout where
  "indent2 = \<lparr>brk = (\<lambda>d. newline @ replicate (2 * d) (CHR 0x20)), gap = [CHR 0x20]\<rparr>"

definition json_string :: "string \<Rightarrow> string" where
  "json_string s = CHR 0x22 # json_escape s @ [CHR 0x22]"

fun encode :: "layout \<Rightarrow> nat \<Rightarrow> json \<Rightarrow> string"
  and encode_elems :: "layout \<Rightarrow> nat \<Rightarrow> json list \<Rightarrow> string"
  and encode_members :: "layout \<Rightarrow> nat \<Rightarrow> (string \<times> json) list \<Rightarrow> string" where
  "encode L d JNull = ''null''"
| "encode L d (JBool b) = (if b then ''true'' else ''false'')"
| "encode L d (JNum n) = n"
| "encode L d (JStr s) = json_string s"
| "encode L d (JArr vs) = (if vs = [] then ''[]'' else CHR ''['' # brk L (Suc d) @ encode_elems L (Suc d) vs @ brk L d @ '']'')"
| "encode L d (JObj ms) = (if ms = [] then ''{}'' else CHR ''{'' # brk L (Suc d) @ encode_members L (Suc d) ms @ brk L d @ ''}'')"
| "encode_elems L d [] = []"
| "encode_elems L d (v # vs) =
     encode L d v @ (if vs = [] then [] else CHR '','' # brk L d @ encode_elems L d vs)"
| "encode_members L d [] = []"
| "encode_members L d ((k, v) # ms) =
     json_string k @ CHR '':'' # gap L @ encode L d v @
     (if ms = [] then [] else CHR '','' # brk L d @ encode_members L d ms)"

definition Marshal :: "json \<Rightarrow> string" where
  "Marshal v = encode compact 0 v"

definition MarshalIndent :: "json \<Rightarrow> string" where
  "MarshalIndent v = encode indent2 0 v"

subsection \<open>Round trip: strings\<close>

function valid_utf8 :: "string \<Rightarrow> bool" where
  "valid_utf8 [] = True"
| "valid_utf8 (c # cs) =
     (let (r, w) = DecodeRune (c # cs) in
      \<not> (w = 1 \<and> r = RuneError) \<and> valid_utf8 (drop w (c # cs)))"
  by pat_completeness auto
termination
proof (relation "measure length", goal_cases)
  case (2 c cs x r w)
  then have "snd (DecodeRune (c # cs)) = w" by (metis snd_conv)
  then have "0 < w" using DecodeRune_width [of "c # cs"] by simp
  then show ?case by (cases w) auto
qed auto

declare valid_utf8.simps(2) [simp del]

lemma DecodeRune_ascii: "(of_char c :: nat) < 0x80 \<Longrightarrow> DecodeRune (c # cs) = (of_char c, 1)"
  by (simp add: DecodeRune_def)

lemma valid_utf8_ascii: "list_all (\<lambda>c. (of_char c :: nat) < 0x80) s \<Longrightarrow> valid_utf8 s"
  by (induction s) (auto simp: valid_utf8.simps(2) DecodeRune_ascii RuneError_def)

lemma dec_of_nat_ascii: "list_all (\<lambda>c. (of_char c :: nat) < 0x80) (dec_of_nat n)"
proof -
  have "d < 10 \<Longrightarrow> (of_char (digit_char d) :: nat) < 128" for d by (simp add: of_char_digit)
  then show ?thesis using to_digits_bound [of 10 _ n] by (auto simp: dec_of_nat_def list_all_iff)
qed

lemma decode_codes_prefix:
  "decode_codes bs = (r, w) \<Longrightarrow> bs \<noteq> [] \<Longrightarrow> \<not> (w = 1 \<and> r = RuneError) \<Longrightarrow>
   decode_codes (take w bs @ t) = (r, w) \<and> w \<le> length bs"
  by (cases bs) (auto split: if_splits list.splits)

lemma DecodeRune_prefix:
  assumes "DecodeRune s = (r, w)" "s \<noteq> []" "\<not> (w = 1 \<and> r = RuneError)"
  shows "DecodeRune (take w s @ t) = (r, w)" "w \<le> length s"
  using decode_codes_prefix [of "map of_char s" r w "map of_char t"] assms
  by (auto simp: DecodeRune_def take_map)

lemma valid_utf8_append: "valid_utf8 s \<Longrightarrow> valid_utf8 t \<Longrightarrow> valid_utf8 (s @ t)"
proof (induction s rule: valid_utf8.induct)
  case (2 c cs)
  obtain r w where d: "DecodeRune (c # cs) = (r, w)" by force
  with "2.prems"(1) have v: "\<not> (w = 1 \<and> r = RuneError)" "valid_utf8 (drop w (c # cs))"
    by (auto simp: valid_utf8.simps)
  have l: "w \<le> length (c # cs)" using DecodeRune_prefix(2) [OF d _ v(1)] by simp
  have "DecodeRune (take w (c # cs) @ (drop w (c # cs) @ t)) = (r, w)"
    by (rule DecodeRune_prefix(1) [OF d _ v(1)]) simp
  then have "DecodeRune ((c # cs) @ t) = (r, w)"
    by (metis append_assoc append_take_drop_id)
  moreover have "valid_utf8 (drop w (c # cs) @ t)"
    using "2.IH" [OF d [symmetric] refl] v "2.prems"(2) by blast
  moreover have "drop w ((c # cs) @ t) = drop w (c # cs) @ t"
    using l drop_append [of w "c # cs" t] by (simp del: append_Cons drop_append)
  ultimately show ?case using v(1) by (simp add: valid_utf8.simps(2) [of c "cs @ t"])
qed simp

lemma char_of_eqI: "n = of_char c \<Longrightarrow> char_of (n :: nat) = c"
  by simp

lemma mod_offset:
  fixes b :: nat
  assumes "k * m \<le> b" "b < k * m + m"
  shows "k * m + b mod m = b"
proof -
  from assms(1) obtain d where d: "b = k * m + d" using le_Suc_ex by blast
  with assms(2) show ?thesis by simp
qed

lemma utf8_bytes:
  fixes b :: nat
  shows "0x80 \<le> b \<Longrightarrow> b \<le> 0xBF \<Longrightarrow> 0x80 + b mod 64 = b"
    and "0xC2 \<le> b \<Longrightarrow> b \<le> 0xDF \<Longrightarrow> 0xC0 + b mod 32 = b"
    and "0xE0 \<le> b \<Longrightarrow> b \<le> 0xEF \<Longrightarrow> 0xE0 + b mod 16 = b"
    and "0xF0 \<le> b \<Longrightarrow> b \<le> 0xF4 \<Longrightarrow> 0xF0 + b mod 8 = b"
  using mod_offset [of 2 64 b] mod_offset [of 6 32 b] mod_offset [of 14 16 b] mod_offset [of 30 8 b]
  by simp_all

lemma radix64:
  fixes x y :: nat
  shows "y < 64 \<Longrightarrow> (x * 64 + y) div 64 = x" "y < 64 \<Longrightarrow> (x * 64 + y) mod 64 = y"
  by simp_all

lemma radix64_le: "k \<le> x \<Longrightarrow> (64::nat) * k \<le> x * 64 + y"
  by simp

lemma radix64_less: "x < k \<Longrightarrow> y < 64 \<Longrightarrow> x * 64 + y < (64::nat) * k"
  by simp

lemma radix64_bound: "a < 16 \<Longrightarrow> b < 64 \<Longrightarrow> c < 64 \<Longrightarrow> (a * 64 + b) * 64 + c < (0x10000::nat)"
  using radix64_less [of a 16 b] radix64_less [of "a * 64 + b" "64 * 16" c] by simp

lemma encode_rune_eqs:
  "r < 0x80 \<Longrightarrow> encode_rune r = map char_of [r]"
  "0x80 \<le> r \<Longrightarrow> r < 0x800 \<Longrightarrow> encode_rune r = map char_of [0xC0 + r div 64, 0x80 + r mod 64]"
  "0x800 \<le> r \<Longrightarrow> r < 0x10000 \<Longrightarrow>
   encode_rune r = map char_of [0xE0 + r div 64 div 64, 0x80 + r div 64 mod 64, 0x80 + r mod 64]"
  "0x10000 \<le> r \<Longrightarrow>
   encode_rune r = map char_of [0xF0 + r div 64 div 64 div 64, 0x80 + r div 64 div 64 mod 64,
                                0x80 + r div 64 mod 64, 0x80 + r mod 64]"
  by (simp_all add: encode_rune_def flip: div_mult2_eq)

lemma encode_rune_codes:
  "decode_codes bs = (r, w) \<Longrightarrow> bs \<noteq> [] \<Longrightarrow> \<not> (w = 1 \<and> r = RuneError) \<Longrightarrow>
   encode_rune r = map char_of (take w bs)"
proof (cases bs)
  case (Cons b0 bs')
  assume d: "decode_codes bs = (r, w)" and v: "\<not> (w = 1 \<and> r = RuneError)"
  from d v Cons consider
      (one) "b0 < 0x80" "r = b0" "w = 1"
    | (two) b1 bs2 where "bs' = b1 # bs2" "0xC2 \<le> b0" "b0 \<le> 0xDF" "0x80 \<le> b1" "b1 \<le> 0xBF"
        "r = b0 mod 32 * 64 + b1 mod 64" "w = 2"
    | (three) b1 b2 bs3 where "bs' = b1 # b2 # bs3" "0xE0 \<le> b0" "b0 \<le> 0xEF" "0x80 \<le> b1" "b1 \<le> 0xBF"
        "b0 = 0xE0 \<longrightarrow> 0xA0 \<le> b1" "0x80 \<le> b2" "b2 \<le> 0xBF"
        "r = b0 mod 16 * 4096 + b1 mod 64 * 64 + b2 mod 64" "w = 3"
    | (four) b1 b2 b3 bs4 where "bs' = b1 # b2 # b3 # bs4" "0xF0 \<le> b0" "b0 \<le> 0xF4" "0x80 \<le> b1" "b1 \<le> 0xBF"
        "b0 = 0xF0 \<longrightarrow> 0x90 \<le> b1" "0x80 \<le> b2" "b2 \<le> 0xBF" "0x80 \<le> b3" "b3 \<le> 0xBF"
        "r = b0 mod 8 * 262144 + b1 mod 64 * 4096 + b2 mod 64 * 64 + b3 mod 64" "w = 4"
    by (auto split: if_splits list.splits)
  then show ?thesis
  proof cases
    case one
    with Cons show ?thesis by (simp add: encode_rune_def)
  next
    case two
    have "b1 mod 64 < 64" by simp
    then have e: "r div 64 = b0 mod 32" "r mod 64 = b1 mod 64"
      unfolding two(6) by (rule radix64)+
    have b: "0xC0 + b0 mod 32 = b0" "0x80 + b1 mod 64 = b1"
      using two(2-5) utf8_bytes by blast+
    have "0x80 \<le> r" "r < 0x800"
      using \<open>b1 mod 64 < 64\<close> b(1) two(2,3) unfolding two(6) by linarith+
    then have "encode_rune r = map char_of [b0, b1]"
      by (simp only: encode_rune_eqs(2) e b)
    with two(1,7) Cons show ?thesis by simp
  next
    case three
    have m: "b1 mod 64 < 64" "b2 mod 64 < 64" "b0 mod 16 < 16" by simp_all
    have r: "r = (b0 mod 16 * 64 + b1 mod 64) * 64 + b2 mod 64" using three(9) by simp
    have r1: "r div 64 = b0 mod 16 * 64 + b1 mod 64" "r mod 64 = b2 mod 64"
      unfolding r by (rule radix64 [OF m(2)])+
    have r2: "r div 64 div 64 = b0 mod 16" "r div 64 mod 64 = b1 mod 64"
      unfolding r1 by (rule radix64 [OF m(1)])+
    have b: "0xE0 + b0 mod 16 = b0" "0x80 + b1 mod 64 = b1" "0x80 + b2 mod 64 = b2"
      using three(2-5,7,8) utf8_bytes by blast+
    have "0x20 \<le> b0 mod 16 * 64 + b1 mod 64"
      using b(1,2) three(2,6) by (cases "b0 = 0xE0") (linarith, linarith)
    then have "64 * 0x20 \<le> r" unfolding r by (rule radix64_le)
    then have "0x800 \<le> r" by simp
    moreover have "r < 0x10000" unfolding r by (rule radix64_bound [OF m(3,1,2)])
    ultimately have "encode_rune r = map char_of [b0, b1, b2]"
      by (simp only: encode_rune_eqs(3) r1(2) r2 b)
    with three(1,10) Cons show ?thesis by simp
  next
    case four
    have m: "b1 mod 64 < 64" "b2 mod 64 < 64" "b3 mod 64 < 64" by simp_all
    have r: "r = ((b0 mod 8 * 64 + b1 mod 64) * 64 + b2 mod 64) * 64 + b3 mod 64"
      using four(11) by simp
    have r1: "r div 64 = (b0 mod 8 * 64 + b1 mod 64) * 64 + b2 mod 64" "r mod 64 = b3 mod 64"
      unfolding r by (rule radix64 [OF m(3)])+
    have r2: "r div 64 mod 64 = b2 mod 64" "r div 64 div 64 = b0 mod 8 * 64 + b1 mod 64"
      unfolding r1 by (rule radix64 [OF m(2)])+
    have r3: "r div 64 div 64 div 64 = b0 mod 8" "r div 64 div 64 mod 64 = b1 mod 64"
      unfolding r2(2) by (rule radix64 [OF m(1)])+
    have b: "0xF0 + b0 mod 8 = b0" "0x80 + b1 mod 64 = b1" "0x80 + b2 mod 64 = b2"
      "0x80 + b3 mod 64 = b3"
      using four(2-5,7-10) utf8_bytes by blast+
    have "0x10 \<le> b0 mod 8 * 64 + b1 mod 64"
      using b(1,2) four(2,6) by (cases "b0 = 0xF0") (linarith, linarith)
    then have "64 * 0x10 \<le> (b0 mod 8 * 64 + b1 mod 64) * 64 + b2 mod 64" by (rule radix64_le)
    then have "64 * (64 * 0x10) \<le> r" unfolding r by (rule radix64_le)
    then have "0x10000 \<le> r" by simp
    then have "encode_rune r = map char_of [b0, b1, b2, b3]"
      by (simp only: encode_rune_eqs(4) r1(2) r2(1) r3 b)
    with four(1,12) Cons show ?thesis by simp
  qed
qed simp

lemma encode_rune_DecodeRune:
  assumes "DecodeRune s = (r, w)" "s \<noteq> []" "\<not> (w = 1 \<and> r = RuneError)"
  shows "encode_rune r = take w s"
proof -
  have "encode_rune r = map char_of (take w (map (of_char :: char \<Rightarrow> nat) s))"
    using assms by (intro encode_rune_codes) (auto simp: DecodeRune_def)
  then show ?thesis by (simp add: take_map comp_def)
qed

lemma json_unquote_step:
  assumes "unquote_one s = Some (x, s')" "hd s \<noteq> CHR 0x22"
  shows "json_unquote s = map_option (\<lambda>(y, t). (x @ y, t)) (json_unquote s')"
proof -
  from assms(1) obtain c cs where s: "s = c # cs" by (cases s) (auto simp: unquote_one_def)
  with assms show ?thesis
    by (subst json_unquote.simps) (simp split: option.split)
qed

lemma json_unquote_quote: "json_unquote (CHR 0x22 # s) = Some ([], s)"
  by (simp add: json_unquote.simps)

lemma encode_rune_ascii: "(of_char c :: nat) < 0x80 \<Longrightarrow> encode_rune (of_char c) = [c]"
  by (simp add: encode_rune_def)

lemma get_u4_hex_byte: "get_u4 (CHR ''0'' # CHR ''0'' # hex_byte c @ s) = Some (of_char c, s)"
proof -
  have "(of_char c :: nat) div 16 < 16" "(of_char c :: nat) mod 16 < 16"
    using nat_of_char_less_256 [of c] by (simp_all add: less_mult_imp_div_less)
  moreover have "hexval (CHR ''0'') = Some 0" by (simp add: hexval_def)
  ultimately show ?thesis by (simp add: hex_byte_def of_digits_def)
qed

lemma unquote_one_u00:
  assumes "(of_char c :: nat) < 0x80"
  shows "unquote_one (CHR 0x5C # ''u00'' @ hex_byte c @ s) = Some ([c], s)"
  using assms by (simp add: unquote_one_def get_u4_hex_byte escaped_rune_def is_surrogate_def encode_rune_ascii)

lemma unquote_one_simple:
  "simple_escape e = Some x \<Longrightarrow> unquote_one (CHR 0x5C # e # s) = Some ([x], s)"
  by (auto simp: unquote_one_def simple_escape_def split: if_splits)

lemma unquote_one_plain:
  "0x20 \<le> (of_char c :: nat) \<Longrightarrow> (of_char c :: nat) < 0x80 \<Longrightarrow> c \<noteq> CHR 0x5C \<Longrightarrow>
   unquote_one (c # s) = Some ([c], s)"
  by (simp add: unquote_one_def)

lemma of_char_eq_char: "(of_char c :: nat) = n \<Longrightarrow> c = char_of n"
  by auto

text \<open>The escape the encoder writes for an ASCII character reads back as that character.\<close>

lemma unquote_ascii:
  assumes "(of_char c :: nat) < 0x80"
  shows "json_unquote (json_escape (c # cs) @ z) =
         map_option (\<lambda>(y, t). ([c] @ y, t)) (json_unquote (json_escape cs @ z))"
proof -
  obtain e where e: "json_escape (c # cs) = e @ json_escape cs" "e \<noteq> []" "hd e \<noteq> CHR 0x22"
    "unquote_one (e @ json_escape cs @ z) = Some ([c], json_escape cs @ z)"
  proof (cases "(of_char c :: nat) \<in> {0x22, 0x5C, 0x08, 0x0C, 0x0A, 0x0D, 0x09}")
    case True
    then have c: "c \<in> {CHR 0x22, CHR 0x5C, CHR 0x08, CHR 0x0C, CHR 0x0A, CHR 0x0D, CHR 0x09}"
      by (auto dest!: of_char_eq_char simp: char_of_def bit_simps)
    then obtain d where "json_escape (c # cs) = [CHR 0x5C, d] @ json_escape cs" "simple_escape d = Some c"
      by (auto simp: json_escape.simps simple_escape_def)
    then show ?thesis
      using that [of "[CHR 0x5C, d]"] unquote_one_simple [of d c] by simp
  next
    case False
    show ?thesis
    proof (cases "(of_char c :: nat) < 0x20 \<or> (of_char c :: nat) \<in> {0x3C, 0x3E, 0x26}")
      case True
      with False assms have "json_escape (c # cs) = (CHR 0x5C # ''u00'' @ hex_byte c) @ json_escape cs"
        by (auto simp: json_escape.simps Let_def)
      then show ?thesis
        using that [of "CHR 0x5C # ''u00'' @ hex_byte c"] unquote_one_u00 [OF assms] by simp
    next
      case plain: False
      with False assms have "json_escape (c # cs) = [c] @ json_escape cs"
        by (auto simp: json_escape.simps Let_def)
      moreover have "c \<noteq> CHR 0x22" "c \<noteq> CHR 0x5C" using False by auto
      ultimately show ?thesis
        using that [of "[c]"] unquote_one_plain [of c] plain assms by simp
    qed
  qed
  have "json_unquote (e @ json_escape cs @ z) = map_option (\<lambda>(y, t). ([c] @ y, t)) (json_unquote (json_escape cs @ z))"
    using e(2,3) by (intro json_unquote_step [OF e(4)]) simp
  then show ?thesis by (simp add: e(1))
qed

lemma unquote_one_escaped_rune:
  assumes "get_u4 ds = Some (r, [])" "length ds = 4" "\<not> is_surrogate r"
  shows "unquote_one (CHR 0x5C # CHR ''u'' # ds @ s) = Some (encode_rune r, s)"
proof -
  from assms(2) obtain a b c d where ds: "ds = [a, b, c, d]"
    by (auto simp: numeral_eq_Suc length_Suc_conv)
  with assms(1) have "get_u4 (ds @ s) = Some (r, s)" by (auto split: option.splits)
  with assms(3) show ?thesis by (simp add: unquote_one_def escaped_rune_def)
qed

lemma unquote_rune:
  assumes hi: "0x80 \<le> (of_char c :: nat)" and d: "DecodeRune (c # cs) = (r, w)"
    and v: "\<not> (w = 1 \<and> r = RuneError)"
  shows "json_unquote (json_escape (c # cs) @ z) =
         map_option (\<lambda>(y, t). (take w (c # cs) @ y, t)) (json_unquote (json_escape (drop w (c # cs)) @ z))"
proof -
  let ?z = "json_escape (drop w (c # cs)) @ z"
  obtain e where e: "json_escape (c # cs) = e @ json_escape (drop w (c # cs))" "e \<noteq> []" "hd e \<noteq> CHR 0x22"
    "unquote_one (e @ ?z) = Some (take w (c # cs), ?z)"
  proof (cases "r = 0x2028 \<or> r = 0x2029")
    case True
    define ds where "ds = (if r = 0x2028 then ''2028'' else ''2029'')"
    have "json_escape (c # cs) = (CHR 0x5C # CHR ''u'' # ds) @ json_escape (drop w (c # cs))"
      using True hi d v by (auto simp: json_escape.simps Let_def ds_def RuneError_def)
    moreover have "unquote_one (CHR 0x5C # CHR ''u'' # ds @ ?z) = Some (encode_rune r, ?z)"
      using True by (intro unquote_one_escaped_rune)
        (auto simp: ds_def is_surrogate_def hexval_def of_digits_def)
    ultimately show ?thesis
      using that [of "CHR 0x5C # CHR ''u'' # ds"] encode_rune_DecodeRune [OF d _ v] by simp
  next
    case False
    have "json_escape (c # cs) = take w (c # cs) @ json_escape (drop w (c # cs))"
      using False hi d v by (auto simp: json_escape.simps Let_def)
    moreover have w: "0 < w" using DecodeRune_width [of "c # cs"] d by simp
    moreover have "DecodeRune (take w (c # cs) @ ?z) = (r, w)" "w \<le> length (c # cs)"
      using DecodeRune_prefix [OF d _ v] by simp_all
    moreover obtain w' where w': "w = Suc w'" using w by (cases w) auto
    ultimately have "unquote_one (take w (c # cs) @ ?z) = Some (take w (c # cs), ?z)"
      using hi v by (auto simp: unquote_one_def Let_def)
    moreover have "c \<noteq> CHR 0x22" using hi by auto
    ultimately show ?thesis
      using that [of "take w (c # cs)"] \<open>json_escape (c # cs) = _\<close> w' by simp
  qed
  have "json_unquote (e @ ?z) = map_option (\<lambda>(y, t). (take w (c # cs) @ y, t)) (json_unquote ?z)"
    using e(2,3) by (intro json_unquote_step [OF e(4)]) simp
  then show ?thesis by (simp add: e(1))
qed

lemma unquote_escape:
  "valid_utf8 s \<Longrightarrow> json_unquote (json_escape s @ CHR 0x22 # t) = Some (s, t)"
proof (induction s rule: valid_utf8.induct)
  case 1
  show ?case by (simp add: json_unquote_quote)
next
  case (2 c cs)
  obtain r w where d: "DecodeRune (c # cs) = (r, w)" by force
  with "2.prems" have v: "\<not> (w = 1 \<and> r = RuneError)" "valid_utf8 (drop w (c # cs))"
    by (auto simp: valid_utf8.simps)
  then have IH: "json_unquote (json_escape (drop w (c # cs)) @ CHR 0x22 # t) = Some (drop w (c # cs), t)"
    using "2.IH" [OF d [symmetric] refl] by blast
  show ?case
  proof (cases "(of_char c :: nat) < 0x80")
    case True
    with d have "w = 1" using DecodeRune_ascii [of c cs] by simp
    with IH show ?thesis by (simp add: unquote_ascii [OF True])
  next
    case False
    then show ?thesis using unquote_rune [OF _ d v(1)] IH by simp
  qed
qed

subsection \<open>Round trip: tokens\<close>

text \<open>What may follow a value: the end of the input, a blank, a comma or a closing bracket.\<close>

definition delimited :: "string \<Rightarrow> bool" where
  "delimited s \<longleftrightarrow> (case s of [] \<Rightarrow> True | c # _ \<Rightarrow> is_ws c \<or> c = CHR '','' \<or> c = CHR '']'' \<or> c = CHR ''}'')"

lemma delimited_Cons:
  "delimited (c # s) \<longleftrightarrow> is_ws c \<or> c = CHR '','' \<or> c = CHR '']'' \<or> c = CHR ''}''"
  by (simp add: delimited_def)

lemma delimited_Nil [simp]: "delimited []"
  by (simp add: delimited_def)

lemma delimited_ws: "list_all is_ws w \<Longrightarrow> delimited s \<Longrightarrow> delimited (w @ s)"
  by (cases w) (auto simp: delimited_Cons)

lemma delimited_char:
  assumes "delimited (c # s)"
  shows "\<not> is_digit c" "c \<noteq> CHR ''.''" "c \<noteq> CHR ''e''" "c \<noteq> CHR ''E''"
  using assms by (auto simp: delimited_Cons is_ws_def is_digit_def decval_def)

lemma lex_digits_delimited:
  "lex_digits s = Some (d, []) \<Longrightarrow> delimited t \<Longrightarrow> lex_digits (s @ t) = Some (d, t)"
  by (cases t)
    (auto simp: lex_digits_def Let_def takeWhile_append dropWhile_append delimited_char
      takeWhile_eq_all_conv [THEN iffD2] split: if_splits)

lemma lex_exp_delimited:
  "lex_exp s = Some (e, []) \<Longrightarrow> delimited t \<Longrightarrow> lex_exp (s @ t) = Some (e, t)"
  by (cases t)
    (auto simp: lex_exp_def lex_digits_delimited lex_digits_delimited [of "_ # _", simplified]
      delimited_char split: list.splits if_splits)

text \<open>A scan that consumes a prefix of a number is not changed by what is appended after
  a number's last part.\<close>

lemma lex_digits_more:
  "lex_digits s = Some (d, t) \<Longrightarrow> t \<noteq> [] \<Longrightarrow> lex_digits (s @ u) = Some (d, t @ u)"
  by (auto simp: lex_digits_def Let_def takeWhile_append dropWhile_append dropWhile_eq_Nil_conv
      split: if_splits)

lemma lex_digits_then:
  "lex_digits s = Some (d, t) \<Longrightarrow> delimited u \<Longrightarrow> lex_digits (s @ u) = Some (d, t @ u)"
  using lex_digits_more lex_digits_delimited by (cases "t = []") auto

lemma lex_frac_then:
  "lex_frac s = Some (f, t) \<Longrightarrow> delimited u \<Longrightarrow> lex_frac (s @ u) = Some (f, t @ u)"
  by (cases u)
    (auto simp: lex_frac_def lex_digits_then delimited_char split: list.splits if_splits)

lemma lex_int_then:
  "lex_int s = Some (i, t) \<Longrightarrow> delimited u \<Longrightarrow> lex_int (s @ u) = Some (i, t @ u)"
proof -
  assume l: "lex_int s = Some (i, t)" and u: "delimited u"
  then obtain c cs where s: "s = c # cs" by (cases s) (auto simp: lex_int_def)
  show ?thesis
  proof (cases "c = CHR ''0''")
    case True
    with l s show ?thesis by (simp add: lex_int_def)
  next
    case False
    with l s have d: "is_digit c" "lex_digits s = Some (i, t)"
      by (auto simp: lex_int_def lex_digits_def split: if_splits)
    with lex_digits_then [OF d(2) u] s False show ?thesis
      by (auto simp: lex_int_def lex_digits_def Let_def)
  qed
qed

definition number_ok :: "string \<Rightarrow> bool" where
  "number_ok n \<longleftrightarrow> lex_number n = Some (n, [])"

lemma lex_number_delimited:
  assumes "number_ok n" "delimited t"
  shows "lex_number (n @ t) = Some (n, t)"
proof -
  define g where "g s = (case s of c # cs \<Rightarrow> if c = CHR ''-'' then ([c], cs) else ([], s) | [] \<Rightarrow> ([], []))"
    for s :: string
  obtain m s1 where m: "g n = (m, s1)" by force
  then have "n \<noteq> [] \<Longrightarrow> g (n @ t) = (m, s1 @ t)"
    by (cases n) (auto simp: g_def split: if_splits)
  moreover obtain i s2 f s3 e where
    "n = m @ i @ f @ e" "lex_int s1 = Some (i, s2)" "lex_frac s2 = Some (f, s3)" "lex_exp s3 = Some (e, [])"
    using assms(1) m unfolding number_ok_def lex_number_def Let_def g_def [symmetric]
    by (auto split: option.splits)
  moreover from this(2) have "i \<noteq> []" by (simp add: lex_int_append)
  ultimately show ?thesis
    using lex_int_then [OF _ assms(2)] lex_frac_then [OF _ assms(2)] lex_exp_delimited [OF _ assms(2)]
    unfolding lex_number_def Let_def g_def [symmetric] by simp
qed

lemma number_ok_head:
  assumes "number_ok n"
  obtains c cs where "n = c # cs" "c = CHR ''-'' \<or> is_digit c"
  using assms
  by (cases n) (auto simp: number_ok_def lex_number_def lex_int_def is_digit_def decval_def
      split: if_splits option.splits list.splits)

lemma lex1_ws: "list_all is_ws w \<Longrightarrow> lex1 (w @ s) = lex1 s"
  by (simp add: lex1_def dropWhile_append list_all_iff dropWhile_eq_Nil_conv)

lemma lex1_punct:
  "lex1 (CHR ''{'' # s) = Some (LBrace, s)" "lex1 (CHR ''}'' # s) = Some (RBrace, s)"
  "lex1 (CHR ''['' # s) = Some (LBrack, s)" "lex1 (CHR '']'' # s) = Some (RBrack, s)"
  "lex1 (CHR '','' # s) = Some (Comma, s)" "lex1 (CHR '':'' # s) = Some (Colon, s)"
  by (simp_all add: lex1_def is_ws_def)

lemma lex1_words:
  "lex1 (''null'' @ s) = Some (TNull, s)" "lex1 (''true'' @ s) = Some (TBool True, s)"
  "lex1 (''false'' @ s) = Some (TBool False, s)"
  by (simp_all add: lex1_def is_ws_def lex_word_def)

lemma lex1_string: "valid_utf8 x \<Longrightarrow> lex1 (json_string x @ s) = Some (TStr x, s)"
  by (simp add: lex1_def is_ws_def json_string_def unquote_escape)

lemma lex1_number:
  assumes "number_ok n" "delimited s"
  shows "lex1 (n @ s) = Some (TNum n, s)"
proof -
  obtain c cs where n: "n = c # cs" "c = CHR ''-'' \<or> is_digit c"
    using assms(1) by (rule number_ok_head)
  then have "\<not> is_ws c" "c \<notin> set ''{}[],:ntf''" "c \<noteq> CHR 0x22"
    by (auto simp: is_ws_def is_digit_def decval_def split: if_splits)
  with lex_number_delimited [OF assms] n show ?thesis by (simp add: lex1_def)
qed

subsection \<open>Round trip: values\<close>

fun json_ok :: "json \<Rightarrow> bool"
  and json_ok_elems :: "json list \<Rightarrow> bool"
  and json_ok_members :: "(string \<times> json) list \<Rightarrow> bool" where
  "json_ok (JNum n) = number_ok n"
| "json_ok (JStr s) = valid_utf8 s"
| "json_ok (JArr vs) = json_ok_elems vs"
| "json_ok (JObj ms) = json_ok_members ms"
| "json_ok _ = True"
| "json_ok_elems [] = True"
| "json_ok_elems (v # vs) = (json_ok v \<and> json_ok_elems vs)"
| "json_ok_members [] = True"
| "json_ok_members ((k, v) # ms) = (valid_utf8 k \<and> json_ok v \<and> json_ok_members ms)"

fun json_depth :: "json \<Rightarrow> nat"
  and depth_elems :: "json list \<Rightarrow> nat"
  and depth_members :: "(string \<times> json) list \<Rightarrow> nat" where
  "json_depth (JArr vs) = Suc (depth_elems vs)"
| "json_depth (JObj ms) = Suc (depth_members ms)"
| "json_depth _ = 0"
| "depth_elems [] = 0"
| "depth_elems (v # vs) = max (json_depth v) (depth_elems vs)"
| "depth_members [] = 0"
| "depth_members ((k, v) # ms) = max (json_depth v) (depth_members ms)"

definition blank_layout :: "layout \<Rightarrow> bool" where
  "blank_layout L \<longleftrightarrow> (\<forall>d. list_all is_ws (brk L d)) \<and> list_all is_ws (gap L)"

lemma blank_layouts: "blank_layout compact" "blank_layout indent2"
  by (simp_all add: blank_layout_def compact_def indent2_def newline_def is_ws_def list_all_iff)

definition resume :: "outcome \<Rightarrow> string \<Rightarrow> (json \<times> string) option" where
  "resume out s = (case out of Fail \<Rightarrow> None | Done v \<Rightarrow> Some (v, s) | Cont stk m \<Rightarrow> json_run stk m s)"

lemma resume_simps [simp]:
  "resume Fail s = None" "resume (Done v) s = Some (v, s)" "resume (Cont stk m) s = json_run stk m s"
  by (simp_all add: resume_def)

lemma json_run_lex: "lex1 s = Some (t, s') \<Longrightarrow> json_run stk m s = resume (json_step stk m t) s'"
  by (subst json_run.simps) (simp add: resume_def)

lemma json_run_ws: "list_all is_ws w \<Longrightarrow> json_run stk m (w @ s) = json_run stk m s"
  by (subst (1 2) json_run.simps) (simp add: lex1_ws)

lemma push_ok: "length stk < maxNestingDepth \<Longrightarrow> push f m stk = Cont (f # stk) m"
  by (simp add: push_def)

lemma value_modes: "m = MVal \<or> m = MValOrEnd \<Longrightarrow> t \<noteq> RBrack \<Longrightarrow> json_step stk m t = begin_value stk t"
  by auto

lemma key_modes: "m = MKey \<or> m = MKeyOrEnd \<Longrightarrow> json_step stk m (TStr k) = Cont stk (MColon k)"
  by auto

text \<open>The steps at the brackets and separators that the encoder writes.\<close>

lemma json_run_open:
  assumes "length stk < maxNestingDepth" "m = MVal \<or> m = MValOrEnd"
  shows "json_run stk m (CHR ''['' # s) = json_run (FArr [] # stk) MValOrEnd s"
    "json_run stk m (CHR ''{'' # s) = json_run (FObj [] # stk) MKeyOrEnd s"
  using assms by (auto simp: json_run_lex [OF lex1_punct(1)] json_run_lex [OF lex1_punct(3)] push_ok)

lemma json_run_close:
  "json_run (FArr vs # stk) MAfter (CHR '']'' # s) = resume (complete stk (JArr vs)) s"
  "json_run (FArr vs # stk) MValOrEnd (CHR '']'' # s) = resume (complete stk (JArr vs)) s"
  "json_run (FObj ms # stk) MAfter (CHR ''}'' # s) = resume (complete stk (JObj ms)) s"
  "json_run (FObj ms # stk) MKeyOrEnd (CHR ''}'' # s) = resume (complete stk (JObj ms)) s"
  by (simp_all add: json_run_lex [OF lex1_punct(2)] json_run_lex [OF lex1_punct(4)])

lemma json_run_comma:
  "json_run (FArr vs # stk) MAfter (CHR '','' # s) = json_run (FArr vs # stk) MVal s"
  "json_run (FObj ms # stk) MAfter (CHR '','' # s) = json_run (FObj ms # stk) MKey s"
  by (simp_all add: json_run_lex [OF lex1_punct(5)])

lemma json_run_key:
  assumes "valid_utf8 k" "m = MKey \<or> m = MKeyOrEnd"
  shows "json_run (FObj ms # stk) m (json_string k @ CHR '':'' # s) = json_run (FObjV ms k # stk) MVal s"
  using assms by (auto simp: json_run_lex [OF lex1_string] json_run_lex [OF lex1_punct(6)])

lemmas json_run_punct = json_run_open json_run_close json_run_comma json_run_key json_run_ws

lemma blank_layout_ws: "blank_layout L \<Longrightarrow> list_all is_ws (brk L d)" "blank_layout L \<Longrightarrow> list_all is_ws (gap L)"
  by (simp_all add: blank_layout_def)

lemma delimited_close:
  "blank_layout L \<Longrightarrow> delimited (brk L d @ CHR '']'' # s)"
  "blank_layout L \<Longrightarrow> delimited (brk L d @ CHR ''}'' # s)"
  by (simp_all add: delimited_ws blank_layout_ws delimited_Cons)

text \<open>The machine reads back a value, the elements of an array and the members of an object.\<close>

lemma json_run_encode:
  "blank_layout L \<Longrightarrow> json_ok v \<Longrightarrow> length stk + json_depth v \<le> maxNestingDepth \<Longrightarrow> delimited s \<Longrightarrow>
     m = MVal \<or> m = MValOrEnd \<Longrightarrow>
     json_run stk m (encode L d v @ s) = resume (complete stk v) s"
  "blank_layout L \<Longrightarrow> json_ok_elems vs \<Longrightarrow> Suc (length stk) + depth_elems vs \<le> maxNestingDepth \<Longrightarrow> delimited s \<Longrightarrow>
     m = MVal \<or> m = MValOrEnd \<Longrightarrow> vs \<noteq> [] \<Longrightarrow>
     json_run (FArr us # stk) m (encode_elems L d vs @ s) = json_run (FArr (us @ vs) # stk) MAfter s"
  "blank_layout L \<Longrightarrow> json_ok_members ms \<Longrightarrow> Suc (length stk) + depth_members ms \<le> maxNestingDepth \<Longrightarrow> delimited s \<Longrightarrow>
     m' = MKey \<or> m' = MKeyOrEnd \<Longrightarrow> ms \<noteq> [] \<Longrightarrow>
     json_run (FObj ks # stk) m' (encode_members L d ms @ s) = json_run (FObj (ks @ ms) # stk) MAfter s"
proof (induction L d v and L d vs and L d ms arbitrary: stk s m and stk s m us and stk s m' ks
    rule: encode_encode_elems_encode_members.induct)
  case (1 L d)
  then show ?case by (auto simp only: encode.simps json_run_lex [OF lex1_words(1)] value_modes) simp_all
next
  case (2 L d b)
  then show ?case
    by (cases b)
      (auto simp only: encode.simps if_True if_False json_run_lex [OF lex1_words(2)]
        json_run_lex [OF lex1_words(3)] value_modes, simp_all)
next
  case (3 L d n)
  then have "lex1 (n @ s) = Some (TNum n, s)" by (simp add: lex1_number)
  with 3 show ?case by (simp add: json_run_lex value_modes)
next
  case (4 L d x)
  then have "lex1 (json_string x @ s) = Some (TStr x, s)" by (simp add: lex1_string)
  with 4 show ?case by (simp add: json_run_lex value_modes)
next
  case (5 L d vs)
  then have l: "length stk < maxNestingDepth" by simp
  note o = json_run_open(1) [OF l "5.prems"(5)]
  show ?case
  proof (cases "vs = []")
    case True
    then show ?thesis by (simp add: o json_run_close)
  next
    case False
    with "5.IH" [of stk "brk L d @ CHR '']'' # s" MValOrEnd "[]"] "5.prems" show ?thesis
      by (simp add: o delimited_close json_run_ws blank_layout_ws json_run_close)
  qed
next
  case (6 L d ms)
  then have l: "length stk < maxNestingDepth" by simp
  note o = json_run_open(2) [OF l "6.prems"(5)]
  show ?case
  proof (cases "ms = []")
    case True
    then show ?thesis by (simp add: o json_run_close)
  next
    case False
    with "6.IH" [of stk "brk L d @ CHR ''}'' # s" MKeyOrEnd "[]"] "6.prems" show ?thesis
      by (simp add: o delimited_close json_run_ws blank_layout_ws json_run_close)
  qed
next
  case (8 L d v vs)
  show ?case
  proof (cases "vs = []")
    case True
    with "8.IH"(1) [of "FArr us # stk" s m] "8.prems" show ?thesis by simp
  next
    case False
    let ?s = "CHR '','' # brk L d @ encode_elems L d vs @ s"
    have "json_run (FArr us # stk) m (encode L d v @ ?s) = json_run (FArr (us @ [v]) # stk) MAfter ?s"
      using "8.IH"(1) [of "FArr us # stk" ?s m] "8.prems" by (simp add: delimited_Cons)
    moreover have "json_run (FArr (us @ [v]) # stk) MVal (encode_elems L d vs @ s) =
        json_run (FArr ((us @ [v]) @ vs) # stk) MAfter s"
      using "8.prems" False by (intro "8.IH"(2)) auto
    ultimately show ?thesis
      using False "8.prems"(1) by (simp add: json_run_comma json_run_ws blank_layout_ws)
  qed
next
  case (10 L d k v ms)
  let ?r = "if ms = [] then s else CHR '','' # brk L d @ encode_members L d ms @ s"
  have "json_run (FObj ks # stk) m' (encode_members L d ((k, v) # ms) @ s) =
      json_run (FObjV ks k # stk) MVal (encode L d v @ ?r)"
    using "10.prems" by (simp add: json_run_key json_run_ws blank_layout_ws)
  also have "\<dots> = json_run (FObj (ks @ [(k, v)]) # stk) MAfter ?r"
    using "10.IH"(1) [of "FObjV ks k # stk" ?r MVal] "10.prems" by (simp add: delimited_Cons)
  also have "\<dots> = json_run (FObj (ks @ (k, v) # ms) # stk) MAfter s"
  proof (cases "ms = []")
    case False
    have "json_run (FObj (ks @ [(k, v)]) # stk) MKey (encode_members L d ms @ s) =
        json_run (FObj ((ks @ [(k, v)]) @ ms) # stk) MAfter s"
      using "10.prems" False by (intro "10.IH"(2)) auto
    with False "10.prems"(1) show ?thesis
      by (simp add: json_run_comma json_run_ws blank_layout_ws)
  qed simp
  finally show ?case .
qed simp_all

lemma decode_first_encode:
  "blank_layout L \<Longrightarrow> json_ok v \<Longrightarrow> json_depth v \<le> maxNestingDepth \<Longrightarrow> delimited s \<Longrightarrow>
   decode_first (encode L 0 v @ s) = Some (v, s)"
  by (simp add: decode_first_def json_run_encode(1) [where stk = "[]" and m = MVal])

lemma Unmarshal_encode:
  assumes "blank_layout L" "json_ok v" "json_depth v \<le> maxNestingDepth" "list_all is_ws s"
  shows "Unmarshal (encode L 0 v @ s) = Some v"
proof -
  have "delimited s" using delimited_ws [OF assms(4), of "[]"] by simp
  with assms show ?thesis by (simp add: Unmarshal_def decode_first_encode)
qed

lemma Unmarshal_Marshal:
  "json_ok v \<Longrightarrow> json_depth v \<le> maxNestingDepth \<Longrightarrow> Unmarshal (Marshal v) = Some v"
  using Unmarshal_encode [of compact v "[]"] by (simp add: Marshal_def blank_layouts)

lemma Unmarshal_MarshalIndent:
  "json_ok v \<Longrightarrow> json_depth v \<le> maxNestingDepth \<Longrightarrow> list_all is_ws s \<Longrightarrow>
   Unmarshal (MarshalIndent v @ s) = Some v"
  by (simp add: Unmarshal_encode MarshalIndent_def blank_layouts)

end
