(* ===== verification/Decode.thy ===== *)
theory Decode
  imports JSON
begin

section \<open>Decoding JSON objects into Go structs\<close>

text \<open>
  What \<^verbatim>\<open>encoding/json\<close> does with a struct: members are stored in the order of the text, a key
  selects the field whose name it equals, else the field whose name it equals up to case
  folding; members without a field are skipped, or refused after \<^verbatim>\<open>DisallowUnknownFields\<close>;
  null leaves a struct or a string field as it is. Every error of the package makes all
  callers drop the value, so an error is \<^const>\<open>None\<close>.
\<close>

type_synonym 's field = "string \<times> ('s \<Rightarrow> json \<Rightarrow> 's option)"

definition field_for :: "'s field list \<Rightarrow> string \<Rightarrow> 's field option" where
  "field_for fs k =
     (case find (\<lambda>f. fst f = k) fs of
        Some f \<Rightarrow> Some f
      | None \<Rightarrow> find (\<lambda>f. EqualFold k (fst f)) fs)"

fun store_members :: "bool \<Rightarrow> 's field list \<Rightarrow> 's \<Rightarrow> (string \<times> json) list \<Rightarrow> 's option" where
  "store_members strict fs s [] = Some s"
| "store_members strict fs s ((k, v) # ms) =
     (case field_for fs k of
        None \<Rightarrow> if strict then None else store_members strict fs s ms
      | Some (_, store) \<Rightarrow>
          (case store s v of None \<Rightarrow> None | Some s' \<Rightarrow> store_members strict fs s' ms))"

definition decode_struct :: "bool \<Rightarrow> 's field list \<Rightarrow> 's \<Rightarrow> json \<Rightarrow> 's option" where
  "decode_struct strict fs s v =
     (case v of
        JNull \<Rightarrow> Some s
      | JObj ms \<Rightarrow> store_members strict fs s ms
      | _ \<Rightarrow> None)"

text \<open>A string field, and a field whose type brings its own \<^verbatim>\<open>UnmarshalJSON\<close> that takes strings only.\<close>

definition string_field :: "(string \<Rightarrow> 's \<Rightarrow> 's) \<Rightarrow> 's \<Rightarrow> json \<Rightarrow> 's option" where
  "string_field upd s v = (case v of JNull \<Rightarrow> Some s | JStr x \<Rightarrow> Some (upd x s) | _ \<Rightarrow> None)"

definition text_field :: "(string \<Rightarrow> 'a option) \<Rightarrow> ('a \<Rightarrow> 's \<Rightarrow> 's) \<Rightarrow> 's \<Rightarrow> json \<Rightarrow> 's option" where
  "text_field parse upd s v = (case v of JStr x \<Rightarrow> map_option (\<lambda>a. upd a s) (parse x) | _ \<Rightarrow> None)"

text \<open>A slice of structs: each element starts from the zero struct.\<close>

fun decode_elems :: "bool \<Rightarrow> 's field list \<Rightarrow> 's \<Rightarrow> json list \<Rightarrow> 's list option" where
  "decode_elems strict fs z [] = Some []"
| "decode_elems strict fs z (v # vs) =
     (case decode_struct strict fs z v of
        None \<Rightarrow> None
      | Some s \<Rightarrow> map_option ((#) s) (decode_elems strict fs z vs))"

definition decode_slice :: "bool \<Rightarrow> 's field list \<Rightarrow> 's \<Rightarrow> json \<Rightarrow> 's list option" where
  "decode_slice strict fs z v =
     (case v of
        JNull \<Rightarrow> Some []
      | JArr vs \<Rightarrow> decode_elems strict fs z vs
      | _ \<Rightarrow> None)"

lemma field_for_exact:
  "distinct (map fst fs) \<Longrightarrow> (k, store) \<in> set fs \<Longrightarrow> field_for fs k = Some (k, store)"
proof -
  assume d: "distinct (map fst fs)" and m: "(k, store) \<in> set fs"
  then have "find (\<lambda>f. fst f = k) fs = Some (k, store)"
    by (induction fs) (auto simp: image_iff split: if_splits)
  then show ?thesis by (simp add: field_for_def)
qed

end
