(* ===== verification/Support.thy ===== *)
theory Support
  imports Decode
begin

section \<open>Shared setup of the tools (tools/pkg/configs, tools/pkg/support)\<close>

text \<open>
  The deployed addresses and their two file formats (an object of addresses, or a list of named
  contracts), the deployer key, and \<open>NewSupport\<close>/\<open>DefaultSupport\<close>, which bind every TEE facet to
  the FlareTeeManager proxy. A contract binding is the name of the generated package and the
  address it is bound to. Dialling, the ABI of the bindings, the .env loader and the chain behind an
  address are parameters (\<open>node\<close>).
\<close>

subsection \<open>Configuration constants\<close>

definition ExtensionProxyURL :: string where "ExtensionProxyURL = ''http://localhost:6664''"
definition ChainNodeURL :: string where "ChainNodeURL = ''http://127.0.0.1:8545''"
definition AddressesFile :: string where "AddressesFile = ''../docker/sim_dump/deployed-addresses.json''"

definition prv_with_funds_hex :: string where
  "prv_with_funds_hex = ''804b01a8c27a65cc694a867be76edae3ccce7a7161cda1f67a8349df696d2207''"

text \<open>The package initialiser panics when the key does not parse.\<close>

definition PrvWithFunds :: "ext \<Rightarrow> privkey result" where
  "PrvWithFunds E =
     (case HexToECDSA E prv_with_funds_hex of
        Err _ \<Rightarrow> Err (Panic ''cannot read privateKey with funds'')
      | Ok k \<Rightarrow> Ok k)"

subsection \<open>Deployed addresses\<close>

record Addresses =
  aFlareSystemManager :: address
  aFdc2Hub :: address
  aFlareTeeManager :: address

definition no_Addresses :: Addresses where
  "no_Addresses = \<lparr>aFlareSystemManager = 0, aFdc2Hub = 0, aFlareTeeManager = 0\<rparr>"

text \<open>The fields by their JSON tags; \<^verbatim>\<open>fieldMap\<close> computes the same table by reflection.\<close>

definition fieldMap :: "(string \<times> (address \<Rightarrow> Addresses \<Rightarrow> Addresses)) list" where
  "fieldMap =
     [(''FlareSystemsManager'', \<lambda>a s. s\<lparr>aFlareSystemManager := a\<rparr>),
      (''Fdc2Hub'', \<lambda>a s. s\<lparr>aFdc2Hub := a\<rparr>),
      (''FlareTeeManager'', \<lambda>a s. s\<lparr>aFlareTeeManager := a\<rparr>)]"

definition Addresses_fields :: "ext \<Rightarrow> Addresses field list" where
  "Addresses_fields E = map (\<lambda>(k, upd). (k, text_field (AddressUnmarshal E) upd)) fieldMap"

definition ReadAddresses :: "ext \<Rightarrow> (string \<Rightarrow> bytes result) \<Rightarrow> string \<Rightarrow> Addresses result" where
  "ReadAddresses E ReadFile path =
     (case ReadFile path of
        Err err \<Rightarrow> Err err
      | Ok file \<Rightarrow>
          (case Option.bind (Unmarshal file) (decode_struct False (Addresses_fields E) no_Addresses) of
             None \<Rightarrow> Err (ErrText (JSONError E file))
           | Some a \<Rightarrow> Ok a))"

record RawContract =
  rName :: string
  rContractName :: string
  rAddress :: string

definition RawContract_fields :: "RawContract field list" where
  "RawContract_fields =
     [(''name'', string_field (\<lambda>x s. s\<lparr>rName := x\<rparr>)),
      (''contractName'', string_field (\<lambda>x s. s\<lparr>rContractName := x\<rparr>)),
      (''address'', string_field (\<lambda>x s. s\<lparr>rAddress := x\<rparr>))]"

definition no_RawContract :: RawContract where
  "no_RawContract = \<lparr>rName = [], rContractName = [], rAddress = []\<rparr>"

fun fill_targets :: "ext \<Rightarrow> Addresses \<Rightarrow> RawContract list \<Rightarrow> Addresses" where
  "fill_targets E addrs [] = addrs"
| "fill_targets E addrs (c # cs) =
     (case map_of fieldMap (rName c) of
        Some dest \<Rightarrow> fill_targets E (dest (HexToAddress E (rAddress c)) addrs) cs
      | None \<Rightarrow> fill_targets E addrs cs)"

definition ParseAddresses :: "ext \<Rightarrow> (string \<Rightarrow> bytes result) \<Rightarrow> string \<Rightarrow> Addresses result" where
  "ParseAddresses E ReadFile path =
     (case ReadFile path of
        Err err \<Rightarrow> Err err
      | Ok file \<Rightarrow>
          (case Option.bind (Unmarshal file) (decode_slice False RawContract_fields no_RawContract) of
             None \<Rightarrow> Err (ErrText (JSONError E file))
           | Some raw \<Rightarrow> Ok (fill_targets E no_Addresses raw)))"

subsection \<open>Keys, bindings and the support value\<close>

text \<open>\<^verbatim>\<open>privKeyString[2:]\<close> after either prefix.\<close>

definition strip_key_prefix :: "string \<Rightarrow> string" where
  "strip_key_prefix s = (if HasPrefix s ''0x'' \<or> HasPrefix s ''0X'' then drop 2 s else s)"

text \<open>The host is the one after \<^verbatim>\<open>godotenv.Load\<close>.\<close>

definition DefaultPrivateKey :: "ext \<Rightarrow> host \<Rightarrow> privkey result" where
  "DefaultPrivateKey E H =
     (let privKeyString = Getenv H ''DEPLOYMENT_PRIVATE_KEY'' in
      if privKeyString = [] then PrvWithFunds E
      else case HexToECDSA E (strip_key_prefix privKeyString) of
             Err err \<Rightarrow> Err (ErrText (Error err))
           | Ok k \<Rightarrow> Ok k)"

type_synonym binding = "string \<times> address"

record Support =
  Prv :: privkey
  FlareSystemManager :: binding
  Fdc2Hub :: binding
  TeeMachineRegistry :: binding
  TeeWalletProjectManager :: binding
  TeeWalletManager :: binding
  TeeWalletKeyManager :: binding
  TeeVerification :: binding
  TeeExtensionRegistry :: binding
  TeeExtensionGovernance :: binding
  TeeOwnerAllowlist :: binding
  sAddresses :: Addresses
  ChainClient :: client
  sChainID :: int

record node =
  Dial :: "string \<Rightarrow> client result"
  ReadFile :: "string \<Rightarrow> bytes result"
  BindError :: "string \<Rightarrow> address \<Rightarrow> goerror option"
  Dotenv :: "host \<Rightarrow> host"
  RegistryAt :: "address \<Rightarrow> registry"
  AllowlistAt :: "address \<Rightarrow> allowlist"

text \<open>The constructors that \<^verbatim>\<open>NewSupport\<close> calls, in its order.\<close>

definition support_bindings :: "Addresses \<Rightarrow> binding list" where
  "support_bindings a =
     (let diamond = aFlareTeeManager a in
      [(''MachineManager'', diamond), (''WalletManager'', diamond), (''WalletKeyManager'', diamond),
       (''WalletProjectManager'', diamond), (''FlareSystemsManager'', aFlareSystemManager a),
       (''Fdc2Hub'', aFdc2Hub a), (''Verification'', diamond), (''ExtensionManager'', diamond),
       (''OwnerAllowlist'', diamond), (''ExtensionGovernance'', diamond)])"

fun bind_all :: "node \<Rightarrow> binding list \<Rightarrow> goerror option" where
  "bind_all N [] = None"
| "bind_all N ((name, a) # bs) = (case BindError N name a of Some err \<Rightarrow> Some err | None \<Rightarrow> bind_all N bs)"

definition NewSupport :: "node \<Rightarrow> privkey \<Rightarrow> client \<Rightarrow> Addresses \<Rightarrow> Support result" where
  "NewSupport N prv chainClient addresses =
     (case bind_all N (support_bindings addresses) of
        Some err \<Rightarrow> Err err
      | None \<Rightarrow>
          (case ChainID chainClient of
             Err err \<Rightarrow> Err err
           | Ok cid \<Rightarrow>
               (let diamond = aFlareTeeManager addresses in
                Ok \<lparr>Prv = prv,
                    FlareSystemManager = (''FlareSystemsManager'', aFlareSystemManager addresses),
                    Fdc2Hub = (''Fdc2Hub'', aFdc2Hub addresses),
                    TeeMachineRegistry = (''MachineManager'', diamond),
                    TeeWalletProjectManager = (''WalletProjectManager'', diamond),
                    TeeWalletManager = (''WalletManager'', diamond),
                    TeeWalletKeyManager = (''WalletKeyManager'', diamond),
                    TeeVerification = (''Verification'', diamond),
                    TeeExtensionRegistry = (''ExtensionManager'', diamond),
                    TeeExtensionGovernance = (''ExtensionGovernance'', diamond),
                    TeeOwnerAllowlist = (''OwnerAllowlist'', diamond),
                    sAddresses = addresses, ChainClient = chainClient, sChainID = cid\<rparr>)))"

text \<open>The addresses, from whichever of the two formats the file has.\<close>

definition support_addresses :: "ext \<Rightarrow> node \<Rightarrow> string \<Rightarrow> Addresses result" where
  "support_addresses E N path =
     (case ReadAddresses E (ReadFile N) path of
        Ok addr \<Rightarrow> Ok addr
      | Err _ \<Rightarrow>
          (case ParseAddresses E (ReadFile N) path of
             Ok addr \<Rightarrow> Ok addr
           | Err err \<Rightarrow> Err (ErrText (Error err))))"

definition DefaultSupport :: "ext \<Rightarrow> node \<Rightarrow> host \<Rightarrow> string \<Rightarrow> string \<Rightarrow> Support result" where
  "DefaultSupport E N H AddressesFilePath chainNodeURL =
     (case support_addresses E N AddressesFilePath of
        Err err \<Rightarrow> Err err
      | Ok addr \<Rightarrow>
          (case Dial N chainNodeURL of
             Err err \<Rightarrow> Err (ErrText (Error err))
           | Ok cc \<Rightarrow>
               (case DefaultPrivateKey E (Dotenv N H) of
                  Err err \<Rightarrow> Err err
                | Ok privKey \<Rightarrow> NewSupport N privKey cc addr)))"

subsection \<open>The two address files\<close>

definition address_object :: "string \<Rightarrow> string \<Rightarrow> string \<Rightarrow> json" where
  "address_object x y z =
     JObj [(''FlareSystemsManager'', JStr x), (''Fdc2Hub'', JStr y), (''FlareTeeManager'', JStr z)]"

text \<open>An entry of the list: the name of the contract, the file that declares it (such as FlareSystemsManager.sol) and its address.\<close>

definition address_list :: "(string \<times> string \<times> string) list \<Rightarrow> json" where
  "address_list cs =
     JArr (map (\<lambda>(n, f, a). JObj [(''name'', JStr n), (''contractName'', JStr f), (''address'', JStr a)]) cs)"

definition named_address :: "(string \<times> string \<times> string) list \<Rightarrow> string \<Rightarrow> string option" where
  "named_address cs name = map_of (rev (map (\<lambda>(n, f, a). (n, a)) cs)) name"

lemma decode_address_object:
  assumes "AddressUnmarshal E x = Some a" "AddressUnmarshal E y = Some b" "AddressUnmarshal E z = Some c"
  shows "decode_struct False (Addresses_fields E) no_Addresses (address_object x y z) =
    Some \<lparr>aFlareSystemManager = a, aFdc2Hub = b, aFlareTeeManager = c\<rparr>"
  using assms
  by (simp add: decode_struct_def address_object_def Addresses_fields_def fieldMap_def field_for_def
      text_field_def no_Addresses_def)

lemma decode_address_list:
  "decode_slice False RawContract_fields no_RawContract (address_list cs) =
     Some (map (\<lambda>(n, f, a). \<lparr>rName = n, rContractName = f, rAddress = a\<rparr>) cs)"
proof -
  have "decode_elems False RawContract_fields no_RawContract
      (map (\<lambda>(n, f, a). JObj [(''name'', JStr n), (''contractName'', JStr f), (''address'', JStr a)]) cs) =
      Some (map (\<lambda>(n, f, a). \<lparr>rName = n, rContractName = f, rAddress = a\<rparr>) cs)"
    by (induction cs)
      (auto simp: decode_struct_def RawContract_fields_def field_for_def string_field_def no_RawContract_def)
  then show ?thesis by (simp add: decode_slice_def address_list_def)
qed

text \<open>The last entry of the list with a name decides.\<close>

lemma fill_targets_last:
  "fill_targets E s (map (\<lambda>(n, f, a). \<lparr>rName = n, rContractName = f, rAddress = a\<rparr>) cs) =
     \<lparr>aFlareSystemManager =
        case_option (aFlareSystemManager s) (HexToAddress E) (named_address cs ''FlareSystemsManager''),
      aFdc2Hub = case_option (aFdc2Hub s) (HexToAddress E) (named_address cs ''Fdc2Hub''),
      aFlareTeeManager =
        case_option (aFlareTeeManager s) (HexToAddress E) (named_address cs ''FlareTeeManager'')\<rparr>"
  by (induction cs arbitrary: s)
     (auto simp: named_address_def fieldMap_def map_add_def split: option.splits)

lemma json_ok_address_list:
  "list_all (\<lambda>(n, f, a). valid_utf8 n \<and> valid_utf8 f \<and> valid_utf8 a) cs \<Longrightarrow>
   json_ok (address_list cs) \<and> json_depth (address_list cs) \<le> 2"
proof -
  assume "list_all (\<lambda>(n, f, a). valid_utf8 n \<and> valid_utf8 f \<and> valid_utf8 a) cs"
  moreover have "valid_utf8 ''name''" "valid_utf8 ''contractName''" "valid_utf8 ''address''"
    by (rule valid_utf8_ascii; simp)+
  ultimately show ?thesis unfolding address_list_def by (induction cs) auto
qed

text \<open>C35: The tools accept both formats of the deployed-addresses file and read the same addresses from
  both: the list of contracts, of which each entry has a name, the file that declares it and an
  address (the last entry of a name counts, whatever the file is called), and the object of
  addresses that carries the same three strings.\<close>

theorem address_file_formats_agree:
  assumes "ReadFile N p = Ok (MarshalIndent (address_object x y z))"
    and "ReadFile N q = Ok (MarshalIndent (address_list cs))"
    and "named_address cs ''FlareSystemsManager'' = Some x" "named_address cs ''Fdc2Hub'' = Some y"
      "named_address cs ''FlareTeeManager'' = Some z"
    and "list_all (\<lambda>(n, f, a). valid_utf8 n \<and> valid_utf8 f \<and> valid_utf8 a) cs"
    and "list_all (\<lambda>s. AddressUnmarshal E s = Some (HexToAddress E s)) [x, y, z]"
  shows "support_addresses E N p =
           Ok \<lparr>aFlareSystemManager = HexToAddress E x, aFdc2Hub = HexToAddress E y,
               aFlareTeeManager = HexToAddress E z\<rparr> \<and>
         support_addresses E N q = support_addresses E N p"
proof -
  have "s \<in> {x, y, z} \<Longrightarrow> valid_utf8 s" for s
    using assms(3-6) by (auto simp: named_address_def list_all_iff dest!: map_of_SomeD)
  moreover have "valid_utf8 ''FlareSystemsManager''" "valid_utf8 ''Fdc2Hub''" "valid_utf8 ''FlareTeeManager''"
    by (rule valid_utf8_ascii; simp)+
  ultimately have "Unmarshal (MarshalIndent (address_object x y z)) = Some (address_object x y z)"
    using Unmarshal_MarshalIndent [of "address_object x y z" "[]"]
    by (simp add: address_object_def maxNestingDepth_def)
  then have p: "support_addresses E N p =
      Ok \<lparr>aFlareSystemManager = HexToAddress E x, aFdc2Hub = HexToAddress E y,
          aFlareTeeManager = HexToAddress E z\<rparr>"
    using assms(1,7) by (simp add: support_addresses_def ReadAddresses_def decode_address_object)
  have "Unmarshal (MarshalIndent (address_list cs)) = Some (address_list cs)"
    using json_ok_address_list [OF assms(6)] Unmarshal_MarshalIndent [of "address_list cs" "[]"]
    by (simp add: maxNestingDepth_def)
  moreover have "decode_struct False (Addresses_fields E) no_Addresses (address_list cs) = None"
    by (simp add: decode_struct_def address_list_def)
  ultimately have "support_addresses E N q = Ok (fill_targets E no_Addresses
      (map (\<lambda>(n, f, a). \<lparr>rName = n, rContractName = f, rAddress = a\<rparr>) cs))"
    using assms(2) by (simp add: support_addresses_def ReadAddresses_def ParseAddresses_def decode_address_list)
  with p show ?thesis using assms(3-5) by (simp add: fill_targets_last)
qed

definition demo_node :: "json \<Rightarrow> json \<Rightarrow> node" where
  "demo_node v w =
     \<lparr>Dial = (\<lambda>_. Ok demo_client), ReadFile = (\<lambda>f. Ok (MarshalIndent (if f = ''p'' then v else w))),
      BindError = (\<lambda>_ _. None), Dotenv = id,
      RegistryAt = (\<lambda>_. \<lparr>NextPublicExtensionId = Ok 1, GetTeeExtensionInstructionsSender = (\<lambda>_. Ok 0),
        IsKeyTypeSupported = (\<lambda>_ _. Ok True)\<rparr>),
      AllowlistAt = (\<lambda>_. \<lparr>IsAllowedTeeMachineOwner = (\<lambda>_ _. Ok True)\<rparr>)\<rparr>"

definition demo_deployed :: "(string \<times> string \<times> string) list" where
  "demo_deployed =
     [(''Fdc2Hub'', ''Fdc2Hub.sol'', ''old''), (''FlareSystemsManager'', ''FlareSystemsManager.sol'', ''a''),
      (''Fdc2Hub'', ''Fdc2Hub.sol'', ''bb''), (''FlareTeeManager'', ''FlareTeeManager.sol'', ''ccc'')]"

theorem address_file_formats_agree_witness:
  "support_addresses demo_ext (demo_node (address_object ''a'' ''bb'' ''ccc'') (address_list demo_deployed)) ''q'' =
   Ok \<lparr>aFlareSystemManager = 1, aFdc2Hub = 2, aFlareTeeManager = 3\<rparr>"
  using address_file_formats_agree [where E = demo_ext and p = "''p''" and q = "''q''" and x = "''a''"
      and y = "''bb''" and z = "''ccc''" and N = "demo_node (address_object ''a'' ''bb'' ''ccc'') (address_list demo_deployed)"
      and cs = demo_deployed]
  by (simp add: demo_node_def demo_ext_def named_address_def demo_deployed_def valid_utf8_ascii)

definition demo_setup :: node where
  "demo_setup = demo_node (address_object ''a'' ''bb'' ''ccc'') JNull"

lemma demo_support_ext:
  assumes "AddressUnmarshal E = AddressUnmarshal demo_ext" "HexToECDSA E = HexToECDSA demo_ext"
  shows "\<exists>s. DefaultSupport E demo_setup (demo_host ''e'' None) ''p'' url = Ok s \<and>
     aFlareTeeManager (sAddresses s) = 3 \<and> ChainClient s = demo_client \<and> Prv s = 64"
proof -
  have "json_ok (address_object ''a'' ''bb'' ''ccc'')"
    unfolding address_object_def by (simp add: valid_utf8_ascii)
  then have "Unmarshal (MarshalIndent (address_object ''a'' ''bb'' ''ccc'')) = Some (address_object ''a'' ''bb'' ''ccc'')"
    using Unmarshal_MarshalIndent [of "address_object ''a'' ''bb'' ''ccc''" "[]"]
    by (simp add: address_object_def maxNestingDepth_def)
  moreover have "decode_struct False (Addresses_fields E) no_Addresses (address_object ''a'' ''bb'' ''ccc'') =
      Some \<lparr>aFlareSystemManager = 1, aFdc2Hub = 2, aFlareTeeManager = 3\<rparr>"
    by (rule decode_address_object) (simp_all add: assms(1) demo_ext_def)
  ultimately have "support_addresses E demo_setup ''p'' =
      Ok \<lparr>aFlareSystemManager = 1, aFdc2Hub = 2, aFlareTeeManager = 3\<rparr>"
    by (simp add: support_addresses_def ReadAddresses_def demo_setup_def demo_node_def)
  then show ?thesis
    using assms(2)
    by (simp add: DefaultSupport_def demo_setup_def demo_node_def DefaultPrivateKey_def PrvWithFunds_def
        demo_host_def demo_ext_def NewSupport_def support_bindings_def demo_client_def prv_with_funds_hex_def Let_def)
qed

lemma demo_support:
  "\<exists>s. DefaultSupport demo_ext demo_setup (demo_host ''e'' None) ''p'' url = Ok s \<and>
     aFlareTeeManager (sAddresses s) = 3 \<and> ChainClient s = demo_client \<and> Prv s = 64"
  by (rule demo_support_ext) simp_all

end
