(* ===== verification/VerifyDeploy.thy ===== *)
theory VerifyDeploy
  imports CheckGroups Support
begin

section \<open>The verify-deploy command (tools/cmd/verify-deploy/main.go)\<close>

text \<open>
  The command runs the groups of the chosen step on an empty report, keeps the checks named by
  \<^verbatim>\<open>--checks\<close>, prints the report as text or JSON and exits with status 1 when a failure is left. The
  JSON rendering is \<open>FprintJSON\<close> of report.go over the encoder of theory \<open>JSON\<close>. Steps that talk to the
  chain run after \<^verbatim>\<open>DefaultSupport\<close>, whose \<^verbatim>\<open>.env\<close> file then is part of the environment.
\<close>

subsection \<open>JSON rendering of a report\<close>

definition result_json :: "jsonResult \<Rightarrow> json" where
  "result_json j =
     JObj ([(''step'', JStr (jStep j)), (''id'', JStr (jID j)), (''name'', JStr (jName j)),
            (''status'', JStr (jStatus j))] @
           (if jMessage j = [] then [] else [(''message'', JStr (jMessage j))]) @
           (if jFix j = [] then [] else [(''fix'', JStr (jFix j))]))"

definition report_json :: "jsonReport \<Rightarrow> json" where
  "report_json j =
     JObj [(''results'', JArr (map result_json (jResults j))), (''summary'', JStr (jSummary j))]"

definition FprintJSON :: "Report \<Rightarrow> string" where
  "FprintJSON r = MarshalIndent (report_json (to_jsonReport r)) @ newline"

subsection \<open>main\<close>

record options =
  oAddresses :: string
  oChain :: string
  oConfig :: string
  oStep :: string
  oChecks :: string
  oJSON :: bool

record process_end =
  stdout :: string
  stderr :: string
  exit_status :: int

definition init_error :: "options \<Rightarrow> goerror \<Rightarrow> string" where
  "init_error opt err =
     ''Error initializing support: '' @ Error err @ newline @ newline @ ''Hints:'' @ newline @
     ''  - Check that the addresses file exists: '' @ oAddresses opt @ newline @
     ''  - Check that the chain node is running: '' @ oChain opt @ newline @
     ''  - If using a custom key, ensure DEPLOYMENT_PRIVATE_KEY is set in .env'' @ newline"

definition unknown_step :: "ext \<Rightarrow> options \<Rightarrow> string" where
  "unknown_step E opt =
     ''Unknown step: '' @ Quote (IsPrintHigh E) (oStep opt) @ newline @
     ''Valid steps: deploy, register, services, tee-version, tee-machine, test, all'' @ newline"

text \<open>The deploy and registration groups on the bindings of a support value. The address map has one
  entry, so there is one order of traversal.\<close>

definition deploy_step :: "ext \<Rightarrow> host \<Rightarrow> Support \<Rightarrow> string \<Rightarrow> Report \<Rightarrow> Report" where
  "deploy_step E H s path =
     (let addresses = [(''FlareTeeManager'', aFlareTeeManager (sAddresses s))] in
      RegisterDeployChecks E H (Some (ChainClient s)) (Some (Prv s)) addresses addresses path)"

definition register_step :: "ext \<Rightarrow> node \<Rightarrow> host \<Rightarrow> Support \<Rightarrow> string \<Rightarrow> Report \<Rightarrow> Report" where
  "register_step E N H s path =
     RegisterRegistrationChecks E H (Some (ChainClient s)) (Some (Prv s))
       (Some (RegistryAt N (snd (TeeExtensionRegistry s)))) (Some (AllowlistAt N (snd (TeeOwnerAllowlist s)))) path"

definition all_steps :: "ext \<Rightarrow> node \<Rightarrow> host \<Rightarrow> Support \<Rightarrow> string \<Rightarrow> Report \<Rightarrow> Report" where
  "all_steps E N H s path report =
     (let report = deploy_step E H s path report;
          report = register_step E N H s path report;
          report = RegisterServicesChecks E H path report;
          report = RegisterTeeVersionChecks H path report;
          report = RegisterTeeMachineChecks H path report
      in RegisterTestChecks H path report)"

text \<open>The switch on the step: the report, or the text for standard error before exit 1.\<close>

definition run_step :: "ext \<Rightarrow> node \<Rightarrow> host \<Rightarrow> options \<Rightarrow> string + Report" where
  "run_step E N H opt =
     (let report = \<lparr>Results = []\<rparr>; step = oStep opt; path = oConfig opt in
      if step = ''deploy'' \<or> step = ''register'' \<or> step = ''all''
      then (case DefaultSupport E N H (oAddresses opt) (oChain opt) of
              Err err \<Rightarrow> Inl (init_error opt err)
            | Ok s \<Rightarrow>
                (let H = Dotenv N H in
                 if step = ''deploy'' then Inr (deploy_step E H s path report)
                 else if step = ''register'' then Inr (register_step E N H s path report)
                 else Inr (all_steps E N H s path report)))
      else if step = ''services'' then Inr (RegisterServicesChecks E H path report)
      else if step = ''tee-version'' then Inr (RegisterTeeVersionChecks H path report)
      else if step = ''tee-machine'' then Inr (RegisterTeeMachineChecks H path report)
      else if step = ''test'' then Inr (RegisterTestChecks H path report)
      else Inl (unknown_step E opt))"

text \<open>The map \<^verbatim>\<open>allowed\<close> as the list of its keys, and the filter.\<close>

definition allowed_ids :: "string \<Rightarrow> string list" where
  "allowed_ids checks = filter (\<lambda>t. t \<noteq> []) (map TrimSpace (Split checks (CHR '','')))"

definition filter_checks :: "string \<Rightarrow> Report \<Rightarrow> Report" where
  "filter_checks checks report =
     (if checks \<noteq> []
      then report\<lparr>Results := filter (\<lambda>res. ID res \<in> set (allowed_ids checks)) (Results report)\<rparr>
      else report)"

definition verify_deploy :: "ext \<Rightarrow> node \<Rightarrow> host \<Rightarrow> options \<Rightarrow> process_end" where
  "verify_deploy E N H opt =
     (case run_step E N H opt of
        Inl msg \<Rightarrow> \<lparr>stdout = [], stderr = msg, exit_status = 1\<rparr>
      | Inr report \<Rightarrow>
          (let report = filter_checks (oChecks opt) report in
           \<lparr>stdout = (if oJSON opt then FprintJSON report else Fprint report), stderr = [],
            exit_status = (if HasFailures report then 1 else 0)\<rparr>))"

subsection \<open>Lemmas\<close>

lemma all_steps_results:
  "Results (all_steps E N H s path r) =
     Results r @ Results (deploy_step E H s path \<lparr>Results = []\<rparr>) @
     Results (register_step E N H s path \<lparr>Results = []\<rparr>) @
     Results (RegisterServicesChecks E H path \<lparr>Results = []\<rparr>) @
     Results (RegisterTeeVersionChecks H path \<lparr>Results = []\<rparr>) @
     Results (RegisterTeeMachineChecks H path \<lparr>Results = []\<rparr>) @
     Results (RegisterTestChecks H path \<lparr>Results = []\<rparr>)"
  unfolding all_steps_def Let_def
  by (subst test_group.run_appends, subst tee_machine_group.run_appends, subst tee_version_group.run_appends,
      subst services_group.run_appends, unfold register_step_def, subst registration_group.run_appends,
      unfold deploy_step_def Let_def, subst deploy_group.run_appends, simp)

lemma all_steps_wf: "x \<in> set (Results (all_steps E N H s path \<lparr>Results = []\<rparr>)) \<Longrightarrow> wf_result x"
  unfolding all_steps_results deploy_step_def register_step_def Let_def
  using deploy_group.run_wf registration_group.run_wf services_group.run_wf tee_version_group.run_wf
    tee_machine_group.run_wf test_group.run_wf by fastforce

lemma run_step_wf:
  assumes "run_step E N H opt = Inr r" "x \<in> set (Results r)"
  shows "wf_result x"
proof -
  note wf = deploy_group.run_wf registration_group.run_wf services_group.run_wf tee_version_group.run_wf
    tee_machine_group.run_wf test_group.run_wf all_steps_wf
  show ?thesis
    using assms unfolding run_step_def Let_def deploy_step_def register_step_def
    by (auto split: sum.splits if_splits dest: wf)
qed

lemma HasFailures_filter_checks:
  "HasFailures (filter_checks checks r) \<longleftrightarrow>
     (\<exists>x\<in>set (Results r). (checks = [] \<or> ID x \<in> set (allowed_ids checks)) \<and> CStatus x = FAIL)"
  by (auto simp: HasFailures_def has_fail_iff filter_checks_def)

subsection \<open>Exit status\<close>

text \<open>The command exits with 0 exactly when the step is known and its setup succeeded and no check
  selected by --checks (every check, if the flag is empty) failed; in every other case it exits with 1.\<close>

lemma verify_deploy_exit_status:
  "exit_status (verify_deploy E N H opt) =
     (if \<exists>r. run_step E N H opt = Inr r \<and>
           \<not> (\<exists>x\<in>set (Results r).
                (oChecks opt = [] \<or> ID x \<in> set (allowed_ids (oChecks opt))) \<and> CStatus x = FAIL)
      then 0 else 1)"
  by (simp add: verify_deploy_def HasFailures_filter_checks Let_def split: sum.split)

text \<open>C9: With step all and no --checks, the command exits with 0 exactly when the setup succeeds and each
  of the six groups, run on its own, reports no failure.\<close>

theorem verify_deploy_all_iff_every_group:
  assumes "oStep opt = ''all''" "oChecks opt = []"
  shows "exit_status (verify_deploy E N H opt) = 0 \<longleftrightarrow>
     (\<exists>s. DefaultSupport E N H (oAddresses opt) (oChain opt) = Ok s \<and>
        \<not> HasFailures (deploy_step E (Dotenv N H) s (oConfig opt) \<lparr>Results = []\<rparr>) \<and>
        \<not> HasFailures (register_step E N (Dotenv N H) s (oConfig opt) \<lparr>Results = []\<rparr>) \<and>
        \<not> HasFailures (RegisterServicesChecks E (Dotenv N H) (oConfig opt) \<lparr>Results = []\<rparr>) \<and>
        \<not> HasFailures (RegisterTeeVersionChecks (Dotenv N H) (oConfig opt) \<lparr>Results = []\<rparr>) \<and>
        \<not> HasFailures (RegisterTeeMachineChecks (Dotenv N H) (oConfig opt) \<lparr>Results = []\<rparr>) \<and>
        \<not> HasFailures (RegisterTestChecks (Dotenv N H) (oConfig opt) \<lparr>Results = []\<rparr>))"
proof -
  have "HasFailures (all_steps E N H' s path \<lparr>Results = []\<rparr>) \<longleftrightarrow>
      HasFailures (deploy_step E H' s path \<lparr>Results = []\<rparr>) \<or>
      HasFailures (register_step E N H' s path \<lparr>Results = []\<rparr>) \<or>
      HasFailures (RegisterServicesChecks E H' path \<lparr>Results = []\<rparr>) \<or>
      HasFailures (RegisterTeeVersionChecks H' path \<lparr>Results = []\<rparr>) \<or>
      HasFailures (RegisterTeeMachineChecks H' path \<lparr>Results = []\<rparr>) \<or>
      HasFailures (RegisterTestChecks H' path \<lparr>Results = []\<rparr>)" for H' s path
    by (simp add: HasFailures_def all_steps_results)
  then show ?thesis
    using assms
    by (cases "DefaultSupport E N H (oAddresses opt) (oChain opt)")
       (simp_all add: verify_deploy_def run_step_def filter_checks_def Let_def)
qed

subsection \<open>What is printed\<close>

definition section_text :: "string \<times> CheckResult list \<Rightarrow> string" where
  "section_text g =
     (if stepLabel (fst g) = [] then fst g else stepLabel (fst g)) @ '':'' @ newline @
     concat (map print_result (snd g)) @ newline"

text \<open>C38: The terminal report is a sequence of sections, one for every step that occurs and no step twice,
  whose results together are exactly the results of the report, each printed once.\<close>

theorem Fprint_prints_every_result_once:
  "\<exists>gs. Fprint r = newline @ colorCyan @ ''=== Deployment Verification Report ==='' @ colorReset @ newline @ newline @
           concat (map section_text gs) @ Summary r @ newline \<and>
        mset (concat (map snd gs)) = mset (Results r) \<and> distinct (map fst gs) \<and>
        list_all (\<lambda>(s, g). list_all (\<lambda>x. Step x = s) g \<and> g \<noteq> []) gs"
proof -
  let ?rs = "Results r"
  let ?gs = "map (\<lambda>s. (s, filter (\<lambda>x. Step x = s) ?rs)) (report_steps ?rs)"
  have "print_step ?rs s = section_text (s, filter (\<lambda>x. Step x = s) ?rs)" for s
    by (simp add: print_step_def section_text_def Let_def)
  then have eq: "map (print_step ?rs) (report_steps ?rs) = map section_text ?gs"
    by simp
  have "mset (concat (map snd ?gs)) = mset ?rs"
    using mset_concat_groups [of "report_steps ?rs" ?rs] report_steps_cover [of ?rs] by (simp add: comp_def)
  moreover have "distinct (map fst ?gs)" by (simp add: comp_def report_steps_cover)
  moreover have "list_all (\<lambda>(s, g). list_all (\<lambda>x. Step x = s) g \<and> g \<noteq> []) ?gs"
    using report_steps_cover(1) [of ?rs] by (auto simp: list_all_iff filter_empty_conv)
  ultimately show ?thesis unfolding Fprint_def eq by blast
qed

text \<open>The summary line of a run counts every result of its report once, and the failure count is
  zero exactly when the report has no failure.\<close>

lemma run_summary_counts:
  assumes "run_step E N H opt = Inr r"
  shows "\<exists>p w f k.
     Summary r = dec_of_nat p @ '' passed, '' @ dec_of_nat w @ '' warning, '' @
       dec_of_nat f @ '' failed, '' @ dec_of_nat k @ '' skipped'' \<and>
     p + w + f + k = length (Results r) \<and> (f = 0) = (\<not> HasFailures r)"
proof -
  let ?rs = "Results r"
  have "p + w + f + k = length ?rs"
    if "(p, w, f, k) = (count_of PASS ?rs, count_of WARN ?rs, count_of FAIL ?rs, count_of SKIP ?rs)" for p w f k
    using that count_of_total [of ?rs] run_step_wf [OF assms] by (auto simp: wf_result_def)
  moreover have "(count_of FAIL ?rs = 0) = (\<not> HasFailures r)"
    by (simp only: count_of_FAIL_0 HasFailures_def)
  ultimately show ?thesis by (auto simp: Summary_def count_status_filter)
qed

lemma collect_steps_group:
  "xs \<noteq> [] \<Longrightarrow> list_all (\<lambda>x. Step x = s) xs \<Longrightarrow>
   collect_steps seen (xs @ ys) = (if seen s then collect_steps seen ys else s # collect_steps (seen(s := True)) ys)"
proof (induction xs arbitrary: seen)
  case (Cons x xs)
  then show ?case by (cases "xs = []") (auto simp: fun_upd_idem)
qed simp

lemma registration_nonempty:
  "Results (register_step E N H s path \<lparr>Results = []\<rparr>) \<noteq> []"
proof -
  obtain i t where p: "parseExtensionEnv H path = Ok (i, t)" using parseExtensionEnv_Ok by blast
  show ?thesis
  proof (cases "path \<noteq> [] \<and> (i \<noteq> [] \<or> t \<noteq> [])")
    case True
    then show ?thesis
      unfolding register_step_def
      using RegisterRegistrationChecks_results [OF _ p, where r = "\<lparr>Results = []\<rparr>"]
      by (simp add: registration_results_def Let_def)
  next
    case False
    with p show ?thesis
      by (cases "path = []") (auto simp: register_step_def RegisterRegistrationChecks_def)
  qed
qed

text \<open>A run of all steps reports on the six steps, each under its own step name, in the order
  deploy, register, services, tee-version, tee-machine, test.\<close>

lemma all_steps_sections:
  "report_steps (Results (all_steps E N H s path \<lparr>Results = []\<rparr>)) =
     [''deploy'', ''register'', ''services'', ''tee-version'', ''tee-machine'', ''test'']"
proof -
  let ?d = "Results (deploy_step E H s path \<lparr>Results = []\<rparr>)"
  let ?r = "Results (register_step E N H s path \<lparr>Results = []\<rparr>)"
  have d: "list_all (\<lambda>x. Step x = ''deploy'') ?d"
    using deploy_group.run_wf by (auto simp: deploy_step_def list_all_iff Let_def)
  have d': "?d \<noteq> []"
    unfolding deploy_step_def Let_def RegisterDeployChecks_results deploy_tail_def by simp
  have r: "?r \<noteq> []" "list_all (\<lambda>x. Step x = ''register'') ?r"
    using registration_nonempty registration_group.run_wf by (auto simp: register_step_def list_all_iff)
  let ?s = "Results (RegisterServicesChecks E H path \<lparr>Results = []\<rparr>)"
  let ?v = "Results (RegisterTeeVersionChecks H path \<lparr>Results = []\<rparr>)"
  let ?m = "Results (RegisterTeeMachineChecks H path \<lparr>Results = []\<rparr>)"
  let ?t = "Results (RegisterTestChecks H path \<lparr>Results = []\<rparr>)"
  have f: "list_all (\<lambda>x. Step x = ''services'') ?s" "list_all (\<lambda>x. Step x = ''tee-version'') ?v"
    "list_all (\<lambda>x. Step x = ''tee-machine'') ?m" "list_all (\<lambda>x. Step x = ''test'') ?t"
    using services_group.run_wf tee_version_group.run_wf tee_machine_group.run_wf test_group.run_wf
    unfolding list_all_iff by blast+
  have ne: "?s \<noteq> []" "?v \<noteq> []" "?m \<noteq> []" "?t \<noteq> []" by (simp_all add: group_results)
  have "collect_steps seen ?t = (if seen ''test'' then [] else [''test''])" for seen
    using collect_steps_group [OF ne(4) f(4), of seen "[]"] by simp
  then show ?thesis
    unfolding report_steps_def all_steps_results
    by (simp add: collect_steps_group [OF d' d] collect_steps_group [OF r] collect_steps_group [OF ne(1) f(1)]
        collect_steps_group [OF ne(2) f(2)] collect_steps_group [OF ne(3) f(3)])
qed

subsection \<open>Machine-readable output\<close>

definition utf8_result :: "jsonResult \<Rightarrow> bool" where
  "utf8_result j \<longleftrightarrow> list_all valid_utf8 [jStep j, jID j, jName j, jStatus j, jMessage j, jFix j]"

lemma json_ok_results:
  "list_all utf8_result js \<Longrightarrow>
   json_ok_elems (map result_json js) \<and> depth_elems (map result_json js) \<le> 1"
proof (induction js)
  case (Cons j js)
  have "valid_utf8 ''step''" "valid_utf8 ''id''" "valid_utf8 ''name''" "valid_utf8 ''status''"
    "valid_utf8 ''message''" "valid_utf8 ''fix''"
    by (rule valid_utf8_ascii; simp)+
  with Cons show ?case by (simp add: result_json_def utf8_result_def)
qed simp

lemma valid_utf8_Summary: "valid_utf8 (Summary r)"
  by (rule valid_utf8_ascii) (simp add: Summary_def dec_of_nat_ascii split: prod.split)

lemma Unmarshal_FprintJSON:
  assumes "list_all utf8_result (map to_jsonResult (Results r))"
  shows "Unmarshal (FprintJSON r) = Some (report_json (to_jsonReport r))"
proof -
  have "valid_utf8 ''results''" "valid_utf8 ''summary''" by (rule valid_utf8_ascii; simp)+
  then have "json_ok (report_json (to_jsonReport r))" "json_depth (report_json (to_jsonReport r)) \<le> 10000"
    using json_ok_results [OF assms] by (simp_all add: report_json_def to_jsonReport_def valid_utf8_Summary)
  then show ?thesis
    unfolding FprintJSON_def by (intro Unmarshal_MarshalIndent) (simp_all add: maxNestingDepth_def newline_def is_ws_def)
qed

text \<open>C11: With --json, when the texts of the results are valid UTF-8, standard output is one JSON
  document that decodes to exactly the selected results and the summary, and it contains a result with
  status FAIL exactly when the exit status is 1.\<close>

theorem json_output_decodes:
  assumes "run_step E N H opt = Inr r" "oJSON opt"
    and "list_all utf8_result (map to_jsonResult (Results (filter_checks (oChecks opt) r)))"
  shows "\<exists>js. js = map to_jsonResult (Results (filter_checks (oChecks opt) r)) \<and>
     Unmarshal (stdout (verify_deploy E N H opt)) =
       Some (JObj [(''results'', JArr (map result_json js)),
                   (''summary'', JStr (Summary (filter_checks (oChecks opt) r)))]) \<and>
     (exit_status (verify_deploy E N H opt) = 1) = (\<exists>j\<in>set js. jStatus j = ''FAIL'')"
proof -
  let ?r = "filter_checks (oChecks opt) r"
  have "Unmarshal (FprintJSON ?r) = Some (report_json (to_jsonReport ?r))"
    using assms(3) by (rule Unmarshal_FprintJSON)
  moreover have "Status_String st = ''FAIL'' \<longleftrightarrow> st = FAIL" for st by (cases st) simp_all
  ultimately show ?thesis
    using assms(1,2)
    by (auto simp: verify_deploy_def Let_def report_json_def to_jsonReport_def to_jsonResult_def
        HasFailures_def has_fail_iff)
qed

subsection \<open>Witnesses\<close>

definition demo_options :: "string \<Rightarrow> options" where
  "demo_options st =
     \<lparr>oAddresses = ''p'', oChain = ''http://node'', oConfig = [], oStep = st, oChecks = [], oJSON = True\<rparr>"

theorem json_output_decodes_witness:
  "\<exists>js. Unmarshal (stdout (verify_deploy demo_ext demo_setup (demo_host ''e'' None) (demo_options ''tee-machine''))) =
       Some (JObj [(''results'', JArr (map result_json js)),
                   (''summary'', JStr (''1 passed, 0 warning, 0 failed, 2 skipped''))])"
proof -
  let ?H = "demo_host ''e'' None"
  define r where "r = RegisterTeeMachineChecks ?H [] \<lparr>Results = []\<rparr>"
  have run: "run_step demo_ext demo_setup ?H (demo_options ''tee-machine'') = Inr r"
    by (simp add: run_step_def demo_options_def r_def)
  have f: "filter_checks (oChecks (demo_options ''tee-machine'')) r = r"
    by (simp add: filter_checks_def demo_options_def)
  have rs: "Results r = [check_T1 ?H, check_T5 ?H, check_T10 ?H]" by (simp add: r_def group_results)
  have "Summary r = ''1 passed, 0 warning, 0 failed, 2 skipped''"
    by (simp add: Summary_def rs check_defs demo_host_def dec_of_nat_def to_digits.simps digit_char_def
        char_of_def bit_simps)
  moreover have "list_all utf8_result (map to_jsonResult (Results r))"
    unfolding rs
    by (simp add: check_defs demo_host_def to_jsonResult_def utf8_result_def TrimSpace_graphic graphic_def
        valid_utf8_ascii)
  moreover have "oJSON (demo_options ''tee-machine'')" by (simp add: demo_options_def)
  ultimately show ?thesis using json_output_decodes [OF run] unfolding f by metis
qed

theorem verify_deploy_all_iff_every_group_witness:
  "exit_status (verify_deploy demo_ext demo_setup (demo_host ''e'' None) (demo_options ''all'')) = 0"
proof -
  obtain s where s: "DefaultSupport demo_ext demo_setup (demo_host ''e'' None) ''p'' ''http://node'' = Ok s"
      "aFlareTeeManager (sAddresses s) = 3" "ChainClient s = demo_client" using demo_support by blast
  have "\<not> HasFailures (deploy_step demo_ext (demo_host ''e'' None) s [] \<lparr>Results = []\<rparr>)"
    unfolding HasFailures_def deploy_step_def Let_def RegisterDeployChecks_results deploy_tail_def
    by (simp add: s fail_iffs has_code_def demo_client_def MinDeployBalance_def)
  then show ?thesis
    using s(1)
    by (subst verify_deploy_all_iff_every_group)
       (simp_all add: demo_options_def demo_setup_def demo_node_def HasFailures_def register_step_def
         RegisterRegistrationChecks_def group_results check_defs demo_host_def Let_def)
qed

end
