(* ===== verification/Tx.thy ===== *)
theory Tx
  imports World "HOL-Library.Multiset"
begin

section \<open>Effects, transactions and revert reasons\<close>

text \<open>
  Calls of the chain node and the proxies are state transformers with a result: an action takes
  the outside state (of any type \<open>'c\<close>) and gives a result and the next state. \<open>call\<close> is the idiom
  \<^verbatim>\<open>x, err := f(); if err != nil { return wrap(err) }\<close>. The record \<open>eth\<close> holds the parts of
  go-ethereum that the tools call. On top of it: \<open>CheckTx\<close> of support.go, the decoding of revert
  reasons (revert.go, support.go) and the diagnosis of a refused availability check (diag.go).
\<close>

subsection \<open>Actions\<close>

type_synonym ('c, 'a) act = "'c \<Rightarrow> 'a result \<times> 'c"

definition ret :: "'a \<Rightarrow> ('c, 'a) act" where
  "ret x w = (Ok x, w)"

definition fail :: "goerror \<Rightarrow> ('c, 'a) act" where
  "fail e w = (Err e, w)"

definition call :: "('c, 'a) act \<Rightarrow> (goerror \<Rightarrow> goerror) \<Rightarrow> ('a \<Rightarrow> ('c, 'b) act) \<Rightarrow> ('c, 'b) act" where
  "call m wrap k w = (case m w of (Err e, w') \<Rightarrow> (Err (wrap e), w') | (Ok x, w') \<Rightarrow> k x w')"

text \<open>A value that is already a result, as an action.\<close>

definition lift :: "'a result \<Rightarrow> ('c, 'a) act" where
  "lift r w = (r, w)"

text \<open>\<^verbatim>\<open>errors.Errorf("%s", err)\<close> keeps the text only; with a prefix, the text after it.\<close>

definition Errorf :: "string \<Rightarrow> goerror \<Rightarrow> goerror" where
  "Errorf p e = ErrText (p @ Error e)"

lemma ret_apply [simp]: "ret x w = (Ok x, w)"
  by (simp add: ret_def)

lemma fail_apply [simp]: "fail e w = (Err e, w)"
  by (simp add: fail_def)

lemma lift_apply [simp]: "lift r w = (r, w)"
  by (simp add: lift_def)

lemma call_Ok [simp]: "m w = (Ok x, w') \<Longrightarrow> call m wrap k w = k x w'"
  by (simp add: call_def)

lemma call_Err [simp]: "m w = (Err e, w') \<Longrightarrow> call m wrap k w = (Err (wrap e), w')"
  by (simp add: call_def)

lemma call_result_cases:
  "(case call m wrap k w of (r, w') \<Rightarrow> P r w') \<longleftrightarrow>
   (case m w of (Err e, w') \<Rightarrow> P (Err (wrap e)) w' | (Ok x, w') \<Rightarrow> (case k x w' of (r, w'') \<Rightarrow> P r w''))"
  by (simp add: call_def split: prod.split sum.split)

lemma call_Ok_iff:
  "call m wrap k w = (Ok y, w2) \<longleftrightarrow> (\<exists>x w1. m w = (Ok x, w1) \<and> k x w1 = (Ok y, w2))"
  by (auto simp: call_def split: prod.splits sum.splits)

subsection \<open>Transactions\<close>

record transaction =
  tHash :: hash
  tTo :: "address option"
  tGas :: "64 word"
  tGasPrice :: int
  tValue :: int
  tData :: bytes

record log =
  lTopics :: "hash list"
  lData :: bytes

record receipt =
  rStatus :: "64 word"
  rLogs :: "log list"

record callmsg =
  mFrom :: address
  mTo :: "address option"
  mGas :: "64 word"
  mGasPrice :: int
  mValue :: int
  mData :: bytes

text \<open>\<^verbatim>\<open>bind.TransactOpts\<close>: the signing key and the value sent along (nil is no value).\<close>

record opts =
  oKey :: privkey
  oChainID :: int
  oValue :: int

record 'c eth =
  TransactorError :: "privkey \<Rightarrow> int \<Rightarrow> goerror option"
  WaitMined :: "transaction \<Rightarrow> ('c, receipt) act"
  TransactionByHash :: "hash \<Rightarrow> ('c, transaction) act"
  CallContract :: "callmsg \<Rightarrow> ('c, bytes) act"
  Sender :: "transaction \<Rightarrow> address result"
  UnpackRevert :: "bytes \<Rightarrow> string result"
  FromHex :: "string \<Rightarrow> bytes"

text \<open>\<^verbatim>\<open>bind.NewKeyedTransactorWithChainID\<close>.\<close>

definition NewKeyedTransactor :: "'c eth \<Rightarrow> privkey \<Rightarrow> int \<Rightarrow> opts result" where
  "NewKeyedTransactor X key cid =
     (case TransactorError X key cid of
        Some err \<Rightarrow> Err err
      | None \<Rightarrow> Ok \<lparr>oKey = key, oChainID = cid, oValue = 0\<rparr>)"

subsection \<open>Revert reasons\<close>

text \<open>\<^verbatim>\<open>decodeRevertHex\<close>, with \<^verbatim>\<open>abi.UnpackRevert\<close> as the argument \<open>unpack\<close>.\<close>

definition decodeRevertHex :: "(bytes \<Rightarrow> string result) \<Rightarrow> string \<Rightarrow> string" where
  "decodeRevertHex unpack hexStr0 =
     (let hexStr = TrimPrefix hexStr0 ''0x'' in
      case hex_decode hexStr of
        None \<Rightarrow> []
      | Some decoded \<Rightarrow>
          if length decoded < 4 then []
          else case unpack decoded of Ok reason \<Rightarrow> reason | Err _ \<Rightarrow> ''0x'' @ hexStr)"

definition DecodeRevertReason :: "(bytes \<Rightarrow> string result) \<Rightarrow> goerror option \<Rightarrow> string" where
  "DecodeRevertReason unpack err =
     (case err of
        None \<Rightarrow> []
      | Some e \<Rightarrow>
          (case errors_As_data e of
             Some (DataString hexStr) \<Rightarrow> decodeRevertHex unpack hexStr
           | _ \<Rightarrow> []))"

definition SimulateAndDecodeRevert :: "'c eth \<Rightarrow> address \<Rightarrow> address \<Rightarrow> int \<Rightarrow> bytes \<Rightarrow> 'c \<Rightarrow> string \<times> 'c" where
  "SimulateAndDecodeRevert X from to val data w =
     (case CallContract X \<lparr>mFrom = from, mTo = Some to, mGas = 0, mGasPrice = 0, mValue = val, mData = data\<rparr> w of
        (Err err, w') \<Rightarrow>
          (let reason = DecodeRevertReason (UnpackRevert X) (Some err) in
           (if reason \<noteq> [] then reason else Error err, w'))
      | (Ok result, w') \<Rightarrow>
          (if 4 \<le> length result then decodeRevertHex (UnpackRevert X) (hex_encode result) else [], w'))"

text \<open>An error of an ABI: the 32 bytes of its identifier, and its arguments unpacked and printed
  with \<^verbatim>\<open>%v\<close>. The map \<^verbatim>\<open>parsedABI.Errors\<close> is the list of its entries in iteration order.\<close>

record abi_error =
  eID :: bytes
  eUnpack :: "bytes \<Rightarrow> string result"
  eInputsUnpack :: "bytes \<Rightarrow> string result"

fun match_errors :: "(string \<times> abi_error) list \<Rightarrow> bytes \<Rightarrow> string" where
  "match_errors [] data = []"
| "match_errors ((name, e) # es) data =
     (if take 4 (eID e) \<noteq> take 4 data then match_errors es data
      else case eUnpack e data of
             Ok argStr \<Rightarrow> if argStr \<noteq> ''[]'' \<and> argStr \<noteq> ''<nil>'' then name @ argStr else name
           | Err _ \<Rightarrow> name)"

definition MatchCustomError :: "(string \<times> abi_error) list \<Rightarrow> string \<Rightarrow> string" where
  "MatchCustomError errors revertHex =
     (case hex_decode (TrimPrefix revertHex ''0x'') of
        None \<Rightarrow> []
      | Some data \<Rightarrow> if length data < 4 then [] else match_errors errors data)"

definition ExtractRevertData :: "(string \<Rightarrow> bytes) \<Rightarrow> goerror option \<Rightarrow> bytes" where
  "ExtractRevertData fromHex err =
     (case err of
        None \<Rightarrow> []
      | Some e \<Rightarrow>
          (case errors_As_data e of
             Some (DataString d) \<Rightarrow> fromHex d
           | Some (DataBytes d) \<Rightarrow> d
           | _ \<Rightarrow> []))"

text \<open>\<^verbatim>\<open>decodeRevertFromError\<close> of package support: the same search, but an undecodable payload is
  the empty string.\<close>

definition decodeRevertFromError :: "(bytes \<Rightarrow> string result) \<Rightarrow> goerror \<Rightarrow> string" where
  "decodeRevertFromError unpack err =
     (case errors_As_data err of
        Some (DataString hexStr) \<Rightarrow>
          (case hex_decode (TrimPrefix hexStr ''0x'') of
             None \<Rightarrow> []
           | Some decoded \<Rightarrow> (case unpack decoded of Ok reason \<Rightarrow> reason | Err _ \<Rightarrow> []))
      | _ \<Rightarrow> [])"

subsection \<open>Diagnosis of a refused availability check (diag.go)\<close>

text \<open>The bindings of the four contracts whose errors the tools name: \<^verbatim>\<open>GetAbi\<close> of each, with the map of its errors. The diagnosis
  searches all four, in this order.\<close>

record contract_abis =
  VerificationABI :: "(string \<times> abi_error) list result"
  Fdc2HubABI :: "(string \<times> abi_error) list result"
  MachineManagerABI :: "(string \<times> abi_error) list result"
  ExtensionManagerABI :: "(string \<times> abi_error) list result"

definition diag_abis :: "contract_abis \<Rightarrow> (string \<times> (string \<times> abi_error) list result) list" where
  "diag_abis B =
     [(''Verification'', VerificationABI B), (''Fdc2Hub'', Fdc2HubABI B), (''MachineManager'', MachineManagerABI B),
      (''ExtensionManager'', ExtensionManagerABI B)]"

text \<open>The log output of the diagnosis. The loops over the four ABIs and over the errors of each return at
  the first selector that matches.\<close>

datatype log_line = Info string | Warn string | Errorl string

fun diag_errors :: "string \<Rightarrow> (string \<times> abi_error) list \<Rightarrow> bytes \<Rightarrow> log_line option" where
  "diag_errors src [] revertData = None"
| "diag_errors src ((errName, e) # es) revertData =
     (if take 4 (eID e) \<noteq> take 4 revertData then diag_errors src es revertData
      else Some (Errorl (case eInputsUnpack e (drop 4 revertData) of
             Err unpackErr \<Rightarrow> ''diag: revert -> '' @ src @ ''.'' @ errName @ '' (arg unpack failed: '' @
               Error unpackErr @ '') data=0x'' @ hex_encode revertData
           | Ok args \<Rightarrow> ''diag: revert -> '' @ src @ ''.'' @ errName @ ''('' @ args @ '')'')))"

fun diag_sources :: "(string \<times> (string \<times> abi_error) list result) list \<Rightarrow> bytes \<Rightarrow> log_line option" where
  "diag_sources [] revertData = None"
| "diag_sources ((name, Err _) # srcs) revertData = diag_sources srcs revertData"
| "diag_sources ((name, Ok errors) # srcs) revertData =
     (case diag_errors name errors revertData of
        Some l \<Rightarrow> Some l
      | None \<Rightarrow> diag_sources srcs revertData)"

definition diag_payload :: "ext \<Rightarrow> 'c eth \<Rightarrow> contract_abis \<Rightarrow> goerror \<Rightarrow> log_line" where
  "diag_payload E X B callErr =
     (let revertData = ExtractRevertData (FromHex X) (Some callErr) in
      if length revertData = 0 then Warn (''diag: eth_call error has no revert data: '' @ Error callErr)
      else if length revertData < 4
      then Warn (''diag: revert data too short to contain a selector: 0x'' @ hex_encode revertData)
      else
        (let by_abi =
               (case diag_sources (diag_abis B) revertData of
                  Some l \<Rightarrow> l
                | None \<Rightarrow> Errorl (''diag: revert with unknown selector 0x'' @ hex_encode (take 4 revertData) @
                    ''; full data: 0x'' @ hex_encode revertData))
         in if take 4 revertData = [CHR 0x08, CHR 0xC3, CHR 0x79, CHR 0xA0]
            then (case UnpackRevert X revertData of
                    Ok reason \<Rightarrow> Errorl (''diag: revert reason (string): '' @ Quote (IsPrintHigh E) reason)
                  | Err _ \<Rightarrow> by_abi)
            else by_abi))"

text \<open>\<^verbatim>\<open>pack\<close> is the calldata, after the ABI has been loaded without error.\<close>

definition diagAvailabilityCheckRevert :: "ext \<Rightarrow> 'c eth \<Rightarrow> contract_abis
    \<Rightarrow> (address \<Rightarrow> hash \<Rightarrow> address \<Rightarrow> address \<Rightarrow> address \<Rightarrow> bytes result) \<Rightarrow> privkey \<Rightarrow> address
    \<Rightarrow> int \<Rightarrow> address \<Rightarrow> hash \<Rightarrow> address \<Rightarrow> address \<Rightarrow> address \<Rightarrow> 'c \<Rightarrow> log_line list \<times> 'c" where
  "diagAvailabilityCheckRevert E X B pack prv manager val teeID instructionID externalTeeID proofOwner claimBack w =
     (case VerificationABI B of
        Err err \<Rightarrow> ([Warn (''diag: load Verification ABI: '' @ Error err)], w)
      | Ok _ \<Rightarrow>
          (case pack teeID instructionID externalTeeID proofOwner claimBack of
             Err err \<Rightarrow> ([Warn (''diag: pack calldata: '' @ Error err)], w)
           | Ok calldata \<Rightarrow>
               (let from = PubkeyToAddress E prv;
                    head = [Info (''diag: eth_call requestAvailabilityCheckAttestation from='' @ AddressHex E from @
                              '' to='' @ AddressHex E manager @ '' value='' @ dec_of_int val),
                            Info (''diag:   teeID='' @ AddressHex E teeID @ '' instructionID=0x'' @
                              pad0 64 (hex_of_nat (unat instructionID)) @ '' externalTeeID='' @ AddressHex E externalTeeID @
                              '' proofOwner='' @ AddressHex E proofOwner @ '' claimBack='' @ AddressHex E claimBack)]
                in case CallContract X \<lparr>mFrom = from, mTo = Some manager, mGas = 0, mGasPrice = 0, mValue = val,
                     mData = calldata\<rparr> w of
                     (Ok _, w') \<Rightarrow>
                       (head @ [Warn (''diag: eth_call unexpectedly succeeded '' @ emdash @
                          '' revert may be tx-time/gas-related'')], w')
                   | (Err callErr, w') \<Rightarrow> (head @ [diag_payload E X B callErr], w'))))"

subsection \<open>Waiting for a transaction\<close>

definition getFailingMessage :: "'c eth \<Rightarrow> hash \<Rightarrow> ('c, string) act" where
  "getFailingMessage X h =
     call (TransactionByHash X h) (Errorf []) (\<lambda>tx.
       call (lift (Sender X tx)) (Errorf []) (\<lambda>from w.
         case CallContract X
                \<lparr>mFrom = from, mTo = tTo tx, mGas = tGas tx, mGasPrice = tGasPrice tx, mValue = tValue tx,
                 mData = tData tx\<rparr> w of
           (Err err, w') \<Rightarrow>
             (let reason = decodeRevertFromError (UnpackRevert X) err in
              (Ok (if reason \<noteq> [] then reason else Error err), w'))
         | (Ok res, w') \<Rightarrow>
             (case UnpackRevert X res of
                Ok reason \<Rightarrow> (Ok reason, w')
              | Err _ \<Rightarrow>
                  (Ok (if 0 < length res then ''0x'' @ hex_encode res else ''unknown revert reason''), w'))))"

text \<open>The error when the transaction is not mined carries \<^verbatim>\<open>tx.Hash().Hex()\<close>.\<close>

definition CheckTx :: "ext \<Rightarrow> 'c eth \<Rightarrow> transaction \<Rightarrow> ('c, receipt) act" where
  "CheckTx E X tx =
     call (WaitMined X tx)
       (Errorf (''transaction not mined within 2 minutes (tx: '' @ HashHex E (tHash tx) @ ''): '')) (\<lambda>receipt.
         if rStatus receipt = 0
         then call (getFailingMessage X (tHash tx)) id (\<lambda>reason.
                fail (ErrText (''error: Transaction fail: '' @ reason)))
         else ret receipt)"

lemma CheckTx_success:
  "CheckTx E X tx w = (Ok rc, w') \<longleftrightarrow> WaitMined X tx w = (Ok rc, w') \<and> rStatus rc \<noteq> 0"
proof -
  have "\<not> (\<exists>r w2. call m id (\<lambda>reason. fail (f reason)) w1 = (Ok r, w2))"
    for m :: "('c, string) act" and f w1 and r :: receipt
    by (auto simp: call_def split: prod.splits sum.splits)
  then show ?thesis
    unfolding CheckTx_def by (auto simp: call_Ok_iff split: if_splits)
qed

lemma TrimPrefix_0x [simp]: "TrimPrefix (''0x'' @ s) ''0x'' = s"
  by (simp add: TrimPrefix_def)

lemma digit_char_not_x: "d < 16 \<Longrightarrow> digit_char d \<noteq> CHR ''x''"
proof
  assume "d < 16" "digit_char d = CHR ''x''"
  then have "(of_char (digit_char d) :: nat) = 120" by simp
  with \<open>d < 16\<close> show False by (simp add: of_char_digit split: if_splits)
qed

lemma hex_encode_no_0x: "TrimPrefix (hex_encode bs) ''0x'' = hex_encode bs"
proof (cases bs)
  case (Cons c cs)
  have "digit_char ((of_char c :: nat) mod 16) \<noteq> CHR ''x''" by (rule digit_char_not_x) simp
  with Cons show ?thesis by (simp add: TrimPrefix_def hex_encode_def hex_byte_def)
qed (simp add: hex_encode_def TrimPrefix_def)

lemma decodeRevertHex_encode:
  "decodeRevertHex unpack (''0x'' @ hex_encode bs) =
     (if length bs < 4 then [] else case unpack bs of Ok reason \<Rightarrow> reason | Err _ \<Rightarrow> ''0x'' @ hex_encode bs)"
  "decodeRevertHex unpack (hex_encode bs) =
     (if length bs < 4 then [] else case unpack bs of Ok reason \<Rightarrow> reason | Err _ \<Rightarrow> ''0x'' @ hex_encode bs)"
  unfolding decodeRevertHex_def by (simp_all only: TrimPrefix_0x hex_encode_no_0x hex_decode_encode Let_def option.case)

lemma match_errors_iff:
  "distinct (map (\<lambda>(n, e). take 4 (eID e)) es) \<Longrightarrow> (name, e) \<in> set es \<Longrightarrow> take 4 (eID e) = take 4 data \<Longrightarrow>
   match_errors es data =
     (case eUnpack e data of
        Ok argStr \<Rightarrow> if argStr \<noteq> ''[]'' \<and> argStr \<noteq> ''<nil>'' then name @ argStr else name
      | Err _ \<Rightarrow> name)"
  by (induction es) (force split: if_splits)+

lemma match_errors_none: "list_all (\<lambda>(n, e). take 4 (eID e) \<noteq> take 4 data) es \<Longrightarrow> match_errors es data = []"
  by (induction es) auto

text \<open>C31: CheckTx returns a receipt exactly when the transaction was mined, with that receipt and a status other than zero. A transaction mined
  with status zero fails, and with the contract's own reason when the replayed call reverts: the payload, found under the node's
  error wrapping and decoded, is the text of the error.\<close>

theorem CheckTx_reports_reason:
  "(CheckTx E X tx w = (Ok rc, w1) \<longleftrightarrow> WaitMined X tx w = (Ok rc, w1) \<and> rStatus rc \<noteq> 0) \<and>
   (WaitMined X tx w = (Ok rc, w1) \<and> rStatus rc = 0 \<longrightarrow>
      (\<exists>err w2. CheckTx E X tx w = (Err err, w2)) \<and>
      (\<forall>tx' w2 sender err w3 bs reason.
         TransactionByHash X (tHash tx) w1 = (Ok tx', w2) \<and> Sender X tx' = Ok sender \<and>
         CallContract X \<lparr>mFrom = sender, mTo = tTo tx', mGas = tGas tx', mGasPrice = tGasPrice tx', mValue = tValue tx',
           mData = tData tx'\<rparr> w2 = (Err err, w3) \<and>
         errors_As_data err = Some (DataString (''0x'' @ hex_encode bs)) \<and> UnpackRevert X bs = Ok reason \<and> reason \<noteq> [] \<longrightarrow>
         CheckTx E X tx w = (Err (ErrText (''error: Transaction fail: '' @ reason)), w3)))"
proof (intro conjI impI allI)
  show "CheckTx E X tx w = (Ok rc, w1) \<longleftrightarrow> WaitMined X tx w = (Ok rc, w1) \<and> rStatus rc \<noteq> 0" by (rule CheckTx_success)
next
  assume mined: "WaitMined X tx w = (Ok rc, w1) \<and> rStatus rc = 0"
  then show "\<exists>err w2. CheckTx E X tx w = (Err err, w2)"
    by (auto simp: CheckTx_def call_def split: prod.splits sum.splits)
  fix tx' w2 sender err w3 bs reason
  assume replay: "TransactionByHash X (tHash tx) w1 = (Ok tx', w2) \<and> Sender X tx' = Ok sender \<and>
      CallContract X \<lparr>mFrom = sender, mTo = tTo tx', mGas = tGas tx', mGasPrice = tGasPrice tx', mValue = tValue tx',
        mData = tData tx'\<rparr> w2 = (Err err, w3) \<and>
      errors_As_data err = Some (DataString (''0x'' @ hex_encode bs)) \<and> UnpackRevert X bs = Ok reason \<and> reason \<noteq> []"
  then have "decodeRevertFromError (UnpackRevert X) err = reason"
    by (simp add: decodeRevertFromError_def hex_decode_encode del: append_Cons)
  with replay have "getFailingMessage X (tHash tx) w1 = (Ok reason, w3)" by (simp add: getFailingMessage_def)
  then show "CheckTx E X tx w = (Err (ErrText (''error: Transaction fail: '' @ reason)), w3)" using mined by (simp add: CheckTx_def)
qed

theorem CheckTx_reports_reason_witness:
  "\<exists>X :: nat eth. \<exists>tx. CheckTx demo_ext X tx 0 = (Err (ErrText ''error: Transaction fail: paused''), 0)"
proof -
  let ?tx = "\<lparr>tHash = 1, tTo = Some 2, tGas = 21000, tGasPrice = 1, tValue = 0, tData = ''call''\<rparr>"
  let ?rc = "\<lparr>rStatus = 0, rLogs = []\<rparr>"
  let ?err = "ErrWrap ''call'' (ErrRPC ''execution reverted'' (DataString (''0x'' @ hex_encode ''ABCD'')))"
  let ?X = "\<lparr>TransactorError = (\<lambda>_ _. None), WaitMined = (\<lambda>tx n. (Ok ?rc, n)), TransactionByHash = (\<lambda>h n. (Ok ?tx, n)),
      CallContract = (\<lambda>m n. (Err ?err, n)), Sender = (\<lambda>_. Ok 1), UnpackRevert = (\<lambda>_. Ok ''paused''), FromHex = (\<lambda>_. [])\<rparr> :: nat eth"
  have mined: "WaitMined ?X ?tx 0 = (Ok ?rc, 0) \<and> rStatus ?rc = 0" by simp
  have "CheckTx demo_ext ?X ?tx 0 = (Err (ErrText (''error: Transaction fail: '' @ ''paused'')), 0)"
    by (rule CheckTx_reports_reason [THEN conjunct2, THEN mp, OF mined, THEN conjunct2, rule_format, of ?tx 0 1 ?err 0 "''ABCD''"])
       (simp del: append_Cons)
  then have "CheckTx demo_ext ?X ?tx 0 = (Err (ErrText ''error: Transaction fail: paused''), 0)" by simp
  then show ?thesis by blast
qed

text \<open>A revert payload survives the node's error wrapping: from any chain of wrapped errors whose
  RPC error carries the payload in hex, DecodeRevertReason returns the ABI-decoded reason, or the payload
  itself when it is not an Error(string); the decoder of package support agrees on the first case and returns the
  empty string in the second.\<close>

lemma DecodeRevertReason_payload:
  assumes "errors_As_data err = Some (DataString (''0x'' @ hex_encode bs))" "4 \<le> length bs"
  shows "DecodeRevertReason unpack (Some err) =
           (case unpack bs of Ok reason \<Rightarrow> reason | Err _ \<Rightarrow> ''0x'' @ hex_encode bs) \<and>
         decodeRevertFromError unpack err = (case unpack bs of Ok reason \<Rightarrow> reason | Err _ \<Rightarrow> [])"
  using assms
  by (simp add: DecodeRevertReason_def decodeRevertHex_encode decodeRevertFromError_def hex_decode_encode
      del: append_Cons)

text \<open>C32: When a replayed call reverts with a custom error of the contract's ABI, the simulation returns the
  raw payload and MatchCustomError names the error, with its arguments if it has any, whatever the order in which Go
  iterates the ABI's error map.\<close>

theorem custom_error_is_named:
  assumes "CallContract X \<lparr>mFrom = from, mTo = Some to, mGas = 0, mGasPrice = 0, mValue = v, mData = d\<rparr> w =
      (Err err, w')"
    and "errors_As_data err = Some (DataString (''0x'' @ hex_encode bs))" "4 \<le> length bs"
    and "UnpackRevert X bs = Err e1"
    and "(name, e) \<in> set errs" "take 4 (eID e) = take 4 bs" "distinct (map (\<lambda>(n, e). take 4 (eID e)) errs)"
    and "mset order = mset errs"
  shows "SimulateAndDecodeRevert X from to v d w = (''0x'' @ hex_encode bs, w') \<and>
     MatchCustomError order (''0x'' @ hex_encode bs) =
       (case eUnpack e bs of
          Ok args \<Rightarrow> if args \<noteq> ''[]'' \<and> args \<noteq> ''<nil>'' then name @ args else name
        | Err _ \<Rightarrow> name)"
proof -
  have r: "DecodeRevertReason (UnpackRevert X) (Some err) = ''0x'' @ hex_encode bs"
    using assms(2-4) by (simp add: DecodeRevertReason_def decodeRevertHex_encode del: append_Cons)
  have "mset (map (\<lambda>(n, e). take 4 (eID e)) order) = mset (map (\<lambda>(n, e). take 4 (eID e)) errs)"
    using assms(8) by simp
  then have "distinct (map (\<lambda>(n, e). take 4 (eID e)) order)"
    using assms(7) mset_eq_imp_distinct_iff by blast
  moreover have "(name, e) \<in> set order" using assms(5,8) by (metis set_mset_mset)
  ultimately show ?thesis
    using assms(1,3,6) match_errors_iff [of order name e bs] r
    by (simp add: SimulateAndDecodeRevert_def MatchCustomError_def hex_decode_encode Let_def del: append_Cons)
qed

definition demo_tx :: transaction where
  "demo_tx = \<lparr>tHash = 1, tTo = None, tGas = 0, tGasPrice = 0, tValue = 0, tData = []\<rparr>"

definition demo_eth :: "nat eth" where
  "demo_eth =
     \<lparr>TransactorError = (\<lambda>_ _. None), WaitMined = (\<lambda>tx n. (Ok \<lparr>rStatus = 1, rLogs = [\<lparr>lTopics = [], lData = []\<rparr>, \<lparr>lTopics = [], lData = []\<rparr>]\<rparr>, Suc n)),
      TransactionByHash = (\<lambda>h n. (Err (ErrText ''not found''), n)),
      CallContract = (\<lambda>m n. (Err (ErrRPC ''execution reverted'' (DataString (''0x'' @ hex_encode ''ABCD''))), n)),
      Sender = (\<lambda>_. Ok 1), UnpackRevert = (\<lambda>_. Err (ErrText ''invalid'')), FromHex = (\<lambda>_. [])\<rparr>"

theorem custom_error_is_named_witness:
  "MatchCustomError [(''Other'', \<lparr>eID = ''WXYZ'', eUnpack = (\<lambda>_. Ok ''[]''), eInputsUnpack = (\<lambda>_. Ok ''[]'')\<rparr>),
      (''InvalidGovernanceHash'', \<lparr>eID = ''ABCDEF'', eUnpack = (\<lambda>_. Ok ''[]''), eInputsUnpack = (\<lambda>_. Ok ''[]'')\<rparr>)]
     (fst (SimulateAndDecodeRevert demo_eth 1 2 0 [] 0)) = ''InvalidGovernanceHash''"
proof -
  let ?o = "(''Other'', \<lparr>eID = ''WXYZ'', eUnpack = (\<lambda>_. Ok ''[]''), eInputsUnpack = (\<lambda>_. Ok ''[]'')\<rparr>)"
  let ?e = "\<lparr>eID = ''ABCDEF'', eUnpack = (\<lambda>_. Ok ''[]''), eInputsUnpack = (\<lambda>_. Ok ''[]'')\<rparr>"
  let ?err = "ErrRPC ''execution reverted'' (DataString (''0x'' @ hex_encode ''ABCD''))"
  have "SimulateAndDecodeRevert demo_eth 1 2 0 [] 0 = (''0x'' @ hex_encode ''ABCD'', 0) \<and>
      MatchCustomError [?o, (''InvalidGovernanceHash'', ?e)] (''0x'' @ hex_encode ''ABCD'') =
        (case eUnpack ?e ''ABCD'' of
           Ok args \<Rightarrow> if args \<noteq> ''[]'' \<and> args \<noteq> ''<nil>'' then ''InvalidGovernanceHash'' @ args
                      else ''InvalidGovernanceHash''
         | Err _ \<Rightarrow> ''InvalidGovernanceHash'')"
    by (rule custom_error_is_named [where err = ?err and ?e1.0 = "ErrText ''invalid''"
          and errs = "[(''InvalidGovernanceHash'', ?e), ?o]"])
       (simp_all add: demo_eth_def add_mset_commute del: append_Cons)
  then show ?thesis by (simp del: append_Cons)
qed

end
