(* ===== verification/Retry.thy ===== *)
theory Retry
  imports Prelude
begin

section \<open>Bounded retry loops\<close>

text \<open>
  Three loops of the tools try an action a bounded number of times: ActionResult (tee_calls.go), sendTxRetry and
  pollResult (run-test). They differ in what ends the loop, in where they sleep and in what they report in the end. The
  locale \<open>bounded_retry\<close> states what they share and proves once that such a loop returns what the first ending attempt
  returned, and reports on all attempts when there is none. The loops are its interpretations.
\<close>

text \<open>The attempts one after the other, as if none of them ended the loop: the outcome of each and the state after it. \<open>pause k\<close> is what
  happens after an attempt when \<open>k\<close> more may follow.\<close>

fun attempts :: "('c \<Rightarrow> 'r \<times> 'c) \<Rightarrow> (nat \<Rightarrow> 'c \<Rightarrow> 'c) \<Rightarrow> nat \<Rightarrow> 'c \<Rightarrow> ('r \<times> 'c) list" where
  "attempts attempt pause 0 w = []"
| "attempts attempt pause (Suc n) w = (case attempt w of (r, w') \<Rightarrow> (r, w') # attempts attempt pause n (pause n w'))"

lemma length_attempts [simp]: "length (attempts attempt pause n w) = n"
  by (induction n arbitrary: w) (auto split: prod.split)

lemma find_SomeD: "find P xs = Some x \<Longrightarrow> P x"
  by (auto simp: find_Some_iff)

locale bounded_retry =
  fixes attempt :: "'c \<Rightarrow> 'r \<times> 'c" and stop :: "'r \<Rightarrow> bool" and pause :: "nat \<Rightarrow> 'c \<Rightarrow> 'c"
    and upd :: "'r \<Rightarrow> 's \<Rightarrow> 's" and found :: "'r \<Rightarrow> 'o" and exhausted :: "'s \<Rightarrow> 'o"
    and loop :: "nat \<Rightarrow> 's \<Rightarrow> 'c \<Rightarrow> 'o \<times> 'c"
  assumes loop_exhausted: "loop 0 s w = (exhausted s, w)"
    and loop_stop: "attempt w = (r, w') \<Longrightarrow> stop r \<Longrightarrow> loop (Suc n) s w = (found r, w')"
    and loop_again: "attempt w = (r, w') \<Longrightarrow> \<not> stop r \<Longrightarrow> loop (Suc n) s w = loop n (upd r s) (pause n w')"
begin

lemma loop_first:
  "find (\<lambda>x. stop (fst x)) (attempts attempt pause n w) = Some (r, w') \<Longrightarrow> loop n s w = (found r, w')"
proof (induction n arbitrary: w s)
  case (Suc n)
  obtain r1 w1 where t: "attempt w = (r1, w1)" by force
  with Suc show ?case by (cases "stop r1") (simp_all add: loop_stop loop_again)
qed simp

lemma loop_none:
  "find (\<lambda>x. stop (fst x)) (attempts attempt pause n w) = None \<Longrightarrow>
   fst (loop n s w) = exhausted (fold (\<lambda>x. upd (fst x)) (attempts attempt pause n w) s)"
proof (induction n arbitrary: w s)
  case (Suc n)
  obtain r1 w1 where t: "attempt w = (r1, w1)" by force
  with Suc show ?case by (cases "stop r1") (simp_all add: loop_again)
qed (simp add: loop_exhausted)

text \<open>Both at once: the loop's result is a function of the list of attempts.\<close>

lemma loop_result:
  "fst (loop n s w) =
     (case find (\<lambda>x. stop (fst x)) (attempts attempt pause n w) of
        Some (r, _) \<Rightarrow> found r
      | None \<Rightarrow> exhausted (fold (\<lambda>x. upd (fst x)) (attempts attempt pause n w) s))"
  by (auto simp: loop_none loop_first split: option.split)

end

text \<open>The accumulators that occur: the last outcome, and the last one of those that pass a test.\<close>

lemma fold_last: "xs \<noteq> [] \<Longrightarrow> fold (\<lambda>x _. f x) xs s = f (last xs)"
  by (induction xs arbitrary: s) auto

lemma fold_keep: "fold (\<lambda>x s. if P x then Some (g x) else s) xs s = (if \<exists>x\<in>set xs. P x then Some (g (last (filter P xs))) else s)"
proof (induction xs arbitrary: s)
  case (Cons x xs)
  then show ?case by (auto simp: filter_empty_conv)
qed simp

end
