(* ===== verification/TeeCalls.thy ===== *)
theory TeeCalls
  imports Tx Retry
begin

section \<open>Calls of the TEE proxies and the signing-policy gate\<close>

text \<open>
  tools/pkg/fccutils: \<open>TeeInfo\<close>, \<open>TeeProxyId\<close>, the polling loop \<open>ActionResult\<close> and \<open>SetProxyUrl\<close>
  (tee_calls.go), \<open>GetTeeProxyID\<close> and \<open>GetCodeHashAndPlatform\<close> (common.go), and the consistency check
  of the proxy's signing policy (policy_consistency.go) on 64-bit words. HTTP, the decoding of tee-node's
  response types and the signature functions are parameters (\<open>proxy\<close>).
\<close>

subsection \<open>Data\<close>

type_synonym pubkey = "256 word \<times> 256 word"

record machine_data =
  ExtensionID :: hash
  InitialOwner :: address
  CodeHash :: hash
  Platform :: hash
  PublicKey :: pubkey
  GovernanceHash :: hash

text \<open>A \<^verbatim>\<open>SignedTeeInfoResponse\<close>: the fields the tools read. The policy ID is the value after the
  conversion to uint64.\<close>

record teeinfo =
  tiPublicKey :: pubkey
  tiChainID :: int
  tiLastSigningPolicyID :: "64 word"
  MachineData :: machine_data
  DataSignature :: bytes
  ProxySignature :: bytes
  Attestation :: string

text \<open>An \<^verbatim>\<open>ActionResponse\<close>: the result's status (2 is pending), log, data and submission tag, and the TEE's signature.\<close>

record action_response =
  rspStatus :: "8 word"
  rspLog :: string
  rspData :: bytes
  rspSubmissionTag :: string
  rspSignature :: bytes

record 'c proxy =
  HttpGetBody :: "string \<Rightarrow> ('c, nat \<times> string) act"
  HttpPost :: "string \<Rightarrow> bytes \<Rightarrow> ('c, nat) act"
  Sleep :: "nat \<Rightarrow> 'c \<Rightarrow> 'c"
  DecodeTeeInfo :: "string \<Rightarrow> teeinfo result"
  DecodeActionResponse :: "string \<Rightarrow> action_response result"
  EncodeProxyURL :: "string \<Rightarrow> bytes result"
  ParsePubKey :: "pubkey \<Rightarrow> pubkey result"
  PubToAddress :: "pubkey \<Rightarrow> address"
  TeeInfoHash :: "teeinfo \<Rightarrow> hash result"
  ProxyPayloadHash :: "int \<Rightarrow> hash \<Rightarrow> hash result"
  TextHash :: "hash \<Rightarrow> hash"
  SigToPub :: "hash \<Rightarrow> bytes \<Rightarrow> pubkey result"
  ParseClaims :: "string \<Rightarrow> (hash result \<times> hash result) result"
  GetCurrentRewardEpochId :: "('c, int option) act"

subsection \<open>tee_calls.go and common.go\<close>

definition TeeInfo :: "'c proxy \<Rightarrow> string \<Rightarrow> ('c, teeinfo) act" where
  "TeeInfo P nodeURL =
     call (HttpGetBody P (nodeURL @ ''/info'')) (Errorf []) (\<lambda>(_, body).
       call (lift (DecodeTeeInfo P body)) (Errorf []) ret)"

definition CodeHashAndPlatform :: "'c proxy \<Rightarrow> string \<Rightarrow> (hash \<times> hash) result" where
  "CodeHashAndPlatform P att =
     (case ParseClaims P att of
        Err err \<Rightarrow> Err (Errorf [] err)
      | Ok (code, plat) \<Rightarrow>
          (case code of
             Err err \<Rightarrow> Err (Errorf [] err)
           | Ok codeHash \<Rightarrow>
               (case plat of
                  Err err \<Rightarrow> Err (Errorf [] err)
                | Ok platform \<Rightarrow> Ok (codeHash, platform))))"

definition TeeProxyId :: "'c proxy \<Rightarrow> teeinfo \<Rightarrow> (address \<times> address) result" where
  "TeeProxyId P ti =
     (case ParsePubKey P (tiPublicKey ti) of
        Err err \<Rightarrow> Err (Errorf [] err)
      | Ok pubKey \<Rightarrow>
          (case TeeInfoHash P ti of
             Err err \<Rightarrow> Err (Errorf [] err)
           | Ok h \<Rightarrow>
               (case ProxyPayloadHash P (tiChainID ti) h of
                  Err err \<Rightarrow> Err (Errorf [] err)
                | Ok infoSignHash \<Rightarrow>
                    (case SigToPub P (TextHash P infoSignHash) (ProxySignature ti) of
                       Err err \<Rightarrow> Err (Errorf [] err)
                     | Ok proxyPubKey \<Rightarrow> Ok (PubToAddress P pubKey, PubToAddress P proxyPubKey)))))"

definition GetTeeProxyID :: "'c proxy \<Rightarrow> string \<Rightarrow> ('c, address \<times> address) act" where
  "GetTeeProxyID P proxyURL =
     call (TeeInfo P proxyURL) id (\<lambda>ti. call (lift (TeeProxyId P ti)) id ret)"

definition TeeCodeHash :: "ext \<Rightarrow> hash" where
  "TeeCodeHash E = HexToHash E ''194844cf417dde867073e5ab7199fa4d21fd82b5dbe2bdea8b3d7fc18d10fdc2''"

definition TestPlatform :: "ext \<Rightarrow> hash" where
  "TestPlatform E = HexToHash E ''544553545f504c4154464f524d00000000000000000000000000000000000000''"

definition GetCodeHashAndPlatform :: "ext \<Rightarrow> 'c proxy \<Rightarrow> host \<Rightarrow> teeinfo \<Rightarrow> (hash \<times> hash) result" where
  "GetCodeHashAndPlatform E P H ti =
     (case (if Getenv H ''SIMULATED_TEE'' = ''true'' then Ok (TeeCodeHash E, TestPlatform E)
            else CodeHashAndPlatform P (Attestation ti)) of
        Err err \<Rightarrow> Err err
      | Ok (codeHash, platform) \<Rightarrow>
          if codeHash \<noteq> CodeHash (MachineData ti)
          then Err (ErrText (''code hashes do not match: '' @ HashHex E codeHash @ '', '' @
                 HashHex E (CodeHash (MachineData ti))))
          else if platform \<noteq> Platform (MachineData ti)
          then Err (ErrText (''platforms do not matc: '' @ HashHex E platform @ '', '' @
                 HashHex E (Platform (MachineData ti))))
          else Ok (codeHash, platform))"

definition repeats :: nat where
  "repeats = 15"

text \<open>The loop of \<^verbatim>\<open>ActionResult\<close> with \<open>n\<close> rounds left; \<open>res\<close> is the outcome of the last round
  (\<^verbatim>\<open>result, err\<close>). A round that does not end the loop sleeps two seconds.\<close>

fun poll :: "'c proxy \<Rightarrow> string \<Rightarrow> nat \<Rightarrow> (nat \<times> string) result \<Rightarrow> 'c \<Rightarrow> (nat \<times> string) result \<times> 'c" where
  "poll P url 0 res w = (res, w)"
| "poll P url (Suc n) res w =
     (case HttpGetBody P url w of
        (Ok (status, body), w') \<Rightarrow>
          if status = 200 then (Ok (status, body), w')
          else poll P url n (Ok (status, body)) (Sleep P 2 w')
      | (Err err, w') \<Rightarrow> poll P url n (Err err) (Sleep P 2 w'))"

text \<open>With \<open>repeats\<close> rounds the initial nil result is never looked at.\<close>

definition ActionResult :: "ext \<Rightarrow> 'c proxy \<Rightarrow> string \<Rightarrow> hash \<Rightarrow> ('c, action_response) act" where
  "ActionResult E P nodeURL actionID w =
     (case poll P (nodeURL @ ''/action/result/'' @ HashHex E actionID) repeats
             (Err (Panic ''nil response'')) w of
        (Err err, w') \<Rightarrow> (Err (Errorf [] err), w')
      | (Ok (status, body), w') \<Rightarrow>
          if status \<noteq> 200
          then (Err (ErrText (''action result status not ok, got: '' @ dec_of_nat status)), w')
          else (case DecodeActionResponse P body of
                  Err err \<Rightarrow> (Err (Errorf [] err), w')
                | Ok response \<Rightarrow> (Ok response, w')))"

definition SetProxyUrl :: "'c proxy \<Rightarrow> int \<Rightarrow> int \<Rightarrow> ('c, unit) act" where
  "SetProxyUrl P configurationPort proxyPort =
     call (lift (EncodeProxyURL P (''http://localhost:'' @ dec_of_int proxyPort))) id (\<lambda>body.
       call (HttpPost P (''http://localhost:'' @ dec_of_int configurationPort @ ''/proxy'') body) id (\<lambda>status.
         if status \<noteq> 200 then fail (ErrText (''unexpected status code: '' @ dec_of_nat status)) else ret ()))"

subsection \<open>policy_consistency.go\<close>

definition ErrPolicyOutOfSync :: goerror where
  "ErrPolicyOutOfSync = ErrText ''FTDC proxy signing policy out of sync with on-chain reward epoch''"

definition policyInSync :: "64 word \<Rightarrow> 64 word \<Rightarrow> bool" where
  "policyInSync onchainEpoch proxyPolicyID \<longleftrightarrow>
     proxyPolicyID = onchainEpoch \<or> proxyPolicyID = onchainEpoch + 1"

definition dec_of_word :: "64 word \<Rightarrow> string" where
  "dec_of_word x = dec_of_nat (unat x)"

definition sync_relation :: "64 word \<Rightarrow> 64 word \<Rightarrow> string" where
  "sync_relation onchainEpoch proxyPolicyID =
     (if proxyPolicyID < onchainEpoch
      then ''proxy is '' @ dec_of_word (onchainEpoch - proxyPolicyID) @ '' epoch(s) behind''
      else ''proxy is '' @ dec_of_word (proxyPolicyID - onchainEpoch) @ '' epoch(s) ahead'')"

definition policy_advice :: string where
  "policy_advice =
     ''data providers will reject the availability check with 404 '' @ [CHR 0x22] @ ''no round'' @ [CHR 0x22] @ ''; '' @
     ''wait for the proxy to catch up to the current signing policy, or check the proxy'' @ [CHR 0x27] @ ''s '' @
     ''initial_signing_policy_offset and C-chain indexer sync''"

definition outOfSyncError :: "64 word \<Rightarrow> 64 word \<Rightarrow> goerror" where
  "outOfSyncError onchainEpoch proxyPolicyID =
     ErrWrap (Error ErrPolicyOutOfSync @ '': proxy signing policy '' @ dec_of_word proxyPolicyID @
       '' vs on-chain current reward epoch '' @ dec_of_word onchainEpoch @ '' ('' @
       sync_relation onchainEpoch proxyPolicyID @ ''); '' @ policy_advice) ErrPolicyOutOfSync"

text \<open>\<^verbatim>\<open>big.Int.Uint64\<close> keeps the low 64 bits of the absolute value.\<close>

definition Uint64 :: "int \<Rightarrow> 64 word" where
  "Uint64 x = word_of_int \<bar>x\<bar>"

definition CheckFTDCProxyPolicyConsistency :: "'c proxy \<Rightarrow> string \<Rightarrow> ('c, unit) act" where
  "CheckFTDCProxyPolicyConsistency P ftdcProxyURL w =
     (case GetCurrentRewardEpochId P w of
        (Err _, w1) \<Rightarrow> (Ok (), w1)
      | (Ok None, w1) \<Rightarrow> (Ok (), w1)
      | (Ok (Some onchain), w1) \<Rightarrow>
          (case TeeInfo P ftdcProxyURL w1 of
             (Err _, w2) \<Rightarrow> (Ok (), w2)
           | (Ok info, w2) \<Rightarrow>
               (let onchainEpoch = Uint64 onchain; proxyPolicyID = tiLastSigningPolicyID info in
                if \<not> policyInSync onchainEpoch proxyPolicyID
                then (Err (outOfSyncError onchainEpoch proxyPolicyID), w2)
                else (Ok (), w2))))"

subsection \<open>The gate\<close>

text \<open>\<^verbatim>\<open>errors.Is(err, ErrPolicyOutOfSync)\<close> along the wrapping chain.\<close>

primrec errors_Is_out_of_sync :: "goerror \<Rightarrow> bool" where
  "errors_Is_out_of_sync (ErrText s) = (ErrText s = ErrPolicyOutOfSync)"
| "errors_Is_out_of_sync (ErrRPC s d) = False"
| "errors_Is_out_of_sync (ErrWrap s e) = errors_Is_out_of_sync e"
| "errors_Is_out_of_sync (Panic s) = False"

lemma unat_Suc_word: "unat (e + 1 :: 64 word) = (unat e + 1) mod 2 ^ 64"
  by (simp add: unat_word_ariths)

lemma unat_Uint64: "unat (Uint64 n) = nat \<bar>n\<bar> mod 2 ^ 64"
  unfolding Uint64_def unat_eq_nat_uint uint_word_of_int by (simp add: nat_mod_distrib)

text \<open>The policy IDs count as in sync exactly when the proxy's is the on-chain epoch or its successor
  modulo 2^64, that is, equal or one ahead except at the last epoch of the type, where the successor is 0.\<close>

lemma policyInSync_iff:
  "policyInSync e p \<longleftrightarrow>
     unat p = unat e \<or> (unat p = unat e + 1 \<and> unat e < 2 ^ 64 - 1) \<or> (unat p = 0 \<and> unat e = 2 ^ 64 - 1)"
proof -
  have "unat e < 2 ^ 64" using unsigned_less [of e] by simp
  then have "(unat e + 1) mod 2 ^ 64 = (if unat e = 2 ^ 64 - 1 then 0 else unat e + 1)" by auto
  then show ?thesis
    unfolding policyInSync_def word_unat_eq_iff unat_Suc_word
    using \<open>unat e < 2 ^ 64\<close> by (auto split: if_splits)
qed

text \<open>The distance in the message of a refused check is the distance of the two numbers, without
  wrap-around: the epochs the proxy is behind, or (at least 2, or against the wrapped epoch) ahead.\<close>

lemma sync_relation_distance:
  "sync_relation e p =
     (if unat p < unat e then ''proxy is '' @ dec_of_nat (unat e - unat p) @ '' epoch(s) behind''
      else ''proxy is '' @ dec_of_nat (unat p - unat e) @ '' epoch(s) ahead'')"
proof -
  have "p < e \<Longrightarrow> unat (e - p) = unat e - unat p" "\<not> p < e \<Longrightarrow> unat (p - e) = unat p - unat e"
    by (auto intro!: unat_sub simp: not_less)
  then show ?thesis by (simp add: sync_relation_def dec_of_word_def word_less_nat_alt)
qed

text \<open>C30: The gate refuses exactly on a confirmed mismatch: it returns an error only if both lookups succeed and the proxy's policy ID is neither
  the on-chain epoch nor its successor, as 64-bit numbers. The error then is ErrPolicyOutOfSync to errors.Is, and its text gives both
  numbers and their distance: how many epochs the proxy is behind if its number is the smaller one, and ahead otherwise.\<close>

theorem policy_gate_blocks_iff_mismatch:
  "(\<exists>w'. CheckFTDCProxyPolicyConsistency P url w = (Err err, w')) \<longleftrightarrow>
   (\<exists>n w1 info w2. GetCurrentRewardEpochId P w = (Ok (Some n), w1) \<and> TeeInfo P url w1 = (Ok info, w2) \<and>
      (let e = nat \<bar>n\<bar> mod 2 ^ 64; p = unat (tiLastSigningPolicyID info) in
       p \<noteq> e \<and> p \<noteq> (e + 1) mod 2 ^ 64 \<and>
       err = ErrWrap (''FTDC proxy signing policy out of sync with on-chain reward epoch: proxy signing policy '' @ dec_of_nat p @
         '' vs on-chain current reward epoch '' @ dec_of_nat e @ '' (proxy is '' @
         (if p < e then dec_of_nat (e - p) @ '' epoch(s) behind'' else dec_of_nat (p - e) @ '' epoch(s) ahead'') @ ''); '' @
         policy_advice) ErrPolicyOutOfSync) \<and>
      errors_Is_out_of_sync err)"
proof -
  have msg: "outOfSyncError e p = ErrWrap (''FTDC proxy signing policy out of sync with on-chain reward epoch: proxy signing policy '' @
      dec_of_nat (unat p) @ '' vs on-chain current reward epoch '' @ dec_of_nat (unat e) @ '' (proxy is '' @
      (if unat p < unat e then dec_of_nat (unat e - unat p) @ '' epoch(s) behind''
       else dec_of_nat (unat p - unat e) @ '' epoch(s) ahead'') @ ''); '' @ policy_advice) ErrPolicyOutOfSync" for e p
    by (simp add: outOfSyncError_def sync_relation_distance ErrPolicyOutOfSync_def dec_of_word_def)
  have chain: "errors_Is_out_of_sync (outOfSyncError e p)" for e p by (simp add: outOfSyncError_def ErrPolicyOutOfSync_def)
  have "(\<exists>w'. CheckFTDCProxyPolicyConsistency P url w = (Err err, w')) \<longleftrightarrow>
      (\<exists>n w1 info w2. GetCurrentRewardEpochId P w = (Ok (Some n), w1) \<and> TeeInfo P url w1 = (Ok info, w2) \<and>
         \<not> policyInSync (Uint64 n) (tiLastSigningPolicyID info) \<and> err = outOfSyncError (Uint64 n) (tiLastSigningPolicyID info) \<and>
         errors_Is_out_of_sync err)"
    using chain by (auto simp: CheckFTDCProxyPolicyConsistency_def Let_def split: prod.splits sum.splits option.splits if_splits)
  then show ?thesis
    unfolding policyInSync_def msg Let_def word_unat_eq_iff unat_Suc_word unat_Uint64 by (simp only: de_Morgan_disj conj_assoc)
qed

subsection \<open>The polling loop\<close>

text \<open>What ends the loop, and its instance of the retry contract.\<close>

definition good_answer :: "(nat \<times> string) result \<Rightarrow> bool" where
  "good_answer r = (case r of Ok (status, _) \<Rightarrow> status = 200 | Err _ \<Rightarrow> False)"

lemma good_answer_simps [simp]: "good_answer (Ok (status, body)) \<longleftrightarrow> status = 200" "\<not> good_answer (Err e)"
  by (simp_all add: good_answer_def)

lemma good_answerD: "good_answer r \<Longrightarrow> \<exists>body. r = Ok (200, body)"
  by (auto simp: good_answer_def split: sum.splits)

interpretation poll_loop: bounded_retry "HttpGetBody P url" good_answer "\<lambda>_. Sleep P 2" "\<lambda>r _. r" id id "poll P url" for P url
  by unfold_locales (auto split: sum.splits)

text \<open>C17: ActionResult returns the decoded body of the first of at most fifteen requests that is answered
  with status 200; it succeeds exactly when there is such a request and its body decodes.\<close>

theorem ActionResult_first_success:
  "(\<exists>w'. ActionResult E P url h w = (Ok response, w')) \<longleftrightarrow>
   (\<exists>body w'. find (\<lambda>x. good_answer (fst x))
        (attempts (HttpGetBody P (url @ ''/action/result/'' @ HashHex E h)) (\<lambda>_. Sleep P 2) 15 w) = Some (Ok (200, body), w') \<and>
      DecodeActionResponse P body = Ok response)"
proof -
  let ?u = "url @ ''/action/result/'' @ HashHex E h"
  let ?as = "attempts (HttpGetBody P ?u) (\<lambda>_. Sleep P 2) 15 w"
  let ?p = "poll P ?u repeats (Err (Panic ''nil response'')) w"
  have ar: "(\<exists>w'. ActionResult E P url h w = (Ok response, w')) \<longleftrightarrow>
      (\<exists>body. fst ?p = Ok (200, body) \<and> DecodeActionResponse P body = Ok response)"
    by (force simp: ActionResult_def split: prod.splits sum.splits if_splits)
  show ?thesis
  proof (cases "find (\<lambda>x. good_answer (fst x)) ?as")
    case None
    have ne: "?as \<noteq> []" using length_attempts [of "HttpGetBody P ?u" "\<lambda>_. Sleep P 2" 15 w] by (metis list.size(3) zero_neq_numeral)
    then have "\<not> good_answer (fst (last ?as))" using None last_in_set by (metis find_None_iff)
    moreover have "fst ?p = fst (last ?as)"
      using poll_loop.loop_none [OF None] fold_last [OF ne, of fst] by (simp add: repeats_def)
    ultimately show ?thesis using None by (auto simp: ar)
  next
    case (Some x)
    obtain r w' where x: "x = (r, w')" by force
    have "good_answer r" using find_SomeD [OF Some] x by simp
    then obtain body where "r = Ok (200, body)" using good_answerD by blast
    then show ?thesis using Some x poll_loop.loop_first [OF Some [unfolded x]] by (auto simp: ar repeats_def)
  qed
qed

end
