(* ===== verification/Governance.thy ===== *)
theory Governance
  imports TeeCalls Support
begin

section \<open>TEE governance (fccutils/governance.go, cmd/set-governance)\<close>

text \<open>
  The signer set and threshold from the environment, and the transaction that registers them. The hash over
  the pair (tee-node) and the contract's two methods are parameters (\<open>governor\<close>). The lemmas: what the two
  parsers accept and that they never produce an empty set or a zero threshold, when
  \<open>SetTeeGovernance\<close> sends its transaction, and that a repeated run sends none.
\<close>

record 'c governor =
  ComputeGovernanceHash :: "address list \<Rightarrow> 64 word \<Rightarrow> hash result"
  GetLatestTeeGovernanceHash :: "int \<Rightarrow> ('c, hash) act"
  SetNewTeeGovernance :: "opts \<Rightarrow> int \<Rightarrow> address list \<Rightarrow> 64 word \<Rightarrow> ('c, transaction) act"

subsection \<open>Operations\<close>

definition parseSigners :: "ext \<Rightarrow> string \<Rightarrow> address \<Rightarrow> address list" where
  "parseSigners E raw fallback =
     (let signers = map (HexToAddress E) (filter (\<lambda>p. p \<noteq> []) (map TrimSpace (Split raw (CHR '','')))) in
      if length signers = 0 then [fallback] else signers)"

definition parseThreshold :: "string \<Rightarrow> 64 word" where
  "parseThreshold raw =
     (case ParseUint (TrimSpace raw) of
        Some v \<Rightarrow> if 0 < v then v else 1
      | None \<Rightarrow> 1)"

definition governance_tx :: "ext \<Rightarrow> 'c eth \<Rightarrow> 'c governor \<Rightarrow> privkey \<Rightarrow> int \<Rightarrow> int \<Rightarrow> address list \<Rightarrow> 64 word
    \<Rightarrow> ('c, unit) act" where
  "governance_tx E X G privKey cid extensionId signers threshold =
     call (lift (NewKeyedTransactor X privKey cid)) (Errorf []) (\<lambda>opts.
       call (SetNewTeeGovernance G opts extensionId signers threshold) (Errorf ''SetNewTeeGovernance failed: '') (\<lambda>tx.
         call (CheckTx E X tx) (Errorf []) (\<lambda>_. ret ())))"

definition SetTeeGovernance :: "ext \<Rightarrow> 'c eth \<Rightarrow> 'c governor \<Rightarrow> privkey \<Rightarrow> int \<Rightarrow> int \<Rightarrow> address list \<Rightarrow> 64 word
    \<Rightarrow> ('c, unit) act" where
  "SetTeeGovernance E X G privKey cid extensionId signers threshold w =
     (if length signers = 0
      then (Err (ErrText ''at least one governance signer is required (set GOVERNANCE_SIGNERS)''), w)
      else if threshold = 0 \<or> of_nat (length signers) < threshold
      then (Err (ErrText (''invalid GOVERNANCE_THRESHOLD '' @ dec_of_word threshold @ '' for '' @
             dec_of_nat (length signers) @ '' signer(s)'')), w)
      else case ComputeGovernanceHash G signers threshold of
        Err err \<Rightarrow> (Err (Errorf ''computing governance hash: '' err), w)
      | Ok desiredHash \<Rightarrow>
          (case GetLatestTeeGovernanceHash G extensionId w of
             (r, w1) \<Rightarrow>
               if r = Ok desiredHash then (Ok (), w1)
               else governance_tx E X G privKey cid extensionId signers threshold w1))"

text \<open>\<^verbatim>\<open>main\<close> of set-governance; an error is its fatal exit. Both prefixes are cut one after the other.\<close>

definition owner_key :: "ext \<Rightarrow> host \<Rightarrow> privkey \<Rightarrow> privkey result" where
  "owner_key E H prv =
     (let s = Getenv H ''EXTENSION_OWNER_KEY'' in
      if s \<noteq> [] then HexToECDSA E (TrimPrefix (TrimPrefix s ''0x'') ''0X'') else Ok prv)"

definition default_signer :: "ext \<Rightarrow> host \<Rightarrow> privkey \<Rightarrow> address" where
  "default_signer E H privKey =
     (let owner = TrimSpace (Getenv H ''INITIAL_OWNER'') in
      if owner \<noteq> [] then HexToAddress E owner else PubkeyToAddress E privKey)"

definition set_governance :: "ext \<Rightarrow> node \<Rightarrow> host \<Rightarrow> 'c eth \<Rightarrow> 'c proxy \<Rightarrow> 'c governor \<Rightarrow> string \<Rightarrow> string \<Rightarrow> string
    \<Rightarrow> ('c, unit) act" where
  "set_governance E N H X P G af cf pf =
     call (lift (DefaultSupport E N H af cf)) id (\<lambda>s.
       let H = Dotenv N H in
       call (lift (owner_key E H (Prv s))) id (\<lambda>privKey.
         call (TeeInfo P pf) id (\<lambda>ti.
           SetTeeGovernance E X G privKey (sChainID s) (uint (ExtensionID (MachineData ti)))
             (parseSigners E (Getenv H ''GOVERNANCE_SIGNERS'') (default_signer E H privKey))
             (parseThreshold (Getenv H ''GOVERNANCE_THRESHOLD'')))))"

subsection \<open>The parsers\<close>

lemma parseSigners_not_Nil: "parseSigners E raw fb \<noteq> []"
  by (simp add: parseSigners_def Let_def)

lemma parseThreshold_pos: "parseThreshold raw \<noteq> 0"
  by (auto simp: parseThreshold_def split: option.split)

lemma comma_not_space: "\<not> ascii_space (CHR '','')"
  by (simp add: ascii_space_def)

text \<open>C36: A comma-separated signer list is parsed to the signers it shows, in that order: each part is an address, with any ASCII
  blanks before and after it, or nothing but blanks, which counts for no signer; a list that shows no signer at all (the empty string included)
  gives the fallback alone.\<close>

theorem parseSigners_roundtrip:
  assumes "list_all (\<lambda>(l, a, r). list_all ascii_space l \<and> list_all ascii_space r \<and>
      (\<forall>x. a = Some x \<longrightarrow> show_addr x \<noteq> [] \<and> list_all (\<lambda>c. graphic c \<and> c \<noteq> CHR '','') (show_addr x) \<and>
         HexToAddress E (show_addr x) = x)) parts"
  shows "parseSigners E (Join (map (\<lambda>(l, a, r). l @ (case a of None \<Rightarrow> [] | Some x \<Rightarrow> show_addr x) @ r) parts) '','') fallback =
     (case List.map_filter (\<lambda>(l, a, r). a) parts of [] \<Rightarrow> [fallback] | x # xs \<Rightarrow> x # xs)"
proof -
  let ?show = "\<lambda>(l, a, r). l @ (case a of None \<Rightarrow> [] | Some x \<Rightarrow> show_addr x) @ r"
  let ?signers = "\<lambda>ps. map (HexToAddress E) (filter (\<lambda>p. p \<noteq> []) (map TrimSpace ps))"
  have one: "?signers [?show p] = List.map_filter (\<lambda>(l, a, r). a) [p]" "CHR '','' \<notin> set (?show p)" if "p \<in> set parts" for p
  proof -
    obtain l a r where p: "p = (l, a, r)" by (cases p)
    let ?s = "case a of None \<Rightarrow> [] | Some x \<Rightarrow> show_addr x"
    have ok: "list_all ascii_space l" "list_all ascii_space r"
      "\<And>x. a = Some x \<Longrightarrow> show_addr x \<noteq> [] \<and> list_all (\<lambda>c. graphic c \<and> c \<noteq> CHR '','') (show_addr x) \<and> HexToAddress E (show_addr x) = x"
      using bspec [OF iffD1 [OF list_all_iff assms] that] p by simp_all
    have "TrimSpace (l @ ?s @ r) = ?s" using ok by (intro TrimSpace_spaces) (auto simp: list_all_iff split: option.splits)
    then show "?signers [?show p] = List.map_filter (\<lambda>(l, a, r). a) [p]"
      using ok(3) p by (cases a) (simp_all add: List.map_filter_simps)
    have "CHR '','' \<notin> set ?s" using ok(3) by (auto simp: list_all_iff split: option.splits)
    then show "CHR '','' \<notin> set (?show p)" using ok(1,2) p comma_not_space by (auto simp: list_all_iff)
  qed
  have all: "?signers (map ?show ps) = List.map_filter (\<lambda>(l, a, r). a) ps" if "set ps \<subseteq> set parts" for ps
    using that
  proof (induction ps)
    case (Cons p ps)
    have "?signers (map ?show (p # ps)) = ?signers [?show p] @ ?signers (map ?show ps)" by simp
    also have "\<dots> = List.map_filter (\<lambda>(l, a, r). a) [p] @ List.map_filter (\<lambda>(l, a, r). a) ps" using Cons one(1) [of p] by simp
    also have "\<dots> = List.map_filter (\<lambda>(l, a, r). a) (p # ps)" by (simp add: List.map_filter_simps split: option.splits)
    finally show ?case .
  qed (simp add: List.map_filter_simps)
  have "?signers (Split (Join (map ?show parts) '','') (CHR '','')) = List.map_filter (\<lambda>(l, a, r). a) parts"
  proof (cases "parts = []")
    case False
    then have "Split (Join (map ?show parts) '','') (CHR '','') = map ?show parts"
      using one(2) by (intro Split_Join) (auto simp: list_all_iff)
    then show ?thesis using all [of parts] by simp
  qed (simp add: List.map_filter_simps)
  then show ?thesis by (simp add: parseSigners_def Let_def split: list.splits)
qed

text \<open>GOVERNANCE_THRESHOLD is read as the number it prints: every decimal from 1 to 2^64-1 gives that
  threshold, and zero, any larger number or any other text gives 1.\<close>

lemma parseThreshold_value:
  "parseThreshold raw =
     (case parse_nat decval 10 (TrimSpace raw) of
        None \<Rightarrow> 1
      | Some n \<Rightarrow> if 0 < n \<and> n < 2 ^ 64 then of_nat n else 1)"
proof -
  have "(0 < (of_nat n :: 64 word)) = (0 < n)" if "n < 2 ^ 64" for n
    using that by (auto simp: word_less_nat_alt unat_of_nat)
  then show ?thesis
    by (auto simp: parseThreshold_def ParseUint_def split: option.split)
qed

subsection \<open>When the transaction is sent\<close>

text \<open>On what the two parsers deliver, the command refuses before any network call exactly when the
  threshold exceeds the number of signers; the checks for an empty set and a zero threshold never fire.\<close>

lemma parsed_governance_refused_iff:
  assumes "length (parseSigners E raw fb) < 2 ^ 64"
  shows "SetTeeGovernance E X G k cid i (parseSigners E raw fb) (parseThreshold t) w =
     (if length (parseSigners E raw fb) < unat (parseThreshold t)
      then (Err (ErrText (''invalid GOVERNANCE_THRESHOLD '' @ dec_of_word (parseThreshold t) @ '' for '' @
             dec_of_nat (length (parseSigners E raw fb)) @ '' signer(s)'')), w)
      else case ComputeGovernanceHash G (parseSigners E raw fb) (parseThreshold t) of
        Err err \<Rightarrow> (Err (Errorf ''computing governance hash: '' err), w)
      | Ok h \<Rightarrow>
          (case GetLatestTeeGovernanceHash G i w of
             (r, w1) \<Rightarrow>
               if r = Ok h then (Ok (), w1)
               else governance_tx E X G k cid i (parseSigners E raw fb) (parseThreshold t) w1))"
proof -
  have "((of_nat (length (parseSigners E raw fb)) :: 64 word) < parseThreshold t) =
      (length (parseSigners E raw fb) < unat (parseThreshold t))"
    using assms by (simp add: word_less_nat_alt unat_of_nat)
  then show ?thesis
    using parseSigners_not_Nil [of E raw fb] parseThreshold_pos [of t] by (simp add: SetTeeGovernance_def)
qed

text \<open>For valid arguments the transaction is skipped exactly when the latest on-chain hash can be read and
  equals the desired one; a failed read does not prevent the transaction.\<close>

lemma SetTeeGovernance_skips_iff_current:
  assumes "signers \<noteq> []" "threshold \<noteq> 0" "threshold \<le> of_nat (length signers)"
    and "ComputeGovernanceHash G signers threshold = Ok h"
  shows "SetTeeGovernance E X G k cid i signers threshold w =
     (case GetLatestTeeGovernanceHash G i w of
        (r, w1) \<Rightarrow> if r = Ok h then (Ok (), w1) else governance_tx E X G k cid i signers threshold w1)"
  using assms by (auto simp: SetTeeGovernance_def not_less)

subsection \<open>Witnesses\<close>

definition demo_governor :: "nat governor" where
  "demo_governor =
     \<lparr>ComputeGovernanceHash = (\<lambda>as t. Ok (of_nat (length as) + ucast t)),
      GetLatestTeeGovernanceHash = (\<lambda>i n. (Ok 3, n)),
      SetNewTeeGovernance = (\<lambda>opts i as t n. (Err (ErrText ''reverted''), Suc n))\<rparr>"

lemma parseThreshold_two: "parseThreshold ''2'' = 2"
proof -
  have "TrimSpace ''2'' = ''2''" by (rule TrimSpace_graphic) (simp add: graphic_def)
  then show ?thesis by (simp add: parseThreshold_def ParseUint_def parse_nat_def decval_def of_digits_def)
qed

lemma parseSigners_empty: "parseSigners E [] fb = [fb]"
  by (simp add: parseSigners_def)

theorem parseSigners_roundtrip_witness:
  "parseSigners demo_ext ''aaa, ,a '' 9 = [3, 1] \<and> parseSigners demo_ext '' ,'' 9 = [9]"
proof
  show "parseSigners demo_ext ''aaa, ,a '' 9 = [3, 1]"
    using parseSigners_roundtrip [of "\<lambda>a. if a = 3 then ''aaa'' else ''a''" demo_ext "[([], Some 3, []), ('' '', None, []), ([], Some 1, '' '')]" 9]
    by (simp add: demo_ext_def graphic_def ascii_space_def List.map_filter_simps)
  show "parseSigners demo_ext '' ,'' 9 = [9]"
    using parseSigners_roundtrip [of "\<lambda>a. if a = 3 then ''aaa'' else ''a''" demo_ext "[('' '', None, []), ([], None, [])]" 9]
    by (simp add: demo_ext_def ascii_space_def List.map_filter_simps)
qed

end
