(* ===== verification/Registration.thy ===== *)
theory Registration
  imports TeeCalls Decode
begin

section \<open>Registration of a TEE machine (fccutils/registration.go)\<close>

text \<open>
  The resumable registration flow: four steps named by the letters r, R, a and p, each an on-chain
  transaction or a proxy request, with the progress saved to a state file after each of the first three.
  The world is the file system and the outside state of the chain and the proxies; only the latter is
  changed by the external calls. \<open>resumable\<close> is the contract of a step towards the state file; the
  three saving steps are interpretations of it, and what a failed run leaves behind follows from the contract.
  The contract bindings and the decoding of the FDC proof are parameters (\<open>registrar\<close>).
\<close>

subsection \<open>World, state file\<close>

record 'c world =
  files :: "string \<rightharpoonup> bytes"
  net :: 'c

record os =
  ReadError :: "string \<Rightarrow> goerror option"
  WriteError :: "string \<Rightarrow> goerror option"
  RemoveError :: "string \<Rightarrow> goerror option"

definition on_net :: "('c, 'a) act \<Rightarrow> ('c world, 'a) act" where
  "on_net m w = (case m (net w) of (r, c) \<Rightarrow> (r, w\<lparr>net := c\<rparr>))"

definition sleep :: "'c proxy \<Rightarrow> nat \<Rightarrow> 'c world \<Rightarrow> 'c world" where
  "sleep P n w = w\<lparr>net := Sleep P n (net w)\<rparr>"

record registrationState =
  CompletedSteps :: string
  TeeAttestInstructionID :: hash
  InstructionID :: hash

definition no_state :: registrationState where
  "no_state = \<lparr>CompletedSteps = [], TeeAttestInstructionID = 0, InstructionID = 0\<rparr>"

definition state_json :: "ext \<Rightarrow> registrationState \<Rightarrow> json" where
  "state_json E st =
     JObj [(''completed_steps'', JStr (CompletedSteps st)),
           (''tee_attest_instruction_id'', JStr (HashHex E (TeeAttestInstructionID st))),
           (''instruction_id'', JStr (HashHex E (InstructionID st)))]"

definition state_fields :: "ext \<Rightarrow> registrationState field list" where
  "state_fields E =
     [(''completed_steps'', string_field (\<lambda>x s. s\<lparr>CompletedSteps := x\<rparr>)),
      (''tee_attest_instruction_id'', text_field (HashUnmarshal E) (\<lambda>h s. s\<lparr>TeeAttestInstructionID := h\<rparr>)),
      (''instruction_id'', text_field (HashUnmarshal E) (\<lambda>h s. s\<lparr>InstructionID := h\<rparr>))]"

definition loadState :: "ext \<Rightarrow> os \<Rightarrow> string \<Rightarrow> 'c world \<Rightarrow> registrationState result" where
  "loadState E OS path w =
     (case ReadError OS path of
        Some err \<Rightarrow> Err (Errorf ''failed to read state file: '' err)
      | None \<Rightarrow>
          (case files w path of
             None \<Rightarrow> Ok no_state
           | Some data \<Rightarrow>
               (case Option.bind (Unmarshal data) (decode_struct False (state_fields E) no_state) of
                  None \<Rightarrow> Err (ErrText (''failed to parse state file: '' @ JSONError E data))
                | Some state \<Rightarrow> Ok state)))"

definition saveState :: "ext \<Rightarrow> os \<Rightarrow> string \<Rightarrow> registrationState \<Rightarrow> ('c world, unit) act" where
  "saveState E OS path st w =
     (case WriteError OS path of
        Some err \<Rightarrow> (Err (Errorf ''failed to write state file: '' err), w)
      | None \<Rightarrow> (Ok (), w\<lparr>files := (files w)(path \<mapsto> MarshalIndent (state_json E st))\<rparr>))"

definition remove_file :: "os \<Rightarrow> string \<Rightarrow> 'c world \<Rightarrow> 'c world" where
  "remove_file OS path w =
     (if RemoveError OS path = None then w\<lparr>files := (files w)(path := None)\<rparr> else w)"

subsection \<open>On-chain operations\<close>

record signature =
  sV :: char
  sR :: bytes
  sS :: bytes

record availability_request =
  qTeeId :: address
  qRest :: bytes

record availability_response =
  aStatus :: "8 word"
  aTeeTimestamp :: "64 word"
  aCodeHash :: hash
  aPlatform :: hash
  aInitialSigningPolicyId :: "32 word"
  aLastSigningPolicyId :: "32 word"
  aState :: bytes

record prove_response =
  pHeader :: bytes
  pRequest :: bytes
  pResponse :: bytes
  pSignatures :: bytes

record availability_proof =
  Signatures :: bytes
  Header :: bytes
  RequestBody :: availability_request
  ResponseBody :: availability_response

record 'c registrar =
  GetTeeMachine :: "address \<Rightarrow> ('c, address) act"
  RegisterMachine :: "opts \<Rightarrow> machine_data \<Rightarrow> signature \<Rightarrow> address \<Rightarrow> string \<Rightarrow> address \<Rightarrow> ('c, transaction) act"
  RequestAttestation :: "opts \<Rightarrow> address \<Rightarrow> address \<Rightarrow> ('c, transaction) act"
  RequestAvailabilityCheck :: "opts \<Rightarrow> address \<Rightarrow> hash \<Rightarrow> address \<Rightarrow> address \<Rightarrow> address \<Rightarrow> ('c, transaction) act"
  SendToProduction :: "opts \<Rightarrow> availability_proof \<Rightarrow> ('c, transaction) act"
  ParseTeeInstructionsSent :: "log \<Rightarrow> hash result"
  ParseTeeAttestationRequested :: "log \<Rightarrow> hash result"
  TransformSignatureRSVtoVRS :: "bytes \<Rightarrow> bytes result"
  ABIs :: contract_abis
  PackRegister :: "machine_data \<Rightarrow> signature \<Rightarrow> address \<Rightarrow> string \<Rightarrow> address \<Rightarrow> bytes result"
  DecodeProveResponse :: "bytes \<Rightarrow> prove_response result"
  DecodeHeader :: "bytes \<Rightarrow> bytes result"
  DecodeRequest :: "bytes \<Rightarrow> availability_request result"
  DecodeResponse :: "bytes \<Rightarrow> availability_response result"
  PackAvailability :: "address \<Rightarrow> hash \<Rightarrow> address \<Rightarrow> address \<Rightarrow> address \<Rightarrow> bytes result"

text \<open>The part of \<^verbatim>\<open>Support\<close> the flow uses.\<close>

record signer =
  sKey :: privkey
  sChain :: int
  sManager :: address

definition fee_opts :: "'c eth \<Rightarrow> signer \<Rightarrow> opts result" where
  "fee_opts X s =
     (case NewKeyedTransactor X (sKey s) (sChain s) of
        Err err \<Rightarrow> Err (Errorf [] err)
      | Ok opts \<Rightarrow> Ok (opts\<lparr>oValue := 1000000000\<rparr>))"

text \<open>Splitting the 65 bytes v, r, s; a shorter answer of the transformation would panic on the slice.\<close>

definition split_signature :: "bytes \<Rightarrow> signature result" where
  "split_signature vrs =
     (if length vrs < 65 then Err (Panic ''slice bounds out of range'')
      else Ok \<lparr>sV = vrs ! 0, sR = take 32 (drop 1 vrs), sS = take 32 (drop 33 vrs)\<rparr>)"

definition register_reason :: "'c eth \<Rightarrow> 'c registrar \<Rightarrow> signer \<Rightarrow> opts \<Rightarrow> machine_data \<Rightarrow> signature \<Rightarrow> address
    \<Rightarrow> string \<Rightarrow> address \<Rightarrow> goerror \<Rightarrow> 'c \<Rightarrow> string \<times> 'c" where
  "register_reason X A s opts md sig proxyID hostURL claimBack err w =
     (let reason = DecodeRevertReason (UnpackRevert X) (Some err);
          (reason, w') =
            (case MachineManagerABI (ABIs A) of
               Err _ \<Rightarrow> (reason, w)
             | Ok parsed \<Rightarrow>
                 (case PackRegister A md sig proxyID hostURL claimBack of
                    Err _ \<Rightarrow> (reason, w)
                  | Ok callData \<Rightarrow>
                      (case SimulateAndDecodeRevert X claimBack (sManager s) (oValue opts) callData w of
                         (raw, w') \<Rightarrow>
                           (let named = MatchCustomError parsed raw in
                            (if named \<noteq> [] then named else if reason = [] then raw else reason, w')))))
      in (if reason = [] then Error err else reason, w'))"

definition registration_events :: "'c registrar \<Rightarrow> receipt \<Rightarrow> (hash \<times> hash) result" where
  "registration_events A receipt =
     (if length (rLogs receipt) < 2 then Err (ErrText ''unexpected logs, this should not happen'')
      else case ParseTeeAttestationRequested A (rLogs receipt ! 1) of
        Err err \<Rightarrow> Err (Errorf ''failed to parse TeeAttestationRequested event: '' err)
      | Ok challenge \<Rightarrow>
          (case ParseTeeInstructionsSent A (rLogs receipt ! 0) of
             Err err \<Rightarrow> Err (Errorf ''failed to parse TeeInstructionsSent event: '' err)
           | Ok instructionID \<Rightarrow> Ok (challenge, instructionID)))"

definition PreRegistration :: "ext \<Rightarrow> 'c eth \<Rightarrow> 'c registrar \<Rightarrow> signer \<Rightarrow> string \<Rightarrow> address \<Rightarrow> teeinfo
    \<Rightarrow> ('c, hash \<times> hash) act" where
  "PreRegistration E X A s hostURL proxyID ti =
     call (lift (fee_opts X s)) id (\<lambda>opts.
       if length (DataSignature ti) \<noteq> 65 then fail (ErrText ''signature error'')
       else call (lift (TransformSignatureRSVtoVRS A (DataSignature ti))) (Errorf []) (\<lambda>vrs.
         call (lift (split_signature vrs)) id (\<lambda>sig w.
           let claimBack = PubkeyToAddress E (sKey s); md = MachineData ti in
           case RegisterMachine A opts md sig proxyID hostURL claimBack w of
             (Err err, w1) \<Rightarrow>
               (case register_reason X A s opts md sig proxyID hostURL claimBack err w1 of
                  (reason, w2) \<Rightarrow> (Err (ErrText (''register() reverted: '' @ reason)), w2))
           | (Ok tx, w1) \<Rightarrow>
               call (CheckTx E X tx) id (\<lambda>receipt. lift (registration_events A receipt)) w1)))"

text \<open>The instruction ID in the first log, after the number of logs has been checked.\<close>

definition instruction_event :: "'c registrar \<Rightarrow> receipt \<Rightarrow> hash result" where
  "instruction_event A receipt =
     (case ParseTeeInstructionsSent A (rLogs receipt ! 0) of
        Err err \<Rightarrow> Err (Errorf ''failed to parse TeeInstructionsSent event: '' err)
      | Ok instructionID \<Rightarrow> Ok instructionID)"

definition RequestTeeAttestation :: "ext \<Rightarrow> 'c eth \<Rightarrow> 'c registrar \<Rightarrow> signer \<Rightarrow> address \<Rightarrow> ('c, hash) act" where
  "RequestTeeAttestation E X A s teeID =
     call (lift (fee_opts X s)) id (\<lambda>opts.
       call (RequestAttestation A opts teeID (PubkeyToAddress E (sKey s))) (Errorf ''error: '') (\<lambda>tx.
         call (CheckTx E X tx) id (\<lambda>receipt.
           if length (rLogs receipt) < 2 then fail (ErrText ''unexpected logs, this should not happen'')
           else lift (instruction_event A receipt))))"

definition RequestFTDCAvailabilityCheck :: "ext \<Rightarrow> 'c eth \<Rightarrow> 'c registrar \<Rightarrow> signer \<Rightarrow> address \<Rightarrow> address \<Rightarrow> hash
    \<Rightarrow> ('c, hash) act" where
  "RequestFTDCAvailabilityCheck E X A s teeID externalTeeID attestID =
     call (lift (fee_opts X s)) id (\<lambda>opts w.
       let claimBack = PubkeyToAddress E (sKey s) in
       case RequestAvailabilityCheck A opts teeID attestID externalTeeID claimBack claimBack w of
         (Err err, w1) \<Rightarrow>
           (Err (Errorf [] err),
            snd (diagAvailabilityCheckRevert E X (ABIs A) (PackAvailability A)
                   (sKey s) (sManager s) (oValue opts) teeID attestID externalTeeID claimBack claimBack w1))
       | (Ok tx, w1) \<Rightarrow>
           call (CheckTx E X tx) (Errorf []) (\<lambda>receipt.
             if length (rLogs receipt) = 0 then fail (ErrText ''no logs found in receipt'')
             else lift (instruction_event A receipt)) w1)"

definition GetFTDCAvailabilityCheckResult :: "ext \<Rightarrow> 'c proxy \<Rightarrow> 'c registrar \<Rightarrow> string \<Rightarrow> hash
    \<Rightarrow> ('c, availability_proof) act" where
  "GetFTDCAvailabilityCheckResult E P A hostURL instructionId =
     call (ActionResult E P hostURL instructionId) id (\<lambda>actionResult.
       call (lift (DecodeProveResponse A (rspData actionResult))) (Errorf []) (\<lambda>ftdcProof.
         call (lift (DecodeHeader A (pHeader ftdcProof))) (Errorf []) (\<lambda>header.
           call (lift (DecodeRequest A (pRequest ftdcProof))) (Errorf []) (\<lambda>request.
             call (lift (DecodeResponse A (pResponse ftdcProof))) (Errorf []) (\<lambda>response.
               ret \<lparr>Signatures = pSignatures ftdcProof, Header = header, RequestBody = request,
                     ResponseBody =
                       \<lparr>aStatus = aStatus response, aTeeTimestamp = aTeeTimestamp response,
                        aCodeHash = aCodeHash response, aPlatform = aPlatform response,
                        aInitialSigningPolicyId = aInitialSigningPolicyId response,
                        aLastSigningPolicyId = aLastSigningPolicyId response, aState = aState response\<rparr>\<rparr>)))))"

definition ToProduction :: "ext \<Rightarrow> 'c eth \<Rightarrow> 'c registrar \<Rightarrow> signer \<Rightarrow> availability_proof \<Rightarrow> ('c, unit) act" where
  "ToProduction E X A s prf =
     call (lift (NewKeyedTransactor X (sKey s) (sChain s))) (Errorf []) (\<lambda>opts.
       call (SendToProduction A opts prf) (Errorf []) (\<lambda>tx.
         call (CheckTx E X tx) (Errorf []) (\<lambda>_.
           call (GetTeeMachine A (qTeeId (RequestBody prf))) (Errorf []) (\<lambda>teeId.
             if teeId \<noteq> qTeeId (RequestBody prf) then fail (ErrText ''tee machine not set up correctly'')
             else ret ()))))"

subsection \<open>The steps\<close>

text \<open>What a step is given of the run: the parameters of \<^verbatim>\<open>RegisterNode\<close>.\<close>

record 'c run_env =
  rExt :: ext
  rOS :: os
  rEth :: "'c eth"
  rProxy :: "'c proxy"
  rRegistrar :: "'c registrar"
  rSigner :: signer
  rTeeInfo :: teeinfo
  rHostURL :: string
  rFtdcURL :: string
  rFtdcTee :: address
  rCommand :: string
  rPath :: string

text \<open>A letter is added to the completed steps and the state is saved; a write error is only logged.\<close>

definition record_step :: "'c run_env \<Rightarrow> registrationState \<Rightarrow> 'c world \<Rightarrow> 'c world" where
  "record_step R st w = snd (saveState (rExt R) (rOS R) (rPath R) st w)"

text \<open>The on-chain part of step r: a machine that is already registered only gets a fresh attestation.\<close>

definition pre_or_attest :: "'c run_env \<Rightarrow> address \<Rightarrow> address \<Rightarrow> ('c, hash) act" where
  "pre_or_attest R teeID proxyID c =
     (case GetTeeMachine (rRegistrar R) teeID c of
        (r, c1) \<Rightarrow>
          if (case r of Ok a \<Rightarrow> a \<noteq> 0 | Err _ \<Rightarrow> False)
          then RequestTeeAttestation (rExt R) (rEth R) (rRegistrar R) (rSigner R) teeID c1
          else call (PreRegistration (rExt R) (rEth R) (rRegistrar R) (rSigner R) (rHostURL R) proxyID (rTeeInfo R)) id
                 (\<lambda>(_, h). ret h) c1)"

definition step_r :: "'c run_env \<Rightarrow> address \<Rightarrow> address \<Rightarrow> registrationState \<times> hash
    \<Rightarrow> ('c world, registrationState \<times> hash) act" where
  "step_r R teeID proxyID sh w =
     (case sh of (st, h0) \<Rightarrow>
        if \<not> Contains (rCommand R) ''r'' then (Ok (st, h0), w)
        else if Contains (CompletedSteps st) ''r''
        then (Ok (st, TeeAttestInstructionID st), sleep (rProxy R) 1 w)
        else call (on_net (pre_or_attest R teeID proxyID)) id (\<lambda>h w1.
               let st' = st\<lparr>CompletedSteps := CompletedSteps st @ ''r'', TeeAttestInstructionID := h\<rparr>
               in (Ok (st', h), sleep (rProxy R) 1 (record_step R st' w1))) w)"

definition step_R :: "'c run_env \<Rightarrow> address \<Rightarrow> registrationState \<times> hash
    \<Rightarrow> ('c world, registrationState \<times> hash) act" where
  "step_R R teeID sh w =
     (case sh of (st, h0) \<Rightarrow>
        if \<not> Contains (rCommand R) ''R'' then (Ok (st, h0), w)
        else if Contains (CompletedSteps st) ''R''
        then (Ok (st, TeeAttestInstructionID st), sleep (rProxy R) 1 w)
        else call (on_net (RequestTeeAttestation (rExt R) (rEth R) (rRegistrar R) (rSigner R) teeID)) id (\<lambda>h w1.
               let st' = st\<lparr>CompletedSteps := CompletedSteps st @ ''R'', TeeAttestInstructionID := h\<rparr>
               in (Ok (st', h), sleep (rProxy R) 1 (record_step R st' w1))) w)"

text \<open>Step a first passes the signing-policy gate. Without the letter, the instruction ID is the argument's.\<close>

definition gated_check :: "'c run_env \<Rightarrow> address \<Rightarrow> hash \<Rightarrow> ('c, hash) act" where
  "gated_check R teeID attestID =
     call (CheckFTDCProxyPolicyConsistency (rProxy R) (rFtdcURL R)) id (\<lambda>_.
       RequestFTDCAvailabilityCheck (rExt R) (rEth R) (rRegistrar R) (rSigner R) teeID (rFtdcTee R) attestID)"

definition step_a :: "'c run_env \<Rightarrow> address \<Rightarrow> string \<Rightarrow> registrationState \<times> hash
    \<Rightarrow> ('c world, registrationState \<times> hash) act" where
  "step_a R teeID instructionIDstring sh w =
     (case sh of (st, attestID) \<Rightarrow>
        if \<not> Contains (rCommand R) ''a'' then (Ok (st, HexToHash (rExt R) instructionIDstring), w)
        else if Contains (CompletedSteps st) ''a''
        then (Ok (st, InstructionID st), sleep (rProxy R) 1 w)
        else call (on_net (gated_check R teeID attestID)) id (\<lambda>i w1.
               let st' = st\<lparr>CompletedSteps := CompletedSteps st @ ''a'', InstructionID := i\<rparr>
               in (Ok (st', i), sleep (rProxy R) 1 (record_step R st' w1))) w)"

definition step_p :: "'c run_env \<Rightarrow> hash \<Rightarrow> ('c, unit) act" where
  "step_p R instructionID =
     (if Contains (rCommand R) ''p''
      then call (GetFTDCAvailabilityCheckResult (rExt R) (rProxy R) (rRegistrar R) (rFtdcURL R) instructionID) id (\<lambda>prf.
             ToProduction (rExt R) (rEth R) (rRegistrar R) (rSigner R) prf)
      else ret ())"

definition RegisterNode :: "'c run_env \<Rightarrow> string \<Rightarrow> ('c world, unit) act" where
  "RegisterNode R instructionIDstring =
     call (lift (TeeProxyId (rProxy R) (rTeeInfo R))) id (\<lambda>(teeID, proxyID) w.
       call (lift (loadState (rExt R) (rOS R) (rPath R) w)) id (\<lambda>st.
         call (step_r R teeID proxyID (st, 0)) id (\<lambda>sh.
           call (step_R R teeID sh) id (\<lambda>sh.
             call (step_a R teeID instructionIDstring sh) id (\<lambda>(_, instructionID).
               call (on_net (step_p R instructionID)) id (\<lambda>_ w'.
                 (Ok (), remove_file (rOS R) (rPath R) w')))))) w)"

subsection \<open>The state file\<close>

definition storage_ok :: "ext \<Rightarrow> os \<Rightarrow> string \<Rightarrow> bool" where
  "storage_ok E OS path \<longleftrightarrow>
     ReadError OS path = None \<and> WriteError OS path = None \<and>
     (\<forall>h. HashUnmarshal E (HashHex E h) = Some h \<and> valid_utf8 (HashHex E h))"

definition recorded :: "ext \<Rightarrow> os \<Rightarrow> string \<Rightarrow> registrationState \<Rightarrow> 'c world \<Rightarrow> bool" where
  "recorded E OS path st w \<longleftrightarrow> loadState E OS path w = Ok st \<and> valid_utf8 (CompletedSteps st)"

lemma decode_state_json:
  "(\<And>h. HashUnmarshal E (HashHex E h) = Some h) \<Longrightarrow>
   decode_struct False (state_fields E) no_state (state_json E st) = Some st"
  by (simp add: decode_struct_def state_json_def state_fields_def field_for_def string_field_def
      text_field_def no_state_def)

lemma Unmarshal_state_json:
  assumes "\<And>h. valid_utf8 (HashHex E h)" "valid_utf8 (CompletedSteps st)"
  shows "Unmarshal (MarshalIndent (state_json E st)) = Some (state_json E st)"
proof -
  have "valid_utf8 ''completed_steps''" "valid_utf8 ''tee_attest_instruction_id''" "valid_utf8 ''instruction_id''"
    by (rule valid_utf8_ascii; simp)+
  with assms have "json_ok (state_json E st)" by (simp add: state_json_def)
  then show ?thesis
    using Unmarshal_MarshalIndent [of "state_json E st" "[]"] by (simp add: state_json_def maxNestingDepth_def)
qed

lemma recorded_save:
  assumes "storage_ok E OS path" "valid_utf8 (CompletedSteps st)"
  shows "recorded E OS path st (snd (saveState E OS path st w))"
  using assms unfolding recorded_def loadState_def saveState_def storage_ok_def
  by (simp add: Unmarshal_state_json decode_state_json)

text \<open>C13: The state that is saved is the state that is loaded: with a writable file and go-ethereum's hex
  encoding of hashes being invertible, loadState after saveState returns the same completed steps and
  instruction IDs, whatever was in the file before.\<close>

theorem state_file_roundtrip:
  assumes "ReadError OS path = None" "WriteError OS path = None"
    and "\<And>h. HashUnmarshal E (HashHex E h) = Some h \<and> valid_utf8 (HashHex E h)"
    and "valid_utf8 (CompletedSteps st)"
  shows "loadState E OS path (snd (saveState E OS path st w)) = Ok st"
  using recorded_save [of E OS path st w] assms by (simp add: storage_ok_def recorded_def)

lemma loadState_files: "files w' = files w \<Longrightarrow> loadState E OS path w' = loadState E OS path w"
  unfolding loadState_def by (simp only:)

lemma recorded_net [simp]: "recorded E OS path st (w\<lparr>net := c\<rparr>) = recorded E OS path st w"
  by (simp add: recorded_def loadState_files [of "w\<lparr>net := c\<rparr>" w])

lemma recorded_sleep [simp]: "recorded E OS path st (sleep P n w) = recorded E OS path st w"
  by (simp add: sleep_def)

lemma on_net_net: "on_net m w = (r, w') \<Longrightarrow> \<exists>c. w' = w\<lparr>net := c\<rparr>"
  by (auto simp: on_net_def split: prod.splits)

lemma valid_utf8_letter: "c \<in> set ''rRa'' \<Longrightarrow> valid_utf8 [c]"
  by (rule valid_utf8_ascii) auto

subsection \<open>The contract of a step that saves its progress\<close>

text \<open>
  A step takes the state and a hash and gives the next ones. With usable storage: if the file records the state
  before, then after a successful step it records the state the step returns, whose completed steps extend the
  old ones by at most the step's letter, and after a failed step it still records the old state.
\<close>

locale resumable =
  fixes E :: ext and OS :: os and path :: string and letter :: char
    and step :: "registrationState \<times> hash \<Rightarrow> ('c world, registrationState \<times> hash) act"
  assumes step_ok: "storage_ok E OS path \<Longrightarrow> recorded E OS path st w \<Longrightarrow> step (st, h) w = (Ok (st', h'), w') \<Longrightarrow>
        recorded E OS path st' w' \<and>
        (CompletedSteps st' = CompletedSteps st \<or> CompletedSteps st' = CompletedSteps st @ [letter])"
    and step_err: "recorded E OS path st w \<Longrightarrow> step (st, h) w = (Err e, w') \<Longrightarrow> recorded E OS path st w'"
begin

lemma keeps_record:
  assumes "storage_ok E OS path" "recorded E OS path st w" "step (st, h) w = (r, w')"
  shows "\<exists>st'. recorded E OS path st' w' \<and> prefix (CompletedSteps st) (CompletedSteps st') \<and>
      (case r of Ok (st2, _) \<Rightarrow> st2 = st' | Err _ \<Rightarrow> st' = st)"
proof (cases r)
  case (Inl e)
  then show ?thesis using step_err [OF assms(2)] assms(3) by auto
next
  case (Inr x)
  then show ?thesis using step_ok [OF assms(1,2)] assms(3) by (cases x) fastforce
qed

text \<open>Running the step before anything that keeps the record keeps the record.\<close>

lemma then_keeps:
  assumes "storage_ok E OS path" "recorded E OS path st w" "call (step (st, h)) id k w = (Err e, w')"
    and "\<And>st1 h1 w1. recorded E OS path st1 w1 \<Longrightarrow> k (st1, h1) w1 = (Err e, w') \<Longrightarrow>
      \<exists>st'. recorded E OS path st' w' \<and> prefix (CompletedSteps st1) (CompletedSteps st')"
  shows "\<exists>st'. recorded E OS path st' w' \<and> prefix (CompletedSteps st) (CompletedSteps st')"
proof -
  obtain r w1 where 1: "step (st, h) w = (r, w1)" by force
  obtain st1 where st1: "recorded E OS path st1 w1" "prefix (CompletedSteps st) (CompletedSteps st1)"
      "case r of Ok (st2, _) \<Rightarrow> st2 = st1 | Err _ \<Rightarrow> st1 = st"
    using keeps_record [OF assms(1,2) 1] by blast
  show ?thesis
  proof (cases r)
    case (Inl e1)
    then show ?thesis using assms(3) 1 st1 by auto
  next
    case (Inr x)
    then obtain h1 where "r = Ok (st1, h1)" using st1(3) by (cases x) auto
    then have "k (st1, h1) w1 = (Err e, w')" using assms(3) 1 by simp
    from assms(4) [OF st1(1) this] st1(2) show ?thesis by (meson prefix_order.trans)
  qed
qed

end

lemma record_after:
  assumes "storage_ok (rExt R) (rOS R) (rPath R)" "recorded (rExt R) (rOS R) (rPath R) st w"
    and "CompletedSteps st' = CompletedSteps st @ [c]" "c \<in> set ''rRa''"
  shows "recorded (rExt R) (rOS R) (rPath R) st' (record_step R st' w1)"
  unfolding record_step_def
  using assms valid_utf8_append valid_utf8_letter
  by (intro recorded_save) (auto simp: recorded_def)

lemma call_Err_iff:
  "call m wrap k w = (Err e, w2) \<longleftrightarrow>
   (\<exists>e1. m w = (Err e1, w2) \<and> e = wrap e1) \<or> (\<exists>x w1. m w = (Ok x, w1) \<and> k x w1 = (Err e, w2))"
  by (auto simp: call_def split: prod.splits sum.splits)

lemmas step_defs = step_r_def step_R_def step_a_def

interpretation r_step: resumable "rExt R" "rOS R" "rPath R" "CHR ''r''" "step_r R teeID proxyID" for R teeID proxyID
proof
  fix st w h st' h' w'
  assume "storage_ok (rExt R) (rOS R) (rPath R)" "recorded (rExt R) (rOS R) (rPath R) st w"
    "step_r R teeID proxyID (st, h) w = (Ok (st', h'), w')"
  then show "recorded (rExt R) (rOS R) (rPath R) st' w' \<and>
      (CompletedSteps st' = CompletedSteps st \<or> CompletedSteps st' = CompletedSteps st @ ''r'')"
    by (auto simp: step_defs call_Ok_iff Let_def split: if_splits intro!: record_after)
next
  fix st w h e w'
  assume "recorded (rExt R) (rOS R) (rPath R) st w" "step_r R teeID proxyID (st, h) w = (Err e, w')"
  then show "recorded (rExt R) (rOS R) (rPath R) st w'"
    by (auto simp: step_defs call_Err_iff Let_def split: if_splits dest!: on_net_net)
qed

interpretation R_step: resumable "rExt R" "rOS R" "rPath R" "CHR ''R''" "step_R R teeID" for R teeID
proof
  fix st w h st' h' w'
  assume "storage_ok (rExt R) (rOS R) (rPath R)" "recorded (rExt R) (rOS R) (rPath R) st w"
    "step_R R teeID (st, h) w = (Ok (st', h'), w')"
  then show "recorded (rExt R) (rOS R) (rPath R) st' w' \<and>
      (CompletedSteps st' = CompletedSteps st \<or> CompletedSteps st' = CompletedSteps st @ ''R'')"
    by (auto simp: step_defs call_Ok_iff Let_def split: if_splits intro!: record_after)
next
  fix st w h e w'
  assume "recorded (rExt R) (rOS R) (rPath R) st w" "step_R R teeID (st, h) w = (Err e, w')"
  then show "recorded (rExt R) (rOS R) (rPath R) st w'"
    by (auto simp: step_defs call_Err_iff Let_def split: if_splits dest!: on_net_net)
qed

interpretation a_step: resumable "rExt R" "rOS R" "rPath R" "CHR ''a''" "step_a R teeID i" for R teeID i
proof
  fix st w h st' h' w'
  assume "storage_ok (rExt R) (rOS R) (rPath R)" "recorded (rExt R) (rOS R) (rPath R) st w"
    "step_a R teeID i (st, h) w = (Ok (st', h'), w')"
  then show "recorded (rExt R) (rOS R) (rPath R) st' w' \<and>
      (CompletedSteps st' = CompletedSteps st \<or> CompletedSteps st' = CompletedSteps st @ ''a'')"
    by (auto simp: step_defs call_Ok_iff Let_def split: if_splits intro!: record_after)
next
  fix st w h e w'
  assume "recorded (rExt R) (rOS R) (rPath R) st w" "step_a R teeID i (st, h) w = (Err e, w')"
  then show "recorded (rExt R) (rOS R) (rPath R) st w'"
    by (auto simp: step_defs call_Err_iff Let_def split: if_splits dest!: on_net_net)
qed

subsection \<open>Whole runs\<close>

lemma RegisterNode_unfold:
  assumes "TeeProxyId (rProxy R) (rTeeInfo R) = Ok (teeID, proxyID)" "loadState (rExt R) (rOS R) (rPath R) w = Ok st"
  shows "RegisterNode R i w =
     call (step_r R teeID proxyID (st, 0)) id (\<lambda>sh.
       call (step_R R teeID sh) id (\<lambda>sh.
         call (step_a R teeID i sh) id (\<lambda>(_, instructionID).
           call (on_net (step_p R instructionID)) id (\<lambda>_ w'. (Ok (), remove_file (rOS R) (rPath R) w'))))) w"
  using assms by (simp add: RegisterNode_def)

text \<open>A failed run never loses progress: if the state file is usable, then after any run that ends with an error, at whatever step, the file
  still loads, and the steps it records extend the ones it recorded before the run.\<close>

lemma RegisterNode_keeps_progress:
  assumes "storage_ok (rExt R) (rOS R) (rPath R)" "recorded (rExt R) (rOS R) (rPath R) st w"
    and "RegisterNode R i w = (Err e, w')"
  shows "\<exists>st'. loadState (rExt R) (rOS R) (rPath R) w' = Ok st' \<and> prefix (CompletedSteps st) (CompletedSteps st')"
proof (cases "TeeProxyId (rProxy R) (rTeeInfo R)")
  case (Inl e1)
  with assms show ?thesis by (auto simp: RegisterNode_def recorded_def)
next
  case (Inr ids)
  obtain teeID proxyID where ids: "TeeProxyId (rProxy R) (rTeeInfo R) = Ok (teeID, proxyID)" using Inr by (cases ids) auto
  have load: "loadState (rExt R) (rOS R) (rPath R) w = Ok st" using assms(2) by (simp add: recorded_def)
  have p: "\<exists>st'. recorded (rExt R) (rOS R) (rPath R) st' w' \<and> prefix (CompletedSteps st1) (CompletedSteps st')"
    if "recorded (rExt R) (rOS R) (rPath R) st1 w1"
      "(case sh of (_, j) \<Rightarrow> call (on_net (step_p R j)) id (\<lambda>_ w'. (Ok (), remove_file (rOS R) (rPath R) w'))) w1 = (Err e, w')"
    for st1 w1 and sh :: "registrationState \<times> hash"
    using that by (auto simp: call_Err_iff split: prod.splits dest!: on_net_net)
  have "\<exists>st'. recorded (rExt R) (rOS R) (rPath R) st' w' \<and> prefix (CompletedSteps st) (CompletedSteps st')"
    using assms(3) unfolding RegisterNode_unfold [OF ids load]
    by (rule r_step.then_keeps [OF assms(1,2)])
       (erule R_step.then_keeps [OF assms(1)], assumption, erule a_step.then_keeps [OF assms(1)], assumption, erule p, assumption)
  then show ?thesis by (auto simp: recorded_def)
qed

text \<open>A run that succeeds leaves no state file behind, so the next run starts from the beginning.\<close>

lemma successful_run_removes_state:
  assumes "RemoveError (rOS R) (rPath R) = None" "ReadError (rOS R) (rPath R) = None" "RegisterNode R i w = (Ok (), w')"
  shows "files w' (rPath R) = None \<and> loadState (rExt R) (rOS R) (rPath R) w' = Ok no_state"
proof -
  have "files w' (rPath R) = None"
    using assms(1,3) by (auto simp: RegisterNode_def call_Ok_iff remove_file_def split: prod.splits)
  then show ?thesis using assms(2) by (simp add: loadState_def)
qed

text \<open>C12: A resumed run repeats nothing: if the file records every one of the steps r, R and a that the command
  names, and a is among them, the run only sleeps, fetches the proof for the recorded instruction and
  moves the machine to production (step p); no other call of the chain or the proxies is made.\<close>

theorem resumed_run_skips_completed_steps:
  assumes "TeeProxyId (rProxy R) (rTeeInfo R) = Ok (teeID, proxyID)"
    and "loadState (rExt R) (rOS R) (rPath R) w = Ok st"
    and "list_all (\<lambda>c. Contains (rCommand R) [c] \<longrightarrow> Contains (CompletedSteps st) [c]) ''rRa''"
    and "Contains (rCommand R) ''a''"
  shows "\<exists>n\<in>{1..3}. RegisterNode R i w =
     call (on_net (step_p R (InstructionID st))) id (\<lambda>_ w'. (Ok (), remove_file (rOS R) (rPath R) w'))
       (((\<lambda>w. sleep (rProxy R) 1 w) ^^ n) w)"
proof -
  let ?z = "\<lambda>w. sleep (rProxy R) 1 w"
  let ?n = "(if Contains (rCommand R) ''r'' then 1 else 0) + (if Contains (rCommand R) ''R'' then 1 else 0) + 1 :: nat"
  have "RegisterNode R i w =
      call (on_net (step_p R (InstructionID st))) id (\<lambda>_ w'. (Ok (), remove_file (rOS R) (rPath R) w'))
        ((?z ^^ ?n) w)"
    unfolding RegisterNode_unfold [OF assms(1,2)]
    using assms(3,4) by (simp add: step_defs call_def numeral_2_eq_2)
  moreover have "?n \<in> {1..3}" by simp
  ultimately show ?thesis by blast
qed

text \<open>C40: The saved attestation is only used by commands with r or R: a run whose command names step a but neither r nor R, on a file that
  records an attestation instruction but not yet step a, requests the availability check for the zero instruction, whatever the outcome; the
  rest of the run goes on from the answer to that request.\<close>

theorem step_a_alone_uses_zero_attestation:
  assumes "TeeProxyId (rProxy R) (rTeeInfo R) = Ok (teeID, proxyID)"
    and "loadState (rExt R) (rOS R) (rPath R) w = Ok st" "TeeAttestInstructionID st \<noteq> 0" "\<not> Contains (CompletedSteps st) ''a''"
    and "Contains (rCommand R) ''a''" "\<not> Contains (rCommand R) ''r''" "\<not> Contains (rCommand R) ''R''"
  shows "RegisterNode R i w =
     call (on_net (\<lambda>c. case CheckFTDCProxyPolicyConsistency (rProxy R) (rFtdcURL R) c of
         (Err err, c1) \<Rightarrow> (Err err, c1)
       | (Ok _, c1) \<Rightarrow> RequestFTDCAvailabilityCheck (rExt R) (rEth R) (rRegistrar R) (rSigner R) teeID (rFtdcTee R) 0 c1)) id
       (\<lambda>j w1.
         call (on_net (step_p R j)) id (\<lambda>_ w'. (Ok (), remove_file (rOS R) (rPath R) w'))
           (sleep (rProxy R) 1
             (record_step R (st\<lparr>CompletedSteps := CompletedSteps st @ ''a'', InstructionID := j\<rparr>) w1))) w"
proof -
  have "gated_check R teeID 0 = (\<lambda>c. case CheckFTDCProxyPolicyConsistency (rProxy R) (rFtdcURL R) c of
      (Err err, c1) \<Rightarrow> (Err err, c1)
    | (Ok _, c1) \<Rightarrow> RequestFTDCAvailabilityCheck (rExt R) (rEth R) (rRegistrar R) (rSigner R) teeID (rFtdcTee R) 0 c1)"
    by (simp add: gated_check_def call_def fun_eq_iff split: prod.split sum.split)
  then show ?thesis
    unfolding RegisterNode_unfold [OF assms(1,2)]
    using assms(4-7) by (simp add: step_defs call_def on_net_def Let_def split: prod.split sum.split)
qed

subsection \<open>Witnesses\<close>

text \<open>A run on a node where no transaction can be signed.\<close>

definition hash_ext :: ext where
  "hash_ext = demo_ext\<lparr>HashHex := (\<lambda>h. dec_of_nat (unat h)),
     HashUnmarshal := (\<lambda>s. map_option of_nat (parse_nat decval 10 s))\<rparr>"

definition demo_teeinfo :: teeinfo where
  "demo_teeinfo =
     \<lparr>tiPublicKey = (1, 2), tiChainID = 31337, tiLastSigningPolicyID = 5,
      MachineData = \<lparr>ExtensionID = 7, InitialOwner = 1, CodeHash = 2, Platform = 3, PublicKey = (1, 2), GovernanceHash = 4\<rparr>,
      DataSignature = [], ProxySignature = [], Attestation = []\<rparr>"

definition demo_proxy :: "nat proxy" where
  "demo_proxy =
     \<lparr>HttpGetBody = (\<lambda>_ n. (Err (ErrText ''refused''), n)), HttpPost = (\<lambda>_ _ n. (Err (ErrText ''refused''), n)),
      Sleep = (\<lambda>_ n. n), DecodeTeeInfo = (\<lambda>_. Ok demo_teeinfo), DecodeActionResponse = (\<lambda>_. Err (ErrText ''EOF'')),
      EncodeProxyURL = (\<lambda>_. Ok []), ParsePubKey = Ok, PubToAddress = (\<lambda>_. 1), TeeInfoHash = (\<lambda>_. Ok 1),
      ProxyPayloadHash = (\<lambda>_ _. Ok 1), TextHash = (\<lambda>h. h), SigToPub = (\<lambda>_ _. Ok (1, 2)),
      ParseClaims = (\<lambda>_. Ok (Ok 2, Ok 3)), GetCurrentRewardEpochId = (\<lambda>n. (Err (ErrText ''rpc down''), n))\<rparr>"

definition no_errors :: contract_abis where
  "no_errors = \<lparr>VerificationABI = Ok [], Fdc2HubABI = Ok [], MachineManagerABI = Ok [], ExtensionManagerABI = Ok []\<rparr>"

definition demo_registrar :: "nat registrar" where
  "demo_registrar =
     \<lparr>GetTeeMachine = (\<lambda>a n. (Ok 0, n)), RegisterMachine = (\<lambda>_ _ _ _ _ _ n. (Err (ErrText ''no''), Suc n)),
      RequestAttestation = (\<lambda>_ _ _ n. (Err (ErrText ''no''), Suc n)),
      RequestAvailabilityCheck = (\<lambda>_ _ _ _ _ _ n. (Err (ErrText ''no''), Suc n)),
      SendToProduction = (\<lambda>_ _ n. (Err (ErrText ''no''), Suc n)), ParseTeeInstructionsSent = (\<lambda>_. Ok 9),
      ParseTeeAttestationRequested = (\<lambda>_. Ok 8), TransformSignatureRSVtoVRS = Ok, ABIs = no_errors,
      PackRegister = (\<lambda>_ _ _ _ _. Ok []), DecodeProveResponse = (\<lambda>_. Err (ErrText ''no'')), DecodeHeader = Ok,
      DecodeRequest = (\<lambda>_. Err (ErrText ''no'')), DecodeResponse = (\<lambda>_. Err (ErrText ''no'')),
      PackAvailability = (\<lambda>_ _ _ _ _. Ok [])\<rparr>"

definition demo_run :: "string \<Rightarrow> nat run_env" where
  "demo_run cmd =
     \<lparr>rExt = hash_ext, rOS = \<lparr>ReadError = (\<lambda>_. None), WriteError = (\<lambda>_. None), RemoveError = (\<lambda>_. None)\<rparr>,
      rEth = demo_eth\<lparr>TransactorError := (\<lambda>_ _. Some (ErrText ''no key''))\<rparr>, rProxy = demo_proxy,
      rRegistrar = demo_registrar, rSigner = \<lparr>sKey = 1, sChain = 31337, sManager = 3\<rparr>, rTeeInfo = demo_teeinfo,
      rHostURL = ''h'', rFtdcURL = ''f'', rFtdcTee = 4, rCommand = cmd, rPath = ''state''\<rparr>"

lemma demo_storage: "storage_ok (rExt (demo_run cmd)) (rOS (demo_run cmd)) (rPath (demo_run cmd))"
  by (simp add: storage_ok_def demo_run_def hash_ext_def parse_dec_of_nat valid_utf8_ascii dec_of_nat_ascii)

lemma demo_load: "loadState (rExt (demo_run cmd)) (rOS (demo_run cmd)) (rPath (demo_run cmd)) \<lparr>files = Map.empty, net = 0\<rparr> = Ok no_state"
  by (simp add: loadState_def demo_run_def)

lemma demo_ids: "TeeProxyId (rProxy (demo_run cmd)) (rTeeInfo (demo_run cmd)) = Ok (1, 1)"
  by (simp add: TeeProxyId_def demo_run_def demo_proxy_def)

theorem state_file_roundtrip_witness:
  "loadState hash_ext (rOS (demo_run [])) ''state''
     (snd (saveState hash_ext (rOS (demo_run [])) ''state''
       \<lparr>CompletedSteps = ''ra'', TeeAttestInstructionID = 5, InstructionID = 6\<rparr> \<lparr>files = Map.empty, net = (0 :: nat)\<rparr>)) =
   Ok \<lparr>CompletedSteps = ''ra'', TeeAttestInstructionID = 5, InstructionID = 6\<rparr>"
  by (rule state_file_roundtrip)
     (simp_all add: demo_run_def hash_ext_def parse_dec_of_nat valid_utf8_ascii dec_of_nat_ascii)

theorem resumed_run_skips_completed_steps_witness:
  "\<exists>n\<in>{1..3}. RegisterNode (demo_run ''ra'') [] (snd (saveState hash_ext (rOS (demo_run [])) ''state''
       \<lparr>CompletedSteps = ''ra'', TeeAttestInstructionID = 5, InstructionID = 6\<rparr> \<lparr>files = Map.empty, net = 0\<rparr>)) =
     call (on_net (step_p (demo_run ''ra'') 6)) id (\<lambda>_ w'. (Ok (), remove_file (rOS (demo_run ''ra'')) ''state'' w'))
       (((\<lambda>w. sleep demo_proxy 1 w) ^^ n) (snd (saveState hash_ext (rOS (demo_run [])) ''state''
         \<lparr>CompletedSteps = ''ra'', TeeAttestInstructionID = 5, InstructionID = 6\<rparr> \<lparr>files = Map.empty, net = 0\<rparr>)))"
proof -
  let ?st = "\<lparr>CompletedSteps = ''ra'', TeeAttestInstructionID = 5, InstructionID = 6\<rparr>"
  let ?R = "demo_run ''ra''"
  have f: "rExt ?R = hash_ext" "rOS ?R = rOS (demo_run [])" "rPath ?R = ''state''" "rProxy ?R = demo_proxy"
      "rCommand ?R = ''ra''" by (simp_all add: demo_run_def)
  have "recorded (rExt ?R) (rOS ?R) (rPath ?R) ?st (snd (saveState (rExt ?R) (rOS ?R) (rPath ?R) ?st \<lparr>files = Map.empty, net = 0 :: nat\<rparr>))"
    by (rule recorded_save [OF demo_storage]) (simp add: valid_utf8_ascii)
  then have "loadState (rExt ?R) (rOS ?R) (rPath ?R) (snd (saveState (rExt ?R) (rOS ?R) (rPath ?R) ?st \<lparr>files = Map.empty, net = 0 :: nat\<rparr>)) = Ok ?st"
    by (simp add: recorded_def)
  from resumed_run_skips_completed_steps [OF demo_ids this, where i = "[]"] show ?thesis by (simp add: f)
qed

text \<open>A chain that refuses every availability check and whose state is the attestation it was asked for, plus 10: the run on a file that
  records attestation 5 asks for 0, while a check for the recorded one would leave 15.\<close>

definition asked_run :: "nat run_env" where
  "asked_run = (demo_run ''ap'')\<lparr>rEth := demo_eth,
     rRegistrar := demo_registrar\<lparr>RequestAvailabilityCheck := (\<lambda>_ _ h _ _ _ n. (Err (ErrText ''refused''), unat h + 10))\<rparr>\<rparr>"

definition asked_state :: registrationState where
  "asked_state = \<lparr>CompletedSteps = ''r'', TeeAttestInstructionID = 5, InstructionID = 0\<rparr>"

definition asked_world :: "nat world" where
  "asked_world = snd (saveState hash_ext (rOS (demo_run [])) ''state'' asked_state \<lparr>files = Map.empty, net = 0\<rparr>)"

lemma asked_recorded: "recorded hash_ext (rOS (demo_run [])) ''state'' asked_state asked_world"
  using recorded_save [OF demo_storage, of asked_state "[]"] by (simp add: asked_world_def demo_run_def asked_state_def valid_utf8_ascii)

lemma asked_check: "\<exists>err. gated_check asked_run 1 h 0 = (Err err, unat h + 10)"
  by (simp add: gated_check_def CheckFTDCProxyPolicyConsistency_def RequestFTDCAvailabilityCheck_def fee_opts_def NewKeyedTransactor_def
      diagAvailabilityCheckRevert_def Let_def call_def asked_run_def demo_run_def demo_proxy_def demo_registrar_def demo_eth_def no_errors_def)

theorem step_a_alone_uses_zero_attestation_witness:
  "(\<exists>e w'. RegisterNode asked_run [] asked_world = (Err e, w') \<and> net w' = 10) \<and> snd (gated_check asked_run 1 5 0) = 15"
proof
  have f: "rExt asked_run = hash_ext" "rOS asked_run = rOS (demo_run [])" "rPath asked_run = ''state''" "rCommand asked_run = ''ap''"
    by (simp_all add: asked_run_def demo_run_def)
  have ids: "TeeProxyId (rProxy asked_run) (rTeeInfo asked_run) = Ok (1, 1)"
    using demo_ids [of "''ap''"] by (simp add: asked_run_def)
  have load: "loadState (rExt asked_run) (rOS asked_run) (rPath asked_run) asked_world = Ok asked_state"
    using asked_recorded by (simp add: recorded_def f)
  have st: "TeeAttestInstructionID asked_state \<noteq> 0" "\<not> Contains (CompletedSteps asked_state) ''a''" by (simp_all add: asked_state_def)
  have "net asked_world = 0" by (simp add: asked_world_def saveState_def demo_run_def)
  with asked_check [of 0] show "\<exists>e w'. RegisterNode asked_run [] asked_world = (Err e, w') \<and> net w' = 10"
    unfolding step_a_alone_uses_zero_attestation [OF ids load st, unfolded f(4), simplified]
    by (auto simp: on_net_def call_def gated_check_def split: prod.splits sum.splits)
  show "snd (gated_check asked_run 1 5 0) = 15" using asked_check [of 5] by auto
qed

end
