(* ===== verification/Abi.thy ===== *)
theory Abi
  imports World
begin

section \<open>ABI types and values (as used by run-test, go/pkg/types and fccutils/encoding.go)\<close>

text \<open>
  The code describes the layout of ABI data by argument lists that it builds with \<^verbatim>\<open>abi.NewType\<close>, unpacks bytes by them into values
  of dynamic type, and picks the values out again with type assertions, which panic when index or type is wrong. The parser of type names, the
  encoder and the decoder are go-ethereum's and are parameters; what is modelled is the data they are given and what the code does with
  the values. \<open>of_types\<close> is the documented typing of what \<^verbatim>\<open>Unpack\<close> returns. The second half holds the codecs and
  helpers of tools/pkg/fccutils/encoding.go and common.go.
\<close>

subsection \<open>Types and values\<close>

text \<open>\<open>NoTy\<close> is the zero value of \<^verbatim>\<open>abi.Type\<close>.\<close>

datatype abi_type = AddressTy | UintTy nat | FixedBytesTy nat | StringTy | TupleTy "(string \<times> abi_type) list" | NoTy

type_synonym abi_args = "(string \<times> abi_type) list"

datatype abi_value = VAddress address | VBig int | VUint64 "64 word" | VBytes32 hash | VString string | VTuple "abi_value list"

fun of_type :: "abi_type \<Rightarrow> abi_value \<Rightarrow> bool" and of_types :: "abi_args \<Rightarrow> abi_value list \<Rightarrow> bool" where
  "of_type AddressTy (VAddress _) = True"
| "of_type (UintTy n) (VBig i) = (n = 256 \<and> 0 \<le> i \<and> i < 2 ^ 256)"
| "of_type (UintTy n) (VUint64 _) = (n = 64)"
| "of_type (FixedBytesTy n) (VBytes32 _) = (n = 32)"
| "of_type StringTy (VString _) = True"
| "of_type (TupleTy fs) (VTuple vs) = of_types fs vs"
| "of_type _ _ = False"
| "of_types [] [] = True"
| "of_types ((_, t) # fs) (v # vs) = (of_type t v \<and> of_types fs vs)"
| "of_types _ _ = False"

lemma of_types_length: "of_types args vs \<Longrightarrow> length vs = length args"
proof (induction args arbitrary: vs)
  case (Cons a args)
  then show ?case by (cases a; cases vs) auto
qed (auto elim: of_types.elims)

lemma of_types_Cons: "of_types ((n, t) # fs) vs \<longleftrightarrow> (\<exists>v vs'. vs = v # vs' \<and> of_type t v \<and> of_types fs vs')"
  by (cases vs) auto

lemma of_types_Nil: "of_types [] vs \<longleftrightarrow> vs = []"
  by (cases vs) auto

lemma of_type_iffs:
  "of_type AddressTy v \<longleftrightarrow> (\<exists>a. v = VAddress a)"
  "of_type (UintTy 256) v \<longleftrightarrow> (\<exists>i. v = VBig i \<and> 0 \<le> i \<and> i < 2 ^ 256)"
  "of_type (UintTy 64) v \<longleftrightarrow> (\<exists>n. v = VUint64 n)"
  "of_type (FixedBytesTy 32) v \<longleftrightarrow> (\<exists>h. v = VBytes32 h)"
  "of_type StringTy v \<longleftrightarrow> (\<exists>s. v = VString s)"
  by (cases v; simp)+

subsection \<open>Type assertions\<close>

definition and_then :: "'a result \<Rightarrow> ('a \<Rightarrow> 'b result) \<Rightarrow> 'b result" where
  "and_then r k = (case r of Err e \<Rightarrow> Err e | Ok x \<Rightarrow> k x)"

lemma and_then_simps [simp]: "and_then (Ok x) k = k x" "and_then (Err e) k = Err e"
  by (simp_all add: and_then_def)

lemma and_then_Ok_iff: "and_then r k = Ok y \<longleftrightarrow> (\<exists>x. r = Ok x \<and> k x = Ok y)"
  by (cases r) auto

text \<open>\<^verbatim>\<open>vals[i].(T)\<close>: \<open>sel\<close> gives the value if it has the type \<^verbatim>\<open>T\<close>.\<close>

definition assert_at :: "(abi_value \<Rightarrow> 'a option) \<Rightarrow> abi_value list \<Rightarrow> nat \<Rightarrow> 'a result" where
  "assert_at sel vals i =
     (if i < length vals
      then (case sel (vals ! i) of Some x \<Rightarrow> Ok x | None \<Rightarrow> Err (Panic ''interface conversion''))
      else Err (Panic ''index out of range''))"

definition as_Address :: "abi_value \<Rightarrow> address option" where "as_Address v = (case v of VAddress a \<Rightarrow> Some a | _ \<Rightarrow> None)"
definition as_BigInt :: "abi_value \<Rightarrow> int option" where "as_BigInt v = (case v of VBig i \<Rightarrow> Some i | _ \<Rightarrow> None)"
definition as_uint64 :: "abi_value \<Rightarrow> 64 word option" where "as_uint64 v = (case v of VUint64 n \<Rightarrow> Some n | _ \<Rightarrow> None)"
definition as_bytes32 :: "abi_value \<Rightarrow> hash option" where "as_bytes32 v = (case v of VBytes32 h \<Rightarrow> Some h | _ \<Rightarrow> None)"

lemmas assertions = assert_at_def as_Address_def as_BigInt_def as_uint64_def as_bytes32_def

subsection \<open>Types from their names\<close>

type_synonym new_type = "string \<Rightarrow> (string \<times> string) list \<Rightarrow> abi_type result"

definition mustType :: "new_type \<Rightarrow> string \<Rightarrow> (string \<times> string) list \<Rightarrow> abi_type result" where
  "mustType NewType t components = (case NewType t components of Err err \<Rightarrow> Err (Panic (Error err)) | Ok ty \<Rightarrow> Ok ty)"

text \<open>What is relied on of \<^verbatim>\<open>abi.NewType\<close>: the elementary type names that the code uses, and tuples of them.\<close>

definition elementary :: "string \<Rightarrow> abi_type" where
  "elementary t =
     (if t = ''address'' then AddressTy else if t = ''uint256'' then UintTy 256 else if t = ''uint64'' then UintTy 64
      else if t = ''bytes32'' then FixedBytesTy 32 else if t = ''string'' then StringTy else NoTy)"

definition type_names :: "new_type \<Rightarrow> bool" where
  "type_names NewType \<longleftrightarrow>
     (\<forall>t. elementary t \<noteq> NoTy \<longrightarrow> NewType t [] = Ok (elementary t)) \<and>
     (\<forall>fs. (\<forall>f\<in>set fs. elementary (snd f) \<noteq> NoTy) \<longrightarrow> NewType ''tuple'' fs = Ok (TupleTy (map (\<lambda>(n, t). (n, elementary t)) fs)))"

lemma type_namesD:
  assumes "type_names NewType"
  shows "NewType ''address'' [] = Ok AddressTy" "NewType ''uint256'' [] = Ok (UintTy 256)" "NewType ''uint64'' [] = Ok (UintTy 64)"
    "NewType ''bytes32'' [] = Ok (FixedBytesTy 32)"
    "\<And>fs. \<forall>f\<in>set fs. elementary (snd f) \<noteq> NoTy \<Longrightarrow> NewType ''tuple'' fs = Ok (TupleTy (map (\<lambda>(n, t). (n, elementary t)) fs))"
  using assms unfolding type_names_def elementary_def by auto

definition demo_new_type :: new_type where
  "demo_new_type t fs =
     (if t = ''tuple'' then Ok (TupleTy (map (\<lambda>(n, t). (n, elementary t)) fs))
      else if elementary t = NoTy then Err (ErrText ''unsupported arg type'') else Ok (elementary t))"

lemma demo_type_names: "type_names demo_new_type"
  by (auto simp: type_names_def demo_new_type_def elementary_def)

subsection \<open>The codecs of fccutils/encoding.go\<close>

text \<open>\<open>'rq\<close> and \<open>'rs\<close> are the request and response bodies of the availability check; \<open>encRq\<close> and the others are go-flare-common's \<^verbatim>\<open>structs.Encode\<close>
  and \<^verbatim>\<open>structs.DecodeTo\<close> at the argument types of \<^verbatim>\<open>fdc2.AvailabilityCheck\<close>. An error is rewrapped by its text.\<close>

record ('rq, 'rs) fdc2 =
  encRq :: "'rq \<Rightarrow> bytes result"
  decRq :: "bytes \<Rightarrow> 'rq result"
  encRs :: "'rs \<Rightarrow> bytes result"
  decRs :: "bytes \<Rightarrow> 'rs result"

definition EncodeFTDCTeeAvailabilityCheckRequest :: "('rq, 'rs) fdc2 \<Rightarrow> 'rq \<Rightarrow> bytes result" where
  "EncodeFTDCTeeAvailabilityCheckRequest F x = encRq F x"

definition DecodeFTDCTeeAvailabilityCheckRequest :: "('rq, 'rs) fdc2 \<Rightarrow> bytes \<Rightarrow> 'rq result" where
  "DecodeFTDCTeeAvailabilityCheckRequest F b = (case decRq F b of Err err \<Rightarrow> Err (ErrText (Error err)) | Ok x \<Rightarrow> Ok x)"

definition EncodeFTDCTeeAvailabilityCheckResponse :: "('rq, 'rs) fdc2 \<Rightarrow> 'rs \<Rightarrow> bytes result" where
  "EncodeFTDCTeeAvailabilityCheckResponse F x = encRs F x"

definition DecodeFTDCTeeAvailabilityCheckResponse :: "('rq, 'rs) fdc2 \<Rightarrow> bytes \<Rightarrow> 'rs result" where
  "DecodeFTDCTeeAvailabilityCheckResponse F b = (case decRs F b of Err err \<Rightarrow> Err (ErrText (Error err)) | Ok x \<Rightarrow> Ok x)"

text \<open>\<^verbatim>\<open>FatalWithCause\<close>: the line it logs before it ends the process; \<open>stack\<close> is the stack trace of an error that has one.\<close>

definition FatalWithCause :: "(goerror \<Rightarrow> string option) \<Rightarrow> goerror \<Rightarrow> string" where
  "FatalWithCause stack err = ''Error: '' @ Error err @ (case stack err of Some st \<Rightarrow> '' '' @ st | None \<Rightarrow> [])"

text \<open>The loop writes every element of the new array once.\<close>

definition HashArrayToBytes32Array :: "hash list \<Rightarrow> hash list" where
  "HashArrayToBytes32Array hashes =
     fold (\<lambda>i bytes32Array. bytes32Array[i := hashes ! i]) [0..<length hashes] (replicate (length hashes) 0)"

lemma HashArrayToBytes32Array_copies [simp]: "HashArrayToBytes32Array hashes = hashes"
proof -
  have "fold (\<lambda>i a. a[i := hashes ! i]) [0..<k] (replicate (length hashes) 0) = take k hashes @ replicate (length hashes - k) 0"
    if "k \<le> length hashes" for k
    using that
  proof (induction k)
    case (Suc k)
    then show ?case by (simp add: list_update_append take_Suc_conv_app_nth Suc_diff_Suc [symmetric])
  qed simp
  then show ?thesis by (simp add: HashArrayToBytes32Array_def)
qed

text \<open>The platform identifiers. Their hexadecimal digits spell the names in the comments, padded with zero bytes to 32.\<close>

definition platform_intel_hex :: string where
  "platform_intel_hex = ''4743505f494e54454c5f54445800000000000000000000000000000000000000''"

definition platform_amd_hex :: string where
  "platform_amd_hex = ''4743505f414d445f534556000000000000000000000000000000000000000000''"

definition platform_amd_esev_hex :: string where
  "platform_amd_esev_hex = ''4743505f414d445f5345565f4553000000000000000000000000000000000000''"

definition PlatformIntel :: "ext \<Rightarrow> hash" where "PlatformIntel E = HexToHash E platform_intel_hex"
definition PlatformAMD :: "ext \<Rightarrow> hash" where "PlatformAMD E = HexToHash E platform_amd_hex"
definition PlatformAMDESEV :: "ext \<Rightarrow> hash" where "PlatformAMDESEV E = HexToHash E platform_amd_esev_hex"

lemma platform_names:
  "hex_decode platform_intel_hex = Some (''GCP_INTEL_TDX'' @ replicate 19 (CHR 0x00))"
  "hex_decode platform_amd_hex = Some (''GCP_AMD_SEV'' @ replicate 21 (CHR 0x00))"
  "hex_decode platform_amd_esev_hex = Some (''GCP_AMD_SEV_ES'' @ replicate 18 (CHR 0x00))"
  by (code_simp)+

end
