(* ===== verification/Setup.thy ===== *)
theory Setup
  imports Registration CheckGroups Support Abi
begin

section \<open>Setting up an extension and its TEE versions (fccutils/extension.go, registration.go; register-extension, allow-tee-version, register-tee)\<close>

text \<open>
  \<open>SetupExtension\<close> registers an extension and adds the deployer as machine and project owner and the EVM key type, each
  only if the chain does not have it yet; \<open>AddTeeVersion\<close> registers a code version under a name packed into 32
  bytes; the commands around them run over \<open>DefaultSupport\<close>. The contracts' methods are the parameter \<open>manager\<close>;
  what is relied on of them is stated in \<open>contract_laws\<close>.
\<close>

record 'c manager =
  RegisterTx :: "opts \<Rightarrow> address \<Rightarrow> address \<Rightarrow> ('c, transaction) act"
  ParseTeeExtensionRegistered :: "log \<Rightarrow> int result"
  ParseTeeExtensionContractsSet :: "log \<Rightarrow> unit result"
  AllowedMachineOwner :: "int \<Rightarrow> address \<Rightarrow> ('c, bool) act"
  AddMachineOwnersTx :: "opts \<Rightarrow> int \<Rightarrow> address list \<Rightarrow> ('c, transaction) act"
  ParseMachineOwnersAdded :: "log \<Rightarrow> unit result"
  AllowedProjectOwner :: "int \<Rightarrow> address \<Rightarrow> ('c, bool) act"
  AddProjectOwnersTx :: "opts \<Rightarrow> int \<Rightarrow> address list \<Rightarrow> ('c, transaction) act"
  ParseProjectOwnersAdded :: "log \<Rightarrow> unit result"
  KeyTypeSupported :: "int \<Rightarrow> hash \<Rightarrow> ('c, bool) act"
  AddKeyTypesTx :: "opts \<Rightarrow> int \<Rightarrow> hash list \<Rightarrow> ('c, transaction) act"
  AddVersionTx :: "opts \<Rightarrow> int \<Rightarrow> bytes \<Rightarrow> hash \<Rightarrow> hash list \<Rightarrow> ('c, transaction) act"
  CodeHashPlatformSupported :: "int \<Rightarrow> hash \<Rightarrow> hash \<Rightarrow> ('c, bool) act"

subsection \<open>Setting up the extension\<close>

definition registerExtension :: "ext \<Rightarrow> 'c eth \<Rightarrow> 'c manager \<Rightarrow> opts \<Rightarrow> address \<Rightarrow> address \<Rightarrow> ('c, int) act" where
  "registerExtension E X M opts instructionsSender stateVerifier =
     call (RegisterTx M opts stateVerifier instructionsSender) (Errorf ''TeeExtensionRegistry.Register failed: '') (\<lambda>tx.
       call (CheckTx E X tx) (Errorf ''Register transaction failed: '') (\<lambda>receipt.
         if length (rLogs receipt) < 2
         then fail (ErrText (''expected at least 2 logs from Register() transaction, got '' @ dec_of_nat (length (rLogs receipt)) @
                '' '' @ emdash @ '' the registry contract may have changed or be behind a proxy''))
         else call (lift (ParseTeeExtensionRegistered M (rLogs receipt ! 0)))
                (Errorf ''failed to parse TeeExtensionRegistered event: '') (\<lambda>extensionID.
           call (lift (ParseTeeExtensionContractsSet M (rLogs receipt ! 1)))
             (Errorf ''failed to parse TeeExtensionContractsSet event: '') (\<lambda>_. ret extensionID))))"

definition allowTeeMachineOwners :: "ext \<Rightarrow> 'c eth \<Rightarrow> 'c manager \<Rightarrow> opts \<Rightarrow> int \<Rightarrow> address list \<Rightarrow> ('c, unit) act" where
  "allowTeeMachineOwners E X M opts extensionId owners =
     call (AddMachineOwnersTx M opts extensionId owners) (Errorf ''AddAllowedTeeMachineOwners failed: '') (\<lambda>tx.
       call (CheckTx E X tx) (Errorf ''AddAllowedTeeMachineOwners transaction failed: '') (\<lambda>receipt.
         if length (rLogs receipt) = 0
         then fail (ErrText (''no logs in AddAllowedTeeMachineOwners transaction '' @ emdash @ '' unexpected''))
         else call (lift (ParseMachineOwnersAdded M (rLogs receipt ! 0)))
                (Errorf ''failed to parse AllowedTeeMachineOwnersAdded event: '') ret))"

definition allowTeeProjectManagerOwners :: "ext \<Rightarrow> 'c eth \<Rightarrow> 'c manager \<Rightarrow> opts \<Rightarrow> int \<Rightarrow> address list \<Rightarrow> ('c, unit) act" where
  "allowTeeProjectManagerOwners E X M opts extensionId owners =
     call (AddProjectOwnersTx M opts extensionId owners) (Errorf ''AddAllowedTeeWalletProjectOwners failed: '') (\<lambda>tx.
       call (CheckTx E X tx) (Errorf ''AddAllowedTeeWalletProjectOwners transaction failed: '') (\<lambda>receipt.
         if length (rLogs receipt) = 0
         then fail (ErrText (''no logs in AddAllowedTeeWalletProjectOwners transaction '' @ emdash @ '' unexpected''))
         else call (lift (ParseProjectOwnersAdded M (rLogs receipt ! 0)))
                (Errorf ''failed to parse AllowedTeeWalletProjectOwnersAdded event: '') ret))"

definition addSupportedKeyTypesTx :: "ext \<Rightarrow> 'c eth \<Rightarrow> 'c manager \<Rightarrow> opts \<Rightarrow> int \<Rightarrow> hash list \<Rightarrow> ('c, unit) act" where
  "addSupportedKeyTypesTx E X M opts extensionId keyTypes =
     call (AddKeyTypesTx M opts extensionId keyTypes) (Errorf []) (\<lambda>tx.
       call (CheckTx E X tx) (Errorf []) (\<lambda>_. ret ()))"

definition AddSupportedKeyTypes :: "ext \<Rightarrow> 'c eth \<Rightarrow> 'c manager \<Rightarrow> signer \<Rightarrow> int \<Rightarrow> hash list \<Rightarrow> ('c, unit) act" where
  "AddSupportedKeyTypes E X M s extensionId keyTypes =
     call (lift (NewKeyedTransactor X (sKey s) (sChain s))) (Errorf []) (\<lambda>opts.
       call (addSupportedKeyTypesTx E X M opts extensionId (HashArrayToBytes32Array keyTypes)) (Errorf []) ret)"

definition IsKeyTypeSupported_call :: "'c manager \<Rightarrow> int \<Rightarrow> hash \<Rightarrow> ('c, bool) act" where
  "IsKeyTypeSupported_call M extensionId keyType = call (KeyTypeSupported M extensionId keyType) (Errorf []) ret"

text \<open>The three idempotent steps after the registration.\<close>

definition setup_machine_owner :: "ext \<Rightarrow> 'c eth \<Rightarrow> 'c manager \<Rightarrow> opts \<Rightarrow> int \<Rightarrow> address \<Rightarrow> ('c, unit) act" where
  "setup_machine_owner E X M opts extensionID deployer =
     call (AllowedMachineOwner M extensionID deployer) (Errorf ''failed checking TEE machine owner status: '') (\<lambda>already.
       if already then ret ()
       else call (allowTeeMachineOwners E X M opts extensionID [deployer])
              (Errorf (''failed adding TEE machine owners (extension exists as ID '' @ dec_of_int extensionID @
                '' but owners not set): '')) ret)"

definition setup_project_owner :: "ext \<Rightarrow> 'c eth \<Rightarrow> 'c manager \<Rightarrow> opts \<Rightarrow> int \<Rightarrow> address \<Rightarrow> ('c, unit) act" where
  "setup_project_owner E X M opts extensionID deployer =
     call (AllowedProjectOwner M extensionID deployer) (Errorf ''failed checking wallet project owner status: '') (\<lambda>already.
       if already then ret ()
       else call (allowTeeProjectManagerOwners E X M opts extensionID [deployer])
              (Errorf (''failed adding wallet project owners (extension exists as ID '' @ dec_of_int extensionID @
                '' but owners not set): '')) ret)"

definition setup_key_type :: "ext \<Rightarrow> 'c eth \<Rightarrow> 'c manager \<Rightarrow> signer \<Rightarrow> int \<Rightarrow> ('c, unit) act" where
  "setup_key_type E X M s extensionID =
     call (IsKeyTypeSupported_call M extensionID (EVMType E)) id (\<lambda>supported.
       if supported then ret () else call (AddSupportedKeyTypes E X M s extensionID [EVMType E]) id ret)"

definition SetupExtension :: "ext \<Rightarrow> 'c eth \<Rightarrow> 'c manager \<Rightarrow> signer \<Rightarrow> address \<Rightarrow> address \<Rightarrow> ('c, int) act" where
  "SetupExtension E X M s instructionsSender stateVerifier =
     (let deployer = PubkeyToAddress E (sKey s) in
      call (lift (NewKeyedTransactor X (sKey s) (sChain s))) id (\<lambda>opts.
        call (registerExtension E X M opts instructionsSender stateVerifier) id (\<lambda>extensionID.
          call (setup_machine_owner E X M opts extensionID deployer) id (\<lambda>_.
            call (setup_project_owner E X M opts extensionID deployer) id (\<lambda>_.
              call (setup_key_type E X M s extensionID) id (\<lambda>_. ret extensionID))))))"

subsection \<open>Versions\<close>

text \<open>A \<^verbatim>\<open>[32]byte\<close> is its 32 bytes.\<close>

definition StringToBytes32 :: "ext \<Rightarrow> string \<Rightarrow> bytes result" where
  "StringToBytes32 E s =
     (if 32 < length s then Err (ErrText (''version '' @ Quote (IsPrintHigh E) s @ '' exceeds 32 bytes''))
      else Ok (s @ replicate (32 - length s) (CHR 0x00)))"

definition bytes32ToString :: "bytes \<Rightarrow> string" where
  "bytes32ToString b = TrimSpace (rev (dropWhile (\<lambda>c. c = CHR 0x00) (rev b)))"

definition AddTeeVersion :: "ext \<Rightarrow> 'c eth \<Rightarrow> 'c manager \<Rightarrow> privkey \<Rightarrow> int \<Rightarrow> int \<Rightarrow> hash \<Rightarrow> hash \<Rightarrow> string \<Rightarrow> ('c, unit) act" where
  "AddTeeVersion E X M privKey cid extensionId codeHash platform version =
     call (lift (NewKeyedTransactor X privKey cid)) (Errorf []) (\<lambda>opts.
       call (lift (StringToBytes32 E version)) id (\<lambda>versionBytes.
         call (AddVersionTx M opts extensionId versionBytes codeHash [platform])
           (Errorf ''TeeExtensionRegistry.AddTeeVersion failed: '') (\<lambda>tx.
             call (CheckTx E X tx) (Errorf []) (\<lambda>_. ret ()))))"

subsection \<open>The commands\<close>

text \<open>register-extension: the standard output is the ID. The governance hash it passes on is not used by \<open>SetupExtension\<close>.\<close>

definition register_extension :: "ext \<Rightarrow> node \<Rightarrow> host \<Rightarrow> 'c eth \<Rightarrow> 'c manager \<Rightarrow> string \<Rightarrow> string \<Rightarrow> string \<Rightarrow> ('c, string) act" where
  "register_extension E N H X M af cf instructionSenderF =
     (if instructionSenderF = [] then fail (ErrText ''--instructionSender flag is required'')
      else call (lift (DefaultSupport E N H af cf)) id (\<lambda>s.
        let sender = HexToAddress E instructionSenderF in
        case AddressHasCode E (Some (ChainClient s)) sender ''InstructionSender'' of
          Some err \<Rightarrow> fail err
        | None \<Rightarrow>
            call (SetupExtension E X M \<lparr>sKey = Prv s, sChain = sChainID s, sManager = aFlareTeeManager (sAddresses s)\<rparr> sender 0) id
              (\<lambda>extensionID. ret (extension_id_hex extensionID @ newline))))"

text \<open>allow-tee-version: only one prefix is cut from the key; an error that names VersionAlreadyExists is no failure.\<close>

definition version_key :: "ext \<Rightarrow> host \<Rightarrow> privkey \<Rightarrow> privkey result" where
  "version_key E H prv =
     (let s = Getenv H ''EXTENSION_OWNER_KEY'' in
      if s \<noteq> [] then HexToECDSA E (strip_key_prefix s) else Ok prv)"

definition allow_tee_version :: "ext \<Rightarrow> node \<Rightarrow> host \<Rightarrow> 'c eth \<Rightarrow> 'c proxy \<Rightarrow> 'c manager \<Rightarrow> string \<Rightarrow> string \<Rightarrow> string \<Rightarrow> string
    \<Rightarrow> ('c, unit) act" where
  "allow_tee_version E N H X P M af cf pf version =
     call (lift (DefaultSupport E N H af cf)) id (\<lambda>s.
       call (TeeInfo P pf) id (\<lambda>ti.
         call (lift (version_key E (Dotenv N H) (Prv s))) id (\<lambda>privKey.
           call (lift (TeeProxyId P ti)) id (\<lambda>_.
             let md = MachineData ti; extID = uint (ExtensionID md) in
             call (CodeHashPlatformSupported M extID (CodeHash md) (Platform md)) id (\<lambda>supported.
               if supported then ret ()
               else (\<lambda>w. case AddTeeVersion E X M privKey (sChainID s) extID (CodeHash md) (Platform md) version w of
                       (Err err, w') \<Rightarrow> if Contains (Error err) ''VersionAlreadyExists'' then (Ok (), w') else (Err err, w')
                     | (Ok _, w') \<Rightarrow> (Ok (), w')))))))"

text \<open>register-tee: without --resume a left-over state file is removed first (a failure to remove it is only logged).\<close>

definition register_tee :: "ext \<Rightarrow> node \<Rightarrow> host \<Rightarrow> os \<Rightarrow> 'c eth \<Rightarrow> 'c proxy \<Rightarrow> 'c registrar \<Rightarrow> string \<Rightarrow> string \<Rightarrow> string \<Rightarrow> string
    \<Rightarrow> string \<Rightarrow> string \<Rightarrow> string \<Rightarrow> string \<Rightarrow> bool \<Rightarrow> ('c world, unit) act" where
  "register_tee E N H OS X P A af cf pf hf epf instr command stateFile resuming w0 =
     (let w = (if resuming then w0 else remove_file OS stateFile w0) in
      call (lift (DefaultSupport E N H af cf)) id (\<lambda>s.
        call (on_net (TeeInfo P pf)) id (\<lambda>ti.
          call (lift (TeeProxyId P ti)) id (\<lambda>_.
            call (on_net (GetTeeProxyID P epf)) id (\<lambda>(ftdcTeeID, _).
              call (lift (GetCodeHashAndPlatform E P (Dotenv N H) ti)) id (\<lambda>_.
                RegisterNode
                  \<lparr>rExt = E, rOS = OS, rEth = X, rProxy = P, rRegistrar = A,
                   rSigner = \<lparr>sKey = Prv s, sChain = sChainID s, sManager = aFlareTeeManager (sAddresses s)\<rparr>,
                   rTeeInfo = ti, rHostURL = (if hf = [] then pf else hf), rFtdcURL = epf, rFtdcTee = ftdcTeeID,
                   rCommand = command, rPath = stateFile\<rparr> instr))))) w)"

subsection \<open>Names in 32 bytes\<close>

lemma not_graphic_NUL: "\<not> graphic (CHR 0x00)"
  by (simp add: graphic_def)

text \<open>A text that neither begins nor ends with a blank is read back from its padded form.\<close>

lemma bytes32ToString_padded:
  assumes "s \<noteq> [] \<Longrightarrow> graphic (hd s) \<and> graphic (last s)"
  shows "bytes32ToString (s @ replicate n (CHR 0x00)) = s"
proof -
  have z: "dropWhile (\<lambda>c. c = CHR 0x00) (replicate n (CHR 0x00) @ t) = dropWhile (\<lambda>c. c = CHR 0x00) t" for n t
    by (induction n) auto
  have "t \<noteq> [] \<Longrightarrow> hd t \<noteq> CHR 0x00 \<Longrightarrow> dropWhile (\<lambda>c. c = CHR 0x00) t = t" for t by (cases t) auto
  moreover have "s \<noteq> [] \<Longrightarrow> last s \<noteq> CHR 0x00" using assms by (metis not_graphic_NUL)
  ultimately have "dropWhile (\<lambda>c. c = CHR 0x00) (rev s) = rev s" by (cases "s = []") (auto simp: hd_rev)
  moreover have "TrimSpace s = s" using assms by (rule TrimSpace_graphic)
  ultimately show ?thesis by (simp add: bytes32ToString_def z)
qed

text \<open>A version is padded to 32 bytes, which loses nothing of a text without zero bytes; a longer one is refused.\<close>

lemma StringToBytes32_Ok_iff:
  "StringToBytes32 E s = Ok b \<longleftrightarrow> length s \<le> 32 \<and> b = s @ replicate (32 - length s) (CHR 0x00)"
  by (auto simp: StringToBytes32_def)

subsection \<open>A failed registration\<close>

lemma remove_file_cong:
  "RemoveError OS path = None \<Longrightarrow> remove_file OS path (w\<lparr>files := (files w)(path := x)\<rparr>) = remove_file OS path w"
  by (simp add: remove_file_def)

lemma recorded_removed:
  "storage_ok E OS path \<Longrightarrow> RemoveError OS path = None \<Longrightarrow> recorded E OS path no_state (remove_file OS path w)"
  by (simp add: recorded_def loadState_def storage_ok_def remove_file_def no_state_def)

text \<open>The command after the state file was removed or kept.\<close>

lemma register_tee_keeps:
  assumes "storage_ok E OS stateFile" "recorded E OS stateFile st w"
    and "register_tee E N H OS X P A af cf pf hf epf instr command stateFile True w = (Err e, w')"
  shows "\<exists>st'. loadState E OS stateFile w' = Ok st' \<and> prefix (CompletedSteps st) (CompletedSteps st')"
proof -
  have load: "loadState E OS stateFile (w\<lparr>net := c\<rparr>) = Ok st" for c
    using recorded_net [of E OS stateFile st c w] assms(2) by (simp add: recorded_def)
  have run: ?thesis if "RegisterNode R instr (w\<lparr>net := c\<rparr>) = (Err e, w')" "rExt R = E" "rOS R = OS" "rPath R = stateFile" for R c
    using RegisterNode_keeps_progress [of R st "w\<lparr>net := c\<rparr>" instr e w'] assms(1,2) that by simp
  show ?thesis
    using assms(3) load [of "net w"] unfolding register_tee_def
    by (auto simp: call_Err_iff load split: prod.splits dest!: on_net_net intro: run)
qed

text \<open>C2: What a failed run of register-tee leaves of the progress. With --resume (or when the state file cannot be removed), and a usable state file,
  the file still loads after any run that ends with an error, at whatever point, and the steps it records extend the ones recorded before.
  Without --resume what the file recorded is gone: the run and the file it leaves are the same whatever was in the file before, and the
  file still loads.\<close>

theorem failed_run_keeps_progress:
  assumes "storage_ok E OS stateFile" "recorded E OS stateFile st w"
    and "register_tee E N H OS X P A af cf pf hf epf instr command stateFile resuming w = (Err e, w')"
  shows "\<exists>st'. loadState E OS stateFile w' = Ok st' \<and>
     (if resuming \<or> RemoveError OS stateFile \<noteq> None then prefix (CompletedSteps st) (CompletedSteps st')
      else \<forall>content. register_tee E N H OS X P A af cf pf hf epf instr command stateFile resuming
             (w\<lparr>files := (files w)(stateFile := content)\<rparr>) = (Err e, w'))"
proof -
  let ?run = "\<lambda>b. register_tee E N H OS X P A af cf pf hf epf instr command stateFile b"
  have fresh: "?run False w = ?run True (remove_file OS stateFile w)" for w by (simp add: register_tee_def)
  show ?thesis
  proof (cases "resuming \<or> RemoveError OS stateFile \<noteq> None")
    case True
    then have "?run resuming w = ?run True w" by (auto simp: register_tee_def remove_file_def)
    with assms(3) True show ?thesis using register_tee_keeps [OF assms(1,2)] by simp
  next
    case False
    then have b: "\<not> resuming" "RemoveError OS stateFile = None" by simp_all
    then have "?run True (remove_file OS stateFile w) = (Err e, w')" using assms(3) fresh by simp
    then have "\<exists>st'. loadState E OS stateFile w' = Ok st'"
      using register_tee_keeps [OF assms(1) recorded_removed [OF assms(1) b(2)]] by blast
    moreover have "?run False (w\<lparr>files := (files w)(stateFile := content)\<rparr>) = (Err e, w')" for content
      using assms(3) b remove_file_cong [OF b(2), of w content] by (simp add: fresh)
    ultimately show ?thesis using b by simp
  qed
qed

subsection \<open>What the setup leaves on the chain\<close>

text \<open>The rights a chain state grants, and what the tools rely on of the registry contract: a query that answers tells the right as it is,
  a mined and successful addition grants the rights asked for, and nothing the tools call takes a granted right away.\<close>

record 'c rights =
  MachineOwner :: "'c \<Rightarrow> int \<Rightarrow> address \<Rightarrow> bool"
  ProjectOwner :: "'c \<Rightarrow> int \<Rightarrow> address \<Rightarrow> bool"
  KeyType :: "'c \<Rightarrow> int \<Rightarrow> hash \<Rightarrow> bool"

definition rights_le :: "'c rights \<Rightarrow> 'c \<Rightarrow> 'c \<Rightarrow> bool" where
  "rights_le R w w' \<longleftrightarrow>
     (\<forall>i a. MachineOwner R w i a \<longrightarrow> MachineOwner R w' i a) \<and>
     (\<forall>i a. ProjectOwner R w i a \<longrightarrow> ProjectOwner R w' i a) \<and> (\<forall>i k. KeyType R w i k \<longrightarrow> KeyType R w' i k)"

definition honest :: "('c \<Rightarrow> int \<Rightarrow> 'a \<Rightarrow> bool) \<Rightarrow> (int \<Rightarrow> 'a \<Rightarrow> ('c, bool) act) \<Rightarrow> bool" where
  "honest P query \<longleftrightarrow> (\<forall>i a w b w'. query i a w = (Ok b, w') \<longrightarrow> b = P w i a)"

definition grants :: "'c eth \<Rightarrow> ('c \<Rightarrow> int \<Rightarrow> 'a \<Rightarrow> bool) \<Rightarrow> (opts \<Rightarrow> int \<Rightarrow> 'a list \<Rightarrow> ('c, transaction) act) \<Rightarrow> bool" where
  "grants X P add \<longleftrightarrow>
     (\<forall>opts i as w tx w1 rc w2 a. add opts i as w = (Ok tx, w1) \<longrightarrow> WaitMined X tx w1 = (Ok rc, w2) \<longrightarrow> rStatus rc \<noteq> 0 \<longrightarrow>
        a \<in> set as \<longrightarrow> P w2 i a)"

definition keeps :: "'c rights \<Rightarrow> ('c, 'a) act \<Rightarrow> bool" where
  "keeps R m \<longleftrightarrow> (\<forall>w. rights_le R w (snd (m w)))"

definition contract_laws :: "'c eth \<Rightarrow> 'c manager \<Rightarrow> 'c rights \<Rightarrow> bool" where
  "contract_laws X M R \<longleftrightarrow>
     honest (MachineOwner R) (AllowedMachineOwner M) \<and> honest (ProjectOwner R) (AllowedProjectOwner M) \<and>
     honest (KeyType R) (KeyTypeSupported M) \<and>
     grants X (MachineOwner R) (AddMachineOwnersTx M) \<and> grants X (ProjectOwner R) (AddProjectOwnersTx M) \<and>
     grants X (KeyType R) (AddKeyTypesTx M) \<and>
     (\<forall>tx. keeps R (WaitMined X tx)) \<and>
     (\<forall>i a. keeps R (AllowedMachineOwner M i a) \<and> keeps R (AllowedProjectOwner M i a)) \<and>
     (\<forall>i k. keeps R (KeyTypeSupported M i k)) \<and>
     (\<forall>opts i as. keeps R (AddMachineOwnersTx M opts i as) \<and> keeps R (AddProjectOwnersTx M opts i as)) \<and>
     (\<forall>opts i ks. keeps R (AddKeyTypesTx M opts i ks))"

lemma rights_le_trans [trans]: "rights_le R a b \<Longrightarrow> rights_le R b c \<Longrightarrow> rights_le R a c"
  by (auto simp: rights_le_def)

lemma rights_leD:
  "rights_le R w w' \<Longrightarrow> MachineOwner R w i a \<Longrightarrow> MachineOwner R w' i a"
  "rights_le R w w' \<Longrightarrow> ProjectOwner R w i a \<Longrightarrow> ProjectOwner R w' i a"
  "rights_le R w w' \<Longrightarrow> KeyType R w i k \<Longrightarrow> KeyType R w' i k"
  by (auto simp: rights_le_def)

lemma keepsD: "keeps R m \<Longrightarrow> m w = (r, w') \<Longrightarrow> rights_le R w w'"
  by (metis keeps_def snd_conv)

lemma honestD: "honest P query \<Longrightarrow> query i a w = (Ok b, w') \<Longrightarrow> b \<longleftrightarrow> P w i a"
  by (simp add: honest_def)

lemma grantsD:
  "grants X P add \<Longrightarrow> add opts i as w = (Ok tx, w1) \<Longrightarrow> CheckTx E X tx w1 = (Ok rc, w2) \<Longrightarrow> a \<in> set as \<Longrightarrow> P w2 i a"
  by (auto simp: grants_def CheckTx_success)

text \<open>The contract the three steps of the setup share: a step that succeeded has either read the right as granted or sent its
  addition and seen it mined; when the right is read as granted, nothing else is done; a failed query fails the step.\<close>

locale granting_step =
  fixes E :: ext and X :: "'c eth" and query :: "int \<Rightarrow> 'a \<Rightarrow> ('c, bool) act"
    and add :: "opts \<Rightarrow> int \<Rightarrow> 'a list \<Rightarrow> ('c, transaction) act" and a :: 'a and step :: "int \<Rightarrow> ('c, unit) act"
  assumes step_trace: "step i w = (Ok (), w') \<Longrightarrow>
      query i a w = (Ok True, w') \<or>
      (\<exists>w0 opts tx w1 rc. query i a w = (Ok False, w0) \<and> add opts i [a] w0 = (Ok tx, w1) \<and> CheckTx E X tx w1 = (Ok rc, w'))"
    and step_skip: "query i a w = (Ok True, w') \<Longrightarrow> step i w = (Ok (), w')"
    and step_refused: "query i a w = (Err err, w') \<Longrightarrow> snd (step i w) = w'"
begin

lemma step_grants:
  assumes "step i w = (Ok (), w')" "honest P query" "grants X P add" "keeps R (query i a)"
    and "\<And>opts. keeps R (add opts i [a])" "\<And>tx. keeps R (WaitMined X tx)"
    and mono: "\<And>w w'. rights_le R w w' \<Longrightarrow> P w i a \<Longrightarrow> P w' i a"
  shows "P w' i a \<and> rights_le R w w'"
  using step_trace [OF assms(1)]
proof (elim disjE exE conjE)
  assume q: "query i a w = (Ok True, w')"
  then have "P w i a" using honestD [OF assms(2)] by blast
  then show ?thesis using mono keepsD [OF assms(4) q] by blast
next
  fix w0 opts tx w1 rc
  assume q: "query i a w = (Ok False, w0)" and ad: "add opts i [a] w0 = (Ok tx, w1)" and c: "CheckTx E X tx w1 = (Ok rc, w')"
  then have "WaitMined X tx w1 = (Ok rc, w')" by (simp add: CheckTx_success)
  then have "rights_le R w w'"
    using keepsD [OF assms(4) q] keepsD [OF assms(5) ad] keepsD [OF assms(6)] rights_le_trans by metis
  then show ?thesis using grantsD [OF assms(3) ad c] by simp
qed

lemma step_repeated:
  assumes "honest P query" "P w i a"
  shows "snd (step i w) = snd (query i a w)"
proof (cases "query i a w")
  case (Pair r w')
  with assms honestD [of P query i a w] step_skip [of i w w'] step_refused [of i w _ w'] show ?thesis
    by (cases r) auto
qed

end

interpretation machine_owner_step: granting_step E X "AllowedMachineOwner M" "AddMachineOwnersTx M" a
    "\<lambda>i. setup_machine_owner E X M opts i a" for E X M opts a
  by unfold_locales (force simp: setup_machine_owner_def allowTeeMachineOwners_def call_Ok_iff split: if_splits)+

interpretation project_owner_step: granting_step E X "AllowedProjectOwner M" "AddProjectOwnersTx M" a
    "\<lambda>i. setup_project_owner E X M opts i a" for E X M opts a
  by unfold_locales (force simp: setup_project_owner_def allowTeeProjectManagerOwners_def call_Ok_iff split: if_splits)+

interpretation key_type_step: granting_step E X "KeyTypeSupported M" "AddKeyTypesTx M" "EVMType E" "setup_key_type E X M s"
    for E X M s
  by unfold_locales
    (force simp: setup_key_type_def IsKeyTypeSupported_call_def AddSupportedKeyTypes_def addSupportedKeyTypesTx_def call_Ok_iff
      split: if_splits)+

lemma contract_lawsD:
  assumes "contract_laws X M R"
  shows "honest (MachineOwner R) (AllowedMachineOwner M)" "honest (ProjectOwner R) (AllowedProjectOwner M)"
    "honest (KeyType R) (KeyTypeSupported M)" "grants X (MachineOwner R) (AddMachineOwnersTx M)"
    "grants X (ProjectOwner R) (AddProjectOwnersTx M)" "grants X (KeyType R) (AddKeyTypesTx M)" "keeps R (WaitMined X tx)"
    "keeps R (AllowedMachineOwner M i a)" "keeps R (AllowedProjectOwner M i a)" "keeps R (KeyTypeSupported M i k)"
    "keeps R (AddMachineOwnersTx M opts i as)" "keeps R (AddProjectOwnersTx M opts i as)" "keeps R (AddKeyTypesTx M opts i ks)"
  using assms by (simp_all add: contract_laws_def)

lemma setup_steps_grant:
  assumes "contract_laws X M R"
  shows "setup_machine_owner E X M opts i a w = (Ok (), w') \<Longrightarrow> MachineOwner R w' i a \<and> rights_le R w w'"
    and "setup_project_owner E X M opts i a w = (Ok (), w') \<Longrightarrow> ProjectOwner R w' i a \<and> rights_le R w w'"
    and "setup_key_type E X M s i w = (Ok (), w') \<Longrightarrow> KeyType R w' i (EVMType E) \<and> rights_le R w w'"
proof -
  note law = contract_lawsD [OF assms]
  show "setup_machine_owner E X M opts i a w = (Ok (), w') \<Longrightarrow> MachineOwner R w' i a \<and> rights_le R w w'"
    by (rule machine_owner_step.step_grants [OF _ law(1,4,8,11,7) rights_leD(1)])
  show "setup_project_owner E X M opts i a w = (Ok (), w') \<Longrightarrow> ProjectOwner R w' i a \<and> rights_le R w w'"
    by (rule project_owner_step.step_grants [OF _ law(2,5,9,12,7) rights_leD(2)])
  show "setup_key_type E X M s i w = (Ok (), w') \<Longrightarrow> KeyType R w' i (EVMType E) \<and> rights_le R w w'"
    by (rule key_type_step.step_grants [OF _ law(3,6,10,13,7) rights_leD(3)])
qed

lemma setup_grants_rights:
  assumes "contract_laws X M R" "SetupExtension E X M s instructionsSender stateVerifier w = (Ok i, w')"
  shows "MachineOwner R w' i (PubkeyToAddress E (sKey s)) \<and> ProjectOwner R w' i (PubkeyToAddress E (sKey s)) \<and>
     KeyType R w' i (EVMType E)"
proof -
  let ?d = "PubkeyToAddress E (sKey s)"
  obtain opts' w1 w2 w3 where
    steps: "setup_machine_owner E X M opts' i ?d w1 = (Ok (), w2)" "setup_project_owner E X M opts' i ?d w2 = (Ok (), w3)"
    "setup_key_type E X M s i w3 = (Ok (), w')"
    using assms(2) by (auto simp: SetupExtension_def Let_def call_Ok_iff)
  from setup_steps_grant(1) [OF assms(1) steps(1)] setup_steps_grant(2) [OF assms(1) steps(2)]
    setup_steps_grant(3) [OF assms(1) steps(3)]
  show ?thesis by (blast intro: rights_leD)
qed

text \<open>C7: When SetupExtension returns an extension ID, the deployer is a machine owner and a project owner of that extension and
  the EVM key type is supported, whichever of them the chain had before; from then on each of the three steps only asks the chain
  and sends no transaction.\<close>

theorem SetupExtension_grants_rights:
  assumes "contract_laws X M R" "SetupExtension E X M s instructionsSender stateVerifier w = (Ok i, w')"
  shows "MachineOwner R w' i (PubkeyToAddress E (sKey s)) \<and> ProjectOwner R w' i (PubkeyToAddress E (sKey s)) \<and>
     KeyType R w' i (EVMType E) \<and>
     snd (setup_machine_owner E X M opts i (PubkeyToAddress E (sKey s)) w') =
       snd (AllowedMachineOwner M i (PubkeyToAddress E (sKey s)) w') \<and>
     snd (setup_project_owner E X M opts i (PubkeyToAddress E (sKey s)) w') =
       snd (AllowedProjectOwner M i (PubkeyToAddress E (sKey s)) w') \<and>
     snd (setup_key_type E X M s i w') = snd (KeyTypeSupported M i (EVMType E) w')"
  using setup_grants_rights [OF assms] machine_owner_step.step_repeated [OF contract_lawsD(1) [OF assms(1)]]
    project_owner_step.step_repeated [OF contract_lawsD(2) [OF assms(1)]]
    key_type_step.step_repeated [OF contract_lawsD(3) [OF assms(1)]] by blast

text \<open>A resumed run on a file that records step r, on a chain that refuses the availability check.\<close>

definition up_proxy :: "nat proxy" where
  "up_proxy = demo_proxy\<lparr>HttpGetBody := (\<lambda>_ n. (Ok (200, []), n))\<rparr>"

abbreviation demo_register_tee :: "bool \<Rightarrow> (nat world, unit) act" where
  "demo_register_tee \<equiv> register_tee hash_ext demo_setup (demo_host ''e'' None) (rOS (demo_run [])) demo_eth up_proxy demo_registrar
     ''p'' ''http://node'' ''x'' [] ''f'' [] ''rap'' ''state''"

lemma demo_register_tee_fails: "\<exists>e w'. demo_register_tee True asked_world = (Err e, w')"
proof -
  obtain s where s: "DefaultSupport hash_ext demo_setup (demo_host ''e'' None) ''p'' ''http://node'' = Ok s"
    using demo_support_ext [of hash_ext] by (auto simp: hash_ext_def)
  have info: "TeeInfo up_proxy u n = (Ok demo_teeinfo, n)" for u n
    by (simp add: TeeInfo_def up_proxy_def demo_proxy_def)
  have ids: "TeeProxyId up_proxy demo_teeinfo = Ok (1, 1)" by (simp add: TeeProxyId_def up_proxy_def demo_proxy_def)
  have code: "GetCodeHashAndPlatform hash_ext up_proxy (Dotenv demo_setup (demo_host ''e'' None)) demo_teeinfo = Ok (2, 3)"
    by (simp add: GetCodeHashAndPlatform_def CodeHashAndPlatform_def up_proxy_def demo_proxy_def demo_setup_def demo_node_def demo_host_def
        demo_teeinfo_def)
  have check: "\<exists>e c. gated_check R 1 h n = (Err e, c)"
    if "rEth R = demo_eth" "rProxy R = up_proxy" "rRegistrar R = demo_registrar" for R h n
    using that by (simp add: gated_check_def CheckFTDCProxyPolicyConsistency_def RequestFTDCAvailabilityCheck_def fee_opts_def
        NewKeyedTransactor_def call_def up_proxy_def demo_proxy_def demo_registrar_def demo_eth_def Let_def)
  have run: "\<exists>e w'. RegisterNode R i asked_world = (Err e, w')"
    if "rExt R = hash_ext" "rOS R = rOS (demo_run [])" "rPath R = ''state''" "rEth R = demo_eth" "rProxy R = up_proxy" "rRegistrar R = demo_registrar"
      "rTeeInfo R = demo_teeinfo" "rCommand R = ''rap''" for R i
  proof -
    have "TeeProxyId (rProxy R) (rTeeInfo R) = Ok (1, 1)" "loadState (rExt R) (rOS R) (rPath R) asked_world = Ok asked_state"
      using that ids asked_recorded by (simp_all add: recorded_def)
    note RegisterNode_unfold [OF this, of i]
    moreover have "\<exists>e c. gated_check R 1 5 n = (Err e, c)" for n using check that by blast
    ultimately show ?thesis using that
      by (auto simp: step_r_def step_R_def step_a_def call_def on_net_def asked_state_def split: prod.splits sum.splits) (metis Pair_inject sum.distinct(1))+
  qed
  show ?thesis
    unfolding register_tee_def GetTeeProxyID_def
    by (simp add: s info ids code on_net_def call_def run)
qed

theorem failed_run_keeps_progress_witness:
  "\<exists>e w' st'. demo_register_tee True asked_world = (Err e, w') \<and>
     loadState hash_ext (rOS (demo_run [])) ''state'' w' = Ok st' \<and> prefix ''r'' (CompletedSteps st')"
proof -
  obtain e w' where run: "demo_register_tee True asked_world = (Err e, w')" using demo_register_tee_fails by blast
  have "storage_ok hash_ext (rOS (demo_run [])) ''state''" using demo_storage [of "[]"] by (simp add: demo_run_def)
  from failed_run_keeps_progress [OF this asked_recorded run] run show ?thesis by (auto simp: asked_state_def)
qed

text \<open>A chain whose state is the list of granted rights, on which every transaction is mined at once.\<close>

definition demo_chain_eth :: "(nat \<times> int \<times> hash) list eth" where
  "demo_chain_eth =
     \<lparr>TransactorError = (\<lambda>_ _. None),
      WaitMined = (\<lambda>tx w. (Ok \<lparr>rStatus = 1, rLogs = replicate 2 \<lparr>lTopics = [], lData = []\<rparr>\<rparr>, w)),
      TransactionByHash = (\<lambda>h w. (Err (ErrText ''not found''), w)), CallContract = (\<lambda>m w. (Ok [], w)), Sender = (\<lambda>_. Ok 1),
      UnpackRevert = (\<lambda>_. Err (ErrText ''invalid'')), FromHex = (\<lambda>_. [])\<rparr>"

definition demo_manager :: "(nat \<times> int \<times> hash) list manager" where
  "demo_manager =
     \<lparr>RegisterTx = (\<lambda>_ _ _ w. (Ok demo_tx, w)), ParseTeeExtensionRegistered = (\<lambda>_. Ok 7), ParseTeeExtensionContractsSet = (\<lambda>_. Ok ()),
      AllowedMachineOwner = (\<lambda>i a w. (Ok ((1, i, ucast a) \<in> set w), w)),
      AddMachineOwnersTx = (\<lambda>_ i as w. (Ok demo_tx, map (\<lambda>a. (1, i, ucast a)) as @ w)), ParseMachineOwnersAdded = (\<lambda>_. Ok ()),
      AllowedProjectOwner = (\<lambda>i a w. (Ok ((2, i, ucast a) \<in> set w), w)),
      AddProjectOwnersTx = (\<lambda>_ i as w. (Ok demo_tx, map (\<lambda>a. (2, i, ucast a)) as @ w)), ParseProjectOwnersAdded = (\<lambda>_. Ok ()),
      KeyTypeSupported = (\<lambda>i k w. (Ok ((3, i, k) \<in> set w), w)),
      AddKeyTypesTx = (\<lambda>_ i ks w. (Ok demo_tx, map (\<lambda>k. (3, i, k)) ks @ w)),
      AddVersionTx = (\<lambda>_ _ _ _ _ w. (Ok demo_tx, w)), CodeHashPlatformSupported = (\<lambda>_ _ _ w. (Ok False, w))\<rparr>"

definition demo_rights :: "(nat \<times> int \<times> hash) list rights" where
  "demo_rights =
     \<lparr>MachineOwner = (\<lambda>w i a. (1, i, ucast a) \<in> set w), ProjectOwner = (\<lambda>w i a. (2, i, ucast a) \<in> set w),
      KeyType = (\<lambda>w i k. (3, i, k) \<in> set w)\<rparr>"

lemma demo_contract_laws: "contract_laws demo_chain_eth demo_manager demo_rights"
  by (auto simp: contract_laws_def honest_def grants_def keeps_def rights_le_def demo_chain_eth_def demo_manager_def demo_rights_def)

lemma demo_setup_run: "\<exists>w'. SetupExtension demo_ext demo_chain_eth demo_manager s a b [] = (Ok 7, w')"
  by (simp add: SetupExtension_def registerExtension_def setup_machine_owner_def setup_project_owner_def setup_key_type_def
      allowTeeMachineOwners_def allowTeeProjectManagerOwners_def IsKeyTypeSupported_call_def AddSupportedKeyTypes_def
      addSupportedKeyTypesTx_def CheckTx_def NewKeyedTransactor_def Let_def call_def demo_chain_eth_def demo_manager_def)

theorem SetupExtension_grants_rights_witness:
  "\<exists>w'. SetupExtension demo_ext demo_chain_eth demo_manager \<lparr>sKey = 5, sChain = 31337, sManager = 9\<rparr> 1 2 [] = (Ok 7, w') \<and>
     MachineOwner demo_rights w' 7 (PubkeyToAddress demo_ext 5)"
proof -
  let ?s = "\<lparr>sKey = 5, sChain = 31337, sManager = 9\<rparr>"
  obtain w' where "SetupExtension demo_ext demo_chain_eth demo_manager ?s 1 2 [] = (Ok 7, w')" using demo_setup_run by blast
  then show ?thesis using SetupExtension_grants_rights [OF demo_contract_laws, of demo_ext ?s 1 2 "[]" 7 w'] by simp
qed

end
