(* ===== verification/Server.thy ===== *)
theory Server
  imports Decode Abi
begin

section \<open>The extension server (go/internal/extension, go/internal/config, go/pkg/types)\<close>

text \<open>
  The server's state and request handling as sequential functions: the routes of \<open>New\<close>, \<open>actionHandler\<close> down to \<open>processSayHello\<close>
  and \<open>processSayGoodbye\<close>, \<open>buildResult\<close>, \<open>stateHandler\<close>, and the ports of package config. Counters are
  Go ints, 64-bit words read as two's complement. What tee-node and go-flare-common provide (the decoding
  of actions and fixed data, the encoding of results, the hash of a name) is the parameter \<open>teenode\<close>.
\<close>

subsection \<open>Configuration\<close>

definition Version :: string where "Version = ''0.1.0''"
definition OPTypeGreeting :: string where "OPTypeGreeting = ''GREETING''"
definition OPCommandSayHello :: string where "OPCommandSayHello = ''SAY_HELLO''"
definition OPCommandSayGoodbye :: string where "OPCommandSayGoodbye = ''SAY_GOODBYE''"

definition port_from_env :: "string \<Rightarrow> int \<Rightarrow> int" where
  "port_from_env s def = (if s \<noteq> [] then (case Atoi s of Some v \<Rightarrow> v | None \<Rightarrow> def) else def)"

definition config_init :: "host \<Rightarrow> int \<times> int" where
  "config_init H = (port_from_env (Getenv H ''EXTENSION_PORT'') 8080, port_from_env (Getenv H ''SIGN_PORT'') 9090)"

subsection \<open>Data\<close>

record Extension =
  greetingCount :: "64 word"
  lastGreeting :: string
  farewellCount :: "64 word"
  lastFarewell :: string

definition new_Extension :: Extension where
  "new_Extension = \<lparr>greetingCount = 0, lastGreeting = [], farewellCount = 0, lastFarewell = []\<rparr>"

record Action =
  actID :: hash
  actSubmissionTag :: string
  actMessage :: bytes

record DataFixed =
  OPType :: hash
  OPCommand :: hash
  OriginalMessage :: bytes

record ActionResult =
  arID :: hash
  arSubmissionTag :: string
  arVersion :: string
  arOPType :: hash
  arOPCommand :: hash
  arData :: "bytes option"
  arStatus :: "8 word"
  arLog :: string

record SayGoodbyeRequest =
  byeName :: string
  byeReason :: string

record teenode =
  ToHash :: "string \<Rightarrow> hash"
  DecodeAction :: "string \<Rightarrow> Action result"
  ParseDataFixed :: "bytes \<Rightarrow> DataFixed result"
  MarshalActionResult :: "ActionResult \<Rightarrow> bytes"
  UnmarshalActionResult :: "bytes \<Rightarrow> ActionResult option"
  NewType :: new_type
  DecodeTo :: "abi_type \<Rightarrow> bytes \<Rightarrow> SayGoodbyeRequest result"

text \<open>\<^verbatim>\<open>SayGoodbyeMessageArg\<close> as \<^verbatim>\<open>init\<close> of go/pkg/types sets it; the error of \<^verbatim>\<open>NewType\<close> is ignored there.\<close>

definition SayGoodbyeMessageArg :: "teenode \<Rightarrow> abi_type" where
  "SayGoodbyeMessageArg T =
     (case NewType T ''tuple'' [(''name'', ''string''), (''reason'', ''string'')] of Ok tupleTy \<Rightarrow> tupleTy | Err _ \<Rightarrow> NoTy)"

subsection \<open>Results\<close>

definition buildResult :: "Action \<Rightarrow> DataFixed \<Rightarrow> bytes option \<Rightarrow> 8 word \<Rightarrow> goerror option \<Rightarrow> ActionResult" where
  "buildResult a df data status err =
     \<lparr>arID = actID a, arSubmissionTag = actSubmissionTag a, arVersion = Version, arOPType = OPType df,
      arOPCommand = OPCommand df, arData = data, arStatus = status,
      arLog = (if status = 0 then ''error: '' @ (case err of Some e \<Rightarrow> Error e | None \<Rightarrow> ''<nil>'')
               else if status = 1 then ''ok'' else ''pending'')\<rparr>"

definition getLogFromBody :: "teenode \<Rightarrow> bytes \<Rightarrow> string" where
  "getLogFromBody T body = (case UnmarshalActionResult T body of None \<Rightarrow> body | Some ar \<Rightarrow> arLog ar)"

subsection \<open>The two commands\<close>

definition greeting_text :: "string \<Rightarrow> string" where
  "greeting_text name = ''Hello, '' @ name @ ''! Welcome to Flare Confidential Compute.''"

definition farewell_text :: "string \<Rightarrow> string \<Rightarrow> string" where
  "farewell_text name reason = ''Goodbye, '' @ name @ ''! Reason: '' @ reason"

text \<open>The critical sections: the new state, and the number handed out.\<close>

definition greet :: "string \<Rightarrow> Extension \<Rightarrow> Extension \<times> 64 word" where
  "greet name e =
     (e\<lparr>greetingCount := greetingCount e + 1, lastGreeting := greeting_text name\<rparr>, greetingCount e + 1)"

definition farewell :: "string \<Rightarrow> string \<Rightarrow> Extension \<Rightarrow> Extension \<times> 64 word" where
  "farewell name reason e =
     (e\<lparr>farewellCount := farewellCount e + 1, lastFarewell := farewell_text name reason\<rparr>, farewellCount e + 1)"

definition json_int :: "64 word \<Rightarrow> json" where
  "json_int n = JNum (dec_of_int (sint n))"

definition SayHelloResponse :: "string \<Rightarrow> 64 word \<Rightarrow> json" where
  "SayHelloResponse greeting n = JObj [(''greeting'', JStr greeting), (''greetingNumber'', json_int n)]"

definition SayGoodbyeResponse :: "string \<Rightarrow> 64 word \<Rightarrow> json" where
  "SayGoodbyeResponse text n = JObj [(''farewell'', JStr text), (''farewellNumber'', json_int n)]"

text \<open>\<^verbatim>\<open>SayHelloRequest\<close> has the one field name; the decoder refuses other members and stops after the value.\<close>

definition decode_hello :: "bytes \<Rightarrow> string option" where
  "decode_hello msg =
     (case decode_first msg of
        None \<Rightarrow> None
      | Some (v, _) \<Rightarrow> decode_struct True [(''name'', string_field (\<lambda>x _. x))] [] v)"

definition processSayHello :: "ext \<Rightarrow> Action \<Rightarrow> DataFixed \<Rightarrow> Extension \<Rightarrow> ActionResult \<times> Extension" where
  "processSayHello E action df e =
     (case decode_hello (OriginalMessage df) of
        None \<Rightarrow>
          (buildResult action df None 0 (Some (ErrText (''decoding request: '' @ JSONError E (OriginalMessage df)))), e)
      | Some name \<Rightarrow>
          if name = [] then (buildResult action df None 0 (Some (ErrText ''name must not be empty'')), e)
          else
            (let (e', n) = greet name e in
             (buildResult action df (Some (Marshal (SayHelloResponse (greeting_text name) n))) 1 None, e')))"

definition processSayGoodbye :: "teenode \<Rightarrow> Action \<Rightarrow> DataFixed \<Rightarrow> Extension \<Rightarrow> ActionResult \<times> Extension" where
  "processSayGoodbye T action df e =
     (case DecodeTo T (SayGoodbyeMessageArg T) (OriginalMessage df) of
        Err err \<Rightarrow> (buildResult action df None 0 (Some (ErrWrap (''decoding request: '' @ Error err) err)), e)
      | Ok req \<Rightarrow>
          if byeName req = [] then (buildResult action df None 0 (Some (ErrText ''name must not be empty'')), e)
          else
            (let (e', n) = farewell (byeName req) (byeReason req) e in
             (buildResult action df (Some (Marshal (SayGoodbyeResponse (farewell_text (byeName req) (byeReason req)) n))) 1
                None, e')))"

subsection \<open>Routing\<close>

definition processGreeting :: "ext \<Rightarrow> teenode \<Rightarrow> Action \<Rightarrow> DataFixed \<Rightarrow> Extension \<Rightarrow> (nat \<times> bytes) \<times> Extension" where
  "processGreeting E T action df e =
     (if OPCommand df = ToHash T OPCommandSayHello
      then (case processSayHello E action df e of (ar, e') \<Rightarrow> ((200, MarshalActionResult T ar), e'))
      else if OPCommand df = ToHash T OPCommandSayGoodbye
      then (case processSayGoodbye T action df e of (ar, e') \<Rightarrow> ((200, MarshalActionResult T ar), e'))
      else ((501, ''unsupported op command: received '' @ HashHex E (OPCommand df) @ '', expected one of ['' @
              HashHex E (ToHash T OPCommandSayHello) @ '' ('' @ OPCommandSayHello @ ''), '' @
              HashHex E (ToHash T OPCommandSayGoodbye) @ '' ('' @ OPCommandSayGoodbye @ '')]''), e))"

definition processAction :: "ext \<Rightarrow> teenode \<Rightarrow> Action \<Rightarrow> Extension \<Rightarrow> (nat \<times> bytes) \<times> Extension" where
  "processAction E T action e =
     (case ParseDataFixed T (actMessage action) of
        Err err \<Rightarrow> ((400, ''decoding fixed data: '' @ Error err), e)
      | Ok df \<Rightarrow>
          if OPType df = ToHash T OPTypeGreeting then processGreeting E T action df e
          else ((501, ''unsupported op type: received '' @ HashHex E (OPType df) @ '', expected '' @
                  HashHex E (ToHash T OPTypeGreeting) @ '' ('' @ OPTypeGreeting @ '')''), e))"

text \<open>\<^verbatim>\<open>http.Error\<close> appends a newline to the text.\<close>

definition actionHandler :: "ext \<Rightarrow> teenode \<Rightarrow> string \<Rightarrow> Extension \<Rightarrow> (nat \<times> bytes) \<times> Extension" where
  "actionHandler E T body e =
     (case DecodeAction T body of
        Err err \<Rightarrow> ((400, ''decoding action: '' @ Error err @ newline), e)
      | Ok action \<Rightarrow> processAction E T action e)"

text \<open>\<^verbatim>\<open>Encoder.Encode\<close> writes the compact form and a newline; the encoding of this value cannot fail.\<close>

definition StateResponse :: "ext \<Rightarrow> teenode \<Rightarrow> Extension \<Rightarrow> json" where
  "StateResponse E T e =
     JObj [(''stateVersion'', JStr (HashHex E (ToHash T Version))),
           (''state'',
             JObj [(''greetingCount'', json_int (greetingCount e)), (''lastGreeting'', JStr (lastGreeting e)),
                   (''farewellCount'', json_int (farewellCount e)), (''lastFarewell'', JStr (lastFarewell e))])]"

definition stateHandler :: "ext \<Rightarrow> teenode \<Rightarrow> Extension \<Rightarrow> nat \<times> bytes" where
  "stateHandler E T e = (200, Marshal (StateResponse E T e) @ newline)"

text \<open>What \<^verbatim>\<open>http.ServeMux\<close> does with the escaped path of a request: \<^verbatim>\<open>cleanPath\<close> removes empty and dot segments and keeps a trailing
  slash; a segment is unescaped before it is compared, and left as it is when an escape is malformed.\<close>

definition clean_segment :: "string list \<Rightarrow> string \<Rightarrow> string list" where
  "clean_segment out seg = (if seg = [] \<or> seg = ''.'' then out else if seg = ''..'' then butlast out else out @ [seg])"

definition clean_segments :: "string \<Rightarrow> string list" where
  "clean_segments p = foldl clean_segment [] (Split p (CHR ''/''))"

definition cleanPath :: "string \<Rightarrow> string" where
  "cleanPath p =
     (let np = ''/'' @ Join (clean_segments p) ''/'' in
      if p \<noteq> [] \<and> last p = CHR ''/'' \<and> np \<noteq> ''/'' then np @ ''/'' else np)"

fun PathUnescape :: "string \<Rightarrow> string option" where
  "PathUnescape [] = Some []"
| "PathUnescape (c # s) =
     (if c = CHR ''%''
      then (case s of
              a # b # t \<Rightarrow>
                (case (hexval a, hexval b) of
                   (Some x, Some y) \<Rightarrow> map_option (Cons (char_of (16 * x + y))) (PathUnescape t)
                 | _ \<Rightarrow> None)
            | _ \<Rightarrow> None)
      else map_option (Cons c) (PathUnescape s))"

definition pathUnescape :: "string \<Rightarrow> string" where
  "pathUnescape s = (case PathUnescape s of Some t \<Rightarrow> t | None \<Rightarrow> s)"

text \<open>Both registered patterns have one segment, so a path of more segments matches none.\<close>

definition matched :: "string \<Rightarrow> string \<Rightarrow> bool" where
  "matched seg path = (case path of [] \<Rightarrow> False | _ # s \<Rightarrow> CHR ''/'' \<notin> set s \<and> pathUnescape s = seg)"

text \<open>The routes that \<^verbatim>\<open>New\<close> registers: a pattern with GET also serves HEAD, a known path with another method is 405, an unknown path
  404, and a path that is not in clean form is redirected to the clean one, except for CONNECT. The request target * is answered by the
  server itself. The headers of an answer and the link in the body of a redirect are left out; an answer to HEAD has no body.\<close>

definition ServeHTTP :: "ext \<Rightarrow> teenode \<Rightarrow> string \<Rightarrow> string \<Rightarrow> string \<Rightarrow> Extension \<Rightarrow> (nat \<times> bytes) \<times> Extension" where
  "ServeHTTP E T rmethod path body e =
     (let (resp, e') =
        (if path = ''*'' then ((if rmethod = ''OPTIONS'' then 200 else 400, []), e)
         else if rmethod \<noteq> ''CONNECT'' \<and> cleanPath path \<noteq> path then ((301, []), e)
         else if matched ''state'' path \<and> (rmethod = ''GET'' \<or> rmethod = ''HEAD'') then (stateHandler E T e, e)
         else if matched ''action'' path \<and> rmethod = ''POST'' then actionHandler E T body e
         else if matched ''state'' path \<or> matched ''action'' path then ((405, ''Method Not Allowed'' @ newline), e)
         else ((404, ''404 page not found'' @ newline), e)) in
      (if rmethod = ''HEAD'' then (fst resp, []) else resp, e'))"

text \<open>The address the server listens on.\<close>

definition server_addr :: "int \<Rightarrow> string" where
  "server_addr extensionPort = '':'' @ dec_of_int extensionPort"

subsection \<open>Numbers on the wire\<close>

lemma is_digit_digit_char: "d < 10 \<Longrightarrow> is_digit (digit_char d)"
  by (simp add: is_digit_def)

lemma digits_all: "list_all is_digit (dec_of_nat n)"
  using to_digits_bound [of 10 _ n] by (auto simp: dec_of_nat_def list_all_iff is_digit_digit_char)

lemma to_digits_no_leading_zero: "0 < n \<Longrightarrow> 2 \<le> b \<Longrightarrow> hd (to_digits b n) \<noteq> 0"
proof (induction b n rule: to_digits.induct)
  case (1 b n)
  then show ?case
    by (cases "n < b") (auto simp: to_digits.simps [of b n] div_greater_zero_iff)
qed

lemma lex_int_dec: "lex_int (dec_of_nat n) = Some (dec_of_nat n, [])"
proof (cases "n = 0")
  case True
  then show ?thesis by (simp add: dec_of_nat_def to_digits.simps digit_char_def lex_int_def char_of_def bit_simps)
next
  case False
  obtain d ds where dds: "to_digits 10 n = d # ds" by (cases "to_digits 10 n") auto
  with False have "d \<noteq> 0" "d < 10" using to_digits_no_leading_zero [of n 10] to_digits_bound [of 10 d n] by auto
  then have "hexval (digit_char d) \<noteq> hexval (CHR ''0'')" by (simp add: hexval_def [of "CHR ''0''"])
  then have "digit_char d \<noteq> CHR ''0''" by metis
  moreover have "takeWhile is_digit (dec_of_nat n) = dec_of_nat n" "dropWhile is_digit (dec_of_nat n) = []"
    using digits_all [of n] by (auto simp: list_all_iff takeWhile_eq_all_conv dropWhile_eq_Nil_conv)
  ultimately show ?thesis
    using dds is_digit_digit_char [OF \<open>d < 10\<close>] by (simp add: lex_int_def dec_of_nat_def)
qed

lemma number_ok_int: "number_ok (dec_of_int i)"
proof -
  have fe: "lex_frac [] = Some ([], [])" "lex_exp [] = Some ([], [])" by (simp_all add: lex_frac_def lex_exp_def)
  obtain d ds where "dec_of_nat (nat i) = digit_char d # ds" "d < 10" using dec_of_nat_hd by blast
  then show ?thesis
    using digit_char_not_sign [of d] lex_int_dec [of "nat i"] lex_int_dec [of "nat (- i)"]
    by (auto simp: number_ok_def lex_number_def dec_of_int_def fe)
qed

subsection \<open>Requests and responses\<close>

lemma decode_hello_request:
  assumes "valid_utf8 name" "delimited rest"
  shows "decode_hello (Marshal (JObj [(''name'', JStr name)]) @ rest) = Some name"
proof -
  have "valid_utf8 ''name''" by (rule valid_utf8_ascii) simp
  with assms have "decode_first (encode compact 0 (JObj [(''name'', JStr name)]) @ rest) =
      Some (JObj [(''name'', JStr name)], rest)"
    by (intro decode_first_encode) (simp_all add: blank_layouts maxNestingDepth_def)
  then show ?thesis
    by (simp add: decode_hello_def Marshal_def decode_struct_def field_for_def string_field_def del: encode.simps)
qed

lemma Unmarshal_hello_response:
  assumes "valid_utf8 name"
  shows "Unmarshal (Marshal (SayHelloResponse (greeting_text name) n)) = Some (SayHelloResponse (greeting_text name) n)"
proof -
  have "valid_utf8 ''greeting''" "valid_utf8 ''greetingNumber''" "valid_utf8 ''Hello, ''"
    "valid_utf8 ''! Welcome to Flare Confidential Compute.''" by (rule valid_utf8_ascii; simp)+
  then have "json_ok (SayHelloResponse (greeting_text name) n)"
    using assms unfolding greeting_text_def
    by (simp add: SayHelloResponse_def json_int_def number_ok_int valid_utf8_append del: append_Cons append.simps(2))
  then show ?thesis
    by (rule Unmarshal_Marshal) (simp add: SayHelloResponse_def json_int_def maxNestingDepth_def)
qed

text \<open>C27: A SAY_HELLO request with a non-empty valid name, in compact JSON and whatever blank or
  delimiter follows it, is answered with status 1 and log ok; the data decodes to the greeting of that name and the next
  greeting number, and exactly the greeting counter and text of the state change.\<close>

theorem say_hello_answers:
  assumes "valid_utf8 name" "name \<noteq> []" "delimited rest"
    and "OriginalMessage df = Marshal (JObj [(''name'', JStr name)]) @ rest"
  shows "\<exists>data ar e'. processSayHello E a df e = (ar, e') \<and> arData ar = Some data \<and> arStatus ar = 1 \<and> arLog ar = ''ok'' \<and>
     arID ar = actID a \<and> arOPCommand ar = OPCommand df \<and>
     Unmarshal data =
       Some (JObj [(''greeting'', JStr (''Hello, '' @ name @ ''! Welcome to Flare Confidential Compute.'')),
                   (''greetingNumber'', JNum (dec_of_int (sint (greetingCount e + 1))))]) \<and>
     e' = e\<lparr>greetingCount := greetingCount e + 1, lastGreeting := greeting_text name\<rparr>"
proof -
  have "decode_hello (OriginalMessage df) = Some name"
    unfolding assms(4) using assms(1,3) by (rule decode_hello_request)
  moreover have "Unmarshal (Marshal (SayHelloResponse (greeting_text name) (greetingCount e + 1))) =
      Some (SayHelloResponse (greeting_text name) (greetingCount e + 1))"
    using assms(1) by (rule Unmarshal_hello_response)
  ultimately show ?thesis
    using assms(2)
    by (simp add: processSayHello_def greet_def buildResult_def SayHelloResponse_def json_int_def greeting_text_def
        del: append_Cons append.simps(2))
qed

lemma actionHandler_state:
  "\<exists>code body e'. actionHandler E T req e = ((code, body), e') \<and> code \<in> {200, 400, 501} \<and>
     (e' = e \<or>
      code = 200 \<and>
      ((\<exists>name. name \<noteq> [] \<and> e' = fst (greet name e)) \<or>
       (\<exists>name reason. name \<noteq> [] \<and> e' = fst (farewell name reason e))))"
proof -
  have hello: "snd (processSayHello E a df e) = e \<or> (\<exists>name. name \<noteq> [] \<and> snd (processSayHello E a df e) = fst (greet name e))"
    for a df by (auto simp: processSayHello_def split: option.split prod.split)
  have bye: "snd (processSayGoodbye T a df e) = e \<or>
      (\<exists>name reason. name \<noteq> [] \<and> snd (processSayGoodbye T a df e) = fst (farewell name reason e))" for a df
    by (cases "DecodeTo T (SayGoodbyeMessageArg T) (OriginalMessage df)")
       (auto simp: processSayGoodbye_def Let_def case_prod_beta)
  show ?thesis
  proof (cases "DecodeAction T req")
    case (Inr a)
    show ?thesis
    proof (cases "ParseDataFixed T (actMessage a)")
      case (Inr df)
      show ?thesis
        using \<open>DecodeAction T req = Ok a\<close> Inr hello [of a df] bye [of a df]
        by (auto simp: actionHandler_def processAction_def processGreeting_def case_prod_beta)
    qed (use Inr in \<open>simp add: actionHandler_def processAction_def\<close>)
  qed (simp add: actionHandler_def)
qed

subsubsection \<open>Clean paths\<close>

definition clean_name :: "string \<Rightarrow> bool" where
  "clean_name seg \<longleftrightarrow> seg \<notin> {[], ''.'', ''..''} \<and> CHR ''/'' \<notin> set seg"

lemma foldl_clean_segment: "list_all clean_name segs \<Longrightarrow> foldl clean_segment out segs = out @ segs"
  by (induction segs arbitrary: out) (simp_all add: clean_segment_def clean_name_def)

lemma clean_segment_names:
  assumes "list_all clean_name out" "CHR ''/'' \<notin> set seg"
  shows "list_all clean_name (clean_segment out seg)"
proof (cases "seg \<in> {[], ''.'', ''..''}")
  case True
  then show ?thesis using assms(1) in_set_butlastD [of _ out] by (auto simp: clean_segment_def list_all_iff)
next
  case False
  then have "clean_name seg" "clean_segment out seg = out @ [seg]"
    using assms(2) unfolding clean_name_def clean_segment_def by simp_all
  then show ?thesis using assms(1) by simp
qed

lemma clean_segments_names: "list_all clean_name (clean_segments p)"
proof -
  have "list_all clean_name (foldl clean_segment out segs)"
    if "list_all clean_name out" "list_all (\<lambda>s. CHR ''/'' \<notin> set s) segs" for out segs
    using that by (induction segs arbitrary: out) (simp_all add: clean_segment_names)
  moreover have "list_all (\<lambda>s. CHR ''/'' \<notin> set s) (Split p (CHR ''/''))" by (rule Split_parts)
  ultimately show ?thesis by (simp add: clean_segments_def)
qed

lemma clean_segments_clean:
  assumes "list_all clean_name segs"
  shows "clean_segments (''/'' @ Join segs ''/'') = segs" "clean_segments (''/'' @ Join segs ''/'' @ ''/'') = segs"
proof -
  have sep: "list_all (\<lambda>s. CHR ''/'' \<notin> set s) segs" using assms by (auto simp: list_all_iff clean_name_def)
  show "clean_segments (''/'' @ Join segs ''/'') = segs"
  proof (cases "segs = []")
    case True
    then show ?thesis by (simp add: clean_segments_def clean_segment_def)
  next
    case False
    then have "Split (Join segs ''/'') (CHR ''/'') = segs" using sep by (rule Split_Join)
    then show ?thesis using foldl_clean_segment [OF assms, of "[]"] by (simp add: clean_segments_def clean_segment_def)
  qed
  show "clean_segments (''/'' @ Join segs ''/'' @ ''/'') = segs"
  proof (cases "segs = []")
    case True
    then show ?thesis by (simp add: clean_segments_def clean_segment_def)
  next
    case False
    have "Join segs ''/'' @ ''/'' = Join (segs @ [[]]) ''/''" using False by (rule Join_snoc_Nil [symmetric])
    moreover have "Split (Join (segs @ [[]]) ''/'') (CHR ''/'') = segs @ [[]]" using sep by (intro Split_Join) simp_all
    ultimately show ?thesis
      using foldl_clean_segment [OF assms, of "[]"] by (simp add: clean_segments_def clean_segment_def)
  qed
qed

lemma cleanPath_slash: "\<exists>s. cleanPath p = CHR ''/'' # s"
  by (simp add: cleanPath_def Let_def)

text \<open>The target of a redirect is not redirected again.\<close>

lemma cleanPath_idem: "cleanPath (cleanPath p) = cleanPath p"
proof -
  let ?np = "''/'' @ Join (clean_segments p) ''/''"
  have s: "clean_segments ?np = clean_segments p" "clean_segments (?np @ ''/'') = clean_segments p"
    using clean_segments_clean [OF clean_segments_names [of p]] by simp_all
  have unslashed: "last ?np \<noteq> CHR ''/''" if "?np \<noteq> ''/''"
  proof -
    have ne: "clean_segments p \<noteq> []" using that by (metis Join.simps(1) append_Nil2)
    then have "clean_name (last (clean_segments p))" using clean_segments_names [of p] by (simp add: list_all_iff)
    then have c: "last (clean_segments p) \<noteq> []" "CHR ''/'' \<notin> set (last (clean_segments p))" unfolding clean_name_def by blast+
    show ?thesis using Join_last [OF ne c(1), of "''/''"] c(2) by auto
  qed
  show ?thesis
  proof (cases "p \<noteq> [] \<and> last p = CHR ''/'' \<and> ?np \<noteq> ''/''")
    case True
    then have "cleanPath p = ?np @ ''/''" unfolding cleanPath_def Let_def by (rule if_P)
    moreover have "cleanPath (?np @ ''/'') = ?np @ ''/''" unfolding cleanPath_def Let_def s(2) using True by simp
    ultimately show ?thesis by simp
  next
    case False
    then have "cleanPath p = ?np" unfolding cleanPath_def Let_def by (rule if_not_P)
    moreover have "cleanPath ?np = ?np" unfolding cleanPath_def Let_def s(1) using unslashed by simp
    ultimately show ?thesis by simp
  qed
qed


text \<open>C29: GET /state returns the counters and texts of the state: when the texts are valid UTF-8, the body is one JSON
  document that decodes to exactly the state version and the four fields.\<close>

theorem state_response_decodes:
  assumes "valid_utf8 (lastGreeting e)" "valid_utf8 (lastFarewell e)" "valid_utf8 (HashHex E (ToHash T Version))"
  shows "Unmarshal (snd (stateHandler E T e)) =
     Some (JObj [(''stateVersion'', JStr (HashHex E (ToHash T Version))),
           (''state'',
             JObj [(''greetingCount'', JNum (dec_of_int (sint (greetingCount e)))), (''lastGreeting'', JStr (lastGreeting e)),
                   (''farewellCount'', JNum (dec_of_int (sint (farewellCount e)))), (''lastFarewell'', JStr (lastFarewell e))])])"
proof -
  have "valid_utf8 ''stateVersion''" "valid_utf8 ''state''" "valid_utf8 ''greetingCount''" "valid_utf8 ''lastGreeting''"
    "valid_utf8 ''farewellCount''" "valid_utf8 ''lastFarewell''" by (rule valid_utf8_ascii; simp)+
  with assms have "json_ok (StateResponse E T e)" "json_depth (StateResponse E T e) \<le> maxNestingDepth"
    by (simp_all add: StateResponse_def json_int_def number_ok_int maxNestingDepth_def)
  then have "Unmarshal (encode compact 0 (StateResponse E T e) @ newline) = Some (StateResponse E T e)"
    by (intro Unmarshal_encode) (simp_all add: blank_layouts newline_def is_ws_def)
  then show ?thesis by (simp add: stateHandler_def Marshal_def StateResponse_def json_int_def del: encode.simps)
qed

text \<open>An unknown command of a known operation type is answered with 501 and a text that begins with unsupported op command,
  and the state is unchanged.\<close>

lemma unknown_command_answer:
  assumes "ParseDataFixed T (actMessage a) = Ok df" "OPType df = ToHash T OPTypeGreeting"
    and "OPCommand df \<notin> {ToHash T OPCommandSayHello, ToHash T OPCommandSayGoodbye}"
  shows "\<exists>t. processAction E T a e = ((501, ''unsupported op command: received '' @ HashHex E (OPCommand df) @ t), e)"
  using assms by (simp add: processAction_def processGreeting_def)

subsection \<open>Witnesses\<close>

definition demo_teenode :: teenode where
  "demo_teenode =
     \<lparr>ToHash = (\<lambda>s. of_nat (length s)), DecodeAction = (\<lambda>_. Err (ErrText ''EOF'')),
      ParseDataFixed = (\<lambda>_. Ok \<lparr>OPType = 8, OPCommand = 0, OriginalMessage = []\<rparr>),
      MarshalActionResult = arLog, UnmarshalActionResult = (\<lambda>_. None),
      NewType = demo_new_type, DecodeTo = (\<lambda>_ _. Err (ErrText ''EOF''))\<rparr>"

theorem say_hello_answers_witness:
  "\<exists>ar e'. processSayHello demo_ext \<lparr>actID = 1, actSubmissionTag = [], actMessage = []\<rparr>
     \<lparr>OPType = 0, OPCommand = 0, OriginalMessage = Marshal (JObj [(''name'', JStr ''Ann'')]) @ newline\<rparr> new_Extension = (ar, e') \<and>
     arLog ar = ''ok'' \<and> greetingCount e' = 1"
  using say_hello_answers [of "''Ann''" newline "\<lparr>OPType = 0, OPCommand = 0,
      OriginalMessage = Marshal (JObj [(''name'', JStr ''Ann'')]) @ newline\<rparr>" demo_ext
      "\<lparr>actID = 1, actSubmissionTag = [], actMessage = []\<rparr>" new_Extension]
  by (force simp: valid_utf8_ascii newline_def delimited_Cons is_ws_def new_Extension_def)

theorem state_response_decodes_witness:
  "\<exists>v. Unmarshal (snd (stateHandler demo_ext demo_teenode new_Extension)) = Some v"
proof -
  have "valid_utf8 (HashHex demo_ext (ToHash demo_teenode Version))"
    by (rule valid_utf8_ascii)
       (simp add: demo_ext_def demo_teenode_def Version_def hex_of_nat_def to_digits.simps digit_char_def)
  from state_response_decodes [of new_Extension, OF _ _ this] show ?thesis by (simp add: new_Extension_def)
qed

end
