(* ===== verification/Transitions.thy ===== *)
theory Transitions
  imports Prelude
begin

section \<open>Transition systems\<close>

text \<open>
  The concurrent parts of the program (the locked handlers, the server process, the two commands that start it) are inductive step
  relations. The locale \<open>step_invariant\<close> is what their safety proofs share: a property that holds at the start and is kept by every
  step holds in every reachable state. \<open>halting_steps\<close> adds the end of a process: a halted state has no successor, so
  what holds when it halts holds for good. \<open>steps_monotone\<close> is for quantities that no step lowers.
\<close>

lemma steps_monotone:
  fixes f :: "'s \<Rightarrow> 'a :: preorder"
  assumes "step\<^sup>*\<^sup>* s s'" "\<And>s s'. step s s' \<Longrightarrow> f s \<le> f s'"
  shows "f s \<le> f s'"
  using assms(1) by (induction rule: rtranclp_induct) (auto intro: order_trans assms(2))

locale step_invariant =
  fixes step :: "'s \<Rightarrow> 's \<Rightarrow> bool" and start :: 's and inv :: "'s \<Rightarrow> bool"
  assumes start_inv: "inv start"
    and step_inv: "step s s' \<Longrightarrow> inv s \<Longrightarrow> inv s'"
begin

lemma steps_inv: "step\<^sup>*\<^sup>* s s' \<Longrightarrow> inv s \<Longrightarrow> inv s'"
  by (induction rule: rtranclp_induct) (auto intro: step_inv)

lemma reach_inv: "step\<^sup>*\<^sup>* start s \<Longrightarrow> inv s"
  using start_inv by (rule steps_inv [rotated])

end

locale halting_steps = step_invariant +
  fixes halted :: "'s \<Rightarrow> bool"
  assumes halted_stuck: "halted s \<Longrightarrow> \<not> step s s'"
begin

lemma halted_final: "step\<^sup>*\<^sup>* s s' \<Longrightarrow> halted s \<Longrightarrow> s' = s"
  by (erule converse_rtranclpE) (auto simp: halted_stuck)

end

end
