(* ===== verification/Concurrency.thy ===== *)
theory Concurrency
  imports Server Transitions
begin

section \<open>Concurrent requests and the read-write mutex\<close>

text \<open>
  Go serves every request in a goroutine of its own; the handlers meet in the critical sections of
  \<^verbatim>\<open>e.mu\<close>. This theory runs the statements of those sections as separate steps of a transition
  relation: writers (SAY_HELLO, SAY_GOODBYE after their request was accepted) lock, increment the counter, read
  it back, store the text and unlock; readers (GET /state) take the read lock, read the four fields one after the other and unlock. The
  invariant, proved by rule induction over the steps, gives the refinement: whatever the interleaving, the
  state and every number handed out are those of running the accepted requests one after the other, in
  the order in which they unlocked, with the sequential functions of theory \<open>Server\<close>.
\<close>

subsection \<open>The system\<close>

datatype op = Hello string | Bye string string

primrec apply_op :: "op \<Rightarrow> Extension \<Rightarrow> Extension \<times> 64 word" where
  "apply_op (Hello name) e = greet name e"
| "apply_op (Bye name reason) e = farewell name reason e"

primrec bump :: "op \<Rightarrow> Extension \<Rightarrow> Extension" where
  "bump (Hello name) e = e\<lparr>greetingCount := greetingCount e + 1\<rparr>"
| "bump (Bye name reason) e = e\<lparr>farewellCount := farewellCount e + 1\<rparr>"

primrec counter :: "op \<Rightarrow> Extension \<Rightarrow> 64 word" where
  "counter (Hello name) e = greetingCount e"
| "counter (Bye name reason) e = farewellCount e"

primrec store_text :: "op \<Rightarrow> Extension \<Rightarrow> Extension" where
  "store_text (Hello name) e = e\<lparr>lastGreeting := greeting_text name\<rparr>"
| "store_text (Bye name reason) e = e\<lparr>lastFarewell := farewell_text name reason\<rparr>"

datatype wpc = Start | Entered | Counted | Numbered "64 word" | Stored "64 word" | Finished "64 word"

datatype rpc =
    RStart
  | RHeld
  | RGot1 "64 word"
  | RGot2 "64 word" string
  | RGot3 "64 word" string "64 word"
  | RGot Extension
  | RDone Extension

record sys =
  shared :: Extension
  writer :: "nat option"
  readers :: "nat set"
  wat :: "nat \<Rightarrow> wpc"
  rat :: "nat \<Rightarrow> rpc"
  history :: "(nat \<times> op) list"

definition sys_init :: sys where
  "sys_init = \<lparr>shared = new_Extension, writer = None, readers = {}, wat = (\<lambda>_. Start), rat = (\<lambda>_. RStart), history = []\<rparr>"

inductive sys_step :: "(nat \<Rightarrow> op) \<Rightarrow> sys \<Rightarrow> sys \<Rightarrow> bool" for ops where
  lock: "writer s = None \<Longrightarrow> readers s = {} \<Longrightarrow> wat s i = Start \<Longrightarrow>
     sys_step ops s (s\<lparr>writer := Some i, wat := (wat s)(i := Entered)\<rparr>)"
| count: "wat s i = Entered \<Longrightarrow>
     sys_step ops s (s\<lparr>shared := bump (ops i) (shared s), wat := (wat s)(i := Counted)\<rparr>)"
| number: "wat s i = Counted \<Longrightarrow>
     sys_step ops s (s\<lparr>wat := (wat s)(i := Numbered (counter (ops i) (shared s)))\<rparr>)"
| store: "wat s i = Numbered n \<Longrightarrow>
     sys_step ops s (s\<lparr>shared := store_text (ops i) (shared s), wat := (wat s)(i := Stored n)\<rparr>)"
| unlock: "wat s i = Stored n \<Longrightarrow>
     sys_step ops s (s\<lparr>writer := None, wat := (wat s)(i := Finished n), history := history s @ [(i, ops i)]\<rparr>)"
| rlock: "writer s = None \<Longrightarrow> rat s j = RStart \<Longrightarrow>
     sys_step ops s (s\<lparr>readers := insert j (readers s), rat := (rat s)(j := RHeld)\<rparr>)"
| read_greetingCount: "rat s j = RHeld \<Longrightarrow>
     sys_step ops s (s\<lparr>rat := (rat s)(j := RGot1 (greetingCount (shared s)))\<rparr>)"
| read_lastGreeting: "rat s j = RGot1 g \<Longrightarrow>
     sys_step ops s (s\<lparr>rat := (rat s)(j := RGot2 g (lastGreeting (shared s)))\<rparr>)"
| read_farewellCount: "rat s j = RGot2 g lg \<Longrightarrow>
     sys_step ops s (s\<lparr>rat := (rat s)(j := RGot3 g lg (farewellCount (shared s)))\<rparr>)"
| read_lastFarewell: "rat s j = RGot3 g lg f \<Longrightarrow>
     sys_step ops s (s\<lparr>rat := (rat s)(j := RGot
       \<lparr>greetingCount = g, lastGreeting = lg, farewellCount = f, lastFarewell = lastFarewell (shared s)\<rparr>)\<rparr>)"
| runlock: "rat s j = RGot e \<Longrightarrow>
     sys_step ops s (s\<lparr>readers := readers s - {j}, rat := (rat s)(j := RDone e)\<rparr>)"

definition reachable :: "(nat \<Rightarrow> op) \<Rightarrow> sys \<Rightarrow> bool" where
  "reachable ops s = (sys_step ops)\<^sup>*\<^sup>* sys_init s"

text \<open>How the steps belong to requests: the operation that the body of a POST to /action asks for, if it passes every test before the lock, and the
  answer that is built after the unlock from the number handed out.\<close>

definition greeting_op :: "teenode \<Rightarrow> DataFixed \<Rightarrow> op option" where
  "greeting_op T df =
     (if OPCommand df = ToHash T OPCommandSayHello
      then (case decode_hello (OriginalMessage df) of Some name \<Rightarrow> if name = [] then None else Some (Hello name) | None \<Rightarrow> None)
      else if OPCommand df = ToHash T OPCommandSayGoodbye
      then (case DecodeTo T (SayGoodbyeMessageArg T) (OriginalMessage df) of
              Ok req \<Rightarrow> if byeName req = [] then None else Some (Bye (byeName req) (byeReason req))
            | Err _ \<Rightarrow> None)
      else None)"

definition accepted :: "teenode \<Rightarrow> string \<Rightarrow> (Action \<times> DataFixed \<times> op) option" where
  "accepted T body =
     (case DecodeAction T body of
        Err _ \<Rightarrow> None
      | Ok a \<Rightarrow>
          (case ParseDataFixed T (actMessage a) of
             Err _ \<Rightarrow> None
           | Ok df \<Rightarrow> if OPType df = ToHash T OPTypeGreeting then map_option (\<lambda>oper. (a, df, oper)) (greeting_op T df) else None))"

primrec reply_data :: "op \<Rightarrow> 64 word \<Rightarrow> json" where
  "reply_data (Hello name) n = SayHelloResponse (greeting_text name) n"
| "reply_data (Bye name reason) n = SayGoodbyeResponse (farewell_text name reason) n"

definition reply_of :: "teenode \<Rightarrow> Action \<Rightarrow> DataFixed \<Rightarrow> op \<Rightarrow> 64 word \<Rightarrow> nat \<times> bytes" where
  "reply_of T a df oper n = (200, MarshalActionResult T (buildResult a df (Some (Marshal (reply_data oper n))) 1 None))"

lemma processGreeting_op:
  "greeting_op T df = Some oper \<Longrightarrow>
     processGreeting E T a df e = (reply_of T a df oper (snd (apply_op oper e)), fst (apply_op oper e))"
  "greeting_op T df = None \<Longrightarrow>
     snd (processGreeting E T a df e) = e \<and> fst (processGreeting E T a df e) = fst (processGreeting E T a df e')"
  by (cases "decode_hello (OriginalMessage df)"; cases "DecodeTo T (SayGoodbyeMessageArg T) (OriginalMessage df)";
      auto simp: greeting_op_def processGreeting_def processSayHello_def processSayGoodbye_def reply_of_def case_prod_beta split: if_splits)+

lemma actionHandler_accepted:
  assumes "accepted T body = Some (a, df, oper)"
  shows "actionHandler E T body e = (reply_of T a df oper (snd (apply_op oper e)), fst (apply_op oper e))"
  using assms processGreeting_op(1)
  by (auto simp: accepted_def actionHandler_def processAction_def split: sum.splits if_splits)

text \<open>A request that is not accepted does not touch the state, and its answer does not depend on it.\<close>

lemma actionHandler_refused:
  assumes "accepted T body = None"
  shows "snd (actionHandler E T body e) = e \<and> fst (actionHandler E T body e) = fst (actionHandler E T body e')"
  using assms processGreeting_op(2)
  by (auto simp: accepted_def actionHandler_def processAction_def split: sum.splits if_splits)

text \<open>The sequential execution of a history.\<close>

definition run_history :: "(nat \<times> op) list \<Rightarrow> Extension" where
  "run_history h = foldl (\<lambda>e (i, oper). fst (apply_op oper e)) new_Extension h"

subsection \<open>The invariant\<close>

primrec inside :: "wpc \<Rightarrow> bool" where
  "inside Start = False"
| "inside Entered = True"
| "inside Counted = True"
| "inside (Numbered n) = True"
| "inside (Stored n) = True"
| "inside (Finished n) = False"

primrec holding :: "rpc \<Rightarrow> bool" where
  "holding RStart = False"
| "holding RHeld = True"
| "holding (RGot1 g) = True"
| "holding (RGot2 g lg) = True"
| "holding (RGot3 g lg f) = True"
| "holding (RGot e) = True"
| "holding (RDone e) = False"

text \<open>The lock: the writer is the one process inside, the readers are those that hold the read lock, and both kinds
  exclude each other.\<close>

definition lock_inv :: "sys \<Rightarrow> bool" where
  "lock_inv s \<longleftrightarrow>
     (\<forall>i. inside (wat s i) = (writer s = Some i)) \<and> (\<forall>j. holding (rat s j) = (j \<in> readers s)) \<and>
     (writer s = None \<or> readers s = {})"

text \<open>How far the writer has brought the shared state from the sequential one.\<close>

primrec progress :: "op \<Rightarrow> Extension \<Rightarrow> wpc \<Rightarrow> Extension \<Rightarrow> bool" where
  "progress oper e0 Start e = (e = e0)"
| "progress oper e0 Entered e = (e = e0)"
| "progress oper e0 Counted e = (e = bump oper e0)"
| "progress oper e0 (Numbered n) e = (e = bump oper e0 \<and> n = counter oper (bump oper e0))"
| "progress oper e0 (Stored n) e = (e = store_text oper (bump oper e0) \<and> n = counter oper (bump oper e0))"
| "progress oper e0 (Finished n) e = (e = e0)"

definition shared_inv :: "(nat \<Rightarrow> op) \<Rightarrow> sys \<Rightarrow> bool" where
  "shared_inv ops s \<longleftrightarrow>
     (case writer s of
        None \<Rightarrow> shared s = run_history (history s)
      | Some i \<Rightarrow> progress (ops i) (run_history (history s)) (wat s i) (shared s))"

definition reply_inv :: "(nat \<Rightarrow> op) \<Rightarrow> sys \<Rightarrow> bool" where
  "reply_inv ops s \<longleftrightarrow>
     (\<forall>i n. wat s i = Finished n \<longrightarrow>
        (\<exists>h1 h2. history s = h1 @ (i, ops i) # h2 \<and> n = snd (apply_op (ops i) (run_history h1)))) \<and>
     (\<forall>i\<in>fst ` set (history s). \<exists>n. wat s i = Finished n) \<and> distinct (map fst (history s))"

text \<open>The fields that a reader inside has read so far are those of the state.\<close>

primrec seen :: "rpc \<Rightarrow> Extension \<Rightarrow> bool" where
  "seen RStart e = True"
| "seen RHeld e = True"
| "seen (RGot1 g) e = (g = greetingCount e)"
| "seen (RGot2 g lg) e = (g = greetingCount e \<and> lg = lastGreeting e)"
| "seen (RGot3 g lg f) e = (g = greetingCount e \<and> lg = lastGreeting e \<and> f = farewellCount e)"
| "seen (RGot e') e = (e' = e)"
| "seen (RDone e') e = True"

definition read_inv :: "sys \<Rightarrow> bool" where
  "read_inv s \<longleftrightarrow>
     (\<forall>j. seen (rat s j) (run_history (history s))) \<and>
     (\<forall>j e. rat s j = RDone e \<longrightarrow> (\<exists>h. prefix h (history s) \<and> e = run_history h))"

lemma apply_op_parts: "apply_op oper e = (store_text oper (bump oper e), counter oper (bump oper e))"
  by (cases oper) (simp_all add: greet_def farewell_def)

lemma run_history_snoc [simp]: "run_history (h @ [(i, oper)]) = fst (apply_op oper (run_history h))"
  by (simp add: run_history_def)

lemma lock_inv_step: "sys_step ops s s' \<Longrightarrow> lock_inv s \<Longrightarrow> lock_inv s'"
  by (induction rule: sys_step.induct) (auto simp: lock_inv_def; metis inside.simps holding.simps option.inject)+

lemma inside_writer: "lock_inv s \<Longrightarrow> inside (wat s i) \<Longrightarrow> writer s = Some i"
  by (simp add: lock_inv_def)

lemma holding_no_writer: "lock_inv s \<Longrightarrow> holding (rat s j) \<Longrightarrow> writer s = None"
  by (auto simp: lock_inv_def)

lemma shared_inv_step: "sys_step ops s s' \<Longrightarrow> lock_inv s \<Longrightarrow> shared_inv ops s \<Longrightarrow> shared_inv ops s'"
proof (induction rule: sys_step.induct)
  case (count s i)
  then show ?case using inside_writer [of s i] by (simp add: shared_inv_def)
next
  case (number s i)
  then show ?case using inside_writer [of s i] by (simp add: shared_inv_def)
next
  case (store s i n)
  then show ?case using inside_writer [of s i] by (simp add: shared_inv_def)
next
  case (unlock s i n)
  then show ?case using inside_writer [of s i] by (simp add: shared_inv_def apply_op_parts)
qed (simp_all add: shared_inv_def split: option.splits)

lemma reply_inv_step: "sys_step ops s s' \<Longrightarrow> lock_inv s \<Longrightarrow> shared_inv ops s \<Longrightarrow> reply_inv ops s \<Longrightarrow> reply_inv ops s'"
proof (induction rule: sys_step.induct)
  case (unlock s i n)
  then have "n = snd (apply_op (ops i) (run_history (history s)))"
    using inside_writer [of s i] by (simp add: shared_inv_def apply_op_parts)
  with unlock show ?case by (fastforce simp: reply_inv_def)
qed (fastforce simp: reply_inv_def)+

lemma holding_reads_history: "lock_inv s \<Longrightarrow> shared_inv ops s \<Longrightarrow> holding (rat s j) \<Longrightarrow> shared s = run_history (history s)"
  using holding_no_writer [of s j] by (simp add: shared_inv_def)

lemma read_inv_seen: "read_inv s \<Longrightarrow> seen (rat s j) (run_history (history s))"
  by (simp add: read_inv_def)

lemma seen_not_holding: "\<not> holding r \<Longrightarrow> seen r e"
  by (cases r) simp_all

text \<open>A step of one reader: what it has read then must agree with the state, what it takes away with some history.\<close>

lemma read_inv_update:
  assumes "read_inv s" "seen r (run_history (history s))" "\<And>e. r = RDone e \<Longrightarrow> e = run_history (history s)"
  shows "read_inv (s\<lparr>rat := (rat s)(j := r)\<rparr>)" "read_inv (s\<lparr>readers := R, rat := (rat s)(j := r)\<rparr>)"
  using assms by (auto simp: read_inv_def)

lemma read_inv_step: "sys_step ops s s' \<Longrightarrow> lock_inv s \<Longrightarrow> shared_inv ops s \<Longrightarrow> read_inv s \<Longrightarrow> read_inv s'"
proof (induction rule: sys_step.induct)
  case (unlock s i n)
  then have "\<not> holding (rat s j)" for j
    using inside_writer [of s i] holding_no_writer [of s j] by auto
  with unlock show ?case by (auto simp: read_inv_def seen_not_holding)
next
  case (read_greetingCount s j)
  then show ?case using holding_reads_history [of s ops j] by (intro read_inv_update) simp_all
next
  case (read_lastGreeting s j g)
  then have "seen (rat s j) (run_history (history s))" using read_inv_seen by blast
  with read_lastGreeting show ?case using holding_reads_history [of s ops j] by (intro read_inv_update) simp_all
next
  case (read_farewellCount s j g lg)
  then have "seen (rat s j) (run_history (history s))" using read_inv_seen by blast
  with read_farewellCount show ?case using holding_reads_history [of s ops j] by (intro read_inv_update) simp_all
next
  case (read_lastFarewell s j g lg f)
  then have "seen (rat s j) (run_history (history s))" using read_inv_seen by blast
  with read_lastFarewell show ?case using holding_reads_history [of s ops j] by (intro read_inv_update) simp_all
next
  case (runlock s j e)
  then have "seen (rat s j) (run_history (history s))" using read_inv_seen by blast
  with runlock show ?case by (intro read_inv_update) simp_all
qed (simp_all add: read_inv_def)

lemma finite_readers_step: "sys_step ops s s' \<Longrightarrow> finite (readers s) \<Longrightarrow> finite (readers s')"
  by (induction rule: sys_step.induct) simp_all

definition sys_inv :: "(nat \<Rightarrow> op) \<Rightarrow> sys \<Rightarrow> bool" where
  "sys_inv ops s \<longleftrightarrow> lock_inv s \<and> shared_inv ops s \<and> reply_inv ops s \<and> read_inv s \<and> finite (readers s)"

interpretation locked: step_invariant "sys_step ops" sys_init "sys_inv ops" for ops
proof unfold_locales
  show "sys_inv ops sys_init"
    by (auto simp: sys_init_def sys_inv_def lock_inv_def shared_inv_def reply_inv_def read_inv_def run_history_def)
next
  fix s s' assume "sys_step ops s s'" "sys_inv ops s"
  then show "sys_inv ops s'"
    unfolding sys_inv_def using lock_inv_step shared_inv_step reply_inv_step read_inv_step finite_readers_step by blast
qed

lemma reachable_inv: "reachable ops s \<Longrightarrow> lock_inv s \<and> shared_inv ops s \<and> reply_inv ops s \<and> read_inv s \<and> finite (readers s)"
  using locked.reach_inv by (simp add: reachable_def sys_inv_def)

subsection \<open>Consequences\<close>

lemma greetingCount_history:
  "greetingCount (run_history h) = of_nat (length (filter (\<lambda>(i, oper). case oper of Hello _ \<Rightarrow> True | Bye _ _ \<Rightarrow> False) h))"
proof (induction h rule: rev_induct)
  case (snoc x h)
  obtain i oper where "x = (i, oper)" by force
  with snoc show ?case by (cases oper) (simp_all add: greet_def farewell_def)
qed (simp add: run_history_def new_Extension_def)

lemma count_before_differs:
  assumes "h1 @ x # h2 = g1 @ y # g2" "x \<noteq> y" "P x" "P y"
  shows "length (filter P h1) \<noteq> length (filter P g1)"
proof -
  consider us where "h1 @ us = g1" "x # h2 = us @ y # g2" | us where "h1 = g1 @ us" "us @ x # h2 = y # g2"
    using assms(1) by (auto simp: append_eq_append_conv2)
  then show ?thesis
  proof cases
    case 1
    with assms show ?thesis by (cases us) auto
  next
    case 2
    with assms show ?thesis by (cases us) auto
  qed
qed

text \<open>C3: Under any interleaving of the locked sections, the served requests are linearised by the order of their
  unlocks: no request occurs twice; whenever no writer is inside, the shared state is the sequential one; and the answer each request gets and the
  state it leaves are those of the sequential handler, run after its predecessors in that order.\<close>

theorem concurrent_requests_linearizable:
  assumes "reachable ops s"
  shows "distinct (map fst (history s)) \<and>
     (writer s = None \<longrightarrow> shared s = run_history (history s)) \<and>
     (\<forall>i n a df body. wat s i = Finished n \<and> accepted T body = Some (a, df, ops i) \<longrightarrow>
        (\<exists>h1 h2. history s = h1 @ (i, ops i) # h2 \<and>
           actionHandler E T body (run_history h1) = (reply_of T a df (ops i) n, run_history (h1 @ [(i, ops i)]))))"
proof (intro conjI allI impI)
  have inv: "shared_inv ops s" "reply_inv ops s" using reachable_inv [OF assms] by simp_all
  show "distinct (map fst (history s))" using inv(2) by (simp add: reply_inv_def)
  show "shared s = run_history (history s)" if "writer s = None" using inv(1) that by (simp add: shared_inv_def)
  fix i n a df body
  assume f: "wat s i = Finished n \<and> accepted T body = Some (a, df, ops i)"
  then obtain h1 h2 where "history s = h1 @ (i, ops i) # h2" "n = snd (apply_op (ops i) (run_history h1))"
    using inv(2) unfolding reply_inv_def by blast
  then show "\<exists>h1 h2. history s = h1 @ (i, ops i) # h2 \<and>
      actionHandler E T body (run_history h1) = (reply_of T a df (ops i) n, run_history (h1 @ [(i, ops i)]))"
    using f actionHandler_accepted [of T body a df "ops i"] by auto
qed

text \<open>C21: Two different SAY_HELLO requests never get the same greeting number, as long as fewer than 2^64
  requests have been served.\<close>

theorem greeting_numbers_distinct:
  assumes "reachable ops s" "wat s i = Finished n" "wat s j = Finished m" "i \<noteq> j"
    and "ops i = Hello a" "ops j = Hello b" "length (history s) < 2 ^ 64"
  shows "n \<noteq> m"
proof -
  let ?hello = "\<lambda>(i :: nat, oper). case oper of Hello _ \<Rightarrow> True | Bye _ _ \<Rightarrow> False"
  let ?k = "\<lambda>h. length (filter ?hello h)"
  have numbered: "\<exists>h1 h2. history s = h1 @ (i, Hello a) # h2 \<and> n = of_nat (Suc (?k h1))"
    if f: "wat s i = Finished n" and o: "ops i = Hello a" for i n a
  proof -
    obtain h1 h2 where "history s = h1 @ (i, ops i) # h2" "n = snd (apply_op (ops i) (run_history h1))"
      using f reachable_inv [OF assms(1)] unfolding reply_inv_def by blast
    then show ?thesis by (intro exI [of _ h1] exI [of _ h2]) (simp add: o greet_def greetingCount_history)
  qed
  obtain h1 h2 where i: "history s = h1 @ (i, Hello a) # h2" "n = of_nat (Suc (?k h1))"
    using numbered assms(2,5) by blast
  obtain g1 g2 where j: "history s = g1 @ (j, Hello b) # g2" "m = of_nat (Suc (?k g1))"
    using numbered assms(3,6) by blast
  have bound: "Suc (?k h) < 2 ^ 64" if "history s = h @ x # h'" for h x h'
  proof -
    have "?k h \<le> length h" by (rule length_filter_le)
    moreover have "length (history s) = Suc (length h + length h')" using that by simp
    ultimately show ?thesis using assms(7) by linarith
  qed
  have "Suc (?k h1) \<noteq> Suc (?k g1)"
    using count_before_differs [of h1 "(i, Hello a)" h2 g1 "(j, Hello b)" g2 ?hello] i(1) j(1) assms(4) by simp
  then show ?thesis
    using bound [OF i(1)] bound [OF j(1)] unfolding i(2) j(2) by (simp add: word_of_nat_eq_iff take_bit_nat_eq_self)
qed

text \<open>C22: A state read never sees a half-finished update: what GET /state copies under the read lock is the state after
  some initial part of the served requests.\<close>

theorem state_reads_are_snapshots:
  assumes "reachable ops s" "rat s j = RDone e"
  shows "\<exists>h. prefix h (history s) \<and> e = run_history h"
  using reachable_inv [OF assms(1)] assms(2) by (simp add: read_inv_def)

lemma reachable_step: "reachable ops s \<Longrightarrow> sys_step ops s s' \<Longrightarrow> reachable ops s'"
  unfolding reachable_def by (rule rtranclp.rtrancl_into_rtrancl)

lemma reachable_steps: "reachable ops s \<Longrightarrow> (sys_step ops)\<^sup>*\<^sup>* s s' \<Longrightarrow> reachable ops s'"
  unfolding reachable_def by (rule rtranclp_trans)

text \<open>The writer inside can always run to its unlock, from wherever it is.\<close>

definition finishes :: "(nat \<Rightarrow> op) \<Rightarrow> nat \<Rightarrow> sys \<Rightarrow> sys \<Rightarrow> 64 word \<Rightarrow> bool" where
  "finishes ops i s s' n \<longleftrightarrow> (sys_step ops)\<^sup>*\<^sup>* s s' \<and> writer s' = None \<and> readers s' = readers s \<and> rat s' = rat s \<and>
     wat s' = (wat s)(i := Finished n) \<and> history s' = history s @ [(i, ops i)]"

lemma finishes_before:
  assumes "sys_step ops s s1" "\<exists>s' n. finishes ops i s1 s' n"
    and "readers s1 = readers s" "rat s1 = rat s" "wat s1 = (wat s)(i := x)" "history s1 = history s"
  shows "\<exists>s' n. finishes ops i s s' n"
  using assms unfolding finishes_def by (auto intro: converse_rtranclp_into_rtranclp)

lemma finish_Stored: "wat s i = Stored n \<Longrightarrow> \<exists>s' n. finishes ops i s s' n"
proof -
  assume "wat s i = Stored n"
  then have "sys_step ops s (s\<lparr>writer := None, wat := (wat s)(i := Finished n), history := history s @ [(i, ops i)]\<rparr>)"
    by (rule sys_step.unlock)
  then have "finishes ops i s (s\<lparr>writer := None, wat := (wat s)(i := Finished n), history := history s @ [(i, ops i)]\<rparr>) n"
    by (simp add: finishes_def)
  then show ?thesis by blast
qed

lemma finish_Numbered: "wat s i = Numbered n \<Longrightarrow> \<exists>s' n. finishes ops i s s' n"
  by (rule finishes_before [OF sys_step.store finish_Stored]) simp_all

lemma finish_Counted: "wat s i = Counted \<Longrightarrow> \<exists>s' n. finishes ops i s s' n"
  by (rule finishes_before [OF sys_step.number finish_Numbered]) simp_all

lemma finish_Entered: "wat s i = Entered \<Longrightarrow> \<exists>s' n. finishes ops i s s' n"
  by (rule finishes_before [OF sys_step.count finish_Counted]) simp_all

lemma writer_finishes: "inside (wat s i) \<Longrightarrow> \<exists>s' n. finishes ops i s s' n"
  by (cases "wat s i") (auto intro: finish_Entered finish_Counted finish_Numbered finish_Stored)

lemma serve_request:
  assumes "writer s = None" "readers s = {}" "wat s i = Start"
  shows "\<exists>s' n. finishes ops i s s' n"
  by (rule finishes_before [OF sys_step.lock [OF assms] finish_Entered]) simp_all

text \<open>The readers inside can leave one after the other.\<close>

definition leaves :: "(nat \<Rightarrow> op) \<Rightarrow> nat \<Rightarrow> sys \<Rightarrow> sys \<Rightarrow> bool" where
  "leaves ops j s s' \<longleftrightarrow> (sys_step ops)\<^sup>*\<^sup>* s s' \<and> writer s' = writer s \<and> readers s' = readers s - {j} \<and> wat s' = wat s \<and> history s' = history s"

lemma leaves_before:
  assumes "sys_step ops s s1" "\<exists>s'. leaves ops j s1 s'" "writer s1 = writer s" "readers s1 = readers s" "wat s1 = wat s" "history s1 = history s"
  shows "\<exists>s'. leaves ops j s s'"
  using assms unfolding leaves_def by (auto intro: converse_rtranclp_into_rtranclp)

lemma leave_RGot: "\<exists>e. rat s j = RGot e \<Longrightarrow> \<exists>s'. leaves ops j s s'"
proof -
  assume "\<exists>e. rat s j = RGot e"
  then obtain e where "rat s j = RGot e" by blast
  then have "leaves ops j s (s\<lparr>readers := readers s - {j}, rat := (rat s)(j := RDone e)\<rparr>)"
    using sys_step.runlock [of s j e ops] by (simp add: leaves_def)
  then show ?thesis by blast
qed

lemma leave_RGot3: "\<exists>g lg f. rat s j = RGot3 g lg f \<Longrightarrow> \<exists>s'. leaves ops j s s'"
  by (elim exE, rule leaves_before [OF sys_step.read_lastFarewell leave_RGot]) simp_all

lemma leave_RGot2: "\<exists>g lg. rat s j = RGot2 g lg \<Longrightarrow> \<exists>s'. leaves ops j s s'"
  by (elim exE, rule leaves_before [OF sys_step.read_farewellCount leave_RGot3]) simp_all

lemma leave_RGot1: "\<exists>g. rat s j = RGot1 g \<Longrightarrow> \<exists>s'. leaves ops j s s'"
  by (elim exE, rule leaves_before [OF sys_step.read_lastGreeting leave_RGot2]) simp_all

lemma leave_RHeld: "rat s j = RHeld \<Longrightarrow> \<exists>s'. leaves ops j s s'"
  by (rule leaves_before [OF sys_step.read_greetingCount leave_RGot1]) simp_all

lemma reader_leaves: "holding (rat s j) \<Longrightarrow> \<exists>s'. leaves ops j s s'"
  by (cases "rat s j") (auto intro: leave_RHeld leave_RGot1 leave_RGot2 leave_RGot3 leave_RGot)

lemma readers_leave:
  assumes "reachable ops s"
  shows "\<exists>s'. (sys_step ops)\<^sup>*\<^sup>* s s' \<and> writer s' = writer s \<and> readers s' = {} \<and> wat s' = wat s \<and> history s' = history s"
  using assms
proof (induction "card (readers s)" arbitrary: s)
  case 0
  then show ?case using reachable_inv [of ops s] by auto
next
  case (Suc k)
  then obtain j where j: "j \<in> readers s" by (metis card.empty equals0I nat.distinct(1))
  then have "holding (rat s j)" using reachable_inv [OF Suc.prems] by (simp add: lock_inv_def)
  then obtain s1 where "leaves ops j s s1" using reader_leaves by blast
  then have s1: "(sys_step ops)\<^sup>*\<^sup>* s s1" "writer s1 = writer s" "readers s1 = readers s - {j}" "wat s1 = wat s" "history s1 = history s"
    by (simp_all add: leaves_def)
  have "k = card (readers s1)" using Suc.hyps(2) j s1(3) by (simp add: card_Diff_singleton)
  from Suc.hyps(1) [OF this reachable_steps [OF Suc.prems s1(1)]] s1 show ?case by (auto intro: rtranclp_trans)
qed

text \<open>C23: No deadlock: from every reachable state, whoever holds the lock, a waiting request can be served, after at most the writer that is
  inside has finished, and no other waiting request is touched.\<close>

theorem waiting_request_can_be_served:
  assumes "reachable ops s" "wat s i = Start"
  shows "\<exists>s' n. (sys_step ops)\<^sup>*\<^sup>* s s' \<and> wat s' i = Finished n \<and>
     history s' = history s @ (case writer s of None \<Rightarrow> [] | Some k \<Rightarrow> [(k, ops k)]) @ [(i, ops i)] \<and>
     (\<forall>j. j \<noteq> i \<and> writer s \<noteq> Some j \<longrightarrow> wat s' j = wat s j)"
proof -
  have "\<exists>s1. (sys_step ops)\<^sup>*\<^sup>* s s1 \<and> writer s1 = None \<and> wat s1 i = Start \<and>
      history s1 = history s @ (case writer s of None \<Rightarrow> [] | Some k \<Rightarrow> [(k, ops k)]) \<and>
      (\<forall>j. j \<noteq> i \<and> writer s \<noteq> Some j \<longrightarrow> wat s1 j = wat s j)"
  proof (cases "writer s")
    case (Some k)
    then have "inside (wat s k)" using reachable_inv [OF assms(1)] by (simp add: lock_inv_def)
    moreover from this assms(2) have "k \<noteq> i" by auto
    ultimately show ?thesis using writer_finishes [of s k ops] Some assms(2) by (fastforce simp: finishes_def)
  qed (use assms(2) in auto)
  then obtain s1 where s1: "(sys_step ops)\<^sup>*\<^sup>* s s1" "writer s1 = None" "wat s1 i = Start"
      "history s1 = history s @ (case writer s of None \<Rightarrow> [] | Some k \<Rightarrow> [(k, ops k)])"
      "\<forall>j. j \<noteq> i \<and> writer s \<noteq> Some j \<longrightarrow> wat s1 j = wat s j" by blast
  obtain s2 where s2: "(sys_step ops)\<^sup>*\<^sup>* s1 s2" "writer s2 = None" "readers s2 = {}" "wat s2 = wat s1" "history s2 = history s1"
    using readers_leave [OF reachable_steps [OF assms(1) s1(1)]] s1(2) by auto
  obtain s3 n where "finishes ops i s2 s3 n" using serve_request [of s2 i ops] s2 s1(3) by auto
  then show ?thesis
    using s1 s2 unfolding finishes_def by (intro exI [of _ s3] exI [of _ n]) (auto intro: rtranclp_trans)
qed

subsection \<open>Witnesses\<close>

lemma reachable_init: "reachable ops sys_init"
  by (simp add: reachable_def)

text \<open>Requests 0 and 1 served one after the other.\<close>

lemma two_served:
  "\<exists>s n m. reachable (\<lambda>_. Hello ''A'') s \<and> wat s 0 = Finished n \<and> wat s 1 = Finished m \<and> length (history s) = 2"
proof -
  let ?o = "\<lambda>_ :: nat. Hello ''A''"
  obtain s n where s: "finishes ?o 0 sys_init s n" using serve_request [of sys_init 0 ?o] by (auto simp: sys_init_def)
  then obtain t m where t: "finishes ?o 1 s t m"
    using serve_request [of s 1 ?o] by (auto simp: finishes_def sys_init_def)
  have "reachable ?o t" using s t reachable_steps [OF reachable_steps [OF reachable_init]] unfolding finishes_def by blast
  with s t show ?thesis by (auto simp: finishes_def sys_init_def)
qed

theorem waiting_request_can_be_served_witness:
  "\<exists>s n. reachable (\<lambda>_. Hello ''A'') s \<and> wat s 3 = Finished n"
proof -
  define s where "s = sys_init\<lparr>writer := Some 0, wat := (wat sys_init)(0 := Entered)\<rparr>"
  have "sys_step (\<lambda>_. Hello ''A'') sys_init s" unfolding s_def by (rule sys_step.lock) (simp_all add: sys_init_def)
  then have r: "reachable (\<lambda>_. Hello ''A'') s" using reachable_init by (rule reachable_step [rotated])
  moreover have "wat s 3 = Start" by (simp add: s_def sys_init_def)
  ultimately obtain s' n where "(sys_step (\<lambda>_. Hello ''A''))\<^sup>*\<^sup>* s s'" "wat s' 3 = Finished n"
    using waiting_request_can_be_served [of "\<lambda>_. Hello ''A''" s 3] by blast
  then show ?thesis using reachable_steps [OF r] by blast
qed

theorem greeting_numbers_distinct_witness:
  "\<exists>s n m. reachable (\<lambda>_. Hello ''A'') s \<and> wat s 0 = Finished n \<and> wat s 1 = Finished m \<and> n \<noteq> m"
proof -
  obtain s n m where "reachable (\<lambda>_. Hello ''A'') s" "wat s 0 = Finished n" "wat s 1 = Finished m"
      "length (history s) = 2"
    using two_served by blast
  moreover from this have "n \<noteq> m"
    by (intro greeting_numbers_distinct [of "\<lambda>_. Hello ''A''" s 0 n 1 m "''A''" "''A''"]) simp_all
  ultimately show ?thesis by blast
qed

text \<open>A node that decodes every body to the same greeting.\<close>

definition hello_teenode :: teenode where
  "hello_teenode = demo_teenode\<lparr>DecodeAction := (\<lambda>_. Ok \<lparr>actID = 1, actSubmissionTag = [], actMessage = []\<rparr>),
     ParseDataFixed := (\<lambda>_. Ok \<lparr>OPType = 8, OPCommand = 9, OriginalMessage = Marshal (JObj [(''name'', JStr ''A'')]) @ newline\<rparr>)\<rparr>"

lemma hello_accepted: "\<exists>a df. accepted hello_teenode [] = Some (a, df, Hello ''A'')"
proof -
  have "decode_hello (Marshal (JObj [(''name'', JStr ''A'')]) @ newline) = Some ''A''"
    by (rule decode_hello_request) (simp_all add: valid_utf8_ascii newline_def delimited_Cons is_ws_def)
  then show ?thesis
    by (simp add: accepted_def greeting_op_def hello_teenode_def demo_teenode_def OPTypeGreeting_def OPCommandSayHello_def)
qed

theorem concurrent_requests_linearizable_witness:
  "\<exists>s a df n h1 h2. reachable (\<lambda>_. Hello ''A'') s \<and> length (history s) = 2 \<and> history s = h1 @ (1, Hello ''A'') # h2 \<and>
     fst (actionHandler demo_ext hello_teenode [] (run_history h1)) = reply_of hello_teenode a df (Hello ''A'') n"
proof -
  obtain s n m where s: "reachable (\<lambda>_. Hello ''A'') s" "wat s 1 = Finished m" "length (history s) = 2"
    using two_served by blast
  obtain a df where "accepted hello_teenode [] = Some (a, df, Hello ''A'')" using hello_accepted by blast
  with concurrent_requests_linearizable [OF s(1), of hello_teenode demo_ext] s(2) obtain h1 h2 where
    "history s = h1 @ (1, Hello ''A'') # h2"
    "actionHandler demo_ext hello_teenode [] (run_history h1) = (reply_of hello_teenode a df (Hello ''A'') m, run_history (h1 @ [(1, Hello ''A'')]))"
    by blast
  then have "fst (actionHandler demo_ext hello_teenode [] (run_history h1)) = reply_of hello_teenode a df (Hello ''A'') m" by simp
  with s(1,3) \<open>history s = _\<close> show ?thesis by blast
qed

theorem state_reads_are_snapshots_witness:
  "\<exists>(s :: sys) h. rat s 0 = RDone new_Extension \<and> prefix h (history s) \<and> new_Extension = run_history h"
proof -
  let ?o = "\<lambda>_ :: nat. Hello ''A''"
  let ?at = "\<lambda>R r. sys_init\<lparr>readers := R, rat := (rat sys_init)(0 := r)\<rparr>"
  have step: "reachable ?o (?at R r) \<Longrightarrow> sys_step ?o (?at R r) s \<Longrightarrow> s = ?at R' r' \<Longrightarrow> reachable ?o (?at R' r')" for R r R' r' s
    using reachable_step [of ?o "?at R r" s] by simp
  have "sys_step ?o sys_init (?at {0} RHeld)" using sys_step.rlock [of sys_init 0 ?o] by (simp add: sys_init_def)
  with reachable_init have "reachable ?o (?at {0} RHeld)" by (rule reachable_step)
  then have "reachable ?o (?at {0} (RGot1 0))"
    by (rule step [OF _ sys_step.read_greetingCount [where j = 0]]) (simp_all add: sys_init_def new_Extension_def)
  then have "reachable ?o (?at {0} (RGot2 0 []))"
    by (rule step [OF _ sys_step.read_lastGreeting [where j = 0]]) (simp_all add: sys_init_def new_Extension_def)
  then have "reachable ?o (?at {0} (RGot3 0 [] 0))"
    by (rule step [OF _ sys_step.read_farewellCount [where j = 0]]) (simp_all add: sys_init_def new_Extension_def)
  then have "reachable ?o (?at {0} (RGot new_Extension))"
    by (rule step [OF _ sys_step.read_lastFarewell [where j = 0]]) (simp_all add: sys_init_def new_Extension_def)
  then have r: "reachable ?o (?at {} (RDone new_Extension))"
    by (rule step [OF _ sys_step.runlock [where j = 0]]) (simp_all add: sys_init_def)
  moreover have at: "rat (?at {} (RDone new_Extension)) 0 = RDone new_Extension" by simp
  ultimately have "\<exists>h. prefix h (history (?at {} (RDone new_Extension))) \<and> new_Extension = run_history h"
    by (rule state_reads_are_snapshots)
  with at show ?thesis by metis
qed

end
