(* ===== verification/Deploy.thy ===== *)
theory Deploy
  imports VerifyDeploy Tx
begin

section \<open>Deploying the auction contract (tools/cmd/deploy-contract/main.go, tools/pkg/utils/instructions.go)\<close>

text \<open>
  The command checks the target chain, resolves the pair of escrow tokens, deploys QuietFillAuction and prints what the build
  script reads. The generated bindings of the contracts are the parameters \<open>token\<close>, \<open>auction_contract\<close> and \<open>contracts\<close>; only
  the reads of the chain client are those of a snapshot, which is what the pre-flight checks see before the first transaction.
\<close>

subsection \<open>The bindings\<close>

record 'c token =
  BalanceOf :: "address \<Rightarrow> ('c, int) act"
  Symbol :: "('c, string) act"
  Decimals :: "('c, 8 word) act"
  ApproveTx :: "opts \<Rightarrow> address \<Rightarrow> int \<Rightarrow> ('c, transaction) act"
  MintTx :: "opts \<Rightarrow> address \<Rightarrow> int \<Rightarrow> ('c, transaction) act"

record auction_info =
  TeeId :: address
  AuctionState :: "8 word"

record ClearResult =
  crContractAddr :: address
  crAuctionId :: int
  crWinner :: address
  crUnitPriceWei :: int
  crWinningNonce :: "64 word"
  crWinningCommitment :: hash
  crSubmittedBidCount :: int
  crEligibleBidCount :: int

record 'c auction_contract =
  GetExtensionId :: "('c, int) act"
  SetExtensionIdTx :: "opts \<Rightarrow> ('c, transaction) act"
  QuoteAmount :: "int \<Rightarrow> int \<Rightarrow> ('c, int) act"
  CreateAuctionTx :: "opts \<Rightarrow> int \<Rightarrow> int \<Rightarrow> int \<Rightarrow> 64 word \<Rightarrow> 64 word \<Rightarrow> ('c, transaction) act"
  ParseAuctionCreated :: "log \<Rightarrow> int result"
  GetAuction :: "int \<Rightarrow> ('c, auction_info) act"
  SubmitPrivateBidTx :: "opts \<Rightarrow> int \<Rightarrow> bytes \<Rightarrow> ('c, transaction) act"
  ParsePrivateBidSubmitted :: "log \<Rightarrow> hash result"
  RequestClearTx :: "opts \<Rightarrow> int \<Rightarrow> ('c, transaction) act"
  ParseClearRequested :: "log \<Rightarrow> hash result"
  SettleAuctionTx :: "opts \<Rightarrow> int \<Rightarrow> ClearResult \<Rightarrow> bytes \<Rightarrow> ('c, transaction) act"
  ParseAuctionSettled :: "log \<Rightarrow> unit result"

text \<open>\<open>SetExtensionIdCalldata\<close> is the packed call, \<^const>\<open>None\<close> when the ABI cannot be loaded or packed.\<close>

record 'c contracts =
  NewTestToken :: "address \<Rightarrow> 'c token result"
  DeployTestToken :: "opts \<Rightarrow> string \<Rightarrow> string \<Rightarrow> 8 word \<Rightarrow> ('c, address \<times> transaction) act"
  NewQuietFillAuction :: "address \<Rightarrow> 'c auction_contract result"
  DeployQuietFillAuction :: "opts \<Rightarrow> address \<Rightarrow> address \<Rightarrow> address \<Rightarrow> address \<Rightarrow> ('c, address \<times> transaction) act"
  SetExtensionIdCalldata :: "bytes option"

subsection \<open>instructions.go\<close>

definition DeployInstructionSender :: "ext \<Rightarrow> 'c eth \<Rightarrow> 'c contracts \<Rightarrow> Support \<Rightarrow> address \<Rightarrow> address \<Rightarrow> ('c, address) act" where
  "DeployInstructionSender E X C s baseToken quoteToken =
     call (lift (NewKeyedTransactor X (Prv s) (sChainID s))) (Errorf ''failed to create transactor: '') (\<lambda>opts.
       let manager = aFlareTeeManager (sAddresses s) in
       call (DeployQuietFillAuction C opts manager manager baseToken quoteToken) (Errorf ''failed to deploy contract: '') (\<lambda>(a, tx).
         call (WaitMined X tx)
           (Errorf (''deployment tx not mined within 2 minutes (tx: '' @ HashHex E (tHash tx) @ ''): '')) (\<lambda>receipt.
             if rStatus receipt \<noteq> 1 then fail (ErrText ''contract deployment failed'') else ret a)))"

text \<open>The replay that names the reason of a refused setExtensionId; the empty string when it cannot be made.\<close>

definition set_id_reason :: "ext \<Rightarrow> 'c eth \<Rightarrow> 'c contracts \<Rightarrow> Support \<Rightarrow> address \<Rightarrow> 'c \<Rightarrow> string \<times> 'c" where
  "set_id_reason E X C s sender w =
     (case SetExtensionIdCalldata C of
        None \<Rightarrow> ([], w)
      | Some callData \<Rightarrow> SimulateAndDecodeRevert X (PubkeyToAddress E (Prv s)) sender 0 callData w)"

definition set_id_refused :: "ext \<Rightarrow> 'c eth \<Rightarrow> 'c contracts \<Rightarrow> Support \<Rightarrow> address \<Rightarrow> goerror \<Rightarrow> ('c, unit) act" where
  "set_id_refused E X C s sender err w =
     (let reason0 = DecodeRevertReason (UnpackRevert X) (Some err) in
      case (if reason0 = [] then set_id_reason E X C s sender w else (reason0, w)) of
        (reason, w') \<Rightarrow>
          (Err (ErrText (if reason \<noteq> [] then ''failed to call setExtensionId: '' @ Error err @ '' (revert reason: '' @ reason @ '')''
             else ''failed to call setExtensionId: '' @ Error err)), w'))"

definition SetExtensionId :: "ext \<Rightarrow> 'c eth \<Rightarrow> 'c contracts \<Rightarrow> Support \<Rightarrow> address \<Rightarrow> ('c, unit) act" where
  "SetExtensionId E X C s instructionSenderAddress =
     call (lift (NewQuietFillAuction C instructionSenderAddress)) (Errorf ''failed to bind contract: '') (\<lambda>sender.
       call (lift (NewKeyedTransactor X (Prv s) (sChainID s))) (Errorf ''failed to create transactor: '') (\<lambda>opts w.
         case SetExtensionIdTx sender opts w of
           (Err err, w1) \<Rightarrow> set_id_refused E X C s instructionSenderAddress err w1
         | (Ok tx, w1) \<Rightarrow>
             call (WaitMined X tx) (Errorf ''failed waiting for transaction: '') (\<lambda>receipt w2.
               if rStatus receipt \<noteq> 1
               then (case set_id_reason E X C s instructionSenderAddress w2 of
                       (reason, w3) \<Rightarrow>
                         (Err (ErrText (if reason \<noteq> [] then ''setExtensionId transaction failed (revert reason: '' @ reason @ '')''
                            else ''setExtensionId transaction failed'')), w3))
               else (Ok (), w2)) w1))"

subsection \<open>deploy-contract\<close>

definition check_err :: "goerror option \<Rightarrow> ('c, unit) act" where
  "check_err err = (case err of Some e \<Rightarrow> fail e | None \<Rightarrow> ret ())"

definition describeToken :: "ext \<Rightarrow> 'c contracts \<Rightarrow> address \<Rightarrow> string \<Rightarrow> ('c, unit) act" where
  "describeToken E C a name =
     call (lift (NewTestToken C a)) (Errorf (''failed to bind '' @ name @ '': '')) (\<lambda>token.
       call (Symbol token) (Errorf (name @ '' at '' @ AddressHex E a @ '' does not answer symbol(): '')) (\<lambda>_.
         call (Decimals token) (Errorf (name @ '' at '' @ AddressHex E a @ '' does not answer decimals(): '')) (\<lambda>_. ret ())))"

definition deployTestToken :: "'c eth \<Rightarrow> 'c contracts \<Rightarrow> ext \<Rightarrow> Support \<Rightarrow> string \<Rightarrow> string \<Rightarrow> 8 word \<Rightarrow> ('c, address) act" where
  "deployTestToken X C E s name symbol dec =
     call (lift (NewKeyedTransactor X (Prv s) (sChainID s))) (Errorf ''failed to create transactor: '') (\<lambda>opts.
       call (DeployTestToken C opts name symbol dec) (Errorf (''failed to deploy '' @ symbol @ '': '')) (\<lambda>(a, tx).
         call (CheckTx E X tx) (Errorf (symbol @ '' deployment failed: '')) (\<lambda>_. ret a)))"

text \<open>The body of the loop over the two given tokens.\<close>

definition check_token :: "ext \<Rightarrow> 'c contracts \<Rightarrow> Support \<Rightarrow> string \<Rightarrow> address \<Rightarrow> ('c, unit) act" where
  "check_token E C s name a =
     call (check_err (AddressNotZero E a name)) id (\<lambda>_.
       call (check_err (AddressHasCode E (Some (ChainClient s)) a name)) id (\<lambda>_.
         call (describeToken E C a name) id ret))"

definition live_tokens_error :: goerror where
  "live_tokens_error =
     ErrText (''BASE_TOKEN and QUOTE_TOKEN must be set on live networks '' @ emdash @ '' verify the current '' @
       ''Coston2 FXRP and USDT0 addresses against official Flare sources before deploying'')"

definition resolveTokens :: "ext \<Rightarrow> host \<Rightarrow> 'c eth \<Rightarrow> 'c contracts \<Rightarrow> Support \<Rightarrow> string \<Rightarrow> string \<Rightarrow> ('c, address \<times> address) act" where
  "resolveTokens E H X C s baseHex quoteHex =
     (if baseHex \<noteq> [] \<and> quoteHex \<noteq> []
      then (let base = HexToAddress E baseHex; quote = HexToAddress E quoteHex in
            call (check_token E C s ''base token'' base) id (\<lambda>_.
              call (check_token E C s ''quote token'' quote) id (\<lambda>_.
                if base = quote then fail (ErrText ''base and quote token must differ'') else ret (base, quote))))
      else if EqualFold (Getenv H ''LOCAL_MODE'') ''false'' then fail live_tokens_error
      else call (deployTestToken X C E s ''Test FXRP'' ''FXRP'' 6) id (\<lambda>base.
             call (deployTestToken X C E s ''Test USDT0'' ''USDT0'' 6) id (\<lambda>quote. ret (base, quote))))"

text \<open>The checks before anything is sent.\<close>

definition preflight :: "ext \<Rightarrow> Support \<Rightarrow> ('c, unit) act" where
  "preflight E s =
     (let manager = aFlareTeeManager (sAddresses s) in
      call (check_err (AddressNotZero E manager ''FlareTeeManager'')) id (\<lambda>_.
        call (check_err (AddressHasCode E (Some (ChainClient s)) manager ''FlareTeeManager'')) id (\<lambda>_.
          call (check_err (KeyHasFunds E (Some (ChainClient s)) (Prv s) MinDeployBalance)) id ret)))"

text \<open>What the process leaves: its standard output and the file it tried to write. The flags of the tokens default to the
  environment before \<^verbatim>\<open>.env\<close> is loaded, \<^verbatim>\<open>LOCAL_MODE\<close> is read after.\<close>

record deployment =
  dStdout :: string
  dFile :: "(string \<times> string) option"

definition deploy_output :: "ext \<Rightarrow> address \<Rightarrow> address \<Rightarrow> address \<Rightarrow> string" where
  "deploy_output E baseToken quoteToken a =
     ''BASE_TOKEN='' @ AddressHex E baseToken @ newline @ ''QUOTE_TOKEN='' @ AddressHex E quoteToken @ newline @
     AddressHex E a @ newline"

definition deploy_contract :: "ext \<Rightarrow> node \<Rightarrow> host \<Rightarrow> 'c eth \<Rightarrow> 'c contracts \<Rightarrow> string \<Rightarrow> string \<Rightarrow> string \<Rightarrow> string option
    \<Rightarrow> string option \<Rightarrow> bool \<Rightarrow> ('c, deployment) act" where
  "deploy_contract E N H X C af cf outFile baseF quoteF preflightOnly =
     (let baseHex = (case baseF of Some v \<Rightarrow> v | None \<Rightarrow> Getenv H ''BASE_TOKEN'');
          quoteHex = (case quoteF of Some v \<Rightarrow> v | None \<Rightarrow> Getenv H ''QUOTE_TOKEN'') in
      call (lift (DefaultSupport E N H af cf)) id (\<lambda>s.
        call (preflight E s) id (\<lambda>_.
          if preflightOnly then ret \<lparr>dStdout = [], dFile = None\<rparr>
          else call (resolveTokens E (Dotenv N H) X C s baseHex quoteHex) id (\<lambda>(baseToken, quoteToken).
                 call (DeployInstructionSender E X C s baseToken quoteToken) id (\<lambda>a.
                   ret \<lparr>dStdout = deploy_output E baseToken quoteToken a,
                        dFile = (if outFile \<noteq> [] then Some (outFile, AddressHex E a) else None)\<rparr>)))))"

subsection \<open>The pre-flight checks\<close>

lemma check_err_Ok_iff [simp]: "check_err err w = (Ok (), w') \<longleftrightarrow> err = None \<and> w' = w"
  by (auto simp: check_err_def split: option.split)

lemma check_err_keeps [simp]: "snd (check_err err w) = w"
  by (simp add: check_err_def split: option.split)

lemma AddressNotZero_None: "AddressNotZero E a l = None \<longleftrightarrow> a \<noteq> 0"
  by (simp add: AddressNotZero_def)

lemma AddressHasCode_None: "AddressHasCode E cl a l = None \<longleftrightarrow> has_code cl a"
  by (auto simp: AddressHasCode_def has_code_def split: option.split sum.split)

lemma KeyHasFunds_None:
  "KeyHasFunds E (Some c) k m = None \<longleftrightarrow> (\<exists>b. BalanceAt c (PubkeyToAddress E k) = Ok b \<and> m \<le> b)"
  by (auto simp: KeyHasFunds_def Let_def split: sum.split)

lemma call_keeps: "snd (m w) = w \<Longrightarrow> (\<And>x. snd (k x w) = w) \<Longrightarrow> snd (call m wrap k w) = w"
  by (cases "m w") (auto simp: call_def split: sum.split)

lemma preflight_keeps: "snd (preflight E s w) = w"
  by (simp add: preflight_def Let_def call_keeps)

lemma preflight_ok_iff:
  "preflight E s w = (Ok (), w) \<longleftrightarrow>
     aFlareTeeManager (sAddresses s) \<noteq> 0 \<and> has_code (Some (ChainClient s)) (aFlareTeeManager (sAddresses s)) \<and>
     (\<exists>b. BalanceAt (ChainClient s) (PubkeyToAddress E (Prv s)) = Ok b \<and> MinDeployBalance \<le> b)"
  by (simp add: preflight_def Let_def call_Ok_iff AddressNotZero_None AddressHasCode_None KeyHasFunds_None)

lemma DefaultSupport_chain_id:
  "DefaultSupport E N H af cf = Ok s \<Longrightarrow> \<exists>cid. ChainID (ChainClient s) = Ok cid"
  by (auto simp: DefaultSupport_def NewSupport_def Let_def split: sum.splits option.splits)

text \<open>C8: The two guards before a deployment agree: deploy-contract with --preflight-only succeeds exactly when verify-deploy's deploy
  step (without a configuration file) exits with 0 for the same files and environment, and it never touches the chain.\<close>

theorem preflight_agrees_with_verify_deploy:
  assumes "oStep opt = ''deploy''" "oChecks opt = []" "oConfig opt = []"
  shows "(exit_status (verify_deploy E N H opt) = 0 \<longleftrightarrow>
      (\<exists>d. fst (deploy_contract E N H X C (oAddresses opt) (oChain opt) outFile baseF quoteF True w) = Ok d)) \<and>
     snd (deploy_contract E N H X C (oAddresses opt) (oChain opt) outFile baseF quoteF True w) = w"
proof (cases "DefaultSupport E N H (oAddresses opt) (oChain opt)")
  case (Inl err)
  then show ?thesis using assms by (simp add: verify_deploy_def run_step_def deploy_contract_def Let_def)
next
  case (Inr s)
  have "\<not> HasFailures (deploy_step E (Dotenv N H) s [] \<lparr>Results = []\<rparr>) \<longleftrightarrow> preflight E s w = (Ok (), w)"
    using DefaultSupport_chain_id [OF Inr] by (simp add: deploy_step_def Let_def deploy_checks_closed preflight_ok_iff)
  moreover obtain r where "preflight E s w = (r, w)" using preflight_keeps by (metis prod.collapse)
  ultimately show ?thesis
    using assms Inr
    by (cases r) (simp_all add: verify_deploy_def run_step_def deploy_contract_def filter_checks_def Let_def)
qed

subsection \<open>The escrow tokens\<close>

lemma check_token_ok_iff:
  "check_token E C s name a w = (Ok (), w') \<longleftrightarrow>
     a \<noteq> 0 \<and> has_code (Some (ChainClient s)) a \<and> describeToken E C a name w = (Ok (), w')"
  by (auto simp: check_token_def call_Ok_iff AddressNotZero_None AddressHasCode_None)

lemma describeToken_ok_iff:
  "describeToken E C a name w = (Ok (), w') \<longleftrightarrow>
     (\<exists>t x y w0. NewTestToken C a = Ok t \<and> Symbol t w = (Ok x, w0) \<and> Decimals t w0 = (Ok y, w'))"
  by (auto simp: describeToken_def call_Ok_iff)

text \<open>C19: Given both token addresses, resolveTokens returns exactly this pair, and only if both are non-zero, have code, answer symbol() and
  decimals() and differ; without both, on a live network (LOCAL_MODE equal to false in any case) it refuses without touching the
  chain.\<close>

theorem resolveTokens_outcome:
  "(if baseHex \<noteq> [] \<and> quoteHex \<noteq> []
    then resolveTokens E H X C s baseHex quoteHex w = (Ok (b, q), w') \<longleftrightarrow>
      b = HexToAddress E baseHex \<and> q = HexToAddress E quoteHex \<and> b \<noteq> q \<and> b \<noteq> 0 \<and> q \<noteq> 0 \<and>
      has_code (Some (ChainClient s)) b \<and> has_code (Some (ChainClient s)) q \<and>
      (\<exists>tb xb yb w0 w1 tq xq yq w2.
         NewTestToken C b = Ok tb \<and> Symbol tb w = (Ok xb, w0) \<and> Decimals tb w0 = (Ok yb, w1) \<and>
         NewTestToken C q = Ok tq \<and> Symbol tq w1 = (Ok xq, w2) \<and> Decimals tq w2 = (Ok yq, w'))
    else EqualFold (Getenv H ''LOCAL_MODE'') ''false'' \<longrightarrow>
      resolveTokens E H X C s baseHex quoteHex w = (Err live_tokens_error, w))"
proof (cases "baseHex \<noteq> [] \<and> quoteHex \<noteq> []")
  case True
  then have "resolveTokens E H X C s baseHex quoteHex w = (Ok (b, q), w') \<longleftrightarrow>
      b = HexToAddress E baseHex \<and> q = HexToAddress E quoteHex \<and> b \<noteq> q \<and> b \<noteq> 0 \<and> q \<noteq> 0 \<and>
      has_code (Some (ChainClient s)) b \<and> has_code (Some (ChainClient s)) q \<and>
      (\<exists>w1. describeToken E C b ''base token'' w = (Ok (), w1) \<and> describeToken E C q ''quote token'' w1 = (Ok (), w'))"
    by (auto simp: resolveTokens_def Let_def call_Ok_iff check_token_ok_iff)
  with True show ?thesis unfolding describeToken_ok_iff by auto
qed (auto simp: resolveTokens_def Let_def)

lemma single_token_is_ignored:
  "baseHex = [] \<or> quoteHex = [] \<Longrightarrow> resolveTokens E H X C s baseHex quoteHex = resolveTokens E H X C s [] []"
  by (auto simp: resolveTokens_def)

subsection \<open>What the build script reads\<close>

text \<open>C18: pre-build.sh reads the standard output of a successful deployment correctly: its last line is the address of the contract that
  was deployed for the resolved token pair, and the value after the equals sign of the only line that begins with BASE_TOKEN= (or
  QUOTE_TOKEN=) is the base (or quote) token; the file of -o holds the same address.\<close>

theorem deployment_output_is_read_back:
  assumes "deploy_contract E N H X C af cf outFile (Some baseHex) (Some quoteHex) False w = (Ok d, w')"
    and "\<forall>a. list_all (\<lambda>c. c \<noteq> CHR 0x0A \<and> c \<noteq> CHR ''='') (AddressHex E a)"
  shows "\<exists>s b q a w1. DefaultSupport E N H af cf = Ok s \<and>
     resolveTokens E (Dotenv N H) X C s baseHex quoteHex w = (Ok (b, q), w1) \<and>
     DeployInstructionSender E X C s b q w1 = (Ok a, w') \<and>
     last (raw_lines (dStdout d)) = AddressHex E a \<and>
     map (\<lambda>l. Split l (CHR ''='')) (filter (\<lambda>l. HasPrefix l ''BASE_TOKEN='') (raw_lines (dStdout d))) =
       [[''BASE_TOKEN'', AddressHex E b]] \<and>
     map (\<lambda>l. Split l (CHR ''='')) (filter (\<lambda>l. HasPrefix l ''QUOTE_TOKEN='') (raw_lines (dStdout d))) =
       [[''QUOTE_TOKEN'', AddressHex E q]] \<and>
     dFile d = (if outFile = [] then None else Some (outFile, AddressHex E a))"
proof -
  have keep: "preflight E s w = (Ok (), w0) \<Longrightarrow> w0 = w" for s w0 using preflight_keeps [of E s w] by simp
  obtain s b q a w1 where run: "DefaultSupport E N H af cf = Ok s"
      "resolveTokens E (Dotenv N H) X C s baseHex quoteHex w = (Ok (b, q), w1)"
      "DeployInstructionSender E X C s b q w1 = (Ok a, w')"
    and d: "d = \<lparr>dStdout = deploy_output E b q a, dFile = (if outFile \<noteq> [] then Some (outFile, AddressHex E a) else None)\<rparr>"
    using assms(1) by (auto simp: deploy_contract_def Let_def call_Ok_iff dest!: keep)
  have hex: "CHR 0x0A \<notin> set (AddressHex E x)" "CHR ''='' \<notin> set (AddressHex E x)" for x
    using assms(2) by (auto simp: list_all_iff)
  let ?ls = "[''BASE_TOKEN='' @ AddressHex E b, ''QUOTE_TOKEN='' @ AddressHex E q, AddressHex E a]"
  have ls: "raw_lines (dStdout d) = ?ls"
    using raw_lines_concat [of ?ls] hex by (simp add: d deploy_output_def newline_def)
  have "\<not> HasPrefix (AddressHex E a) ''BASE_TOKEN=''" "\<not> HasPrefix (AddressHex E a) ''QUOTE_TOKEN=''"
    using hex(2) [of a] HasPrefix_subset by fastforce+
  moreover have "Split (''BASE_TOKEN='' @ AddressHex E b) (CHR ''='') = [''BASE_TOKEN'', AddressHex E b]"
    "Split (''QUOTE_TOKEN='' @ AddressHex E q) (CHR ''='') = [''QUOTE_TOKEN'', AddressHex E q]"
    using Split_append_sep [of "CHR ''=''" "''BASE_TOKEN''"] Split_append_sep [of "CHR ''=''" "''QUOTE_TOKEN''"] hex
    by (simp_all add: Split_no_sep)
  ultimately have "filter (\<lambda>l. HasPrefix l ''BASE_TOKEN='') ?ls = [''BASE_TOKEN='' @ AddressHex E b]"
    "filter (\<lambda>l. HasPrefix l ''QUOTE_TOKEN='') ?ls = [''QUOTE_TOKEN='' @ AddressHex E q]"
    and "map (\<lambda>l. Split l (CHR ''='')) [''BASE_TOKEN='' @ AddressHex E b] = [[''BASE_TOKEN'', AddressHex E b]]"
    "map (\<lambda>l. Split l (CHR ''='')) [''QUOTE_TOKEN='' @ AddressHex E q] = [[''QUOTE_TOKEN'', AddressHex E q]]"
    by (simp_all add: HasPrefix_def)
  then show ?thesis unfolding ls using run by (auto simp: d)
qed

subsection \<open>Witnesses\<close>

definition demo_token :: "nat token" where
  "demo_token =
     \<lparr>BalanceOf = (\<lambda>_ n. (Ok (int n), n)), Symbol = (\<lambda>n. (Ok ''TT'', n)), Decimals = (\<lambda>n. (Ok 6, n)),
      ApproveTx = (\<lambda>_ _ _ n. (Ok demo_tx, n)), MintTx = (\<lambda>_ _ k n. (Ok demo_tx, n + nat k))\<rparr>"

definition demo_contracts :: "nat contracts" where
  "demo_contracts =
     \<lparr>NewTestToken = (\<lambda>_. Ok demo_token), DeployTestToken = (\<lambda>_ _ _ _ n. (Ok (of_nat n + 1, demo_tx), Suc n)),
      NewQuietFillAuction = (\<lambda>_. Err (ErrText ''no contract'')),
      DeployQuietFillAuction = (\<lambda>_ _ _ _ _ n. (Ok (of_nat n + 100, demo_tx), Suc n)), SetExtensionIdCalldata = None\<rparr>"

theorem preflight_agrees_with_verify_deploy_witness:
  "exit_status (verify_deploy demo_ext demo_setup (demo_host ''e'' None) (demo_options ''deploy'')) = 0"
proof -
  obtain s where s: "DefaultSupport demo_ext demo_setup (demo_host ''e'' None) ''p'' ''http://node'' = Ok s"
      "aFlareTeeManager (sAddresses s) = 3" "ChainClient s = demo_client" using demo_support by blast
  have "preflight demo_ext s (0 :: nat) = (Ok (), 0)"
    by (simp add: preflight_ok_iff s has_code_def demo_client_def MinDeployBalance_def)
  then have "\<exists>d. fst (deploy_contract demo_ext demo_setup (demo_host ''e'' None) demo_eth demo_contracts ''p'' ''http://node'' [] None None
      True 0) = Ok d"
    by (simp add: deploy_contract_def s Let_def)
  then show ?thesis
    by (subst conjunct1 [OF preflight_agrees_with_verify_deploy [where w = 0 and X = demo_eth and C = demo_contracts and outFile = "[]"
            and baseF = None and quoteF = None]]) (simp_all add: demo_options_def)
qed

theorem resolveTokens_outcome_witness:
  "\<exists>s. resolveTokens demo_ext (demo_host ''e'' None) demo_eth demo_contracts s ''aa'' ''b'' 0 = (Ok (2, 1), 0)"
proof -
  obtain s :: Support where s: "ChainClient s = demo_client" using demo_support by blast
  have "resolveTokens demo_ext (demo_host ''e'' None) demo_eth demo_contracts s ''aa'' ''b'' 0 = (Ok (2, 1), 0)"
    using resolveTokens_outcome [where baseHex = "''aa''" and quoteHex = "''b''" and E = demo_ext and b = 2 and q = 1 and w = 0 and w' = 0
        and H = "demo_host ''e'' None" and X = demo_eth and C = demo_contracts and s = s]
    by (simp add: s has_code_def demo_client_def demo_ext_def describeToken_def demo_contracts_def demo_token_def)
  then show ?thesis by blast
qed

lemma demo_hex_clean: "\<forall>a. list_all (\<lambda>c. c \<noteq> CHR 0x0A \<and> c \<noteq> CHR ''='') (AddressHex demo_ext a)"
proof -
  have "digit_char d \<noteq> CHR 0x0A \<and> digit_char d \<noteq> CHR ''=''" if "d < 16" for d
  proof -
    have "(of_char (digit_char d) :: nat) \<notin> {10, 61}" using that by (auto simp: of_char_digit)
    then show ?thesis by auto
  qed
  then have "list_all (\<lambda>c. c \<noteq> CHR 0x0A \<and> c \<noteq> CHR ''='') (hex_of_nat n)" for n
    by (auto simp: hex_of_nat_def list_all_iff dest: to_digits_bound [rotated])
  then show ?thesis by (simp add: demo_ext_def)
qed

theorem deployment_output_is_read_back_witness:
  "\<exists>d a. fst (deploy_contract demo_ext demo_setup (demo_host ''e'' None) demo_eth demo_contracts ''p'' ''http://node'' []
       (Some ''aa'') (Some ''b'') False 0) = Ok d \<and> last (raw_lines (dStdout d)) = AddressHex demo_ext a"
proof -
  obtain s where s: "DefaultSupport demo_ext demo_setup (demo_host ''e'' None) ''p'' ''http://node'' = Ok s"
      "aFlareTeeManager (sAddresses s) = 3" "ChainClient s = demo_client" using demo_support by blast
  have pre: "preflight demo_ext s (0 :: nat) = (Ok (), 0)"
    by (simp add: preflight_ok_iff s has_code_def demo_client_def MinDeployBalance_def)
  have tok: "resolveTokens demo_ext H demo_eth demo_contracts s ''aa'' ''b'' 0 = (Ok (2, 1), 0)" for H
    by (simp add: resolveTokens_def call_Ok_iff check_token_ok_iff s has_code_def demo_client_def demo_ext_def describeToken_def
        demo_contracts_def demo_token_def)
  have dep: "DeployInstructionSender demo_ext demo_eth demo_contracts s 2 1 0 = (Ok 100, 2)"
    by (simp add: DeployInstructionSender_def NewKeyedTransactor_def demo_eth_def demo_contracts_def Let_def call_def)
  obtain d where "deploy_contract demo_ext demo_setup (demo_host ''e'' None) demo_eth demo_contracts ''p'' ''http://node'' []
       (Some ''aa'') (Some ''b'') False 0 = (Ok d, 2)"
    using s(1) pre tok dep by (simp add: deploy_contract_def Let_def)
  then show ?thesis using deployment_output_is_read_back [OF _ demo_hex_clean] by (metis fst_conv)
qed

end
