(* ===== verification/RunTest.thy ===== *)
theory RunTest
  imports Deploy TeeCalls Abi
begin

section \<open>The end-to-end auction (tools/cmd/run-test/main.go)\<close>

text \<open>
  run-test plays one auction against a running stack: it funds and approves the escrows, creates the auction, submits an
  encrypted bid, waits for the bid window to close, requests the clear, fetches the TEE's signed result and settles. Every stage
  of \<^verbatim>\<open>main\<close> is a definition; a call of \<^verbatim>\<open>FatalWithCause\<close> ends the process and is the error result. The ABI codec,
  the encryption, the random source and the clock are the parameter \<open>test_lib\<close>; the argument lists that \<^verbatim>\<open>init\<close> builds for the
  codec, and the type assertions on what it returns, are those of the source.
\<close>

subsection \<open>Data\<close>

record privateBid =
  bBidder :: address
  bContractAddr :: address
  bAuctionId :: int
  bNonce :: "64 word"
  bUnitPriceWei :: int
  bSalt :: bytes

text \<open>\<open>Clock\<close> is the time in nanoseconds since the epoch, \<open>SleepNs\<close> is \<^verbatim>\<open>time.Sleep\<close> of a duration.\<close>

record 'c test_lib =
  ParseType :: new_type
  PackBid :: "abi_args \<Rightarrow> privateBid \<Rightarrow> bytes result"
  Unpack :: "abi_args \<Rightarrow> bytes \<Rightarrow> abi_value list result"
  Encrypt :: "bytes \<Rightarrow> pubkey \<Rightarrow> ('c, bytes) act"
  RandRead :: "nat \<Rightarrow> ('c, bytes) act"
  Threshold :: string
  Clock :: "'c \<Rightarrow> int"
  SleepNs :: "int \<Rightarrow> 'c \<Rightarrow> 'c"

text \<open>The package variables that \<^verbatim>\<open>init\<close> sets.\<close>

record test_args =
  bidTupleArgs :: abi_args
  bidReceiptArgs :: abi_args
  clearResultArgs :: abi_args

definition init_args :: "new_type \<Rightarrow> test_args result" where
  "init_args NewType =
     and_then (mustType NewType ''tuple''
         [(''bidder'', ''address''), (''contractAddr'', ''address''), (''auctionId'', ''uint256''), (''nonce'', ''uint64''),
          (''unitPriceWei'', ''uint256''), (''salt'', ''bytes32'')]) (\<lambda>bidTuple.
       and_then (mustType NewType ''address'' []) (\<lambda>addressTy.
         and_then (mustType NewType ''uint256'' []) (\<lambda>uint256Ty.
           and_then (mustType NewType ''uint64'' []) (\<lambda>uint64Ty.
             and_then (mustType NewType ''bytes32'' []) (\<lambda>bytes32Ty.
               Ok \<lparr>bidTupleArgs = [([], bidTuple)],
                   bidReceiptArgs =
                     [(''contractAddr'', addressTy), (''auctionId'', uint256Ty), (''bidder'', addressTy), (''nonce'', uint64Ty),
                      (''bidCommitment'', bytes32Ty)],
                   clearResultArgs =
                     [(''contractAddr'', addressTy), (''auctionId'', uint256Ty), (''winner'', addressTy), (''unitPriceWei'', uint256Ty),
                      (''winningNonce'', uint64Ty), (''winningCommitment'', bytes32Ty), (''submittedBidCount'', uint256Ty),
                      (''eligibleBidCount'', uint256Ty)]\<rparr>)))))"

record 'c test_env =
  vExt :: ext
  vEth :: "'c eth"
  vProxy :: "'c proxy"
  vContracts :: "'c contracts"
  vLib :: "'c test_lib"
  vArgs :: test_args
  vURL :: string
  vSender :: address

definition instructionFeeWei :: int where "instructionFeeWei = 1000000"

definition auctionStateSettled :: "8 word" where "auctionStateSettled = 3"

subsection \<open>Helpers\<close>

definition mustBig :: "ext \<Rightarrow> string \<Rightarrow> string \<Rightarrow> int result" where
  "mustBig E v name =
     (case SetString10 v of
        Some n \<Rightarrow> if n \<le> 0 then Err (ErrText (''invalid '' @ name @ '': '' @ Quote (IsPrintHigh E) v)) else Ok n
      | None \<Rightarrow> Err (ErrText (''invalid '' @ name @ '': '' @ Quote (IsPrintHigh E) v)))"

definition dealerKey :: "ext \<Rightarrow> host \<Rightarrow> privkey \<Rightarrow> privkey result" where
  "dealerKey E H fallback =
     (let raw = TrimPrefix (TrimPrefix (Getenv H ''DEALER_PRIVATE_KEY'') ''0x'') ''0X'' in
      if raw = [] then Ok fallback
      else case HexToECDSA E raw of
             Err err \<Rightarrow> Err (Errorf ''invalid DEALER_PRIVATE_KEY: '' err)
           | Ok key \<Rightarrow> Ok key)"

definition ensureFunds :: "ext \<Rightarrow> 'c eth \<Rightarrow> Support \<Rightarrow> 'c token \<Rightarrow> string \<Rightarrow> address \<Rightarrow> privkey \<Rightarrow> int \<Rightarrow> ('c, unit) act" where
  "ensureFunds E X s token name holder holderPrv needed =
     call (BalanceOf token holder) (Errorf (''balanceOf('' @ name @ '' token) failed: '')) (\<lambda>balance.
       if needed \<le> balance then ret ()
       else call (lift (NewKeyedTransactor X holderPrv (sChainID s))) id (\<lambda>opts.
              call (MintTx token opts holder needed)
                (\<lambda>err. ErrText (name @ '' token balance '' @ dec_of_int balance @ '' is below the required '' @ dec_of_int needed @
                   '' and mint() failed ('' @ Error err @ '') '' @ emdash @ '' fund the account from a faucet'')) (\<lambda>tx.
                call (CheckTx E X tx) id (\<lambda>_. ret ()))))"

text \<open>One round of \<^verbatim>\<open>sendTxRetry\<close>: a receipt, an error after which the loop goes on, or the end of the process.\<close>

datatype round = Done receipt | Again goerror | Fatal goerror

definition send_once :: "ext \<Rightarrow> 'c eth \<Rightarrow> Support \<Rightarrow> string \<Rightarrow> (opts \<Rightarrow> ('c, transaction) act) \<Rightarrow> privkey \<Rightarrow> int \<Rightarrow> 'c \<Rightarrow> round \<times> 'c" where
  "send_once E X s label mk key val w =
     (case NewKeyedTransactor X key (sChainID s) of
        Err err \<Rightarrow> (Fatal err, w)
      | Ok opts \<Rightarrow>
          (case mk (opts\<lparr>oValue := val\<rparr>) w of
             (Err err, w1) \<Rightarrow>
               (let reason = DecodeRevertReason (UnpackRevert X) (Some err) in
                (Again (ErrText (if reason \<noteq> [] then label @ '' reverted: '' @ reason else label @ '' failed: '' @ Error err)), w1))
           | (Ok tx, w1) \<Rightarrow>
               (case CheckTx E X tx w1 of
                  (Err err, w2) \<Rightarrow> (Again (ErrText (label @ '': '' @ Error err)), w2)
                | (Ok receipt, w2) \<Rightarrow> (Done receipt, w2))))"

text \<open>The loop: \<open>i\<close> rounds are over, \<open>n\<close> are left.\<close>

fun send_loop :: "('c \<Rightarrow> round \<times> 'c) \<Rightarrow> ('c \<Rightarrow> 'c) \<Rightarrow> nat \<Rightarrow> nat \<Rightarrow> goerror \<Rightarrow> ('c, receipt) act" where
  "send_loop once pause i 0 lastErr w = (Err lastErr, w)"
| "send_loop once pause i (Suc n) lastErr w =
     (case once (if i > 0 then pause w else w) of
        (Done receipt, w') \<Rightarrow> (Ok receipt, w')
      | (Fatal err, w') \<Rightarrow> (Err err, w')
      | (Again err, w') \<Rightarrow> send_loop once pause (Suc i) n err w')"

definition sendTxRetry :: "'c test_env \<Rightarrow> Support \<Rightarrow> string \<Rightarrow> (opts \<Rightarrow> ('c, transaction) act) \<Rightarrow> privkey \<Rightarrow> int \<Rightarrow> nat \<Rightarrow> ('c, receipt) act" where
  "sendTxRetry V s label mk key val n =
     send_loop (send_once (vExt V) (vEth V) s label mk key val) (Sleep (vProxy V) 5) 0 n (ErrText ''<nil>'')"

definition sendTx :: "'c test_env \<Rightarrow> Support \<Rightarrow> string \<Rightarrow> (opts \<Rightarrow> ('c, transaction) act) \<Rightarrow> privkey \<Rightarrow> int \<Rightarrow> ('c, receipt) act" where
  "sendTx V s label mk key val = sendTxRetry V s label mk key val 1"

fun result_loop :: "('c, action_response) act \<Rightarrow> ('c \<Rightarrow> 'c) \<Rightarrow> string \<Rightarrow> nat \<Rightarrow> action_response option \<Rightarrow> ('c, action_response) act" where
  "result_loop ask pause name 0 prev w =
     (Err (ErrText (if prev \<noteq> None then ''result for '' @ name @ '' still pending after polling'' else ''no result for '' @ name @ '' from proxy'')), w)"
| "result_loop ask pause name (Suc n) prev w =
     (case ask w of
        (Ok resp, w') \<Rightarrow> if rspStatus resp \<noteq> 2 then (Ok resp, w') else result_loop ask pause name n (Some resp) (pause w')
      | (Err _, w') \<Rightarrow> result_loop ask pause name n prev (pause w'))"

definition pollResult :: "'c test_env \<Rightarrow> hash \<Rightarrow> ('c, action_response) act" where
  "pollResult V i =
     result_loop (ActionResult (vExt V) (vProxy V) (vURL V) i) (Sleep (vProxy V) 3) (HashHex (vExt V) i) 20 None"

text \<open>The first log that parses as the event.\<close>

fun first_event :: "(log \<Rightarrow> 'a result) \<Rightarrow> log list \<Rightarrow> 'a option" where
  "first_event parse [] = None"
| "first_event parse (l # ls) = (case parse l of Ok ev \<Rightarrow> Some ev | Err _ \<Rightarrow> first_event parse ls)"

subsection \<open>The stages of main\<close>

text \<open>Step 0.\<close>

definition cache_extension_id :: "'c test_env \<Rightarrow> Support \<Rightarrow> 'c auction_contract \<Rightarrow> ('c, unit) act" where
  "cache_extension_id V s sender w =
     (let set_id = (\<lambda>w. case SetExtensionId (vExt V) (vEth V) (vContracts V) s (vSender V) w of
            (Err err, w') \<Rightarrow>
              if Contains (Error err) ''already set'' \<or> Contains (Error err) ''ExtensionIdAlreadySet'' \<or> Contains (Error err) ''0x88f9fe3d''
              then (Ok (), w')
              else (Err (ErrText (''setExtensionId failed '' @ emdash @
                     '' is the extension registered? Check that pre-build.sh completed. Error: '' @ Error err)), w')
          | (Ok _, w') \<Rightarrow> (Ok (), w')) in
      case GetExtensionId sender w of
        (Ok cached, w') \<Rightarrow> if 0 < cached then (Ok (), w') else set_id w'
      | (Err _, w') \<Rightarrow> set_id w')"

text \<open>Step 1: the TEE's key and identity.\<close>

definition live_tee :: "'c test_env \<Rightarrow> ('c, pubkey \<times> address) act" where
  "live_tee V =
     call (TeeInfo (vProxy V) (vURL V)) (Errorf (''cannot fetch TEE info from '' @ vURL V @ '': '')) (\<lambda>ti.
       call (lift (ParsePubKey (vProxy V) (tiPublicKey ti))) (Errorf ''cannot parse TEE public key: '') (\<lambda>teePub.
         ret (teePub, PubToAddress (vProxy V) teePub)))"

text \<open>Step 2.\<close>

definition fund_escrows :: "'c test_env \<Rightarrow> Support \<Rightarrow> 'c auction_contract \<Rightarrow> 'c token \<Rightarrow> 'c token \<Rightarrow> privkey \<Rightarrow> int \<Rightarrow> int \<Rightarrow> ('c, unit) act" where
  "fund_escrows V s sender baseToken quoteToken dealerPrv lot ceiling =
     (let E = vExt V; X = vEth V; sellerPrv = Prv s in
      call (QuoteAmount sender lot ceiling) (Errorf ''quoteAmount call failed: '') (\<lambda>maxQuote.
        call (ensureFunds E X s baseToken ''base'' (PubkeyToAddress E sellerPrv) sellerPrv lot) id (\<lambda>_.
          call (ensureFunds E X s quoteToken ''quote'' (PubkeyToAddress E dealerPrv) dealerPrv maxQuote) id (\<lambda>_.
            call (sendTx V s ''approve base escrow'' (\<lambda>opts. ApproveTx baseToken opts (vSender V) lot) sellerPrv 0) id (\<lambda>_.
              call (sendTx V s ''approve quote escrow'' (\<lambda>opts. ApproveTx quoteToken opts (vSender V) maxQuote) dealerPrv 0) id
                (\<lambda>_. ret ()))))))"

text \<open>Step 3: the deadlines in seconds, on 64-bit words as in the source, and the auction.\<close>

definition bid_deadline :: "int \<Rightarrow> 64 word \<Rightarrow> 64 word" where
  "bid_deadline clock bidWindow = of_int (clock div 10 ^ 9) + bidWindow"

definition settle_deadline :: "64 word \<Rightarrow> 64 word" where
  "settle_deadline bidDeadline = bidDeadline + 1800"

definition create_auction :: "'c test_env \<Rightarrow> Support \<Rightarrow> 'c auction_contract \<Rightarrow> address \<Rightarrow> int \<Rightarrow> int \<Rightarrow> int \<Rightarrow> 64 word
    \<Rightarrow> ('c, int) act" where
  "create_auction V s sender teeID lot floor ceiling bidDeadline =
     call (sendTx V s ''createAuction''
         (\<lambda>opts. CreateAuctionTx sender opts lot floor ceiling bidDeadline (settle_deadline bidDeadline)) (Prv s) 0) id (\<lambda>receipt.
       case first_event (ParseAuctionCreated sender) (rLogs receipt) of
         None \<Rightarrow> fail (ErrText ''AuctionCreated event not found'')
       | Some auctionID \<Rightarrow>
           call (GetAuction sender auctionID) id (\<lambda>auction.
             if TeeId auction \<noteq> teeID
             then fail (ErrText (''auction pinned TEE '' @ AddressHex (vExt V) (TeeId auction) @ '' but the proxy serves TEE '' @
                    AddressHex (vExt V) teeID @ '' '' @ emdash @ '' bids encrypted to this proxy cannot clear this auction''))
             else ret auctionID))"

text \<open>Steps 4 and 5: the encrypted bid and its receipt.\<close>

definition instruction_of :: "(log \<Rightarrow> hash result) \<Rightarrow> string \<Rightarrow> receipt \<Rightarrow> hash result" where
  "instruction_of parse name receipt =
     (let i = (case first_event parse (rLogs receipt) of Some h \<Rightarrow> h | None \<Rightarrow> 0) in
      if i = 0 then Err (ErrText (name @ '' event not found'')) else Ok i)"

definition submit_bid :: "'c test_env \<Rightarrow> Support \<Rightarrow> 'c auction_contract \<Rightarrow> pubkey \<Rightarrow> privkey \<Rightarrow> int \<Rightarrow> int \<Rightarrow> ('c, hash) act" where
  "submit_bid V s sender teePub dealerPrv auctionID bidPrice =
     call (RandRead (vLib V) 32) id (\<lambda>salt.
       call (lift (PackBid (vLib V) (bidTupleArgs (vArgs V)) \<lparr>bBidder = PubkeyToAddress (vExt V) dealerPrv, bContractAddr = vSender V, bAuctionId = auctionID,
           bNonce = 1, bUnitPriceWei = bidPrice, bSalt = salt\<rparr>)) (Errorf ''failed to ABI-encode bid: '') (\<lambda>plaintext.
         call (Encrypt (vLib V) plaintext teePub) (Errorf ''ECIES encryption failed: '') (\<lambda>ciphertext.
           call (sendTx V s ''submitPrivateBid'' (\<lambda>opts. SubmitPrivateBidTx sender opts auctionID ciphertext) dealerPrv
               instructionFeeWei) id (\<lambda>receipt.
             lift (instruction_of (ParsePrivateBidSubmitted sender) ''PrivateBidSubmitted'' receipt)))))"

definition confirm_bid :: "'c test_env \<Rightarrow> privkey \<Rightarrow> hash \<Rightarrow> ('c, hash) act" where
  "confirm_bid V dealerPrv bidInstructionID =
     (let dealerAddr = PubkeyToAddress (vExt V) dealerPrv in
      call (pollResult V bidInstructionID) id (\<lambda>bidResp.
        if rspStatus bidResp \<noteq> 1 then fail (ErrText (''TEE rejected the bid: '' @ rspLog bidResp))
        else call (lift (Unpack (vLib V) (bidReceiptArgs (vArgs V)) (rspData bidResp))) (Errorf ''cannot decode bid receipt: '') (\<lambda>receiptVals.
               call (lift (assert_at as_Address receiptVals 2)) id (\<lambda>got.
                 if got \<noteq> dealerAddr
                 then fail (ErrText (''bid receipt names bidder '' @ AddressHex (vExt V) got @ '', want '' @ AddressHex (vExt V) dealerAddr))
                 else lift (assert_at as_bytes32 receiptVals 4)))))"

text \<open>Step 6. \<^verbatim>\<open>time.Until\<close> of a Unix time, with the wrap-around of \<^verbatim>\<open>time.Unix\<close>'s seconds and the saturation of a duration.\<close>

definition unix_to_internal :: int where "unix_to_internal = 62135596800"

definition time_until :: "64 word \<Rightarrow> int \<Rightarrow> int" where
  "time_until sec clock =
     max (- (2 ^ 63)) (min (2 ^ 63 - 1) ((sint (sec + of_int unix_to_internal) - unix_to_internal) * 10 ^ 9 - clock))"

definition wait_window :: "'c test_env \<Rightarrow> 64 word \<Rightarrow> 'c \<Rightarrow> 'c" where
  "wait_window V bidDeadline w =
     (let wait = time_until (bidDeadline + 2) (Clock (vLib V) w) in if 0 < wait then SleepNs (vLib V) wait w else w)"

definition request_clear :: "'c test_env \<Rightarrow> Support \<Rightarrow> 'c auction_contract \<Rightarrow> int \<Rightarrow> ('c, hash) act" where
  "request_clear V s sender auctionID =
     call (sendTxRetry V s ''requestClear'' (\<lambda>opts. RequestClearTx sender opts auctionID) (Prv s) instructionFeeWei 5) id (\<lambda>receipt.
       lift (instruction_of (ParseClearRequested sender) ''ClearRequested'' receipt))"

text \<open>Step 7: the signed result of the clear.\<close>

definition clear_result :: "'c test_env \<Rightarrow> action_response \<Rightarrow> ClearResult result" where
  "clear_result V clearResp =
     (case Unpack (vLib V) (clearResultArgs (vArgs V)) (rspData clearResp) of
        Err err \<Rightarrow> Err (Errorf ''cannot decode clear result: '' err)
      | Ok clearVals \<Rightarrow>
          and_then (assert_at as_Address clearVals 0) (\<lambda>contractAddr.
            and_then (assert_at as_BigInt clearVals 1) (\<lambda>auctionId.
              and_then (assert_at as_Address clearVals 2) (\<lambda>winner.
                and_then (assert_at as_BigInt clearVals 3) (\<lambda>unitPriceWei.
                  and_then (assert_at as_uint64 clearVals 4) (\<lambda>winningNonce.
                    and_then (assert_at as_bytes32 clearVals 5) (\<lambda>winningCommitment.
                      and_then (assert_at as_BigInt clearVals 6) (\<lambda>submitted.
                        and_then (assert_at as_BigInt clearVals 7) (\<lambda>eligible.
                          Ok \<lparr>crContractAddr = contractAddr, crAuctionId = auctionId, crWinner = winner, crUnitPriceWei = unitPriceWei,
                              crWinningNonce = winningNonce, crWinningCommitment = winningCommitment, crSubmittedBidCount = submitted,
                              crEligibleBidCount = eligible\<rparr>)))))))))"

definition fetch_clear :: "'c test_env \<Rightarrow> privkey \<Rightarrow> int \<Rightarrow> hash \<Rightarrow> ('c, ClearResult \<times> bytes) act" where
  "fetch_clear V dealerPrv bidPrice clearInstructionID =
     (let E = vExt V in
      call (pollResult V clearInstructionID) id (\<lambda>clearResp.
        if rspStatus clearResp \<noteq> 1 then fail (ErrText (''TEE clear failed: '' @ rspLog clearResp))
        else if rspSubmissionTag clearResp \<noteq> Threshold (vLib V)
        then fail (ErrText (''clear result carries submission tag '' @ Quote (IsPrintHigh E) (rspSubmissionTag clearResp) @ '', need '' @
               Quote (IsPrintHigh E) (Threshold (vLib V)) @ '' '' @ emdash @ '' the contract only verifies threshold-tagged signatures''))
        else if length (rspSignature clearResp) \<noteq> 65
        then fail (ErrText (''proxy returned '' @ dec_of_nat (length (rspSignature clearResp)) @ ''-byte TEE signature, want 65''))
        else call (lift (clear_result V clearResp)) id (\<lambda>res.
               if crWinner res \<noteq> PubkeyToAddress E dealerPrv \<or> crUnitPriceWei res \<noteq> bidPrice
               then fail (ErrText (''unexpected clear outcome: winner '' @ AddressHex E (crWinner res) @ '' at '' @
                      dec_of_int (crUnitPriceWei res) @ '' (submitted '' @ dec_of_int (crSubmittedBidCount res) @ '', eligible '' @
                      dec_of_int (crEligibleBidCount res) @ '')''))
               else ret (res, rspSignature clearResp))))"

text \<open>Steps 8 and 9: settlement, and the final state; the two balances are only printed, an error of their calls is ignored.\<close>

definition settle :: "'c test_env \<Rightarrow> Support \<Rightarrow> 'c auction_contract \<Rightarrow> int \<Rightarrow> ClearResult \<Rightarrow> bytes \<Rightarrow> ('c, receipt) act" where
  "settle V s sender auctionID res sig =
     call (sendTx V s ''settleAuction'' (\<lambda>opts. SettleAuctionTx sender opts auctionID res sig) (Prv s) 0) id (\<lambda>receipt.
       case first_event (ParseAuctionSettled sender) (rLogs receipt) of
         None \<Rightarrow> fail (ErrText ''AuctionSettled event not found'')
       | Some _ \<Rightarrow> ret receipt)"

definition verify_final :: "'c test_env \<Rightarrow> Support \<Rightarrow> 'c auction_contract \<Rightarrow> 'c token \<Rightarrow> 'c token \<Rightarrow> privkey \<Rightarrow> int \<Rightarrow> ('c, unit) act" where
  "verify_final V s sender baseToken quoteToken dealerPrv auctionID =
     call (GetAuction sender auctionID) id (\<lambda>auction w.
       if AuctionState auction \<noteq> auctionStateSettled
       then (Err (ErrText (''auction state is '' @ dec_of_nat (unat (AuctionState auction)) @ '', want Settled'')), w)
       else (Ok (), snd (BalanceOf quoteToken (PubkeyToAddress (vExt V) (Prv s))
               (snd (BalanceOf baseToken (PubkeyToAddress (vExt V) dealerPrv) w)))))"

text \<open>The flags, and what the final lines print.\<close>

record test_flags =
  fAddresses :: string
  fChain :: string
  fBaseToken :: string
  fQuoteToken :: string
  fLot :: string
  fFloor :: string
  fCeiling :: string
  fBidPrice :: string
  fBidWindow :: "64 word"

record passed =
  pAuction :: int
  pTee :: address
  pBidInstruction :: hash
  pClearInstruction :: hash

text \<open>From the funded escrows to the end, and the whole command.\<close>

definition play_auction :: "'c test_env \<Rightarrow> Support \<Rightarrow> 'c auction_contract \<Rightarrow> 'c token \<Rightarrow> 'c token \<Rightarrow> pubkey \<times> address \<Rightarrow> privkey
    \<Rightarrow> int \<Rightarrow> int \<Rightarrow> int \<Rightarrow> int \<Rightarrow> 64 word \<Rightarrow> ('c, passed) act" where
  "play_auction V s sender baseToken quoteToken tee dealerPrv lot floor ceiling bidPrice bidWindow w =
     (let bidDeadline = bid_deadline (Clock (vLib V) w) bidWindow in
      call (create_auction V s sender (snd tee) lot floor ceiling bidDeadline) id (\<lambda>auctionID.
        call (submit_bid V s sender (fst tee) dealerPrv auctionID bidPrice) id (\<lambda>bidInstructionID.
          call (confirm_bid V dealerPrv bidInstructionID) id (\<lambda>_ w.
            call (request_clear V s sender auctionID) id (\<lambda>clearInstructionID.
              call (fetch_clear V dealerPrv bidPrice clearInstructionID) id (\<lambda>(res, sig).
                call (settle V s sender auctionID res sig) id (\<lambda>_.
                  call (verify_final V s sender baseToken quoteToken dealerPrv auctionID) id (\<lambda>_.
                    ret \<lparr>pAuction = auctionID, pTee = snd tee, pBidInstruction = bidInstructionID,
                         pClearInstruction = clearInstructionID\<rparr>)))) (wait_window V bidDeadline w)))) w)"

definition run_test :: "'c test_env \<Rightarrow> node \<Rightarrow> host \<Rightarrow> test_flags \<Rightarrow> ('c, passed) act" where
  "run_test V N H F =
     (let E = vExt V; C = vContracts V in
      call (lift (mustBig E (fLot F) ''lot'')) id (\<lambda>lot.
        call (lift (mustBig E (fFloor F) ''floor'')) id (\<lambda>floor.
          call (lift (mustBig E (fCeiling F) ''ceiling'')) id (\<lambda>ceiling.
            call (lift (mustBig E (fBidPrice F) ''bidPrice'')) id (\<lambda>bidPrice.
              if fBaseToken F = [] \<or> fQuoteToken F = []
              then fail (ErrText ''baseToken and quoteToken are required (pre-build.sh writes them into config/extension.env)'')
              else call (lift (DefaultSupport E N H (fAddresses F) (fChain F))) id (\<lambda>s.
                call (lift (dealerKey E (Dotenv N H) (Prv s))) id (\<lambda>dealerPrv.
                  call (lift (NewQuietFillAuction C (vSender V))) id (\<lambda>sender.
                    call (cache_extension_id V s sender) id (\<lambda>_.
                      call (live_tee V) id (\<lambda>tee.
                        call (lift (NewTestToken C (HexToAddress E (fBaseToken F)))) id (\<lambda>baseToken.
                          call (lift (NewTestToken C (HexToAddress E (fQuoteToken F)))) id (\<lambda>quoteToken.
                            call (fund_escrows V s sender baseToken quoteToken dealerPrv lot ceiling) id (\<lambda>_.
                              play_auction V s sender baseToken quoteToken tee dealerPrv lot floor ceiling bidPrice
                                (fBidWindow F))))))))))))))"

text \<open>The program from \<^verbatim>\<open>init\<close> on: the flags \<open>-p\<close> and \<open>-instructionSender\<close> give the proxy and the contract.\<close>

definition run_test_main :: "'c test_env \<Rightarrow> node \<Rightarrow> host \<Rightarrow> string \<Rightarrow> string \<Rightarrow> test_flags \<Rightarrow> ('c, passed) act" where
  "run_test_main V N H pf instructionSender F =
     call (lift (init_args (ParseType (vLib V)))) id (\<lambda>args.
       run_test (V\<lparr>vArgs := args, vURL := pf, vSender := HexToAddress (vExt V) instructionSender\<rparr>) N H F)"

text \<open>The flags when none is given; the token addresses come from the environment.\<close>

definition default_flags :: "host \<Rightarrow> test_flags" where
  "default_flags H =
     \<lparr>fAddresses = AddressesFile, fChain = ChainNodeURL, fBaseToken = Getenv H ''BASE_TOKEN'', fQuoteToken = Getenv H ''QUOTE_TOKEN'',
      fLot = ''100000000'', fFloor = ''2000000000000000000'', fCeiling = ''2500000000000000000'', fBidPrice = ''2200000000000000000'',
      fBidWindow = 90\<rparr>"

subsection \<open>The retry loops\<close>

primrec final_round :: "round \<Rightarrow> bool" where
  "final_round (Done _) = True"
| "final_round (Fatal _) = True"
| "final_round (Again _) = False"

primrec round_result :: "round \<Rightarrow> receipt result" where
  "round_result (Done receipt) = Ok receipt"
| "round_result (Fatal err) = Err err"
| "round_result (Again err) = Err err"

primrec round_error :: "round \<Rightarrow> goerror \<Rightarrow> goerror" where
  "round_error (Done _) e = e"
| "round_error (Fatal err) e = err"
| "round_error (Again err) e = err"

text \<open>Sleeping before every round but the first is sleeping after every round that another one follows.\<close>

lemma send_loop_started: "send_loop once pause (Suc i) n e w = send_loop once pause (Suc 0) n e w"
proof (induction n arbitrary: i e w)
  case (Suc n)
  obtain r w' where "once (pause w) = (r, w')" by force
  then show ?case using Suc.IH [of "Suc i" _ w'] Suc.IH [of "Suc 0" _ w'] by (cases r) simp_all
qed simp

lemma send_loop_later: "send_loop once pause (Suc i) n e w = send_loop once pause 0 n e (if n = 0 then w else pause w)"
proof (cases n)
  case (Suc m)
  obtain r w' where "once (pause w) = (r, w')" by force
  then show ?thesis using Suc send_loop_started [of once pause "Suc i" m _ w'] by (cases r) simp_all
qed simp

interpretation send: bounded_retry once final_round "\<lambda>n w. if n = 0 then w else pause w" round_error round_result Err
    "send_loop once pause 0" for once pause
proof unfold_locales
  fix w r w' n s
  assume "once w = (r, w')" "\<not> final_round r"
  then show "send_loop once pause 0 (Suc n) s w = send_loop once pause 0 n (round_error r s) (if n = 0 then w' else pause w')"
    by (cases r) (simp_all add: send_loop_later)
qed (auto split: round.split)

interpretation result: bounded_retry ask "\<lambda>r. \<exists>resp. r = Ok resp \<and> rspStatus resp \<noteq> 2" "\<lambda>_. pause"
    "\<lambda>r prev. case r of Ok resp \<Rightarrow> Some resp | Err _ \<Rightarrow> prev" id
    "\<lambda>prev. Err (ErrText (if prev \<noteq> None then ''result for '' @ name @ '' still pending after polling'' else ''no result for '' @ name @ '' from proxy''))"
    "result_loop ask pause name" for ask pause name
  by unfold_locales (auto split: sum.splits)

lemma not_final_round: "\<not> final_round (fst x) \<longleftrightarrow> (\<exists>err w. x = (Again err, w))"
  by (cases x; cases "fst x") auto

lemma find_done:
  "find (\<lambda>x. final_round (fst x)) xs = Some (Done receipt, w') \<longleftrightarrow>
     (\<exists>i<length xs. xs ! i = (Done receipt, w') \<and> (\<forall>j<i. \<exists>err w. xs ! j = (Again err, w)))"
proof -
  have "find (\<lambda>x. final_round (fst x)) xs = Some (Done receipt, w') \<longleftrightarrow>
      (\<exists>i<length xs. final_round (fst (xs ! i)) \<and> (Done receipt, w') = xs ! i \<and> (\<forall>j<i. \<not> final_round (fst (xs ! j))))"
    by (simp add: find_Some_iff)
  also have "\<dots> \<longleftrightarrow> (\<exists>i<length xs. xs ! i = (Done receipt, w') \<and> (\<forall>j<i. \<not> final_round (fst (xs ! j))))" by auto
  finally show ?thesis unfolding not_final_round .
qed

text \<open>C15: sendTxRetry sends at most the given number of transactions and stops at the first that is mined: it returns a receipt exactly when some
  attempt ends with it and every attempt before it failed in a way that allows another one, and then nothing is sent after it;
  between two attempts it sleeps.\<close>

theorem sendTxRetry_first_success:
  "sendTxRetry V s label mk key val n w = (Ok receipt, w') \<longleftrightarrow>
     (\<exists>i<n. attempts (send_once (vExt V) (vEth V) s label mk key val) (\<lambda>k w. if k = 0 then w else Sleep (vProxy V) 5 w) n w ! i =
          (Done receipt, w') \<and>
        (\<forall>j<i. \<exists>err w1. attempts (send_once (vExt V) (vEth V) s label mk key val) (\<lambda>k w. if k = 0 then w else Sleep (vProxy V) 5 w) n w
           ! j = (Again err, w1)))"
  (is "?l \<longleftrightarrow> ?r")
proof -
  let ?once = "send_once (vExt V) (vEth V) s label mk key val"
  let ?pause = "Sleep (vProxy V) 5"
  let ?as = "attempts ?once (\<lambda>k w. if k = 0 then w else ?pause w) n w"
  have "?r \<longleftrightarrow> find (\<lambda>x. final_round (fst x)) ?as = Some (Done receipt, w')"
    unfolding find_done length_attempts ..
  also have "\<dots> \<longleftrightarrow> ?l"
  proof (cases "find (\<lambda>x. final_round (fst x)) ?as")
    case None
    then show ?thesis using send.loop_none [OF None, of "ErrText ''<nil>''"] by (auto simp: sendTxRetry_def)
  next
    case (Some x)
    obtain r w1 where x: "x = (r, w1)" by force
    then have "sendTxRetry V s label mk key val n w = (round_result r, w1)" "final_round r"
      using send.loop_first [OF Some [unfolded x]] find_SomeD [OF Some] by (simp_all add: sendTxRetry_def)
    then show ?thesis using Some x by (cases r) auto
  qed
  finally show ?thesis ..
qed

text \<open>What each of the rounds of pollResult may be: final, or pending, or failed.\<close>

definition final_answer :: "action_response result \<Rightarrow> bool" where
  "final_answer r = (case r of Ok resp \<Rightarrow> rspStatus resp \<noteq> 2 | Err _ \<Rightarrow> False)"

text \<open>C16: pollResult asks at most twenty times and returns the first answer that is not pending; if there is none it fails, and the error
  says that the result is still pending exactly when the proxy answered at all.\<close>

theorem pollResult_first_final:
  "fst (pollResult V i w) =
     (let asked = attempts (ActionResult (vExt V) (vProxy V) (vURL V) i) (\<lambda>_. Sleep (vProxy V) 3) 20 w in
      case find (\<lambda>x. final_answer (fst x)) asked of
        Some (r, _) \<Rightarrow> r
      | None \<Rightarrow>
          if \<exists>x\<in>set asked. \<exists>resp. fst x = Ok resp
          then Err (ErrText (''result for '' @ HashHex (vExt V) i @ '' still pending after polling''))
          else Err (ErrText (''no result for '' @ HashHex (vExt V) i @ '' from proxy'')))"
proof -
  let ?as = "attempts (ActionResult (vExt V) (vProxy V) (vURL V) i) (\<lambda>_. Sleep (vProxy V) 3) 20 w"
  have "fold (\<lambda>x prev. case fst x of Err _ \<Rightarrow> prev | Ok resp \<Rightarrow> Some resp) xs prev \<noteq> None \<longleftrightarrow>
      prev \<noteq> None \<or> (\<exists>x\<in>set xs. \<exists>resp. fst x = Ok resp)" for xs :: "(action_response result \<times> 'a) list" and prev
    by (induction xs arbitrary: prev) (auto split: sum.split)
  note acc = this [of ?as None]
  have "(\<lambda>x. \<exists>resp. fst x = Ok resp \<and> rspStatus resp \<noteq> 2) = (\<lambda>x :: action_response result \<times> 'a. final_answer (fst x))"
    by (auto simp: final_answer_def fun_eq_iff split: sum.split)
  then show ?thesis
    using result.loop_result [of "ActionResult (vExt V) (vProxy V) (vURL V) i" "Sleep (vProxy V) 3" "HashHex (vExt V) i" 20 None w] acc
    by (simp add: pollResult_def Let_def split: option.split)
qed

subsection \<open>Escrow funds\<close>

text \<open>What is relied on of a token: \<open>bal\<close> is never negative, balanceOf reads it without lowering it, and a mint that is mined without failure
  credits the amount.\<close>

definition token_laws :: "'c eth \<Rightarrow> 'c token \<Rightarrow> ('c \<Rightarrow> address \<Rightarrow> int) \<Rightarrow> bool" where
  "token_laws X token bal \<longleftrightarrow>
     (\<forall>w a. 0 \<le> bal w a) \<and>
     (\<forall>w a b w'. BalanceOf token a w = (Ok b, w') \<longrightarrow> b = bal w a \<and> bal w a \<le> bal w' a) \<and>
     (\<forall>opts a k w tx w1 rc w2. MintTx token opts a k w = (Ok tx, w1) \<longrightarrow> WaitMined X tx w1 = (Ok rc, w2) \<longrightarrow> rStatus rc \<noteq> 0 \<longrightarrow>
        bal w a + k \<le> bal w2 a)"

text \<open>C20: When ensureFunds returns, the holder has the needed amount, minted if it was short; a holder who had it is only asked for the balance.\<close>

theorem ensureFunds_sufficient:
  assumes "token_laws X token bal" "ensureFunds E X s token name holder key needed w = (Ok (), w')"
  shows "needed \<le> bal w' holder \<and> (needed \<le> bal w holder \<longrightarrow> w' = snd (BalanceOf token holder w))"
proof -
  obtain b w1 where b: "BalanceOf token holder w = (Ok b, w1)"
    using assms(2) by (auto simp: ensureFunds_def call_Ok_iff)
  then have enough: "needed \<le> b \<Longrightarrow> w' = w1"
    and short: "\<not> needed \<le> b \<Longrightarrow> \<exists>opts tx w2 rc. MintTx token opts holder needed w1 = (Ok tx, w2) \<and> CheckTx E X tx w2 = (Ok rc, w')"
    using assms(2) by (auto simp: ensureFunds_def call_Ok_iff)
  have laws: "b = bal w holder" "bal w holder \<le> bal w1 holder" "0 \<le> bal w1 holder"
    using assms(1) b unfolding token_laws_def by blast+
  show ?thesis
  proof (cases "needed \<le> b")
    case True
    then show ?thesis using enough laws b by simp
  next
    case False
    then obtain opts tx w2 rc where "MintTx token opts holder needed w1 = (Ok tx, w2)" "WaitMined X tx w2 = (Ok rc, w')" "rStatus rc \<noteq> 0"
      using short by (auto simp: CheckTx_success)
    then have "bal w1 holder + needed \<le> bal w' holder" using assms(1) unfolding token_laws_def by blast
    then show ?thesis using laws False by simp
  qed
qed

subsection \<open>The bid window\<close>

lemma small_words:
  "0 \<le> i \<Longrightarrow> i < 2 ^ 63 \<Longrightarrow> sint (of_int i :: 64 word) = i"
  "0 \<le> i \<Longrightarrow> i < 2 ^ 63 \<Longrightarrow> unat (of_int i :: 64 word) = nat i"
  by (simp_all add: sint_uint unat_eq_nat_uint uint_word_of_int signed_take_bit_int_eq_self)

text \<open>C14: The clear is never requested before the bid window is over: for any window that fits a duration, after the wait the clock is at least two
  seconds past the deadline that was put on the chain when the auction was created, provided sleeping lasts at least as long as asked and the clock was not
  set back; and the settlement deadline is half an hour after the bid deadline, without wrap-around.\<close>

theorem bid_window_is_over:
  assumes "\<forall>d w. Clock (vLib V) w + d \<le> Clock (vLib V) (SleepNs (vLib V) d w)"
    and "0 \<le> sint bidWindow" "sint bidWindow < 9000000000" "0 \<le> Clock (vLib V) w0" "Clock (vLib V) w0 < 2 ^ 69"
    and "Clock (vLib V) w0 \<le> Clock (vLib V) w"
  shows "unat (bid_deadline (Clock (vLib V) w0) bidWindow) = nat (Clock (vLib V) w0 div 10 ^ 9 + sint bidWindow) \<and>
     (Clock (vLib V) w0 div 10 ^ 9 + sint bidWindow + 2) * 10 ^ 9
       \<le> Clock (vLib V) (wait_window V (bid_deadline (Clock (vLib V) w0) bidWindow) w) \<and>
     unat (settle_deadline (bid_deadline (Clock (vLib V) w0) bidWindow)) =
       unat (bid_deadline (Clock (vLib V) w0) bidWindow) + 1800"
proof -
  let ?now = "Clock (vLib V) w0 div 10 ^ 9"
  let ?n = "?now + sint bidWindow"
  let ?d = "bid_deadline (Clock (vLib V) w0) bidWindow"
  have now: "0 \<le> ?n" "?n < 2 ^ 41" using assms(2-5) by auto
  have d: "?d + of_int k = of_int (?n + k)" for k by (simp add: bid_deadline_def)
  have u: "unat (?d + of_int k) = nat (?n + k)" if "0 \<le> k" "k < 2 ^ 41" for k
    unfolding d using now that by (intro small_words(2)) simp_all
  have "sint (?d + of_int (2 + unix_to_internal)) = ?n + (2 + unix_to_internal)"
    unfolding d using now by (intro small_words(1)) (simp_all add: unix_to_internal_def)
  then have "sint (?d + 2 + of_int unix_to_internal) = ?n + 2 + unix_to_internal" by (simp add: add.assoc)
  then have t: "time_until (?d + 2) (Clock (vLib V) w) =
      max (- (2 ^ 63)) (min (2 ^ 63 - 1) ((?n + 2) * 10 ^ 9 - Clock (vLib V) w))"
    by (simp add: time_until_def)
  have "(?n + 2) * 10 ^ 9 - Clock (vLib V) w < 2 ^ 63"
    using assms(2,3,6) by (simp add: algebra_simps)
  with t have "(?n + 2) * 10 ^ 9 \<le> Clock (vLib V) w + max 0 (time_until (?d + 2) (Clock (vLib V) w))" by simp
  moreover have "Clock (vLib V) w + max 0 (time_until (?d + 2) (Clock (vLib V) w)) \<le> Clock (vLib V) (wait_window V ?d w)"
    using assms(1) by (auto simp: wait_window_def Let_def)
  ultimately have "(?n + 2) * 10 ^ 9 \<le> Clock (vLib V) (wait_window V ?d w)" by linarith
  moreover have "unat ?d = nat ?n" "unat (settle_deadline ?d) = nat (?n + 1800)"
    using u [of 0] u [of 1800] by (simp_all add: settle_deadline_def)
  moreover have "nat (?n + 1800) = nat ?n + 1800" using now(1) by linarith
  ultimately show ?thesis by simp
qed

subsection \<open>What a passed run has established\<close>

text \<open>The stages read backwards: what each has checked when it succeeds.\<close>

lemma create_auctionD:
  "create_auction V s sender teeID lot floor ceiling bidDeadline w = (Ok auctionID, w') \<Longrightarrow>
   \<exists>w1 info. GetAuction sender auctionID w1 = (Ok info, w') \<and> TeeId info = teeID"
  by (auto simp: create_auction_def call_Ok_iff split: option.splits if_splits)

lemma confirm_bidD:
  "confirm_bid V dealerPrv i w = (Ok commitment, w') \<Longrightarrow>
   \<exists>resp vals. pollResult V i w = (Ok resp, w') \<and> rspStatus resp = 1 \<and>
     Unpack (vLib V) (bidReceiptArgs (vArgs V)) (rspData resp) = Ok vals \<and>
     assert_at as_Address vals 2 = Ok (PubkeyToAddress (vExt V) dealerPrv) \<and> assert_at as_bytes32 vals 4 = Ok commitment"
  by (auto simp: confirm_bid_def Let_def call_Ok_iff split: if_splits)

lemma fetch_clearD:
  "fetch_clear V dealerPrv bidPrice i w = (Ok (res, sig), w') \<Longrightarrow>
   \<exists>resp. pollResult V i w = (Ok resp, w') \<and> rspStatus resp = 1 \<and> rspSubmissionTag resp = Threshold (vLib V) \<and>
     clear_result V resp = Ok res \<and> crWinner res = PubkeyToAddress (vExt V) dealerPrv \<and> crUnitPriceWei res = bidPrice \<and>
     sig = rspSignature resp \<and> length sig = 65"
  by (auto simp: fetch_clear_def Let_def call_Ok_iff split: if_splits)

lemma settleD:
  "settle V s sender auctionID res sig w = (Ok receipt, w') \<Longrightarrow>
   sendTx V s ''settleAuction'' (\<lambda>opts. SettleAuctionTx sender opts auctionID res sig) (Prv s) 0 w = (Ok receipt, w') \<and>
   first_event (ParseAuctionSettled sender) (rLogs receipt) \<noteq> None"
  by (auto simp: settle_def call_Ok_iff split: option.splits)

lemma verify_finalD:
  "verify_final V s sender baseToken quoteToken dealerPrv auctionID w = (Ok (), w') \<Longrightarrow>
   \<exists>info w1. GetAuction sender auctionID w = (Ok info, w1) \<and> AuctionState info = 3"
  by (auto simp: verify_final_def call_Ok_iff auctionStateSettled_def split: if_splits)

lemma first_event_iff: "first_event parse ls \<noteq> None \<longleftrightarrow> (\<exists>l\<in>set ls. \<exists>ev. parse l = Ok ev)"
  by (induction ls) (auto split: sum.split)

lemma run_test_plays:
  assumes "run_test V N H F w = (Ok p, w')"
  shows "\<exists>s sender dealerPrv price baseToken quoteToken tee lot floor ceiling wt wt' w1.
    DefaultSupport (vExt V) N H (fAddresses F) (fChain F) = Ok s \<and> dealerKey (vExt V) (Dotenv N H) (Prv s) = Ok dealerPrv \<and>
    NewQuietFillAuction (vContracts V) (vSender V) = Ok sender \<and> mustBig (vExt V) (fBidPrice F) ''bidPrice'' = Ok price \<and>
    mustBig (vExt V) (fLot F) ''lot'' = Ok lot \<and> mustBig (vExt V) (fFloor F) ''floor'' = Ok floor \<and>
    mustBig (vExt V) (fCeiling F) ''ceiling'' = Ok ceiling \<and> live_tee V wt = (Ok tee, wt') \<and>
    play_auction V s sender baseToken quoteToken tee dealerPrv lot floor ceiling price (fBidWindow F) w1 = (Ok p, w')"
proof -
  have t: "\<not> (fBaseToken F = [] \<or> fQuoteToken F = [])" using assms by (auto simp: run_test_def Let_def call_Ok_iff)
  show ?thesis
    using assms unfolding run_test_def Let_def if_not_P [OF t] call_Ok_iff lift_apply prod.inject
    by (elim exE conjE, hypsubst) (intro exI conjI, assumption+)
qed

lemma play_auctionD:
  assumes "play_auction V s sender baseToken quoteToken tee dealerPrv lot floor ceiling price window w = (Ok p, w')"
  shows "\<exists>w1 w2 w3 w4 w5 w6 w7 commitment res sig receipt.
    create_auction V s sender (snd tee) lot floor ceiling (bid_deadline (Clock (vLib V) w) window) w = (Ok (pAuction p), w1) \<and>
    submit_bid V s sender (fst tee) dealerPrv (pAuction p) price w1 = (Ok (pBidInstruction p), w2) \<and>
    confirm_bid V dealerPrv (pBidInstruction p) w2 = (Ok commitment, w3) \<and>
    request_clear V s sender (pAuction p) (wait_window V (bid_deadline (Clock (vLib V) w) window) w3) = (Ok (pClearInstruction p), w4) \<and>
    fetch_clear V dealerPrv price (pClearInstruction p) w4 = (Ok (res, sig), w5) \<and>
    settle V s sender (pAuction p) res sig w5 = (Ok receipt, w6) \<and>
    verify_final V s sender baseToken quoteToken dealerPrv (pAuction p) w6 = (Ok (), w7) \<and> pTee p = snd tee"
  using assms by (fastforce simp: play_auction_def Let_def call_Ok_iff)

text \<open>C1: A run that reports PASSED has established the auction's outcome: the TEE that the proxy serves was asked for its key, the auction was created with
  the amounts of the flags and a bid deadline counted from the clock at that moment, and it is pinned to that TEE; the bid was encrypted to its key, and
  its receipt of the bid names the dealer; the clear was requested only after the wait for that bid deadline; the clear result that was settled
  is the threshold-tagged, 65-byte signed one that the proxy returned for the clear instruction, with the dealer as winner at the price that was bid; the settlement was
  mined with an AuctionSettled event, and the contract then reports the auction as settled.\<close>

theorem run_test_passed:
  assumes "run_test V N H F w = (Ok p, w')"
  shows "\<exists>s sender dealerPrv price lot floor ceiling wt teePub wt' w1 w2 w3 info w4 bidResp w5 vals commitment w6 clearResp w7 res receipt w8 final.
     DefaultSupport (vExt V) N H (fAddresses F) (fChain F) = Ok s \<and> NewQuietFillAuction (vContracts V) (vSender V) = Ok sender \<and>
     dealerKey (vExt V) (Dotenv N H) (Prv s) = Ok dealerPrv \<and>
     mustBig (vExt V) (fBidPrice F) ''bidPrice'' = Ok price \<and> mustBig (vExt V) (fLot F) ''lot'' = Ok lot \<and>
     mustBig (vExt V) (fFloor F) ''floor'' = Ok floor \<and> mustBig (vExt V) (fCeiling F) ''ceiling'' = Ok ceiling \<and>
     live_tee V wt = (Ok (teePub, pTee p), wt') \<and>
     create_auction V s sender (pTee p) lot floor ceiling (bid_deadline (Clock (vLib V) w5) (fBidWindow F)) w5 = (Ok (pAuction p), w2) \<and>
     submit_bid V s sender teePub dealerPrv (pAuction p) price w2 = (Ok (pBidInstruction p), w3) \<and>
     GetAuction sender (pAuction p) w1 = (Ok info, w2) \<and> TeeId info = pTee p \<and>
     pollResult V (pBidInstruction p) w3 = (Ok bidResp, w4) \<and> rspStatus bidResp = 1 \<and>
     Unpack (vLib V) (bidReceiptArgs (vArgs V)) (rspData bidResp) = Ok vals \<and>
     assert_at as_Address vals 2 = Ok (PubkeyToAddress (vExt V) dealerPrv) \<and> assert_at as_bytes32 vals 4 = Ok commitment \<and>
     request_clear V s sender (pAuction p) (wait_window V (bid_deadline (Clock (vLib V) w5) (fBidWindow F)) w4) =
       (Ok (pClearInstruction p), w6) \<and>
     pollResult V (pClearInstruction p) w6 = (Ok clearResp, w7) \<and> rspStatus clearResp = 1 \<and>
     rspSubmissionTag clearResp = Threshold (vLib V) \<and> length (rspSignature clearResp) = 65 \<and>
     clear_result V clearResp = Ok res \<and> crWinner res = PubkeyToAddress (vExt V) dealerPrv \<and> crUnitPriceWei res = price \<and> 0 < price \<and>
     sendTx V s ''settleAuction'' (\<lambda>opts. SettleAuctionTx sender opts (pAuction p) res (rspSignature clearResp)) (Prv s) 0 w7 =
       (Ok receipt, w8) \<and>
     (\<exists>l\<in>set (rLogs receipt). ParseAuctionSettled sender l = Ok ()) \<and>
     fst (GetAuction sender (pAuction p) w8) = Ok final \<and> AuctionState final = 3"
proof -
  obtain s sender dealerPrv price bt qt tee lot floor ceiling wt wt' w5 where
      sup: "DefaultSupport (vExt V) N H (fAddresses F) (fChain F) = Ok s" "NewQuietFillAuction (vContracts V) (vSender V) = Ok sender"
      "dealerKey (vExt V) (Dotenv N H) (Prv s) = Ok dealerPrv" and price: "mustBig (vExt V) (fBidPrice F) ''bidPrice'' = Ok price"
      "mustBig (vExt V) (fLot F) ''lot'' = Ok lot" "mustBig (vExt V) (fFloor F) ''floor'' = Ok floor"
      "mustBig (vExt V) (fCeiling F) ''ceiling'' = Ok ceiling"
    and live: "live_tee V wt = (Ok tee, wt')"
    and play: "play_auction V s sender bt qt tee dealerPrv lot floor ceiling price (fBidWindow F) w5 = (Ok p, w')"
    using run_test_plays [OF assms] by blast
  have pos: "0 < price" using price(1) by (auto simp: mustBig_def split: option.splits if_splits)
  from play_auctionD [OF play] obtain w1 w2 w3 w4 w7 w8 w9 commitment res sig receipt where
      cr: "create_auction V s sender (snd tee) lot floor ceiling (bid_deadline (Clock (vLib V) w5) (fBidWindow F)) w5 = (Ok (pAuction p), w1)"
      "pTee p = snd tee"
    and sb: "submit_bid V s sender (fst tee) dealerPrv (pAuction p) price w1 = (Ok (pBidInstruction p), w2)"
    and cb: "confirm_bid V dealerPrv (pBidInstruction p) w2 = (Ok commitment, w3)"
    and rc: "request_clear V s sender (pAuction p) (wait_window V (bid_deadline (Clock (vLib V) w5) (fBidWindow F)) w3) =
        (Ok (pClearInstruction p), w4)"
    and fc: "fetch_clear V dealerPrv price (pClearInstruction p) w4 = (Ok (res, sig), w7)"
    and st: "settle V s sender (pAuction p) res sig w7 = (Ok receipt, w8)"
    and vf: "verify_final V s sender bt qt dealerPrv (pAuction p) w8 = (Ok (), w9)" by blast
  from create_auctionD [OF cr(1)] cr(2) obtain wa info where a: "GetAuction sender (pAuction p) wa = (Ok info, w1)" "TeeId info = pTee p"
    by auto
  from confirm_bidD [OF cb] obtain bidResp vals where b: "pollResult V (pBidInstruction p) w2 = (Ok bidResp, w3)"
      "rspStatus bidResp = 1" "Unpack (vLib V) (bidReceiptArgs (vArgs V)) (rspData bidResp) = Ok vals"
      "assert_at as_Address vals 2 = Ok (PubkeyToAddress (vExt V) dealerPrv)" "assert_at as_bytes32 vals 4 = Ok commitment"
    by blast
  from fetch_clearD [OF fc] obtain clearResp where f: "pollResult V (pClearInstruction p) w4 = (Ok clearResp, w7)"
      "rspStatus clearResp = 1" "rspSubmissionTag clearResp = Threshold (vLib V)" "clear_result V clearResp = Ok res"
      "crWinner res = PubkeyToAddress (vExt V) dealerPrv" "crUnitPriceWei res = price" "sig = rspSignature clearResp" "length sig = 65"
    by blast
  have ev: "\<exists>l\<in>set (rLogs receipt). ParseAuctionSettled sender l = Ok ()"
    using settleD [OF st] first_event_iff [of "ParseAuctionSettled sender" "rLogs receipt"] by auto
  from verify_finalD [OF vf] obtain fin where fin: "fst (GetAuction sender (pAuction p) w8) = Ok fin" "AuctionState fin = 3" by auto
  have tx: "sendTx V s ''settleAuction'' (\<lambda>opts. SettleAuctionTx sender opts (pAuction p) res (rspSignature clearResp)) (Prv s) 0 w7 =
      (Ok receipt, w8)" using settleD [OF st] f(7) by simp
  have len: "length (rspSignature clearResp) = 65" using f(7,8) by simp
  have tee: "live_tee V wt = (Ok (fst tee, pTee p), wt')" using live cr(2) by simp
  show ?thesis
    using sup price pos tee cr(1) [folded cr(2)] sb a b rc f(1-6) tx len ev fin by - (intro exI conjI, assumption+)
qed

subsection \<open>The argument lists and the type assertions\<close>

text \<open>The lists in terms of the types.\<close>

definition elaborated_args :: test_args where
  "elaborated_args =
     \<lparr>bidTupleArgs = [([], TupleTy [(''bidder'', AddressTy), (''contractAddr'', AddressTy), (''auctionId'', UintTy 256), (''nonce'', UintTy 64),
        (''unitPriceWei'', UintTy 256), (''salt'', FixedBytesTy 32)])],
      bidReceiptArgs = [(''contractAddr'', AddressTy), (''auctionId'', UintTy 256), (''bidder'', AddressTy), (''nonce'', UintTy 64),
        (''bidCommitment'', FixedBytesTy 32)],
      clearResultArgs = [(''contractAddr'', AddressTy), (''auctionId'', UintTy 256), (''winner'', AddressTy), (''unitPriceWei'', UintTy 256),
        (''winningNonce'', UintTy 64), (''winningCommitment'', FixedBytesTy 32), (''submittedBidCount'', UintTy 256),
        (''eligibleBidCount'', UintTy 256)]\<rparr>"

lemma init_args_Ok:
  assumes "type_names NewType"
  shows "init_args NewType = Ok elaborated_args"
  by (simp add: init_args_def mustType_def type_namesD [OF assms] elaborated_args_def elementary_def)

lemma of_types_receipt:
  "of_types (bidReceiptArgs elaborated_args) vals \<longleftrightarrow>
     (\<exists>c i b n h. vals = [VAddress c, VBig i, VAddress b, VUint64 n, VBytes32 h] \<and> 0 \<le> i \<and> i < 2 ^ 256)"
  by (auto simp: elaborated_args_def of_types_Cons of_types_Nil of_type_iffs)

lemma of_types_clear:
  "of_types (clearResultArgs elaborated_args) vals \<longleftrightarrow>
     (\<exists>c i w p n h k l. vals = [VAddress c, VBig i, VAddress w, VBig p, VUint64 n, VBytes32 h, VBig k, VBig l] \<and>
        (\<forall>x\<in>{i, p, k, l}. 0 \<le> x \<and> x < 2 ^ 256))"
  by (auto simp: elaborated_args_def of_types_Cons of_types_Nil of_type_iffs)

text \<open>C4: The type assertions of run-test never panic. If the ABI library knows the elementary type names and unpacks to values of the types it was
  given, then \<^verbatim>\<open>init\<close> succeeds, and with the argument lists it built every assertion on a bid receipt finds the type it asserts, so that confirming a bid
  never panics once the answer to the poll is there, and the clear result is read into the struct field by field in the order of the list, all amounts being unsigned 256-bit numbers.\<close>

theorem type_assertions_hold:
  assumes "type_names (ParseType (vLib V))" "\<forall>args data vals. Unpack (vLib V) args data = Ok vals \<longrightarrow> of_types args vals"
  shows "\<exists>args. init_args (ParseType (vLib V)) = Ok args \<and>
     (vArgs V = args \<longrightarrow>
        (\<forall>data vals. Unpack (vLib V) (bidReceiptArgs args) data = Ok vals \<longrightarrow>
           (\<exists>bidder commitment. assert_at as_Address vals 2 = Ok bidder \<and> assert_at as_bytes32 vals 4 = Ok commitment)) \<and>
        (\<forall>dealerPrv i w resp w1 msg w'. pollResult V i w = (Ok resp, w1) \<longrightarrow> confirm_bid V dealerPrv i w \<noteq> (Err (Panic msg), w')) \<and>
        (\<forall>resp vals. Unpack (vLib V) (clearResultArgs args) (rspData resp) = Ok vals \<longrightarrow>
           (\<exists>res. clear_result V resp = Ok res \<and>
              vals = [VAddress (crContractAddr res), VBig (crAuctionId res), VAddress (crWinner res), VBig (crUnitPriceWei res),
                VUint64 (crWinningNonce res), VBytes32 (crWinningCommitment res), VBig (crSubmittedBidCount res),
                VBig (crEligibleBidCount res)] \<and>
              (\<forall>x\<in>{crAuctionId res, crUnitPriceWei res, crSubmittedBidCount res, crEligibleBidCount res}. 0 \<le> x \<and> x < 2 ^ 256))))"
proof -
  have receipt: "\<exists>bidder commitment. assert_at as_Address vals 2 = Ok bidder \<and> assert_at as_bytes32 vals 4 = Ok commitment"
    if "Unpack (vLib V) (bidReceiptArgs elaborated_args) data = Ok vals" for data vals
  proof -
    have "of_types (bidReceiptArgs elaborated_args) vals" using assms(2) that by blast
    then show ?thesis by (auto simp: of_types_receipt assertions)
  qed
  have clear: "\<exists>res. clear_result V resp = Ok res \<and>
      vals = [VAddress (crContractAddr res), VBig (crAuctionId res), VAddress (crWinner res), VBig (crUnitPriceWei res),
        VUint64 (crWinningNonce res), VBytes32 (crWinningCommitment res), VBig (crSubmittedBidCount res), VBig (crEligibleBidCount res)] \<and>
      (\<forall>x\<in>{crAuctionId res, crUnitPriceWei res, crSubmittedBidCount res, crEligibleBidCount res}. 0 \<le> x \<and> x < 2 ^ 256)"
    if "Unpack (vLib V) (clearResultArgs elaborated_args) (rspData resp) = Ok vals" "vArgs V = elaborated_args" for resp vals
  proof -
    have "of_types (clearResultArgs elaborated_args) vals" using assms(2) that by blast
    then show ?thesis using that by (auto simp: of_types_clear clear_result_def assertions)
  qed
  have confirm: "confirm_bid V dealerPrv i w \<noteq> (Err (Panic msg), w')"
    if "vArgs V = elaborated_args" "pollResult V i w = (Ok resp, w1)" for dealerPrv i w resp w1 msg w'
  proof (cases "Unpack (vLib V) (bidReceiptArgs elaborated_args) (rspData resp)")
    case (Inl err)
    then show ?thesis using that by (simp add: confirm_bid_def Errorf_def Let_def)
  next
    case (Inr vals)
    then obtain b h where "assert_at as_Address vals 2 = Ok b" "assert_at as_bytes32 vals 4 = Ok h" using receipt by blast
    then show ?thesis using Inr that by (simp add: confirm_bid_def Let_def)
  qed
  show ?thesis
    by (intro exI [of _ elaborated_args] conjI impI allI)
       (use init_args_Ok [OF assms(1)] receipt clear confirm in auto)
qed

subsection \<open>Witnesses: a run on a chain that accepts everything\<close>

definition demo_auction :: "nat auction_contract" where
  "demo_auction =
     \<lparr>GetExtensionId = (\<lambda>n. (Ok 7, n)), SetExtensionIdTx = (\<lambda>_ n. (Ok demo_tx, n)), QuoteAmount = (\<lambda>lot p n. (Ok 10, n)),
      CreateAuctionTx = (\<lambda>_ _ _ _ _ _ n. (Ok demo_tx, n)), ParseAuctionCreated = (\<lambda>_. Ok 5),
      GetAuction = (\<lambda>_ n. (Ok \<lparr>TeeId = 1, AuctionState = 3\<rparr>, n)), SubmitPrivateBidTx = (\<lambda>_ _ _ n. (Ok demo_tx, n)),
      ParsePrivateBidSubmitted = (\<lambda>_. Ok 8), RequestClearTx = (\<lambda>_ _ n. (Ok demo_tx, n)), ParseClearRequested = (\<lambda>_. Ok 9),
      SettleAuctionTx = (\<lambda>_ _ _ _ n. (Ok demo_tx, n)), ParseAuctionSettled = (\<lambda>_. Ok ())\<rparr>"

text \<open>The library unpacks every list of elementary arguments, whatever the data, to the dealer 64 wherever an address is asked for, to the price 4
  under the name of the price, and to 1 elsewhere.\<close>

definition demo_value :: "string \<Rightarrow> abi_type \<Rightarrow> abi_value" where
  "demo_value name ty =
     (if ty = AddressTy then VAddress 64 else if ty = UintTy 256 then VBig (if name = ''unitPriceWei'' then 4 else 1)
      else if ty = UintTy 64 then VUint64 1 else VBytes32 3)"

definition demo_unpack :: "abi_args \<Rightarrow> abi_value list result" where
  "demo_unpack args =
     (if list_all (\<lambda>(_, ty). ty \<in> {AddressTy, UintTy 256, UintTy 64, FixedBytesTy 32}) args
      then Ok (map (\<lambda>(name, ty). demo_value name ty) args) else Err (ErrText ''unsupported''))"

lemma demo_unpack_typed: "demo_unpack args = Ok vals \<Longrightarrow> of_types args vals"
proof (induction args arbitrary: vals)
  case (Cons a args)
  obtain name ty where "a = (name, ty)" by force
  moreover have "ty \<in> {AddressTy, UintTy 256, UintTy 64, FixedBytesTy 32} \<Longrightarrow> of_type ty (demo_value name ty)"
    by (auto simp: demo_value_def)
  ultimately show ?case using Cons by (auto simp: demo_unpack_def split: if_splits)
qed (simp add: demo_unpack_def)

definition demo_lib :: "nat test_lib" where
  "demo_lib =
     \<lparr>ParseType = demo_new_type, PackBid = (\<lambda>_ _. Ok []), Unpack = (\<lambda>args _. demo_unpack args), Encrypt = (\<lambda>_ _ n. (Ok [], n)), RandRead = (\<lambda>k n. (Ok (replicate k CHR ''r''), n)),
      Threshold = ''threshold'', Clock = int, SleepNs = (\<lambda>d n. n + nat d)\<rparr>"

definition demo_answers :: "nat proxy" where
  "demo_answers =
     \<lparr>HttpGetBody = (\<lambda>_ n. (Ok (200, []), n)), HttpPost = (\<lambda>_ _ n. (Ok 200, n)), Sleep = (\<lambda>_ n. n),
      DecodeTeeInfo = (\<lambda>_. Ok \<lparr>tiPublicKey = (1, 2), tiChainID = 31337, tiLastSigningPolicyID = 5,
        MachineData = \<lparr>ExtensionID = 7, InitialOwner = 1, CodeHash = 2, Platform = 3, PublicKey = (1, 2), GovernanceHash = 4\<rparr>,
        DataSignature = [], ProxySignature = [], Attestation = []\<rparr>),
      DecodeActionResponse = (\<lambda>_. Ok \<lparr>rspStatus = 1, rspLog = [], rspData = [], rspSubmissionTag = ''threshold'',
        rspSignature = replicate 65 CHR ''s''\<rparr>),
      EncodeProxyURL = (\<lambda>_. Ok []), ParsePubKey = Ok, PubToAddress = (\<lambda>_. 1), TeeInfoHash = (\<lambda>_. Ok 1),
      ProxyPayloadHash = (\<lambda>_ _. Ok 1), TextHash = (\<lambda>h. h), SigToPub = (\<lambda>_ _. Ok (1, 2)), ParseClaims = (\<lambda>_. Ok (Ok 2, Ok 3)),
      GetCurrentRewardEpochId = (\<lambda>n. (Ok (Some 5), n))\<rparr>"

definition demo_test :: "nat test_env" where
  "demo_test =
     \<lparr>vExt = demo_ext, vEth = demo_eth, vProxy = demo_answers,
      vContracts = demo_contracts\<lparr>NewQuietFillAuction := (\<lambda>_. Ok demo_auction)\<rparr>, vLib = demo_lib, vArgs = elaborated_args, vURL = ''http://proxy'', vSender = 2\<rparr>"

lemma demo_selectors:
  "vExt demo_test = demo_ext" "vEth demo_test = demo_eth" "vProxy demo_test = demo_answers" "vLib demo_test = demo_lib"
  "vArgs demo_test = elaborated_args"
  "vURL demo_test = ''http://proxy''" "vSender demo_test = 2" "NewQuietFillAuction (vContracts demo_test) a = Ok demo_auction"
  "NewTestToken (vContracts demo_test) a = Ok demo_token" "Threshold demo_lib = ''threshold''" "Clock demo_lib n = int n"
  "SleepNs demo_lib d n = n + nat d"
  by (simp_all add: demo_test_def demo_contracts_def demo_lib_def)

lemma demo_calls:
  "GetExtensionId demo_auction n = (Ok 7, n)" "QuoteAmount demo_auction lot p n = (Ok 10, n)"
  "CreateAuctionTx demo_auction opts lot fl ce bd sd n = (Ok demo_tx, n)" "ParseAuctionCreated demo_auction l = Ok 5"
  "GetAuction demo_auction i n = (Ok \<lparr>TeeId = 1, AuctionState = 3\<rparr>, n)" "SubmitPrivateBidTx demo_auction opts i c n = (Ok demo_tx, n)"
  "ParsePrivateBidSubmitted demo_auction l = Ok 8" "RequestClearTx demo_auction opts i n = (Ok demo_tx, n)"
  "ParseClearRequested demo_auction l = Ok 9" "SettleAuctionTx demo_auction opts i r sg n = (Ok demo_tx, n)"
  "ParseAuctionSettled demo_auction l = Ok ()" "PackBid demo_lib args bid = Ok []"
  "Unpack demo_lib (bidReceiptArgs elaborated_args) d = Ok [VAddress 64, VBig 1, VAddress 64, VUint64 1, VBytes32 3]"
  "Unpack demo_lib (clearResultArgs elaborated_args) d =
     Ok [VAddress 64, VBig 1, VAddress 64, VBig 4, VUint64 1, VBytes32 3, VBig 1, VBig 1]" "Encrypt demo_lib x pk n = (Ok [], n)"
  "RandRead demo_lib m n = (Ok (replicate m CHR ''r''), n)" "ApproveTx demo_token opts a j n = (Ok demo_tx, n)"
  "MintTx demo_token opts a j n = (Ok demo_tx, n + nat j)" "BalanceOf demo_token a n = (Ok (int n), n)"
  by (simp_all add: demo_auction_def demo_lib_def demo_token_def elaborated_args_def demo_unpack_def demo_value_def)

lemma demo_CheckTx: "CheckTx demo_ext demo_eth tx n =
  (Ok \<lparr>rStatus = 1, rLogs = [\<lparr>lTopics = [], lData = []\<rparr>, \<lparr>lTopics = [], lData = []\<rparr>]\<rparr>, Suc n)"
  by (simp add: demo_eth_def CheckTx_def)

lemma demo_transactor: "NewKeyedTransactor demo_eth k c = Ok \<lparr>oKey = k, oChainID = c, oValue = 0\<rparr>"
  by (simp add: NewKeyedTransactor_def demo_eth_def)

lemma demo_sendTx: "(\<And>opts n. mk opts n = (Ok demo_tx, n)) \<Longrightarrow> 0 < k \<Longrightarrow>
  sendTxRetry demo_test s label mk key val k n = (Ok \<lparr>rStatus = 1, rLogs = [\<lparr>lTopics = [], lData = []\<rparr>, \<lparr>lTopics = [], lData = []\<rparr>]\<rparr>, Suc n)"
  by (cases k) (simp_all add: sendTxRetry_def send_once_def demo_selectors demo_CheckTx demo_transactor)

lemma demo_poll: "pollResult demo_test i n =
  (Ok \<lparr>rspStatus = 1, rspLog = [], rspData = [], rspSubmissionTag = ''threshold'', rspSignature = replicate 65 CHR ''s''\<rparr>, n)"
  by (simp add: pollResult_def demo_test_def demo_answers_def ActionResult_def repeats_def eval_nat_numeral)

lemma demo_play:
  assumes "PubkeyToAddress demo_ext (Prv s) = 64"
  shows "\<exists>p w'. play_auction demo_test s demo_auction demo_token demo_token ((1, 2), 1) (Prv s) 3 2 5 4 90 n = (Ok p, w')"
  using assms
  by (simp add: play_auction_def create_auction_def submit_bid_def confirm_bid_def request_clear_def fetch_clear_def settle_def verify_final_def
      sendTx_def demo_sendTx demo_poll instruction_of_def clear_result_def Let_def auctionStateSettled_def demo_selectors demo_calls assertions)

definition demo_flags :: test_flags where
  "demo_flags =
     \<lparr>fAddresses = ''p'', fChain = ''http://node'', fBaseToken = ''aa'', fQuoteToken = ''b'', fLot = ''3'', fFloor = ''2'', fCeiling = ''5'',
      fBidPrice = ''4'', fBidWindow = 90\<rparr>"

lemma demo_mustBig:
  "mustBig E ''3'' name = Ok 3" "mustBig E ''2'' name = Ok 2" "mustBig E ''5'' name = Ok 5" "mustBig E ''4'' name = Ok 4"
  by (simp_all add: mustBig_def SetString10_def parse_nat_def decval_def of_digits_def)

lemma demo_run: "\<exists>p w'. run_test demo_test demo_setup (demo_host ''e'' None) demo_flags 0 = (Ok p, w')"
proof -
  obtain s where s: "DefaultSupport demo_ext demo_setup (demo_host ''e'' None) ''p'' ''http://node'' = Ok s" "Prv s = 64"
    using demo_support by blast
  have dealer: "PubkeyToAddress demo_ext (Prv s) = 64" by (simp add: s(2) demo_ext_def)
  have key: "dealerKey demo_ext (Dotenv demo_setup (demo_host ''e'' None)) (Prv s) = Ok (Prv s)"
    by (simp add: dealerKey_def demo_setup_def demo_node_def demo_host_def TrimPrefix_def)
  have tee: "live_tee demo_test n = (Ok ((1, 2), 1), n)" for n
    by (simp add: live_tee_def TeeInfo_def demo_selectors, simp add: demo_answers_def)
  have fund: "\<exists>n'. fund_escrows demo_test s demo_auction demo_token demo_token (Prv s) 3 5 n = (Ok (), n')" for n
    by (simp add: fund_escrows_def ensureFunds_def demo_selectors demo_calls demo_CheckTx sendTx_def demo_sendTx Let_def
        demo_transactor call_def)
  have id: "cache_extension_id demo_test s demo_auction n = (Ok (), n)" for n
    by (simp add: cache_extension_id_def demo_calls)
  obtain n where n: "fund_escrows demo_test s demo_auction demo_token demo_token (Prv s) 3 5 0 = (Ok (), n)" using fund by blast
  obtain p w' where "play_auction demo_test s demo_auction demo_token demo_token ((1, 2), 1) (Prv s) 3 2 5 4 90 n = (Ok p, w')"
    using demo_play [OF dealer] by blast
  then show ?thesis
    by (simp add: run_test_def demo_flags_def demo_mustBig demo_selectors s(1) key tee id n Let_def)
qed

theorem run_test_passed_witness:
  "\<exists>p w' (sender :: nat auction_contract) w8 final. run_test demo_test demo_setup (demo_host ''e'' None) demo_flags 0 = (Ok p, w') \<and>
     fst (GetAuction sender (pAuction p) w8) = Ok final \<and> AuctionState final = 3"
proof -
  obtain p w' where run: "run_test demo_test demo_setup (demo_host ''e'' None) demo_flags 0 = (Ok p, w')" using demo_run by blast
  from run_test_passed [OF run] run show ?thesis by - (elim exE conjE, intro exI conjI, assumption+)
qed

theorem type_assertions_hold_witness:
  "\<exists>resp res. clear_result demo_test resp = Ok res \<and> crWinner res = 64 \<and> crUnitPriceWei res = 4"
proof -
  have "type_names (ParseType (vLib demo_test))" by (simp add: demo_selectors demo_lib_def demo_type_names)
  moreover have "\<forall>args data vals. Unpack (vLib demo_test) args data = Ok vals \<longrightarrow> of_types args vals"
    by (simp add: demo_selectors demo_lib_def demo_unpack_typed)
  ultimately obtain args where a: "init_args (ParseType (vLib demo_test)) = Ok args"
    and clear: "vArgs demo_test = args \<Longrightarrow> Unpack (vLib demo_test) (clearResultArgs args) (rspData resp) = Ok vals \<Longrightarrow>
      \<exists>res. clear_result demo_test resp = Ok res \<and>
        vals = [VAddress (crContractAddr res), VBig (crAuctionId res), VAddress (crWinner res), VBig (crUnitPriceWei res),
          VUint64 (crWinningNonce res), VBytes32 (crWinningCommitment res), VBig (crSubmittedBidCount res), VBig (crEligibleBidCount res)]"
    for resp vals using type_assertions_hold [of demo_test] by blast
  have "args = elaborated_args" using a init_args_Ok [OF demo_type_names] by (simp add: demo_selectors demo_lib_def)
  with clear [of "\<lparr>rspStatus = 1, rspLog = [], rspData = [], rspSubmissionTag = [], rspSignature = []\<rparr>"] show ?thesis
    by (auto simp: demo_selectors demo_calls)
qed

theorem bid_window_is_over_witness:
  "(0 + 90 + 2) * 10 ^ 9 \<le> Clock demo_lib (wait_window demo_test (bid_deadline 0 90) 5)"
  using bid_window_is_over [of demo_test 90 0 5] by (simp add: demo_selectors)

theorem sendTxRetry_first_success_witness:
  "\<exists>s. \<exists>i<5. attempts (send_once demo_ext demo_eth s ''requestClear'' (\<lambda>opts. RequestClearTx demo_auction opts 5) 1 0)
     (\<lambda>k w. if k = 0 then w else Sleep demo_answers 5 w) 5 0 ! i =
       (Done \<lparr>rStatus = 1, rLogs = [\<lparr>lTopics = [], lData = []\<rparr>, \<lparr>lTopics = [], lData = []\<rparr>]\<rparr>, Suc 0)"
proof -
  have "sendTxRetry demo_test s ''requestClear'' (\<lambda>opts. RequestClearTx demo_auction opts 5) 1 0 5 0 =
      (Ok \<lparr>rStatus = 1, rLogs = [\<lparr>lTopics = [], lData = []\<rparr>, \<lparr>lTopics = [], lData = []\<rparr>]\<rparr>, Suc 0)" for s
    by (rule demo_sendTx) (simp_all add: demo_calls)
  then show ?thesis unfolding sendTxRetry_first_success demo_selectors by blast
qed

theorem ensureFunds_sufficient_witness:
  "\<exists>s w'. ensureFunds demo_ext demo_eth s demo_token ''base'' 1 2 3 0 = (Ok (), w') \<and> 3 \<le> int w'"
proof -
  obtain s :: Support where "Prv s = 64" using demo_support by blast
  have l: "token_laws demo_eth demo_token (\<lambda>n _. int n)"
    by (auto simp: token_laws_def demo_calls demo_eth_def)
  have "ensureFunds demo_ext demo_eth s demo_token ''base'' 1 2 3 0 = (Ok (), 4)"
    by (simp add: ensureFunds_def demo_calls demo_CheckTx demo_transactor)
  then show ?thesis using ensureFunds_sufficient [OF l] by blast
qed

end
