(* ===== verification/Inspect.thy ===== *)
theory Inspect
  imports Setup VerifyDeploy
begin

section \<open>Inspection commands (tools/cmd/audit-deploy, tools/cmd/query-tee)\<close>

text \<open>
  audit-deploy prints whether the deployed addresses have code, what the extension registry knows, and replays a refused
  addTeeVersion to name its error; query-tee prints what the machine registry knows. Both only read. A run is its
  \<open>process_end\<close>; the registries are read-only views (\<open>auditor\<close>, \<open>machines\<close>), only the replayed call is an action. A
  \<^verbatim>\<open>[32]byte\<close> is its 32 bytes.
\<close>

subsection \<open>audit-deploy\<close>

record auditor =
  BlockNumber :: "nat result"
  ExtensionManagerBind :: "goerror option"
  SystemSupportedPlatforms :: "bytes list result"
  NextPublicId :: "int result"
  ExtensionOwner :: "int \<Rightarrow> address result"
  SupportedCodeHashes :: "int \<Rightarrow> bytes list result"
  SupportedKeyTypes :: "int \<Rightarrow> bytes list result"

record audit_flags =
  adAddresses :: string
  adRPC :: string
  adExt :: "64 word"
  adCodeHash :: string
  adPlatform :: string
  adFrom :: string
  adVersion :: string

text \<open>\<^verbatim>\<open>%-25s\<close>, and one line.\<close>

definition pad_right :: "nat \<Rightarrow> string \<Rightarrow> string" where
  "pad_right n s = s @ replicate (n - length s) (CHR '' '')"

definition line :: "string \<Rightarrow> string" where
  "line s = s @ newline"

definition audit_status :: "client \<Rightarrow> address \<Rightarrow> string" where
  "audit_status c a =
     (case CodeAt c a of
        Err err \<Rightarrow> ''ERROR '' @ Error err
      | Ok code \<Rightarrow>
          if a = 0 then ''ZERO ADDRESS''
          else if length code = 0 then ''NO CODE''
          else ''ok ('' @ dec_of_nat (length code) @ '' bytes)'')"

definition audit_address :: "ext \<Rightarrow> client \<Rightarrow> string \<times> address \<Rightarrow> string" where
  "audit_address E c e = line (''  '' @ pad_right 25 (fst e) @ '' '' @ AddressHex E (snd e) @ ''   '' @ audit_status c (snd e))"

definition hex32 :: "bytes \<Rightarrow> string" where
  "hex32 b = ''0x'' @ hex_encode b"

definition named32 :: "ext \<Rightarrow> bytes \<Rightarrow> string" where
  "named32 E b = line (''    '' @ hex32 b @ ''   '' @ Quote (IsPrintHigh E) (bytes32ToString b))"

definition audit_registry :: "ext \<Rightarrow> auditor \<Rightarrow> address \<Rightarrow> string" where
  "audit_registry E A manager =
     newline @ line (''=== ExtensionManager facet @ FlareTeeManager '' @ AddressHex E manager @ '' ==='') @
     (case SystemSupportedPlatforms A of
        Err perr \<Rightarrow> line (''  getSystemSupportedPlatforms ERROR: '' @ Error perr)
      | Ok plats \<Rightarrow> line (''  systemSupportedPlatforms ('' @ dec_of_nat (length plats) @ ''):'') @ concat (map (named32 E) plats)) @
     (case NextPublicId A of Err _ \<Rightarrow> [] | Ok cnt \<Rightarrow> line (''  nextPublicExtensionId: '' @ dec_of_int cnt))"

definition audit_extension :: "ext \<Rightarrow> auditor \<Rightarrow> int \<Rightarrow> string" where
  "audit_extension E A eid =
     newline @ line (''=== Extension id='' @ dec_of_int eid @ '' ==='') @
     (case ExtensionOwner A eid of
        Err err \<Rightarrow> line (''  getExtensionOwner ERROR: '' @ Error err)
      | Ok owner \<Rightarrow> line (''  owner: '' @ AddressHex E owner)) @
     (case SupportedCodeHashes A eid of
        Err err \<Rightarrow> line (''  getSupportedCodeHashes ERROR: '' @ Error err)
      | Ok ch \<Rightarrow> line (''  supportedCodeHashes ('' @ dec_of_nat (length ch) @ ''):'') @ concat (map (\<lambda>h. line (''    '' @ hex32 h)) ch)) @
     (case SupportedKeyTypes A eid of
        Err _ \<Rightarrow> []
      | Ok kt \<Rightarrow> line (''  supportedKeyTypes ('' @ dec_of_nat (length kt) @ ''):'') @ concat (map (named32 E) kt))"

text \<open>The loops over the three ABIs and the errors of each, up to the first selector that matches.\<close>

fun replay_errors :: "string \<Rightarrow> (string \<times> abi_error) list \<Rightarrow> bytes \<Rightarrow> string option" where
  "replay_errors src [] revertData = None"
| "replay_errors src ((errName, e) # es) revertData =
     (if take 4 (eID e) \<noteq> take 4 revertData then replay_errors src es revertData
      else Some (case eInputsUnpack e (drop 4 revertData) of
             Err unpackErr \<Rightarrow> ''  revert -> '' @ src @ ''.'' @ errName @ '' (unpack failed: '' @ Error unpackErr @ '') data=0x'' @
               hex_encode revertData
           | Ok args \<Rightarrow> ''  revert -> '' @ src @ ''.'' @ errName @ args))"

fun replay_sources :: "(string \<times> (string \<times> abi_error) list result) list \<Rightarrow> bytes \<Rightarrow> string option" where
  "replay_sources [] revertData = None"
| "replay_sources ((name, Err _) # srcs) revertData = replay_sources srcs revertData"
| "replay_sources ((name, Ok errors) # srcs) revertData =
     (case replay_errors name errors revertData of
        Some l \<Rightarrow> Some l
      | None \<Rightarrow> replay_sources srcs revertData)"

text \<open>The audit searches three of the four ABIs that the diagnosis of diag.go knows, in the opposite order, and not that of Fdc2Hub.\<close>

definition audit_abis :: "contract_abis \<Rightarrow> (string \<times> (string \<times> abi_error) list result) list" where
  "audit_abis B =
     [(''ExtensionManager'', ExtensionManagerABI B), (''MachineManager'', MachineManagerABI B), (''Verification'', VerificationABI B)]"

definition replay_payload :: "ext \<Rightarrow> 'c eth \<Rightarrow> contract_abis \<Rightarrow> goerror \<Rightarrow> string" where
  "replay_payload E X B callErr =
     (let revertData = ExtractRevertData (FromHex X) (Some callErr) in
      if length revertData < 4 then ''  no/short revert data: '' @ Error callErr
      else
        (let by_abi =
               (case replay_sources (audit_abis B) revertData of
                  Some l \<Rightarrow> l
                | None \<Rightarrow> ''  revert with unknown selector 0x'' @ hex_encode (take 4 revertData) @ '' (full: 0x'' @
                    hex_encode revertData @ '')'')
         in if take 4 revertData = [CHR 0x08, CHR 0xC3, CHR 0x79, CHR 0xA0]
            then (case UnpackRevert X revertData of
                    Ok reason \<Rightarrow> ''  revert reason (string): '' @ Quote (IsPrintHigh E) reason
                  | Err _ \<Rightarrow> by_abi)
            else by_abi))"

text \<open>\<open>pack\<close> is the packing of the call, after the ABI of ExtensionManager has been loaded.\<close>

definition replayAddTeeVersion :: "ext \<Rightarrow> 'c eth \<Rightarrow> contract_abis
    \<Rightarrow> (int \<Rightarrow> bytes \<Rightarrow> hash \<Rightarrow> hash list \<Rightarrow> bytes result) \<Rightarrow> address \<Rightarrow> address \<Rightarrow> int \<Rightarrow> string \<Rightarrow> hash \<Rightarrow> hash \<Rightarrow> 'c \<Rightarrow> string \<times> 'c" where
  "replayAddTeeVersion E X B pack to from extID version codeHash platform w =
     (case ExtensionManagerABI B of
        Err err \<Rightarrow> (line (''  load ABI: '' @ Error err), w)
      | Ok _ \<Rightarrow>
          (case StringToBytes32 E version of
             Err verr \<Rightarrow> (line (''  version: '' @ Error verr), w)
           | Ok versionBytes \<Rightarrow>
               (case pack extID versionBytes codeHash [platform] of
                  Err err \<Rightarrow> (line (''  pack: '' @ Error err), w)
                | Ok calldata \<Rightarrow>
                    (case CallContract X \<lparr>mFrom = from, mTo = Some to, mGas = 0, mGasPrice = 0, mValue = 0, mData = calldata\<rparr> w of
                       (Ok _, w') \<Rightarrow> (line (''  eth_call succeeded '' @ emdash @ '' tx-time-only revert (gas/state race?)''), w')
                     | (Err callErr, w') \<Rightarrow> (line (replay_payload E X B callErr), w')))))"

definition audit_deploy :: "ext \<Rightarrow> node \<Rightarrow> 'c eth \<Rightarrow> auditor \<Rightarrow> contract_abis
    \<Rightarrow> (int \<Rightarrow> bytes \<Rightarrow> hash \<Rightarrow> hash list \<Rightarrow> bytes result) \<Rightarrow> audit_flags \<Rightarrow> 'c \<Rightarrow> process_end \<times> 'c" where
  "audit_deploy E N X A B pack F w =
     (let stop = (\<lambda>msg. (\<lparr>stdout = [], stderr = line msg, exit_status = 1\<rparr>, w)) in
      case ParseAddresses E (ReadFile N) (adAddresses F) of
        Err err \<Rightarrow> stop (''parse addresses: '' @ Error err)
      | Ok addr \<Rightarrow>
          (case Dial N (adRPC F) of
             Err err \<Rightarrow> stop (''dial: '' @ Error err)
           | Ok cc \<Rightarrow>
               (case ChainID cc of
                  Err err \<Rightarrow> stop (''chainId: '' @ Error err)
                | Ok cid \<Rightarrow>
                    (let bn = (case BlockNumber A of Ok n \<Rightarrow> n | Err _ \<Rightarrow> 0); manager = aFlareTeeManager addr;
                         head = line (''Chain ID: '' @ dec_of_int cid @ ''   block: '' @ dec_of_nat bn) @
                           concat (map (audit_address E cc)
                             [(''FlareTeeManager'', manager), (''FlareSystemsManager'', aFlareSystemManager addr), (''Fdc2Hub'', aFdc2Hub addr)])
                     in if manager = 0 then (\<lparr>stdout = head, stderr = [], exit_status = 0\<rparr>, w)
                        else case ExtensionManagerBind A of
                          Some err \<Rightarrow> (\<lparr>stdout = head, stderr = line (''bind ExtensionManager: '' @ Error err), exit_status = 0\<rparr>, w)
                        | None \<Rightarrow>
                            (let eid = sint (adExt F);
                                 body = head @ audit_registry E A manager @ (if 0 \<le> eid then audit_extension E A eid else [])
                             in if adCodeHash F \<noteq> [] \<and> adPlatform F \<noteq> [] \<and> 0 \<le> eid
                                then (case replayAddTeeVersion E X B pack manager (HexToAddress E (adFrom F)) eid (adVersion F)
                                        (HexToHash E (adCodeHash F)) (HexToHash E (adPlatform F)) w of
                                        (out, w') \<Rightarrow>
                                          (\<lparr>stdout = body @ newline @ line ''=== addTeeVersion eth_call replay (decoding revert) ==='' @ out,
                                            stderr = [], exit_status = 0\<rparr>, w'))
                                else (\<lparr>stdout = body, stderr = [], exit_status = 0\<rparr>, w))))))"

subsection \<open>query-tee\<close>

record machines =
  MachineManagerBind :: "goerror option"
  ActiveTeeMachines :: "int \<Rightarrow> (address list \<times> string list) result"
  TeeMachine :: "address \<Rightarrow> (address \<times> address \<times> string) result"
  TeeMachineStatus :: "address \<Rightarrow> 8 word result"
  TeeMachineOwner :: "address \<Rightarrow> address result"
  MachineExtensionId :: "address \<Rightarrow> int result"
  LastStatusChangeTs :: "address \<Rightarrow> int result"
  InitialSigningPolicyId :: "address \<Rightarrow> 32 word result"

text \<open>The rows of the active machines from index \<open>i\<close> on: the text, and whether \<^verbatim>\<open>out.Urls[i]\<close> was out of range.\<close>

fun active_rows :: "ext \<Rightarrow> nat \<Rightarrow> address list \<Rightarrow> string list \<Rightarrow> string \<times> bool" where
  "active_rows E i [] urls = ([], False)"
| "active_rows E i (t # ts) urls =
     (if i < length urls
      then (case active_rows E (Suc i) ts urls of
              (out, panicked) \<Rightarrow>
                (line (''  '' @ dec_of_nat i @ '': '' @ AddressHex E t @ '' url='' @ Quote (IsPrintHigh E) (urls ! i)) @ out, panicked))
      else ([], True))"

definition list_active :: "ext \<Rightarrow> machines \<Rightarrow> int \<Rightarrow> string \<times> bool" where
  "list_active E M eid =
     (let head = newline @ line (''=== Active TEEs for extensionId='' @ dec_of_int eid @ '' ==='') in
      case ActiveTeeMachines M eid of
        Err err \<Rightarrow> (head @ line (''getActiveTeeMachines ERROR: '' @ Error err), False)
      | Ok (ids, urls) \<Rightarrow>
          (case active_rows E 0 ids urls of
             (rows, panicked) \<Rightarrow>
               if panicked then (head @ rows, True) else (head @ rows @ (if ids = [] then line ''  (none)'' else []), False)))"

definition field_line :: "string \<Rightarrow> ('a \<Rightarrow> string) \<Rightarrow> 'a result \<Rightarrow> string" where
  "field_line name sh r = (case r of Err err \<Rightarrow> line (''  '' @ name @ '' ERROR: '' @ Error err) | Ok x \<Rightarrow> line (''  '' @ name @ '': '' @ sh x))"

definition query_machine :: "ext \<Rightarrow> machines \<Rightarrow> string \<Rightarrow> string" where
  "query_machine E M raw =
     (let i = HexToAddress E raw in
      newline @ line (''=== TEE '' @ AddressHex E i @ '' ==='') @
      (case TeeMachine M i of
         Err err \<Rightarrow> line (''  getTeeMachine ERROR: '' @ Error err)
       | Ok (teeId, proxyId, url) \<Rightarrow>
           line (''  getTeeMachine: teeId='' @ AddressHex E teeId @ '' teeProxyId='' @ AddressHex E proxyId @ '' url='' @
             Quote (IsPrintHigh E) url) @
           (if teeId = 0 then line ''  -> EMPTY/UNREGISTERED'' else [])) @
      field_line ''getTeeMachineStatus'' (\<lambda>s. dec_of_nat (unat s)) (TeeMachineStatus M i) @
      field_line ''getTeeMachineOwner'' (AddressHex E) (TeeMachineOwner M i) @
      field_line ''getExtensionId'' dec_of_int (MachineExtensionId M i) @
      field_line ''getLastStatusChangeTs'' dec_of_int (LastStatusChangeTs M i) @
      field_line ''getInitialSigningPolicyId'' (\<lambda>s. dec_of_nat (unat s)) (InitialSigningPolicyId M i))"

text \<open>An index out of range is a panic: the process ends with status 2; of its trace only the first line is kept.\<close>

definition query_tee :: "ext \<Rightarrow> node \<Rightarrow> machines \<Rightarrow> string \<Rightarrow> 64 word \<Rightarrow> string list \<Rightarrow> process_end" where
  "query_tee E N M rpc listExt args =
     (case Dial N rpc of
        Err err \<Rightarrow> \<lparr>stdout = [], stderr = line (''dial: '' @ Error err), exit_status = 1\<rparr>
      | Ok _ \<Rightarrow>
          (case MachineManagerBind M of
             Some err \<Rightarrow> \<lparr>stdout = [], stderr = line (''bind: '' @ Error err), exit_status = 1\<rparr>
           | None \<Rightarrow>
               (case (if 0 \<le> sint listExt then list_active E M (sint listExt) else ([], False)) of
                  (out, True) \<Rightarrow> \<lparr>stdout = out, stderr = line ''panic: runtime error: index out of range'', exit_status = 2\<rparr>
                | (out, False) \<Rightarrow> \<lparr>stdout = out @ concat (map (query_machine E M) args), stderr = [], exit_status = 0\<rparr>)))"

subsection \<open>Agreement with the other tools\<close>

text \<open>The match that the diagnosis of diag.go and the replay both search for.\<close>

fun first_match :: "(string \<times> (string \<times> abi_error) list result) list \<Rightarrow> bytes \<Rightarrow> (string \<times> string \<times> abi_error) option" where
  "first_match [] data = None"
| "first_match ((src, Err _) # srcs) data = first_match srcs data"
| "first_match ((src, Ok es) # srcs) data =
     (case find (\<lambda>(n, e). take 4 (eID e) = take 4 data) es of
        Some (n, e) \<Rightarrow> Some (src, n, e)
      | None \<Rightarrow> first_match srcs data)"

lemma replay_errors_find:
  "replay_errors src es data =
     map_option (\<lambda>(n, e). case eInputsUnpack e (drop 4 data) of
         Err err \<Rightarrow> ''  revert -> '' @ src @ ''.'' @ n @ '' (unpack failed: '' @ Error err @ '') data=0x'' @ hex_encode data
       | Ok args \<Rightarrow> ''  revert -> '' @ src @ ''.'' @ n @ args) (find (\<lambda>(n, e). take 4 (eID e) = take 4 data) es)"
  by (induction es) auto

lemma diag_errors_find:
  "diag_errors src es data =
     map_option (\<lambda>(n, e). Errorl (case eInputsUnpack e (drop 4 data) of
         Err err \<Rightarrow> ''diag: revert -> '' @ src @ ''.'' @ n @ '' (arg unpack failed: '' @ Error err @ '') data=0x'' @ hex_encode data
       | Ok args \<Rightarrow> ''diag: revert -> '' @ src @ ''.'' @ n @ ''('' @ args @ '')'')) (find (\<lambda>(n, e). take 4 (eID e) = take 4 data) es)"
  by (induction es) auto

lemma replay_sources_match:
  "replay_sources srcs data =
     map_option (\<lambda>(src, n, e). case eInputsUnpack e (drop 4 data) of
         Err err \<Rightarrow> ''  revert -> '' @ src @ ''.'' @ n @ '' (unpack failed: '' @ Error err @ '') data=0x'' @ hex_encode data
       | Ok args \<Rightarrow> ''  revert -> '' @ src @ ''.'' @ n @ args) (first_match srcs data)"
  by (induction srcs data rule: first_match.induct) (auto simp: replay_errors_find split: option.split)

lemma diag_sources_match:
  "diag_sources srcs data =
     map_option (\<lambda>(src, n, e). Errorl (case eInputsUnpack e (drop 4 data) of
         Err err \<Rightarrow> ''diag: revert -> '' @ src @ ''.'' @ n @ '' (arg unpack failed: '' @ Error err @ '') data=0x'' @ hex_encode data
       | Ok args \<Rightarrow> ''diag: revert -> '' @ src @ ''.'' @ n @ ''('' @ args @ '')'')) (first_match srcs data)"
  by (induction srcs data rule: first_match.induct) (auto simp: diag_errors_find split: option.split)

text \<open>The audit calls an address ok exactly when the deploy checks D3 and D1 do not fail on it.\<close>

lemma audit_ok_iff_deploy_checks:
  "HasPrefix (audit_status c a) ''ok ('' \<longleftrightarrow> CStatus (check_D3 E l a) \<noteq> FAIL \<and> CStatus (check_D1 E (Some c) l a) \<noteq> FAIL"
  by (auto simp: audit_status_def fail_iffs has_code_def HasPrefix_def split: sum.split)

text \<open>Which of the ABIs \<open>srcs\<close> declares the error with the selector of \<open>data\<close>, and under which name. A Go map has no order, so the two
  tools may see the errors of one ABI in different orders.\<close>

definition declared :: "(string \<times> (string \<times> abi_error) list result) list \<Rightarrow> bytes \<Rightarrow> string \<Rightarrow> string \<Rightarrow> bool" where
  "declared srcs data src n \<longleftrightarrow> (\<exists>es e. (src, Ok es) \<in> set srcs \<and> (n, e) \<in> set es \<and> take 4 (eID e) = take 4 data)"

definition same_errors :: "(string \<times> abi_error) list result \<Rightarrow> (string \<times> abi_error) list result \<Rightarrow> bool" where
  "same_errors r r' \<longleftrightarrow> (\<forall>es. r = Ok es \<longrightarrow> (\<exists>es'. r' = Ok es' \<and> mset es = mset es')) \<and> (\<forall>e. r = Err e \<longrightarrow> (\<exists>e'. r' = Err e'))"

definition reordered :: "contract_abis \<Rightarrow> contract_abis \<Rightarrow> bool" where
  "reordered B B' \<longleftrightarrow>
     same_errors (VerificationABI B) (VerificationABI B') \<and> same_errors (Fdc2HubABI B) (Fdc2HubABI B') \<and>
     same_errors (MachineManagerABI B) (MachineManagerABI B') \<and> same_errors (ExtensionManagerABI B) (ExtensionManagerABI B')"

lemma declared_Cons:
  "declared ((s, r) # srcs) data src n \<longleftrightarrow>
     (src = s \<and> (\<exists>es e. r = Ok es \<and> (n, e) \<in> set es \<and> take 4 (eID e) = take 4 data)) \<or> declared srcs data src n"
  by (auto simp: declared_def)

lemma declared_Nil [simp]: "\<not> declared [] data src n"
  by (simp add: declared_def)

lemma declared_fst: "declared srcs data src n \<Longrightarrow> src \<in> set (map fst srcs)"
  by (force simp: declared_def)

lemma same_errors_declares:
  "same_errors r r' \<Longrightarrow> (\<exists>es e. r' = Ok es \<and> (n, e) \<in> set es \<and> P e) = (\<exists>es e. r = Ok es \<and> (n, e) \<in> set es \<and> P e)"
proof (cases r)
  case (Inr es)
  assume "same_errors r r'"
  then obtain es' where "r' = Ok es'" "mset es = mset es'" using Inr by (auto simp: same_errors_def)
  moreover from this(2) have "set es = set es'" by (rule mset_eq_setD)
  ultimately show ?thesis using Inr by auto
qed (auto simp: same_errors_def)

text \<open>The audit's three ABIs declare what the diagnosis' four declare, Fdc2Hub apart.\<close>

lemma declared_audit:
  assumes "reordered B B'"
  shows "declared (audit_abis B') data src n \<longleftrightarrow> src \<noteq> ''Fdc2Hub'' \<and> declared (diag_abis B) data src n"
proof -
  define has where "has r \<longleftrightarrow> (\<exists>es e. r = Ok es \<and> (n, e) \<in> set es \<and> take 4 (eID e) = take 4 data)"
    for r :: "(string \<times> abi_error) list result"
  have "same_errors r r' \<Longrightarrow> has r' = has r" for r r' unfolding has_def by (rule same_errors_declares)
  with assms have "has (VerificationABI B') = has (VerificationABI B)" "has (MachineManagerABI B') = has (MachineManagerABI B)"
    "has (ExtensionManagerABI B') = has (ExtensionManagerABI B)" by (simp_all add: reordered_def)
  then show ?thesis unfolding audit_abis_def diag_abis_def declared_Cons has_def [symmetric] by auto
qed

text \<open>The first match is in the first ABI, in the order of the search, that declares the selector.\<close>

lemma first_match_declared:
  assumes "distinct (map fst srcs)"
  shows "case first_match srcs data of
      None \<Rightarrow> \<forall>s n. \<not> declared srcs data s n
    | Some (s, n, e) \<Rightarrow> declared srcs data s n \<and> find (\<lambda>s. \<exists>n. declared srcs data s n) (map fst srcs) = Some s"
  using assms
proof (induction srcs data rule: first_match.induct)
  case (2 src err srcs data)
  have "\<not> declared srcs data src n" for n using 2(2) declared_fst [of srcs data src n] by auto
  then show ?case using 2 by (auto simp: declared_Cons split: option.splits cong: find_cong)
next
  case (3 src es srcs data)
  have out: "\<not> declared srcs data src n" for n using 3(2) declared_fst [of srcs data src n] by auto
  show ?case
  proof (cases "find (\<lambda>(n, e). take 4 (eID e) = take 4 data) es")
    case None
    then have no: "\<not> (\<exists>es' e. Ok es = Ok es' \<and> (n, e) \<in> set es' \<and> take 4 (eID e) = take 4 data)" for n
      by (auto simp: find_None_iff)
    then have same: "declared ((src, Ok es) # srcs) data s n = declared srcs data s n" for s n by (auto simp: declared_Cons)
    show ?thesis using 3 None out unfolding same by (auto split: option.splits)
  next
    case (Some x)
    obtain n e where x: "x = (n, e)" by force
    have "x \<in> set es" "take 4 (eID e) = take 4 data"
      using Some x by (auto simp: find_Some_iff dest: nth_mem)
    then show ?thesis using Some x by (auto simp: declared_Cons)
  qed
qed simp

lemma explain_payload:
  assumes "ExtractRevertData (FromHex X) (Some err) = data" "4 \<le> length data" "UnpackRevert X data = Err e1"
  shows "case first_match (diag_abis B) data of
      None \<Rightarrow> \<exists>t. diag_payload E X B err = Errorl (''diag: revert with unknown selector 0x'' @ hex_encode (take 4 data) @ t)
    | Some (s, n, e) \<Rightarrow> \<exists>t. diag_payload E X B err = Errorl (''diag: revert -> '' @ s @ ''.'' @ n @ t)"
    and "case first_match (audit_abis B) data of
      None \<Rightarrow> \<exists>t. replay_payload E X B err = ''  revert with unknown selector 0x'' @ hex_encode (take 4 data) @ t
    | Some (s, n, e) \<Rightarrow> \<exists>t. replay_payload E X B err = ''  revert -> '' @ s @ ''.'' @ n @ t"
proof -
  have d: "length data \<noteq> 0" "\<not> length data < 4" using assms(2) by auto
  have "diag_payload E X B err = (case diag_sources (diag_abis B) data of Some l \<Rightarrow> l
      | None \<Rightarrow> Errorl (''diag: revert with unknown selector 0x'' @ hex_encode (take 4 data) @ ''; full data: 0x'' @ hex_encode data))"
    unfolding diag_payload_def assms(1) Let_def using d assms(3) by simp
  then show "case first_match (diag_abis B) data of
      None \<Rightarrow> \<exists>t. diag_payload E X B err = Errorl (''diag: revert with unknown selector 0x'' @ hex_encode (take 4 data) @ t)
    | Some (s, n, e) \<Rightarrow> \<exists>t. diag_payload E X B err = Errorl (''diag: revert -> '' @ s @ ''.'' @ n @ t)"
    unfolding diag_sources_match by (auto split: option.split sum.split)
  have "replay_payload E X B err = (case replay_sources (audit_abis B) data of Some l \<Rightarrow> l
      | None \<Rightarrow> ''  revert with unknown selector 0x'' @ hex_encode (take 4 data) @ '' (full: 0x'' @ hex_encode data @ '')'')"
    unfolding replay_payload_def assms(1) Let_def using d assms(3) by simp
  then show "case first_match (audit_abis B) data of
      None \<Rightarrow> \<exists>t. replay_payload E X B err = ''  revert with unknown selector 0x'' @ hex_encode (take 4 data) @ t
    | Some (s, n, e) \<Rightarrow> \<exists>t. replay_payload E X B err = ''  revert -> '' @ s @ ''.'' @ n @ t"
    unfolding replay_sources_match by (auto split: option.split sum.split)
qed

text \<open>C33: How far the two tools that explain a refused call agree. The diagnosis that the registration logs searches the ABIs of Verification, Fdc2Hub,
  MachineManager and ExtensionManager, the replay of audit-deploy those of ExtensionManager, MachineManager and Verification, each taking the
  first that declares the selector. Provided that the selector has one name in all of them, both name the same error when one of the three common ABIs
  declares it (each under the first contract in its own order); an error that only Fdc2Hub declares is named by the diagnosis and an unknown
  selector to the replay; a selector that none declares is unknown to both. The order in which Go iterates the errors of an ABI does not matter.\<close>

theorem replay_agrees_with_diagnosis:
  assumes "ExtractRevertData (FromHex X) (Some err) = data" "4 \<le> length data" "UnpackRevert X data = Err e1" "reordered B B'"
    and "\<And>s n s' n'. declared (diag_abis B) data s n \<Longrightarrow> declared (diag_abis B) data s' n' \<Longrightarrow> n = n'"
  shows "(\<forall>s n. s \<noteq> ''Fdc2Hub'' \<and> declared (diag_abis B) data s n \<longrightarrow>
      (\<exists>s1 s2 t1 t2.
         find (\<lambda>s. declared (diag_abis B) data s n) [''Verification'', ''Fdc2Hub'', ''MachineManager'', ''ExtensionManager''] = Some s1 \<and>
         find (\<lambda>s. declared (diag_abis B) data s n) [''ExtensionManager'', ''MachineManager'', ''Verification''] = Some s2 \<and>
         diag_payload E X B err = Errorl (''diag: revert -> '' @ s1 @ ''.'' @ n @ t1) \<and>
         replay_payload E X B' err = ''  revert -> '' @ s2 @ ''.'' @ n @ t2)) \<and>
    (\<forall>n. declared (diag_abis B) data ''Fdc2Hub'' n \<and> (\<forall>s. s \<noteq> ''Fdc2Hub'' \<longrightarrow> \<not> declared (diag_abis B) data s n) \<longrightarrow>
      (\<exists>t1 t2. diag_payload E X B err = Errorl (''diag: revert -> '' @ ''Fdc2Hub'' @ ''.'' @ n @ t1) \<and>
         replay_payload E X B' err = ''  revert with unknown selector 0x'' @ hex_encode (take 4 data) @ t2)) \<and>
    ((\<forall>s n. \<not> declared (diag_abis B) data s n) \<longrightarrow>
      (\<exists>t1 t2. diag_payload E X B err = Errorl (''diag: revert with unknown selector 0x'' @ hex_encode (take 4 data) @ t1) \<and>
         replay_payload E X B' err = ''  revert with unknown selector 0x'' @ hex_encode (take 4 data) @ t2))"
proof -
  let ?D = "declared (diag_abis B) data"
  let ?diag = "[''Verification'', ''Fdc2Hub'', ''MachineManager'', ''ExtensionManager'']"
  let ?audit = "[''ExtensionManager'', ''MachineManager'', ''Verification'']"
  have names: "map fst (diag_abis B) = ?diag" "map fst (audit_abis B') = ?audit" by (simp_all add: diag_abis_def audit_abis_def)
  have audit: "declared (audit_abis B') data s n \<longleftrightarrow> s \<noteq> ''Fdc2Hub'' \<and> ?D s n" for s n using declared_audit [OF assms(4)] .
  have only: "find (\<lambda>s. \<exists>n. declared (audit_abis B') data s n) ?audit = find (\<lambda>s. \<exists>n. ?D s n) ?audit" by (simp add: audit)
  note diag_first = first_match_declared [of "diag_abis B" data, unfolded names(1)]
  note audit_first = first_match_declared [of "audit_abis B'" data, unfolded names(2) only]
  have one: "find (\<lambda>s. \<exists>m. ?D s m) xs = find (\<lambda>s. ?D s n) xs" if "?D s n" for s n xs
    using that assms(5) by (metis (no_types, lifting))
  note texts = explain_payload(1) [OF assms(1-3), where B = B and E = E] explain_payload(2) [OF assms(1-3), where B = B' and E = E]
  have common: "\<exists>s1 s2 t1 t2. find (\<lambda>s. ?D s n) ?diag = Some s1 \<and> find (\<lambda>s. ?D s n) ?audit = Some s2 \<and>
      diag_payload E X B err = Errorl (''diag: revert -> '' @ s1 @ ''.'' @ n @ t1) \<and> replay_payload E X B' err = ''  revert -> '' @ s2 @ ''.'' @ n @ t2"
    if s: "s \<noteq> ''Fdc2Hub''" "?D s n" for s n
  proof -
    obtain s1 n1 e1 where m1: "first_match (diag_abis B) data = Some (s1, n1, e1)" using diag_first s(2) by (auto split: option.splits)
    obtain s2 n2 e2 where m2: "first_match (audit_abis B') data = Some (s2, n2, e2)" using audit_first s audit by (auto split: option.splits)
    have d1: "?D s1 n1" "find (\<lambda>s. \<exists>m. ?D s m) ?diag = Some s1" using diag_first m1 by simp_all
    have d2: "?D s2 n2" "find (\<lambda>s. \<exists>m. ?D s m) ?audit = Some s2" using audit_first m2 audit by simp_all
    have "n1 = n" "n2 = n" using d1(1) d2(1) s(2) assms(5) by blast+
    with texts m1 m2 d1(2) d2(2) one [OF s(2)] show ?thesis by auto
  qed
  moreover have "\<exists>t1 t2. diag_payload E X B err = Errorl (''diag: revert -> '' @ ''Fdc2Hub'' @ ''.'' @ n @ t1) \<and>
      replay_payload E X B' err = ''  revert with unknown selector 0x'' @ hex_encode (take 4 data) @ t2"
    if f: "?D ''Fdc2Hub'' n" "\<forall>s. s \<noteq> ''Fdc2Hub'' \<longrightarrow> \<not> ?D s n" for n
  proof -
    obtain s1 n1 e1 where m1: "first_match (diag_abis B) data = Some (s1, n1, e1)" using diag_first f(1) by (auto split: option.splits)
    have "?D s1 n1" using diag_first m1 by simp
    then have "n1 = n" "s1 = ''Fdc2Hub''" using f assms(5) by blast+
    moreover have "\<not> declared (audit_abis B') data s m" for s m using f assms(5) unfolding audit by blast
    then have "first_match (audit_abis B') data = None" using audit_first by (auto split: option.splits)
    ultimately show ?thesis using texts m1 by auto
  qed
  moreover have "\<exists>t1 t2. diag_payload E X B err = Errorl (''diag: revert with unknown selector 0x'' @ hex_encode (take 4 data) @ t1) \<and>
      replay_payload E X B' err = ''  revert with unknown selector 0x'' @ hex_encode (take 4 data) @ t2"
    if "\<forall>s n. \<not> ?D s n"
  proof -
    have "first_match (diag_abis B) data = None" "first_match (audit_abis B') data = None"
      using diag_first audit_first audit that by (auto split: option.splits)
    then show ?thesis using texts by auto
  qed
  ultimately show ?thesis by blast
qed

text \<open>An error of Fdc2Hub, and one that two of the contracts declare.\<close>

definition demo_error :: "bytes \<Rightarrow> abi_error" where
  "demo_error sel = \<lparr>eID = sel, eUnpack = (\<lambda>_. Ok ''[]''), eInputsUnpack = (\<lambda>_. Ok ''[]'')\<rparr>"

definition demo_abis :: contract_abis where
  "demo_abis = \<lparr>VerificationABI = Ok [(''OnlyOwner'', demo_error ''ABCD'')], Fdc2HubABI = Ok [(''WrongFee'', demo_error ''WXYZ'')],
     MachineManagerABI = Err (ErrText ''bad ABI''), ExtensionManagerABI = Ok [(''OnlyOwner'', demo_error ''ABCD'')]\<rparr>"

lemma demo_reordered: "reordered demo_abis demo_abis"
  by (simp add: reordered_def same_errors_def demo_abis_def)

lemma demo_declared:
  "declared (diag_abis demo_abis) ''ABCD'' s n \<longleftrightarrow> s \<in> {''Verification'', ''ExtensionManager''} \<and> n = ''OnlyOwner''"
  "declared (diag_abis demo_abis) ''WXYZ'' s n \<longleftrightarrow> s = ''Fdc2Hub'' \<and> n = ''WrongFee''"
  by (auto simp: declared_Cons diag_abis_def demo_abis_def demo_error_def)

theorem replay_agrees_with_diagnosis_witness:
  "(\<exists>t. replay_payload demo_ext (demo_eth\<lparr>FromHex := (\<lambda>_. ''ABCD'')\<rparr>) demo_abis (ErrRPC ''reverted'' (DataString ''0x41424344'')) =
       ''  revert -> '' @ ''ExtensionManager'' @ ''.'' @ ''OnlyOwner'' @ t) \<and>
   (\<exists>t. replay_payload demo_ext (demo_eth\<lparr>FromHex := (\<lambda>_. ''WXYZ'')\<rparr>) demo_abis (ErrRPC ''reverted'' (DataString ''0x5758595a'')) =
       ''  revert with unknown selector 0x'' @ hex_encode ''WXYZ'' @ t)"
proof
  have pay: "ExtractRevertData (FromHex (demo_eth\<lparr>FromHex := (\<lambda>_. d)\<rparr>)) (Some (ErrRPC t (DataString h))) = d"
    "UnpackRevert (demo_eth\<lparr>FromHex := (\<lambda>_. d)\<rparr>) d = Err (ErrText ''invalid'')" for d t h
    by (simp_all add: ExtractRevertData_def demo_eth_def)
  have "declared (diag_abis demo_abis) ''ABCD'' ''Verification'' ''OnlyOwner''" by (simp add: demo_declared)
  then obtain s2 t2 where "find (\<lambda>s. declared (diag_abis demo_abis) ''ABCD'' s ''OnlyOwner'') [''ExtensionManager'', ''MachineManager'', ''Verification''] = Some s2"
    "replay_payload demo_ext (demo_eth\<lparr>FromHex := (\<lambda>_. ''ABCD'')\<rparr>) demo_abis (ErrRPC ''reverted'' (DataString ''0x41424344'')) =
       ''  revert -> '' @ s2 @ ''.'' @ ''OnlyOwner'' @ t2"
    using replay_agrees_with_diagnosis [OF pay(1) [of "''ABCD''" "''reverted''" "''0x41424344''"] _ pay(2) demo_reordered, where E = demo_ext, THEN conjunct1, rule_format,
        of "''Verification''" "''OnlyOwner''"] by (fastforce simp: demo_declared simp del: append_Cons)
  moreover from this(1) have "s2 = ''ExtensionManager''" by (simp add: demo_declared)
  ultimately show "\<exists>t. replay_payload demo_ext (demo_eth\<lparr>FromHex := (\<lambda>_. ''ABCD'')\<rparr>) demo_abis (ErrRPC ''reverted'' (DataString ''0x41424344'')) =
       ''  revert -> '' @ ''ExtensionManager'' @ ''.'' @ ''OnlyOwner'' @ t" by blast
  show "\<exists>t. replay_payload demo_ext (demo_eth\<lparr>FromHex := (\<lambda>_. ''WXYZ'')\<rparr>) demo_abis (ErrRPC ''reverted'' (DataString ''0x5758595a'')) =
       ''  revert with unknown selector 0x'' @ hex_encode ''WXYZ'' @ t"
    using replay_agrees_with_diagnosis [OF pay(1) [of "''WXYZ''" "''reverted''" "''0x5758595a''"] _ pay(2) demo_reordered, where E = demo_ext, THEN conjunct2, THEN conjunct1, rule_format,
        of "''WrongFee''"] by (auto simp: demo_declared simp del: append_Cons)
qed

subsection \<open>The names the audit prints\<close>

lemma named32_padded:
  assumes "list_all plain s" "s \<noteq> [] \<Longrightarrow> graphic (hd s) \<and> graphic (last s)"
  shows "named32 E (s @ replicate n (CHR 0x00)) =
     ''    0x'' @ hex_encode (s @ replicate n (CHR 0x00)) @ ''   '' @ [CHR 0x22] @ s @ [CHR 0x22] @ newline"
  using assms by (simp add: named32_def hex32_def line_def bytes32ToString_padded Quote_plain)

text \<open>C37: The audit shows the 32-byte identifiers of the registry as the names they spell: for platforms and key types that are printable names (no quote or
  backslash, no blank at either end) padded with zero bytes, it prints their number and then, in the order of the registry, one line for
  each with the 64 hexadecimal digits and the name in quotes.\<close>

theorem audit_prints_names:
  assumes "list_all (\<lambda>s. length s \<le> 32 \<and> list_all plain s \<and> (s \<noteq> [] \<longrightarrow> graphic (hd s) \<and> graphic (last s))) (plats @ types)"
    and "SystemSupportedPlatforms A = Ok (map (\<lambda>s. s @ replicate (32 - length s) (CHR 0x00)) plats)"
    and "SupportedKeyTypes A eid = Ok (map (\<lambda>s. s @ replicate (32 - length s) (CHR 0x00)) types)"
  shows "\<exists>before after before'.
     audit_registry E A manager = before @ ''  systemSupportedPlatforms ('' @ dec_of_nat (length plats) @ ''):'' @ newline @
       concat (map (\<lambda>s. ''    0x'' @ hex_encode (s @ replicate (32 - length s) (CHR 0x00)) @ ''   '' @ [CHR 0x22] @ s @ [CHR 0x22] @ newline) plats) @
       after \<and>
     audit_extension E A eid = before' @ ''  supportedKeyTypes ('' @ dec_of_nat (length types) @ ''):'' @ newline @
       concat (map (\<lambda>s. ''    0x'' @ hex_encode (s @ replicate (32 - length s) (CHR 0x00)) @ ''   '' @ [CHR 0x22] @ s @ [CHR 0x22] @ newline) types)"
proof -
  have rows: "map (named32 E) (map (\<lambda>s. s @ replicate (32 - length s) (CHR 0x00)) ss) =
      map (\<lambda>s. ''    0x'' @ hex_encode (s @ replicate (32 - length s) (CHR 0x00)) @ ''   '' @ [CHR 0x22] @ s @ [CHR 0x22] @ newline) ss"
    if "set ss \<subseteq> set (plats @ types)" for ss
  proof -
    have "named32 E (s @ replicate (32 - length s) (CHR 0x00)) =
        ''    0x'' @ hex_encode (s @ replicate (32 - length s) (CHR 0x00)) @ ''   '' @ [CHR 0x22] @ s @ [CHR 0x22] @ newline"
      if "s \<in> set (plats @ types)" for s
      using bspec [OF iffD1 [OF list_all_iff assms(1)] that] by (intro named32_padded) blast+
    then show ?thesis using that unfolding map_map comp_def by (intro map_cong) blast+
  qed
  have "\<exists>before after. audit_registry E A manager = before @ ''  systemSupportedPlatforms ('' @ dec_of_nat (length plats) @ ''):'' @ newline @
      concat (map (named32 E) (map (\<lambda>s. s @ replicate (32 - length s) (CHR 0x00)) plats)) @ after"
    unfolding audit_registry_def line_def assms(2)
    by (intro exI [of _ "newline @ (''=== ExtensionManager facet @ FlareTeeManager '' @ AddressHex E manager @ '' ==='') @ newline"]
          exI [of _ "case NextPublicId A of Err _ \<Rightarrow> [] | Ok cnt \<Rightarrow> (''  nextPublicExtensionId: '' @ dec_of_int cnt) @ newline"])
       (simp only: append_assoc length_map sum.case)
  moreover have "\<exists>before'. audit_extension E A eid = before' @ ''  supportedKeyTypes ('' @ dec_of_nat (length types) @ ''):'' @ newline @
      concat (map (named32 E) (map (\<lambda>s. s @ replicate (32 - length s) (CHR 0x00)) types))"
    unfolding audit_extension_def line_def assms(3)
    by (intro exI [of _ "newline @ (''=== Extension id='' @ dec_of_int eid @ '' ==='') @ newline @
          (case ExtensionOwner A eid of
             Err err \<Rightarrow> (''  getExtensionOwner ERROR: '' @ Error err) @ newline
           | Ok owner \<Rightarrow> (''  owner: '' @ AddressHex E owner) @ newline) @
          (case SupportedCodeHashes A eid of
             Err err \<Rightarrow> (''  getSupportedCodeHashes ERROR: '' @ Error err) @ newline
           | Ok ch \<Rightarrow> (''  supportedCodeHashes ('' @ dec_of_nat (length ch) @ ''):'') @ newline @
               concat (map (\<lambda>h. (''    '' @ hex32 h) @ newline) ch))"])
       (simp only: append_assoc length_map sum.case)
  moreover have "set plats \<subseteq> set (plats @ types)" "set types \<subseteq> set (plats @ types)" by simp_all
  ultimately show ?thesis unfolding rows [OF \<open>set plats \<subseteq> _\<close>] rows [OF \<open>set types \<subseteq> _\<close>] by blast
qed

text \<open>A registry with the Intel platform of fccutils/encoding.go and one key type.\<close>

definition demo_auditor :: auditor where
  "demo_auditor =
     \<lparr>BlockNumber = Ok 1, ExtensionManagerBind = None,
      SystemSupportedPlatforms = (case hex_decode platform_intel_hex of Some b \<Rightarrow> Ok [b] | None \<Rightarrow> Ok []), NextPublicId = Ok 8,
      ExtensionOwner = (\<lambda>_. Ok 5), SupportedCodeHashes = (\<lambda>_. Ok []), SupportedKeyTypes = (\<lambda>_. Ok [''EVM'' @ replicate 29 (CHR 0x00)])\<rparr>"

theorem audit_prints_names_witness:
  "\<exists>before after. audit_registry demo_ext demo_auditor 3 = before @ ''  systemSupportedPlatforms ('' @ dec_of_nat 1 @ ''):'' @ newline @
     ''    0x'' @ platform_intel_hex @ ''   '' @ [CHR 0x22] @ ''GCP_INTEL_TDX'' @ [CHR 0x22] @ newline @ after"
proof -
  have "list_all (\<lambda>s. length s \<le> 32 \<and> list_all plain s \<and> (s \<noteq> [] \<longrightarrow> graphic (hd s) \<and> graphic (last s))) ([''GCP_INTEL_TDX''] @ [''EVM''])"
    by (simp add: plain_def graphic_def)
  moreover have "SystemSupportedPlatforms demo_auditor = Ok (map (\<lambda>s. s @ replicate (32 - length s) (CHR 0x00)) [''GCP_INTEL_TDX''])"
    by (simp add: demo_auditor_def platform_names)
  moreover have "SupportedKeyTypes demo_auditor 7 = Ok (map (\<lambda>s. s @ replicate (32 - length s) (CHR 0x00)) [''EVM''])"
    by (simp add: demo_auditor_def)
  ultimately have "\<exists>before after. audit_registry demo_ext demo_auditor 3 = before @ ''  systemSupportedPlatforms ('' @ dec_of_nat (length [''GCP_INTEL_TDX'']) @
      ''):'' @ newline @ concat (map (\<lambda>s. ''    0x'' @ hex_encode (s @ replicate (32 - length s) (CHR 0x00)) @ ''   '' @ [CHR 0x22] @ s @
        [CHR 0x22] @ newline) [''GCP_INTEL_TDX'']) @ after"
    using audit_prints_names [of "[''GCP_INTEL_TDX'']" "[''EVM'']" demo_auditor 7 demo_ext 3] by blast
  moreover have "hex_encode (''GCP_INTEL_TDX'' @ replicate (32 - length ''GCP_INTEL_TDX'') (CHR 0x00)) = platform_intel_hex" by code_simp
  ultimately show ?thesis by (simp del: append_Cons add: append_assoc)
qed

text \<open>A query prints one section per argument whatever the registry answers, and fails only when the node gives fewer URLs than machines.\<close>

lemma active_rows_panic: "snd (active_rows E i ids urls) \<longleftrightarrow> length urls < i + length ids \<and> ids \<noteq> []"
  by (induction E i ids urls rule: active_rows.induct) (auto split: prod.split)

lemma query_tee_status:
  assumes "Dial N rpc = Ok c" "MachineManagerBind M = None"
  shows "exit_status (query_tee E N M rpc listExt args) =
     (if 0 \<le> sint listExt \<and> (\<exists>ids urls. ActiveTeeMachines M (sint listExt) = Ok (ids, urls) \<and> length urls < length ids) then 2 else 0)"
proof (cases "ActiveTeeMachines M (sint listExt)")
  case (Inl err)
  then show ?thesis using assms by (simp add: query_tee_def list_active_def Let_def)
next
  case (Inr r)
  obtain ids urls where r: "r = (ids, urls)" by force
  obtain rows p where "active_rows E 0 ids urls = (rows, p)" by force
  moreover from this have "p \<longleftrightarrow> length urls < length ids" using active_rows_panic [of E 0 ids urls] by auto
  ultimately show ?thesis using assms Inr r by (cases p) (simp_all add: query_tee_def list_active_def Let_def)
qed

end
