(* ===== verification/Start.thy ===== *)
theory Start
  imports Support Server TeeCalls
begin

section \<open>Starting the services (go/cmd/start-tee, go/cmd/docker, tools/cmd/start-proxy)\<close>

text \<open>
  What the start-up commands compute before they hand over to servers: the owner address and the ports of start-tee, the integer
  environment variables of the Docker entry point, and the configuration file and identities of start-proxy. The processes themselves, with
  their signals and error channel, are the subject of theory \<open>Process\<close>. \<open>Setenv\<close> updates the environment of the process.
\<close>

definition Setenv :: "string \<Rightarrow> string \<Rightarrow> host \<Rightarrow> host" where
  "Setenv k v H = H\<lparr>Getenv := (Getenv H)(k := v)\<rparr>"

lemma Getenv_Setenv [simp]: "Getenv (Setenv k v H) k' = (if k' = k then v else Getenv H k')"
  by (simp add: Setenv_def)

subsection \<open>start-tee\<close>

definition ExtConfigurationPort :: int where "ExtConfigurationPort = 5501"
definition ExtProxyInternalPort :: int where "ExtProxyInternalPort = 6663"
definition ExtensionServerPort :: int where "ExtensionServerPort = 7701"
definition ExtensionPort :: int where "ExtensionPort = 7702"

text \<open>The key of an unset owner. A bad default key is a panic, a bad key from the environment ends the process.\<close>

definition owner_private_key :: "ext \<Rightarrow> host \<Rightarrow> privkey result" where
  "owner_private_key E H =
     (let privKeyString = Getenv H ''DEPLOYMENT_PRIVATE_KEY'' in
      if privKeyString = []
      then (case HexToECDSA E ''804b01a8c27a65cc694a867be76edae3ccce7a7161cda1f67a8349df696d2207'' of
              Err _ \<Rightarrow> Err (Panic ''cannot parse default private key'')
            | Ok k \<Rightarrow> Ok k)
      else (case HexToECDSA E (strip_key_prefix privKeyString) of
              Err err \<Rightarrow> Err (Errorf ''Error: '' err)
            | Ok k \<Rightarrow> Ok k))"

definition setOwnerAddress :: "ext \<Rightarrow> (host, address) act" where
  "setOwnerAddress E H =
     (let owner = Getenv H ''INITIAL_OWNER'' in
      if owner = []
      then (case owner_private_key E H of
              Err err \<Rightarrow> (Err err, H)
            | Ok privKey \<Rightarrow>
                (Ok (HexToAddress E owner), Setenv ''INITIAL_OWNER'' (AddressHex E (PubkeyToAddress E privKey)) H))
      else (Ok (HexToAddress E owner), H))"

text \<open>\<open>load\<close> is \<^verbatim>\<open>godotenv.Load\<close> of a file: it adds the variables that are not set yet.\<close>

definition loadEnv :: "(string \<Rightarrow> host \<Rightarrow> host option) \<Rightarrow> string \<Rightarrow> host \<Rightarrow> host" where
  "loadEnv load rootEnv H = (case load rootEnv H of Some H' \<Rightarrow> H' | None \<Rightarrow> (case load ''.env'' H of Some H' \<Rightarrow> H' | None \<Rightarrow> H))"

text \<open>The environment the servers are started with, and the configuration of the node after the extension server bound its
  port (\<open>bound\<close> is its early failure).\<close>

definition start_env :: "ext \<Rightarrow> (string \<Rightarrow> host \<Rightarrow> host option) \<Rightarrow> string \<Rightarrow> string \<Rightarrow> (host, unit) act" where
  "start_env E load rootEnv extensionID H0 =
     call (setOwnerAddress E) id (\<lambda>_ H. (Ok (), if extensionID \<noteq> [] then Setenv ''EXTENSION_ID'' extensionID H else H))
       (loadEnv load rootEnv H0)"

definition setProxyURL :: "'c proxy \<Rightarrow> int \<Rightarrow> int \<Rightarrow> ('c, unit) act" where
  "setProxyURL P configurationPort proxyPort =
     call (lift (EncodeProxyURL P (''http://localhost:'' @ dec_of_int proxyPort))) id (\<lambda>body.
       call (HttpPost P (''http://localhost:'' @ dec_of_int configurationPort @ ''/proxy'') body) id (\<lambda>status.
         if status \<noteq> 200 then fail (ErrText (''unexpected status code: '' @ dec_of_nat status)) else ret ()))"

definition runExtension :: "'c proxy \<Rightarrow> goerror option \<Rightarrow> ('c, unit) act" where
  "runExtension P bound =
     (case bound of
        Some err \<Rightarrow> fail (Errorf ''extension server failed to start: '' err)
      | None \<Rightarrow> call (setProxyURL P ExtConfigurationPort ExtProxyInternalPort) (Errorf ''Error: '') ret)"

subsection \<open>The Docker entry point\<close>

definition intEnv :: "host \<Rightarrow> string \<Rightarrow> int \<Rightarrow> int" where
  "intEnv H key fallback = (case Atoi (Getenv H key) of Some v \<Rightarrow> v | None \<Rightarrow> fallback)"

text \<open>The configuration, signing and extension ports of the entry point.\<close>

definition docker_ports :: "host \<Rightarrow> int \<times> int \<times> int" where
  "docker_ports H = (intEnv H ''CONFIG_PORT'' 5501, snd (config_init H), fst (config_init H))"

subsection \<open>start-proxy\<close>

text \<open>\<open>stat\<close> tells whether \<^verbatim>\<open>os.Stat\<close> succeeds, \<open>root\<close> is the cleaned project root.\<close>

definition findProxyConfig :: "host \<Rightarrow> (string \<Rightarrow> bool) \<Rightarrow> string \<Rightarrow> string" where
  "findProxyConfig H stat root =
     (let envConfig = Getenv H ''PROXY_CONFIG''; candidate = root @ ''/config/proxy/extension_proxy.toml'' in
      if envConfig \<noteq> [] then envConfig
      else if stat candidate then candidate
      else ''./config/proxy/extension_proxy.toml'')"

text \<open>\<open>external\<close> is the port of the external interface in the configuration file.\<close>

definition logProxyAndTeeIds :: "(string \<Rightarrow> string result) \<Rightarrow> 'c proxy \<Rightarrow> string \<Rightarrow> ('c, address \<times> address) act" where
  "logProxyAndTeeIds external P configFile =
     call (lift (external configFile)) (\<lambda>err. ErrWrap (''failed to read proxy config: '' @ Error err) err) (\<lambda>port.
       call (GetTeeProxyID P (''http://localhost:'' @ port)) (\<lambda>err. ErrWrap (''failed to extract teeID and proxyID: '' @ Error err) err) ret)"

text \<open>The command: \<open>init\<close> is \<^verbatim>\<open>initProxy.Init\<close>. The result is what it logs until it waits for a signal; a failure to read the identities is
  only a warning.\<close>

definition proxy_loadEnv :: "(string \<Rightarrow> host \<Rightarrow> host option) \<Rightarrow> string \<Rightarrow> host \<Rightarrow> host" where
  "proxy_loadEnv load root = loadEnv load (root @ ''/.env'')"

definition start_proxy :: "ext \<Rightarrow> (string \<Rightarrow> host \<Rightarrow> host option) \<Rightarrow> (string \<Rightarrow> bool) \<Rightarrow> string \<Rightarrow> (string \<Rightarrow> 'c \<Rightarrow> 'c) \<Rightarrow> (string \<Rightarrow> string result)
    \<Rightarrow> 'c proxy \<Rightarrow> host \<Rightarrow> 'c \<Rightarrow> string list \<times> 'c" where
  "start_proxy E load stat root init external P H c =
     (let proxyConfigFile = findProxyConfig (proxy_loadEnv load root H) stat root in
      case logProxyAndTeeIds external P proxyConfigFile (init proxyConfigFile c) of
        (Err err, c') \<Rightarrow> ([''Started extension proxy'', ''Failed to log proxy and tee IDs: '' @ Error err], c')
      | (Ok (teeID, proxyID), c') \<Rightarrow>
          ([''Started extension proxy'', ''Proxy started - TeeID: '' @ AddressHex E teeID @ '', ProxyID: '' @ AddressHex E proxyID], c'))"

subsection \<open>The owner address\<close>

text \<open>The two copies of the proxy configuration, here and in tools/pkg/fccutils, are the same function.\<close>

lemma setProxyURL_eq_SetProxyUrl: "setProxyURL P = SetProxyUrl P"
  by (simp add: setProxyURL_def SetProxyUrl_def fun_eq_iff)

text \<open>An unset owner is derived from the key and stored in the environment, but what the function returns is the address of the empty
  string, and only a second call returns the derived address.\<close>

lemma setOwnerAddress_returns_empty_owner:
  assumes "Getenv H ''INITIAL_OWNER'' = []" "owner_private_key E H = Ok k"
  shows "\<exists>H'. setOwnerAddress E H = (Ok (HexToAddress E []), H') \<and>
     Getenv H' ''INITIAL_OWNER'' = AddressHex E (PubkeyToAddress E k) \<and>
     (AddressHex E (PubkeyToAddress E k) \<noteq> [] \<longrightarrow>
        setOwnerAddress E H' = (Ok (HexToAddress E (AddressHex E (PubkeyToAddress E k))), H'))"
  using assms by (simp add: setOwnerAddress_def Let_def)

lemma start_env_sets:
  assumes "start_env E load rootEnv extensionID H0 = (Ok (), H)" "extensionID \<noteq> []" "\<And>a. AddressHex E a \<noteq> []"
  shows "Getenv H ''EXTENSION_ID'' = extensionID \<and> Getenv H ''INITIAL_OWNER'' \<noteq> []"
  using assms by (auto simp: start_env_def call_Ok_iff setOwnerAddress_def Let_def split: if_splits sum.splits)

end
