(* ===== verification/Process.thy ===== *)
theory Process
  imports Transitions Start
begin

section \<open>The server processes (go/cmd/main.go, go/pkg/server, go/cmd/docker, go/cmd/start-tee)\<close>

text \<open>
  The processes around the handlers: what their goroutines do with the listening socket, the signals and the error channel, as step
  relations. A step is one statement of one goroutine, or an event of the outside (a request arrives, a signal is
  delivered, the listener fails, time passes); every interleaving is a run. The goroutine that serves a request is the pair of
  steps \<open>accept\<close> and \<open>answer\<close>; what happens in between is the subject of theory \<open>Concurrency\<close>.
\<close>

text \<open>How a process ends: \<^verbatim>\<open>main\<close> returned or \<^verbatim>\<open>os.Exit(0)\<close>, \<^verbatim>\<open>logger.Fatalf\<close> (status 1), the default action of a signal, or by the
  tee-node server that two of the commands run in a goroutine of the same process.\<close>

datatype process_outcome = Exit0 | Fatalf goerror | Killed | NodeEnd goerror

subsection \<open>The extension server on its own: go/cmd/main.go\<close>

text \<open>\<^verbatim>\<open>ListenAndServe\<close> always returns an error; after \<^verbatim>\<open>Shutdown\<close> was called it is \<open>ErrServerClosed\<close>.\<close>

datatype serve_error = ErrServerClosed | ServeError goerror

datatype listener = Binding | Accepting | Closed | Broken

datatype main_pc = Serving | Returned serve_error

text \<open>The goroutine behind \<^verbatim>\<open>sigChan\<close>; \<open>InShutdown d\<close> is inside \<^verbatim>\<open>Shutdown\<close> with the deadline \<open>d\<close> of its context.\<close>

datatype signal_pc = AwaitSignal | InShutdown nat | ShutDown nat "goerror option"

record server_proc =
  listener :: listener
  inflight :: "nat set"
  answered :: "nat set"
  sigPending :: bool
  clock :: nat
  mainAt :: main_pc
  signalAt :: signal_pc
  ended :: "process_outcome option"

text \<open>Times are in milliseconds.\<close>

definition TimeoutShutdown :: nat where "TimeoutShutdown = 5 * 1000"

definition server_start :: server_proc where
  "server_start =
     \<lparr>listener = Binding, inflight = {}, answered = {}, sigPending = False, clock = 0, mainAt = Serving, signalAt = AwaitSignal,
      ended = None\<rparr>"

inductive server_step :: "server_proc \<Rightarrow> server_proc \<Rightarrow> bool" where
  bind: "ended s = None \<Longrightarrow> listener s = Binding \<Longrightarrow> server_step s (s\<lparr>listener := Accepting\<rparr>)"
| serve_fails: "ended s = None \<Longrightarrow> listener s \<in> {Binding, Accepting} \<Longrightarrow>
     server_step s (s\<lparr>listener := Broken, mainAt := Returned (ServeError err)\<rparr>)"
| accept: "ended s = None \<Longrightarrow> listener s = Accepting \<Longrightarrow> i \<notin> inflight s \<union> answered s \<Longrightarrow>
     server_step s (s\<lparr>inflight := insert i (inflight s)\<rparr>)"
| answer: "ended s = None \<Longrightarrow> i \<in> inflight s \<Longrightarrow>
     server_step s (s\<lparr>inflight := inflight s - {i}, answered := insert i (answered s)\<rparr>)"
| signal: "ended s = None \<Longrightarrow> server_step s (s\<lparr>sigPending := True\<rparr>)"
| tick: "ended s = None \<Longrightarrow> server_step s (s\<lparr>clock := Suc (clock s)\<rparr>)"
| take_signal: "ended s = None \<Longrightarrow> signalAt s = AwaitSignal \<Longrightarrow> sigPending s \<Longrightarrow>
     server_step s (s\<lparr>sigPending := False, signalAt := InShutdown (clock s + TimeoutShutdown),
                      listener := (if listener s = Broken then Broken else Closed)\<rparr>)"
| serve_closed: "ended s = None \<Longrightarrow> listener s = Closed \<Longrightarrow> mainAt s = Serving \<Longrightarrow>
     server_step s (s\<lparr>mainAt := Returned ErrServerClosed\<rparr>)"
| drained: "ended s = None \<Longrightarrow> signalAt s = InShutdown d \<Longrightarrow> inflight s = {} \<Longrightarrow>
     server_step s (s\<lparr>signalAt := ShutDown d None\<rparr>)"
| deadline: "ended s = None \<Longrightarrow> signalAt s = InShutdown d \<Longrightarrow> d \<le> clock s \<Longrightarrow>
     server_step s (s\<lparr>signalAt := ShutDown d (Some (ErrText ''context deadline exceeded''))\<rparr>)"
| os_exit: "ended s = None \<Longrightarrow> signalAt s = ShutDown d r \<Longrightarrow> server_step s (s\<lparr>ended := Some Exit0\<rparr>)"
| main_returns: "ended s = None \<Longrightarrow> mainAt s = Returned ErrServerClosed \<Longrightarrow> server_step s (s\<lparr>ended := Some Exit0\<rparr>)"
| main_fatal: "ended s = None \<Longrightarrow> mainAt s = Returned (ServeError err) \<Longrightarrow>
     server_step s (s\<lparr>ended := Some (Fatalf (Errorf ''server: '' err))\<rparr>)"

text \<open>The listener and the two goroutines agree, and a process ended for the reason that one of them had.\<close>

definition server_inv :: "server_proc \<Rightarrow> bool" where
  "server_inv s \<longleftrightarrow>
     (signalAt s = AwaitSignal \<longrightarrow> listener s \<noteq> Closed) \<and>
     (signalAt s \<noteq> AwaitSignal \<longrightarrow> listener s \<in> {Closed, Broken}) \<and>
     (mainAt s = Serving \<longleftrightarrow> listener s \<noteq> Broken \<and> mainAt s \<noteq> Returned ErrServerClosed) \<and>
     (mainAt s = Returned ErrServerClosed \<longrightarrow> listener s = Closed) \<and>
     (\<forall>d r. signalAt s = ShutDown d r \<longrightarrow> inflight s = {} \<or> d \<le> clock s) \<and>
     inflight s \<inter> answered s = {} \<and>
     (ended s = Some Exit0 \<longrightarrow> signalAt s \<noteq> AwaitSignal) \<and>
     (\<forall>err. ended s = Some (Fatalf err) \<longrightarrow> (\<exists>e. mainAt s = Returned (ServeError e) \<and> err = Errorf ''server: '' e)) \<and>
     (\<forall>e. ended s = Some e \<longrightarrow> e = Exit0 \<or> (\<exists>err. e = Fatalf err))"

lemma server_inv_step: "server_step s s' \<Longrightarrow> server_inv s \<Longrightarrow> server_inv s'"
  by (induction rule: server_step.induct) (auto simp: server_inv_def)

interpretation server: halting_steps server_step server_start server_inv "\<lambda>s. ended s \<noteq> None"
proof unfold_locales
  show "server_inv server_start" by (simp add: server_inv_def server_start_def)
qed (auto simp: server_inv_step elim: server_step.cases)

text \<open>The server process ends with status 0 only after a signal reached its shutdown goroutine, and with status 1 only because
  \<^verbatim>\<open>ListenAndServe\<close> failed, with the reason in the message; no signal kills it.\<close>

lemma server_process_outcomes:
  assumes "server_step\<^sup>*\<^sup>* server_start s" "ended s = Some e"
  shows "e = Exit0 \<and> signalAt s \<noteq> AwaitSignal \<or>
     (\<exists>err. e = Fatalf (Errorf ''server: '' err) \<and> mainAt s = Returned (ServeError err))"
  using server.reach_inv [OF assms(1)] assms(2) by (cases e) (auto simp: server_inv_def)

text \<open>The deadline of the shutdown context, once the signal was taken: five seconds later, whatever happens then.\<close>

primrec shutdown_deadline :: "signal_pc \<Rightarrow> nat option" where
  "shutdown_deadline AwaitSignal = None"
| "shutdown_deadline (InShutdown d) = Some d"
| "shutdown_deadline (ShutDown d r) = Some d"

lemma deadline_fixed:
  "server_step\<^sup>*\<^sup>* s s' \<Longrightarrow> shutdown_deadline (signalAt s) = Some d \<Longrightarrow> shutdown_deadline (signalAt s') = Some d"
proof (induction rule: rtranclp_induct)
  case (step s1 s2)
  from step.hyps(2) step.IH [OF step.prems] show ?case by (cases rule: server_step.cases) auto
qed

lemma signal_taken:
  "server_step s s' \<Longrightarrow> signalAt s = AwaitSignal \<Longrightarrow> signalAt s' \<noteq> AwaitSignal \<Longrightarrow>
     shutdown_deadline (signalAt s') = Some (clock s + 5000)"
  by (erule server_step.cases) (simp_all add: TimeoutShutdown_def)

text \<open>\<^verbatim>\<open>Shutdown\<close> returns when the requests are answered or the five seconds are over, and not later.\<close>

lemma shutdown_waits:
  assumes "server_inv s" "server_step s s1" "signalAt s = AwaitSignal" "signalAt s1 \<noteq> AwaitSignal" "server_step\<^sup>*\<^sup>* s1 s2"
  shows "signalAt s2 = ShutDown d r \<Longrightarrow> inflight s2 = {} \<or> clock s + 5000 \<le> clock s2"
    and "signalAt s2 = InShutdown d \<Longrightarrow> ended s2 = None \<Longrightarrow>
      (\<exists>s3 r. server_step s2 s3 \<and> signalAt s3 = ShutDown d r) \<longleftrightarrow> inflight s2 = {} \<or> clock s + 5000 \<le> clock s2"
proof -
  have d: "shutdown_deadline (signalAt s2) = Some (clock s + 5000)"
    using deadline_fixed [OF assms(5) signal_taken [OF assms(2-4)]] .
  have "server_inv s2" using server.steps_inv [OF assms(5)] server_inv_step [OF assms(2,1)] by blast
  with d show "signalAt s2 = ShutDown d r \<Longrightarrow> inflight s2 = {} \<or> clock s + 5000 \<le> clock s2"
    by (auto simp: server_inv_def)
  assume at: "signalAt s2 = InShutdown d" "ended s2 = None"
  show "(\<exists>s3 r. server_step s2 s3 \<and> signalAt s3 = ShutDown d r) \<longleftrightarrow> inflight s2 = {} \<or> clock s + 5000 \<le> clock s2"
  proof
    assume "\<exists>s3 r. server_step s2 s3 \<and> signalAt s3 = ShutDown d r"
    then obtain s3 r where "server_step s2 s3" "signalAt s3 = ShutDown d r" by blast
    then show "inflight s2 = {} \<or> clock s + 5000 \<le> clock s2"
      using at d by (cases rule: server_step.cases) auto
  next
    assume "inflight s2 = {} \<or> clock s + 5000 \<le> clock s2"
    then show "\<exists>s3 r. server_step s2 s3 \<and> signalAt s3 = ShutDown d r"
    proof
      assume "inflight s2 = {}"
      from server_step.drained [OF at(2,1) this] show ?thesis by fastforce
    next
      assume "clock s + 5000 \<le> clock s2"
      with d at have "d \<le> clock s2" by simp
      from server_step.deadline [OF at(2,1) this] show ?thesis by fastforce
    qed
  qed
qed

lemma signal_ends_server:
  assumes "ended s = None" "listener s = Accepting" "signalAt s = AwaitSignal" "mainAt s = Serving"
  shows "\<exists>s'. server_step\<^sup>*\<^sup>* s s' \<and> ended s' = Some Exit0 \<and> inflight s' = inflight s \<and> answered s' = answered s \<and> clock s' = clock s"
proof -
  define s1 where "s1 = s\<lparr>sigPending := True\<rparr>"
  define s2 where "s2 = s1\<lparr>sigPending := False, signalAt := InShutdown (clock s1 + TimeoutShutdown),
      listener := (if listener s1 = Broken then Broken else Closed)\<rparr>"
  define s3 where "s3 = s2\<lparr>mainAt := Returned ErrServerClosed\<rparr>"
  define s4 where "s4 = s3\<lparr>ended := Some Exit0\<rparr>"
  have "server_step s s1" unfolding s1_def using assms(1) by (rule server_step.signal)
  moreover have "server_step s1 s2" unfolding s2_def by (rule server_step.take_signal) (simp_all add: s1_def assms)
  moreover have "server_step s2 s3" unfolding s3_def by (rule server_step.serve_closed) (simp_all add: s2_def s1_def assms)
  moreover have "server_step s3 s4" unfolding s4_def by (rule server_step.main_returns) (simp_all add: s3_def s2_def s1_def assms)
  ultimately have "server_step\<^sup>*\<^sup>* s s4" by (meson rtranclp.rtrancl_into_rtrancl rtranclp.rtrancl_refl)
  then show ?thesis by (intro exI [of _ s4]) (simp add: s4_def s3_def s2_def s1_def)
qed

text \<open>C24: The graceful shutdown is not waited for. \<^verbatim>\<open>Shutdown\<close> itself waits: from the step that takes the signal on, it can return exactly when
  no request is in flight or 5000 milliseconds have passed since that step; but calling it makes \<^verbatim>\<open>ListenAndServe\<close> return at
  once, and then \<^verbatim>\<open>main\<close> returns: from every reachable state of a listening server, a signal can end the process with status 0, at the same instant and with every request in flight unanswered for good.\<close>

theorem shutdown_is_not_waited_for:
  assumes "server_step\<^sup>*\<^sup>* server_start s"
  shows "(\<forall>s1 s2 d r. signalAt s = AwaitSignal \<and> server_step s s1 \<and> signalAt s1 \<noteq> AwaitSignal \<and> server_step\<^sup>*\<^sup>* s1 s2 \<longrightarrow>
        (signalAt s2 = ShutDown d r \<longrightarrow> inflight s2 = {} \<or> clock s + 5000 \<le> clock s2) \<and>
        (signalAt s2 = InShutdown d \<and> ended s2 = None \<longrightarrow>
           (\<exists>s3 r'. server_step s2 s3 \<and> signalAt s3 = ShutDown d r') = (inflight s2 = {} \<or> clock s + 5000 \<le> clock s2))) \<and>
     (ended s = None \<and> listener s = Accepting \<longrightarrow>
      (\<exists>s'. server_step\<^sup>*\<^sup>* s s' \<and> ended s' = Some Exit0 \<and> inflight s' = inflight s \<and> clock s' = clock s \<and>
         (\<forall>s''. server_step\<^sup>*\<^sup>* s' s'' \<longrightarrow> inflight s'' = inflight s \<and> answered s'' = answered s)))"
proof -
  have inv: "server_inv s" using assms by (rule server.reach_inv)
  have "\<exists>s'. server_step\<^sup>*\<^sup>* s s' \<and> ended s' = Some Exit0 \<and> inflight s' = inflight s \<and> clock s' = clock s \<and>
      (\<forall>s''. server_step\<^sup>*\<^sup>* s' s'' \<longrightarrow> inflight s'' = inflight s \<and> answered s'' = answered s)"
    if run: "ended s = None" "listener s = Accepting"
  proof -
    have "signalAt s = AwaitSignal" "mainAt s = Serving" using inv run by (auto simp: server_inv_def)
    then obtain s' where s': "server_step\<^sup>*\<^sup>* s s'" "ended s' = Some Exit0" "inflight s' = inflight s" "answered s' = answered s" "clock s' = clock s"
      using signal_ends_server [of s] run by blast
    then have "s'' = s'" if "server_step\<^sup>*\<^sup>* s' s''" for s'' using server.halted_final [OF that] by simp
    with s' show ?thesis by (intro exI [of _ s']) auto
  qed
  then show ?thesis using shutdown_waits [OF inv] by blast
qed

subsection \<open>StartExtension and the commands that call it\<close>

text \<open>\<^verbatim>\<open>StartExtension\<close> serves in a goroutine and sends the one error of \<^verbatim>\<open>ListenAndServe\<close> into a channel of capacity one. The two
  commands go through the phases below, with the channel \<open>errCh\<close> and the signal channel \<open>sigChan\<close>.\<close>

datatype phase = Starting | Configuring | Running

text \<open>The phases in the order in which a command goes through them.\<close>

primrec phase_index :: "phase \<Rightarrow> nat" where
  "phase_index Starting = 0"
| "phase_index Configuring = 1"
| "phase_index Running = 2"

lemma phase_index_inject: "phase_index p = phase_index q \<longleftrightarrow> p = q"
  by (cases p; cases q) simp_all

instantiation phase :: linorder
begin

definition less_eq_phase :: "phase \<Rightarrow> phase \<Rightarrow> bool" where
  "less_eq_phase p q \<longleftrightarrow> phase_index p \<le> phase_index q"

definition less_phase :: "phase \<Rightarrow> phase \<Rightarrow> bool" where
  "less_phase p q \<longleftrightarrow> phase_index p < phase_index q"

instance
  by standard (auto simp: less_eq_phase_def less_phase_def phase_index_inject)

end

lemma phase_le [simp]: "Starting \<le> p" "p \<le> Running" "Running \<le> p \<longleftrightarrow> p = Running" "Configuring \<le> Running"
  by (cases p; simp add: less_eq_phase_def)+

record start_proc =
  serving :: bool
  errCh :: "goerror option"
  sigChan :: bool
  phase :: phase
  outcome :: "process_outcome option"

definition start_proc_init :: start_proc where
  "start_proc_init = \<lparr>serving = True, errCh = None, sigChan = False, phase = Starting, outcome = None\<rparr>"

inductive StartExtension_step :: "start_proc \<Rightarrow> start_proc \<Rightarrow> bool" where
  send: "outcome s = None \<Longrightarrow> serving s \<Longrightarrow> errCh s = None \<Longrightarrow> StartExtension_step s (s\<lparr>serving := False, errCh := Some err\<rparr>)"

text \<open>The Docker entry point. Before \<^verbatim>\<open>signal.Notify\<close>, at the end of the start, a signal has its default action.\<close>

text \<open>\<^verbatim>\<open>teeServer.StartServerExtension\<close> is code of tee-node, which runs beside the extension in the same process. It shares no channel with
  the commands, but it can end the process; \<open>N\<close> is the set of errors with which it may do so.\<close>

inductive docker_step :: "goerror set \<Rightarrow> start_proc \<Rightarrow> start_proc \<Rightarrow> bool" for N where
  serve_error: "StartExtension_step s s' \<Longrightarrow> docker_step N s s'"
| tee_node_ends: "outcome s = None \<Longrightarrow> err \<in> N \<Longrightarrow> docker_step N s (s\<lparr>outcome := Some (NodeEnd err)\<rparr>)"
| default_action: "outcome s = None \<Longrightarrow> phase s = Starting \<Longrightarrow> docker_step N s (s\<lparr>outcome := Some Killed\<rparr>)"
| early_failure: "outcome s = None \<Longrightarrow> phase s = Starting \<Longrightarrow> errCh s = Some err \<Longrightarrow>
     docker_step N s (s\<lparr>errCh := None, outcome := Some (Fatalf (Errorf ''extension server failed to start: '' err))\<rparr>)"
| started: "outcome s = None \<Longrightarrow> phase s = Starting \<Longrightarrow> errCh s = None \<Longrightarrow> docker_step N s (s\<lparr>phase := Running\<rparr>)"
| notify: "outcome s = None \<Longrightarrow> phase s = Running \<Longrightarrow> docker_step N s (s\<lparr>sigChan := True\<rparr>)"
| shut_down: "outcome s = None \<Longrightarrow> phase s = Running \<Longrightarrow> sigChan s \<Longrightarrow> docker_step N s (s\<lparr>sigChan := False, outcome := Some Exit0\<rparr>)"
| server_error: "outcome s = None \<Longrightarrow> phase s = Running \<Longrightarrow> errCh s = Some err \<Longrightarrow>
     docker_step N s (s\<lparr>errCh := None, outcome := Some (Fatalf (Errorf ''extension server error: '' err))\<rparr>)"

text \<open>start-tee registers for signals first, and looks at the error channel only once. \<open>c\<close> is the outside when the node is configured.\<close>

inductive start_tee_step :: "goerror set \<Rightarrow> 'c proxy \<Rightarrow> start_proc \<Rightarrow> start_proc \<Rightarrow> bool" for N P where
  serve_error: "StartExtension_step s s' \<Longrightarrow> start_tee_step N P s s'"
| tee_node_ends: "outcome s = None \<Longrightarrow> err \<in> N \<Longrightarrow> start_tee_step N P s (s\<lparr>outcome := Some (NodeEnd err)\<rparr>)"
| notify: "outcome s = None \<Longrightarrow> start_tee_step N P s (s\<lparr>sigChan := True\<rparr>)"
| early_failure: "outcome s = None \<Longrightarrow> phase s = Starting \<Longrightarrow> errCh s = Some err \<Longrightarrow>
     start_tee_step N P s (s\<lparr>errCh := None, outcome := Some (Fatalf (Errorf ''extension server failed to start: '' err))\<rparr>)"
| started: "outcome s = None \<Longrightarrow> phase s = Starting \<Longrightarrow> errCh s = None \<Longrightarrow> start_tee_step N P s (s\<lparr>phase := Configuring\<rparr>)"
| configured: "outcome s = None \<Longrightarrow> phase s = Configuring \<Longrightarrow>
     setProxyURL P ExtConfigurationPort ExtProxyInternalPort c = (Ok (), c') \<Longrightarrow> start_tee_step N P s (s\<lparr>phase := Running\<rparr>)"
| not_configured: "outcome s = None \<Longrightarrow> phase s = Configuring \<Longrightarrow>
     setProxyURL P ExtConfigurationPort ExtProxyInternalPort c = (Err err, c') \<Longrightarrow>
     start_tee_step N P s (s\<lparr>outcome := Some (Fatalf (Errorf ''Error: '' err))\<rparr>)"
| shut_down: "outcome s = None \<Longrightarrow> phase s = Running \<Longrightarrow> sigChan s \<Longrightarrow>
     start_tee_step N P s (s\<lparr>sigChan := False, outcome := Some Exit0\<rparr>)"

inductive_simps StartExtension_sends: "StartExtension_step s s'"

text \<open>While the process runs, the channel holds an error exactly when the server has failed, so the send never blocks.\<close>

definition channel_inv :: "start_proc \<Rightarrow> bool" where
  "channel_inv s \<longleftrightarrow>
     (serving s \<longrightarrow> errCh s = None) \<and> (outcome s = None \<longrightarrow> (errCh s = None \<longleftrightarrow> serving s)) \<and>
     (\<forall>err. outcome s = Some (Fatalf err) \<longrightarrow> phase s = Configuring \<or> \<not> serving s) \<and>
     (outcome s = Some Exit0 \<longrightarrow> phase s = Running) \<and> (outcome s = Some Killed \<longrightarrow> phase s = Starting)"

lemma channel_inv_init: "channel_inv start_proc_init"
  by (simp add: channel_inv_def start_proc_init_def)

lemma channel_inv_docker: "docker_step N s s' \<Longrightarrow> channel_inv s \<Longrightarrow> channel_inv s'"
  by (induction rule: docker_step.induct) (auto simp: channel_inv_def StartExtension_sends)

lemma channel_inv_start_tee: "start_tee_step N P s s' \<Longrightarrow> channel_inv s \<Longrightarrow> channel_inv s'"
  by (induction rule: start_tee_step.induct) (auto simp: channel_inv_def StartExtension_sends)

lemma docker_phase: "docker_step N s s' \<Longrightarrow> phase s \<noteq> Configuring \<Longrightarrow> phase s' \<noteq> Configuring"
  by (induction rule: docker_step.induct) (auto simp: StartExtension_sends)

lemma docker_halts: "docker_step N s s' \<Longrightarrow> outcome s = None"
  by (induction rule: docker_step.induct) (auto simp: StartExtension_sends)

lemma start_tee_halts: "start_tee_step N P s s' \<Longrightarrow> outcome s = None"
  by (induction rule: start_tee_step.induct) (auto simp: StartExtension_sends)

interpretation docker: halting_steps "docker_step N" start_proc_init "\<lambda>s. channel_inv s \<and> phase s \<noteq> Configuring" "\<lambda>s. outcome s \<noteq> None" for N
proof unfold_locales
  show "channel_inv start_proc_init \<and> phase start_proc_init \<noteq> Configuring"
    using channel_inv_init by (simp add: start_proc_init_def)
qed (auto dest: channel_inv_docker docker_phase docker_halts)

interpretation start_tee: halting_steps "start_tee_step N P" start_proc_init channel_inv "\<lambda>s. outcome s \<noteq> None" for N P
  by unfold_locales (auto intro: channel_inv_init dest: channel_inv_start_tee start_tee_halts)

text \<open>C25: The Docker entry point does not outlive the extension server: in every reachable state in which the server has failed and the process
  still runs, ending with status 1 and the server's error in the message is possible at once, and it is the only thing that can happen
  without a signal and while the tee-node server does not end the process itself.\<close>

theorem docker_ends_with_server:
  assumes "(docker_step N)\<^sup>*\<^sup>* start_proc_init s" "\<not> serving s" "outcome s = None"
  shows "\<exists>err. errCh s = Some err \<and>
     (let report = Some (Fatalf (Errorf (if phase s = Starting then ''extension server failed to start: '' else ''extension server error: '') err)) in
      (\<exists>s'. docker_step N s s' \<and> outcome s' = report \<and> (\<forall>s''. (docker_step N)\<^sup>*\<^sup>* s' s'' \<longrightarrow> s'' = s')) \<and>
      (\<forall>s'. docker_step N s s' \<and> \<not> sigChan s \<and> \<not> sigChan s' \<and> (\<forall>e. outcome s' \<noteq> Some (NodeEnd e)) \<and> outcome s' \<noteq> Some Killed \<longrightarrow> outcome s' = report))"
proof -
  have inv: "channel_inv s" "phase s \<noteq> Configuring" using docker.reach_inv [OF assms(1)] by simp_all
  then obtain err where err: "errCh s = Some err" using assms(2,3) by (auto simp: channel_inv_def)
  let ?r = "Some (Fatalf (Errorf (if phase s = Starting then ''extension server failed to start: '' else ''extension server error: '') err))"
  have "\<exists>s'. docker_step N s s' \<and> outcome s' = ?r"
    using inv(2) docker_step.early_failure [OF assms(3) _ err, of N] docker_step.server_error [OF assms(3) _ err, of N] by (cases "phase s") fastforce+
  moreover have "outcome s' = ?r" if "docker_step N s s'" "\<not> sigChan s" "\<not> sigChan s'" "\<forall>e. outcome s' \<noteq> Some (NodeEnd e)" "outcome s' \<noteq> Some Killed" for s'
    using that assms(2) err by (cases rule: docker_step.cases) (auto simp: StartExtension_sends)
  moreover have "s'' = s'" if "(docker_step N)\<^sup>*\<^sup>* s' s''" "outcome s' = ?r" for s' s''
    using docker.halted_final [OF that(1)] that(2) by simp
  ultimately have "(\<exists>s'. docker_step N s s' \<and> outcome s' = ?r \<and> (\<forall>s''. (docker_step N)\<^sup>*\<^sup>* s' s'' \<longrightarrow> s'' = s')) \<and>
      (\<forall>s'. docker_step N s s' \<and> \<not> sigChan s \<and> \<not> sigChan s' \<and> (\<forall>e. outcome s' \<noteq> Some (NodeEnd e)) \<and> outcome s' \<noteq> Some Killed \<longrightarrow> outcome s' = ?r)" by blast
  with err show ?thesis unfolding Let_def by blast
qed

text \<open>Neither command goes back to an earlier phase.\<close>

lemma docker_advances: "(docker_step N)\<^sup>*\<^sup>* s s' \<Longrightarrow> phase s \<le> phase s'"
proof (erule steps_monotone)
  show "docker_step N s s' \<Longrightarrow> phase s \<le> phase s'" for s s'
    by (induction rule: docker_step.induct) (auto simp: StartExtension_sends)
qed

lemma start_tee_advances: "(start_tee_step N P)\<^sup>*\<^sup>* s s' \<Longrightarrow> phase s \<le> phase s'"
proof (erule steps_monotone)
  show "start_tee_step N P s s' \<Longrightarrow> phase s \<le> phase s'" for s s'
    by (induction rule: start_tee_step.induct) (auto simp: StartExtension_sends)
qed

definition unreported :: "goerror set \<Rightarrow> start_proc \<Rightarrow> bool" where
  "unreported N s \<longleftrightarrow> phase s = Running \<and> (outcome s \<in> {None, Some Exit0} \<or> (\<exists>err\<in>N. outcome s = Some (NodeEnd err)))"

lemma start_tee_running: "start_tee_step N P s s' \<Longrightarrow> unreported N s \<Longrightarrow> unreported N s'"
  by (induction rule: start_tee_step.induct) (auto simp: unreported_def StartExtension_sends)

lemma start_tee_keeps_running:
  "(start_tee_step N P)\<^sup>*\<^sup>* s s' \<Longrightarrow> phase s = Running \<Longrightarrow> outcome s = None \<Longrightarrow> unreported N s'"
proof (induction rule: rtranclp_induct)
  case base
  then show ?case by (simp add: unreported_def)
qed (auto intro: start_tee_running)

text \<open>C26: start-tee outlives the extension server: once it runs, a failure of the server stays in the channel, which nobody reads
  any more; only a signal moves the process, and it then ends with status 0, whatever the server did (unless the tee-node server ends it).\<close>

theorem start_tee_never_reports_late_failure:
  assumes "(start_tee_step N P)\<^sup>*\<^sup>* start_proc_init s" "phase s = Running" "outcome s = None"
  shows "(\<exists>s'. (start_tee_step N P)\<^sup>*\<^sup>* s s' \<and> \<not> serving s' \<and> outcome s' = None) \<and>
     (\<forall>s'. (start_tee_step N P)\<^sup>*\<^sup>* s s' \<longrightarrow>
        outcome s' = None \<or> outcome s' = Some Exit0 \<or> (\<exists>err\<in>N. outcome s' = Some (NodeEnd err))) \<and>
     (\<forall>s'. \<not> serving s \<and> start_tee_step N P s s' \<longrightarrow>
        s' = s\<lparr>sigChan := True\<rparr> \<or> sigChan s \<and> outcome s' = Some Exit0 \<or> (\<exists>err\<in>N. outcome s' = Some (NodeEnd err)))"
proof (intro conjI allI impI)
  have inv: "channel_inv s" using assms(1) by (rule start_tee.reach_inv)
  show "\<exists>s'. (start_tee_step N P)\<^sup>*\<^sup>* s s' \<and> \<not> serving s' \<and> outcome s' = None"
  proof (cases "serving s")
    case True
    then have "StartExtension_step s (s\<lparr>serving := False, errCh := Some (ErrText [])\<rparr>)"
      using inv assms(3) by (intro StartExtension_step.send) (simp_all add: channel_inv_def)
    then have "start_tee_step N P s (s\<lparr>serving := False, errCh := Some (ErrText [])\<rparr>)" by (rule start_tee_step.serve_error)
    then show ?thesis using assms(3) by (intro exI [of _ "s\<lparr>serving := False, errCh := Some (ErrText [])\<rparr>"]) simp
  qed (use assms(3) in blast)
next
  fix s' assume "(start_tee_step N P)\<^sup>*\<^sup>* s s'"
  then have "unreported N s'" using assms(2,3) by (rule start_tee_keeps_running)
  then show "outcome s' = None \<or> outcome s' = Some Exit0 \<or> (\<exists>err\<in>N. outcome s' = Some (NodeEnd err))" by (simp add: unreported_def)
next
  fix s' assume "\<not> serving s \<and> start_tee_step N P s s'"
  then have "\<not> serving s" "start_tee_step N P s s'" by simp_all
  from this(2,1) assms(2) show "s' = s\<lparr>sigChan := True\<rparr> \<or> sigChan s \<and> outcome s' = Some Exit0 \<or> (\<exists>err\<in>N. outcome s' = Some (NodeEnd err))"
    by (cases rule: start_tee_step.cases) (auto simp: StartExtension_sends)
qed

subsection \<open>Agreement with the sequential reading of runExtension\<close>

text \<open>Whatever start-tee ends with before it runs is an error that \<^verbatim>\<open>runExtension\<close> gives for some failure of the start or of the node.\<close>

definition runExtension_error :: "'c proxy \<Rightarrow> start_proc \<Rightarrow> bool" where
  "runExtension_error P s \<longleftrightarrow> (\<forall>err. outcome s = Some (Fatalf err) \<longrightarrow> (\<exists>bound c. fst (runExtension P bound c) = Err err))"

lemma runExtension_error_step: "start_tee_step N P s s' \<Longrightarrow> runExtension_error P s \<Longrightarrow> runExtension_error P s'"
proof (induction rule: start_tee_step.induct)
  case (early_failure s err)
  show ?case by (auto simp: runExtension_error_def runExtension_def intro!: exI [of _ "Some err"])
next
  case (not_configured s c err c')
  then have "fst (runExtension P None c) = Err (Errorf ''Error: '' err)" by (simp add: runExtension_def)
  then show ?case by (auto simp: runExtension_error_def)
qed (auto simp: runExtension_error_def StartExtension_sends)

interpretation start_tee_error: step_invariant "start_tee_step N P" start_proc_init "runExtension_error P" for N P
  by unfold_locales (auto simp: runExtension_error_step, simp add: runExtension_error_def start_proc_init_def)

lemma start_tee_fatal_is_runExtension:
  assumes "(start_tee_step N P)\<^sup>*\<^sup>* start_proc_init s" "outcome s = Some (Fatalf err)"
  shows "\<exists>bound c. fst (runExtension P bound c) = Err err"
  using start_tee_error.reach_inv [OF assms(1)] assms(2) by (simp add: runExtension_error_def)

subsection \<open>Witnesses\<close>

text \<open>A server that listens and has one request in flight; a Docker process whose server failed early; a start-tee that runs.\<close>

definition busy_server :: server_proc where
  "busy_server = server_start\<lparr>listener := Accepting, inflight := {0}\<rparr>"

text \<open>The same server just after the signal was taken.\<close>

definition closing_server :: server_proc where
  "closing_server = busy_server\<lparr>listener := Closed, signalAt := InShutdown 5000\<rparr>"

lemma busy_server_reachable: "server_step\<^sup>*\<^sup>* server_start busy_server"
proof -
  define s1 where "s1 = server_start\<lparr>listener := Accepting\<rparr>"
  have "server_step server_start s1" unfolding s1_def by (rule server_step.bind) (simp_all add: server_start_def)
  moreover have "server_step s1 (s1\<lparr>inflight := insert 0 (inflight s1)\<rparr>)"
    by (rule server_step.accept) (simp_all add: s1_def server_start_def)
  moreover have "s1\<lparr>inflight := insert 0 (inflight s1)\<rparr> = busy_server" by (simp add: busy_server_def s1_def server_start_def)
  ultimately show ?thesis by (metis rtranclp.rtrancl_into_rtrancl rtranclp.rtrancl_refl)
qed

theorem shutdown_is_not_waited_for_witness:
  "(\<exists>s. server_step\<^sup>*\<^sup>* server_start s \<and> ended s = Some Exit0 \<and> inflight s = {0} \<and> clock s = 0) \<and>
     \<not> (\<exists>s r. server_step closing_server s \<and> signalAt s = ShutDown 5000 r)"
proof
  let ?s = "busy_server\<lparr>sigPending := True\<rparr>"
  have "server_step busy_server ?s" by (rule server_step.signal) (simp add: busy_server_def server_start_def)
  with busy_server_reachable have r: "server_step\<^sup>*\<^sup>* server_start ?s" by (rule rtranclp.rtrancl_into_rtrancl)
  have at: "signalAt ?s = AwaitSignal" "signalAt closing_server = InShutdown 5000" "ended closing_server = None"
    by (simp_all add: busy_server_def server_start_def closing_server_def)
  have "server_step ?s closing_server"
    using server_step.take_signal [of ?s] by (simp add: busy_server_def server_start_def closing_server_def TimeoutShutdown_def)
  with shutdown_is_not_waited_for [OF r, THEN conjunct1, rule_format, of closing_server closing_server 5000 None] at have
    "(\<exists>s r. server_step closing_server s \<and> signalAt s = ShutDown 5000 r) = (inflight closing_server = {} \<or> clock ?s + 5000 \<le> clock closing_server)"
    by simp
  then show "\<not> (\<exists>s r. server_step closing_server s \<and> signalAt s = ShutDown 5000 r)"
    by (simp add: busy_server_def server_start_def closing_server_def)
next
  have "ended busy_server = None" "listener busy_server = Accepting" by (simp_all add: busy_server_def server_start_def)
  with shutdown_is_not_waited_for [OF busy_server_reachable] obtain s where
    "server_step\<^sup>*\<^sup>* busy_server s" "ended s = Some Exit0" "inflight s = inflight busy_server" "clock s = clock busy_server" by blast
  with busy_server_reachable show "\<exists>s. server_step\<^sup>*\<^sup>* server_start s \<and> ended s = Some Exit0 \<and> inflight s = {0} \<and> clock s = 0"
    by (intro exI [of _ s]) (simp add: busy_server_def server_start_def)
qed

text \<open>The tee-node server may end the process when its own ports are taken.\<close>

definition node_errors :: "goerror set" where
  "node_errors = {ErrText ''tee-node: address already in use''}"

definition failed_start :: start_proc where
  "failed_start = start_proc_init\<lparr>serving := False, errCh := Some (ErrText ''address already in use'')\<rparr>"

theorem docker_ends_with_server_witness:
  "\<exists>s'. docker_step node_errors failed_start s' \<and>
     outcome s' = Some (Fatalf (Errorf ''extension server failed to start: '' (ErrText ''address already in use'')))"
proof -
  have "StartExtension_step start_proc_init failed_start"
    unfolding failed_start_def by (rule StartExtension_step.send) (simp_all add: start_proc_init_def)
  then have "(docker_step node_errors)\<^sup>*\<^sup>* start_proc_init failed_start" by (intro r_into_rtranclp docker_step.serve_error)
  then show ?thesis
    using docker_ends_with_server [of node_errors failed_start] by (auto simp: failed_start_def start_proc_init_def Let_def)
qed

definition accepting_proxy :: "unit proxy" where
  "accepting_proxy =
     \<lparr>HttpGetBody = (\<lambda>_ n. (Ok (200, []), n)), HttpPost = (\<lambda>_ _ n. (Ok 200, n)), Sleep = (\<lambda>_ n. n),
      DecodeTeeInfo = (\<lambda>_. Err (ErrText [])), DecodeActionResponse = (\<lambda>_. Err (ErrText [])), EncodeProxyURL = (\<lambda>_. Ok []),
      ParsePubKey = Ok, PubToAddress = (\<lambda>_. 1), TeeInfoHash = (\<lambda>_. Ok 1), ProxyPayloadHash = (\<lambda>_ _. Ok 1), TextHash = (\<lambda>h. h),
      SigToPub = (\<lambda>_ _. Ok (1, 2)), ParseClaims = (\<lambda>_. Ok (Ok 2, Ok 3)), GetCurrentRewardEpochId = (\<lambda>n. (Ok (Some 5), n))\<rparr>"

theorem start_tee_never_reports_late_failure_witness:
  "\<exists>s. (start_tee_step node_errors accepting_proxy)\<^sup>*\<^sup>* start_proc_init s \<and> \<not> serving s \<and> outcome s = None \<and> phase s \<noteq> Starting"
proof -
  let ?s1 = "start_proc_init\<lparr>phase := Configuring\<rparr>" and ?s2 = "start_proc_init\<lparr>phase := Running\<rparr>"
  have 1: "start_tee_step node_errors accepting_proxy start_proc_init ?s1"
    by (rule start_tee_step.started) (simp_all add: start_proc_init_def)
  have "setProxyURL accepting_proxy ExtConfigurationPort ExtProxyInternalPort () = (Ok (), ())"
    by (simp add: setProxyURL_def accepting_proxy_def)
  from start_tee_step.configured [OF _ _ this, of ?s1] have 2: "start_tee_step node_errors accepting_proxy ?s1 ?s2"
    by (simp add: start_proc_init_def)
  have "(start_tee_step node_errors accepting_proxy)\<^sup>*\<^sup>* start_proc_init ?s2" using 1 2 by (meson rtranclp.rtrancl_into_rtrancl rtranclp.rtrancl_refl)
  moreover from start_tee_never_reports_late_failure [OF this] obtain s' where
    "(start_tee_step node_errors accepting_proxy)\<^sup>*\<^sup>* ?s2 s'" "\<not> serving s'" "outcome s' = None" by (auto simp: start_proc_init_def)
  moreover from this(1) have "phase s' = Running"
    using start_tee_advances [of node_errors accepting_proxy ?s2 s'] by (simp add: start_proc_init_def)
  ultimately show ?thesis by (intro exI [of _ s']) (auto intro: rtranclp_trans)
qed

end
