(* ===== verification/Spec2Isabelle.thy ===== *)
theory Spec2Isabelle
  imports VerifyDeploy Governance Setup Concurrency RunTest Inspect Process
begin

text \<open>
  QuietFill: the Go parts

  The repository runs sealed-bid auctions whose bids are decrypted and cleared in a trusted execution environment (TEE).
  Its Go code has two halves. src/go is the extension that runs beside the TEE node: an HTTP server with one mutex-protected
  state. src/tools is the deployment tooling around it: it validates a deployment, deploys the auction contract, registers
  the extension and the TEE machine on the chain, sets the governance, and plays one auction end to end.

  Conventions. A Go string or byte slice is a list of bytes (\<^typ>\<open>string\<close>); \<^verbatim>\<open>*big.Int\<close> is \<^typ>\<open>int\<close>; uint64 and the other
  fixed-width integers are words, with their wrap-around; \<^verbatim>\<open>(T, error)\<close> is a sum (\<open>Ok\<close>, \<open>Err\<close>); a call that ends the process
  (\<^verbatim>\<open>FatalWithCause\<close>, \<^verbatim>\<open>logger.Fatal\<close>) is the error result of its command. Reads of the environment, of files and of a
  chain snapshot are fields of records (\<open>host\<close>, \<open>node\<close>, \<open>client\<close>); calls that may change the outside are state transformers
  \<open>('c, 'a) act\<close> over an arbitrary outside state \<open>'c\<close>. Third-party code (go-ethereum, tee-node, the generated contract
  bindings) is a field of the records \<open>ext\<close>, \<open>eth\<close>, \<open>proxy\<close>, \<open>registrar\<close>, \<open>manager\<close>, \<open>governor\<close>, \<open>token\<close>, \<open>auction_contract\<close>,
  \<open>contracts\<close>, \<open>teenode\<close>, \<open>test_lib\<close>, \<open>auditor\<close>, \<open>machines\<close>; what a theorem relies on of it is a named
  hypothesis (\<open>contract_laws\<close>, \<open>token_laws\<close>, \<open>storage_ok\<close>), and its witness gives an instance. Log output is not modelled
  except where it is the result (the diagnosis of diag.go).

  The theories.

  \<^item> \<open>Prelude\<close>: errors, and the functions of Go's strings, strconv, bufio, hex and math/big packages that the code calls, with their laws
    (collections \<open>go_str\<close>, \<open>go_num\<close>). \<open>World\<close>: the outside records, UTF-8 and \<^verbatim>\<open>%q\<close>. \<open>Retry\<close>: the locale \<open>bounded_retry\<close>.
    \<open>Transitions\<close>: the locales \<open>step_invariant\<close> and \<open>halting_steps\<close> of the step relations. \<open>Abi\<close> (fccutils/encoding.go): ABI types and values, type
    assertions, and the codecs.
  \<^item> \<open>Report\<close> (tools/pkg/validate/report.go): results, summary, terminal rendering; locale \<open>check_group\<close>.
    \<open>EnvFile\<close>: the two readers of extension.env, each with its own line parser, both interpretations of the locale \<open>env_reader\<close>.
    \<open>Checks\<close> (validate.go, checks.go): the six groups of checks, every branch. \<open>CheckGroups\<close>: each group as an interpretation of
    \<open>check_group\<close>, and when it reports no failure.
  \<^item> \<open>JSON\<close>, \<open>Decode\<close>: encoding/json as the code uses it (compact and indented encoder, decoder with nesting limit, struct decoding), with the
    round trips. \<open>Support\<close> (tools/pkg/support, tools/pkg/configs): addresses, keys, bindings.
    \<open>VerifyDeploy\<close> (tools/cmd/verify-deploy): the command, its exit status and outputs.
  \<^item> \<open>Tx\<close> (support.go, fccutils/revert.go, fccutils/diag.go): actions, waiting for a transaction, and the reasons of a revert.
    \<open>TeeCalls\<close> (fccutils/tee_calls.go, common.go, policy_consistency.go): proxy calls, the polling loop, the signing-policy gate.
    \<open>Governance\<close> (fccutils/governance.go, cmd/set-governance).
  \<^item> \<open>Registration\<close> (fccutils/registration.go): the resumable registration and its state file; its steps r, R and a are interpretations of
    the locale \<open>resumable\<close>. \<open>Setup\<close> (fccutils/extension.go, cmd/register-extension, cmd/allow-tee-version, cmd/register-tee): its three
    idempotent steps are interpretations of the locale \<open>granting_step\<close>.
  \<^item> \<open>Deploy\<close> (cmd/deploy-contract, tools/pkg/utils/instructions.go) and \<open>RunTest\<close> (cmd/run-test): the deployment of the auction contract and
    one auction, stage by stage, from the argument lists of \<^verbatim>\<open>init\<close> on; its two loops are interpretations of \<open>bounded_retry\<close>, as is the one of
    \<open>TeeCalls\<close>.
  \<^item> \<open>Inspect\<close> (cmd/audit-deploy, cmd/query-tee; the list of ABIs that the audit searches is \<open>audit_abis\<close>, the one of diag.go is
    \<open>diag_abis\<close> of \<open>Tx\<close>, both over the generated bindings \<open>contract_abis\<close>) and \<open>Start\<close> (go/cmd/start-tee, go/cmd/docker, cmd/start-proxy).
  \<^item> \<open>Server\<close> (go/internal/extension, go/internal/config, go/pkg/types): the routes, with the path rules of ServeMux, and the handlers as
    functions on the state. \<open>Concurrency\<close>: the same handlers as interleaved steps under the read-write lock, one step per access to a field, as an
    inductive step relation. \<open>Process\<close> (go/cmd/main.go,
    go/pkg/server, go/cmd/docker, go/cmd/start-tee): the processes around them, their listener, signals and error channel, as step
    relations; the tee-node server that two of them run beside the extension is their parameter \<open>N\<close>, the errors with which it may end the process. All of
    these are interpretations of the locales of \<open>Transitions\<close>.

  What is shown. The validation: a group fails exactly under the stated conditions of the chain and the files, the exit
  status and the JSON and text outputs say exactly what the checks found, and the pre-flight checks of a deployment agree with them. The
  registration: progress survives every failure of a resumed run, a resumed run repeats nothing, the state file round-trips. The set-up: the
  deployer ends up with the three rights and the printed ID is the one the checks read back. The
  test: a run that passes has established the auction's outcome, no clear is requested before the bid window is over, and the
  retry loops return what their first conclusive attempt returned, and the type assertions on ABI data agree with the argument
  lists. The server: each request
  changes the state by at most one accepted greeting or farewell, concurrent requests are linearizable and get the answers of the sequential
  handler, reads are snapshots, the lock cannot deadlock, and no two greetings get the same number. The processes: the shutdown of the
  server waits up to five seconds, but the process does not wait for it, the Docker entry point ends with its server and start-tee does not. Error paths: reverts are decoded and named as
  the contract gave them, and the two tools that name them agree as far as their lists of ABIs do.

  Bounds. No definition needs fuel: every loop is structural in its data or in its bound. The bounds are those of the code: 15 requests of
  ActionResult (\<open>repeats\<close>), 20 polls of pollResult, 5 attempts of requestClear, 65536 bytes of a scanned line (\<open>MaxScanTokenSize\<close>),
  10000 levels of JSON (\<open>maxNestingDepth\<close>). The wait for a transaction (\<^verbatim>\<open>bind.WaitMined\<close>) is a parameter, with its timeout as an error.

  Not modelled. The inside of net/http (a connection is the pair of events accept and answer; the headers of an answer, such as the
  target of a redirect, are left out) and of the third-party servers; ABI encoding, signatures and encryption (third party); generated contract bindings; log output; the Solidity contracts, the
  TypeScript and Python implementations, the web front end, scripts and containers, which are not Go.
\<close>

section \<open>The registration as the checks see it\<close>

lemma register_extension_run:
  assumes "register_extension E N H X M af cf sender w = (Ok out, w')"
  shows "\<exists>s i. DefaultSupport E N H af cf = Ok s \<and> out = extension_id_hex i @ newline \<and>
     SetupExtension E X M \<lparr>sKey = Prv s, sChain = sChainID s, sManager = aFlareTeeManager (sAddresses s)\<rparr> (HexToAddress E sender) 0 w =
       (Ok i, w')"
  using assms by (auto simp: register_extension_def Let_def call_Ok_iff split: if_splits option.splits)

lemma raw_lines_id:
  assumes "0 \<le> i" "i < 2 ^ 256"
  shows "raw_lines (extension_id_hex i @ newline) = [extension_id_hex i]"
proof -
  have "list_all graphic (extension_id_hex i)"
    using matches_graphic extension_id_hex_regex [OF assms] by (auto simp: extensionIDRegex_def list_all_iff)
  then show ?thesis using raw_lines_concat [of "[extension_id_hex i]"] graphic_line(1) by (simp add: newline_def)
qed

lemma SetupExtension_id:
  assumes "SetupExtension E X M s sender verifier w = (Ok i, w')"
  shows "\<exists>l. ParseTeeExtensionRegistered M l = Ok i"
  using assms by (auto simp: SetupExtension_def registerExtension_def Let_def call_Ok_iff split: if_splits)

text \<open>C6: What register-extension sets up is what the validation reads: when it succeeds, the last line of its output, written by the build
  script into extension.env next to the sender address, with whatever comments and other variables before and after them, is parsed by the
  checks, S2 passes on it, and it denotes the very extension of which the deployer now is machine and project owner with the EVM key type supported.\<close>

theorem registered_extension_passes_checks:
  assumes "register_extension E N H X M af cf sender w = (Ok out, w')" "contract_laws X M R"
    and "\<forall>l i. ParseTeeExtensionRegistered M l = Ok i \<longrightarrow> 0 \<le> i \<and> i < 2 ^ 256"
    and "addressRegex a" "path \<noteq> []" "list_all other_line (before @ after)"
    and "OpenFile H' path = Some (concat (map (\<lambda>l. l @ newline)
      (before @ [''EXTENSION_ID='' @ last (raw_lines out), ''INSTRUCTION_SENDER='' @ a] @ after)))"
  shows "\<exists>s i idHex. DefaultSupport E N H af cf = Ok s \<and> parseExtensionEnv H' path = Ok (idHex, a) \<and>
     CStatus (check_S2 E H' path) = PASS \<and> extension_id_value idHex = i \<and>
     MachineOwner R w' i (PubkeyToAddress E (Prv s)) \<and> ProjectOwner R w' i (PubkeyToAddress E (Prv s)) \<and> KeyType R w' i (EVMType E)"
proof -
  obtain s i where s: "DefaultSupport E N H af cf = Ok s" "out = extension_id_hex i @ newline"
    and set: "SetupExtension E X M \<lparr>sKey = Prv s, sChain = sChainID s, sManager = aFlareTeeManager (sAddresses s)\<rparr>
        (HexToAddress E sender) 0 w = (Ok i, w')"
    using register_extension_run [OF assms(1)] by blast
  have i: "0 \<le> i" "i < 2 ^ 256" using SetupExtension_id [OF set] assms(3) by blast+
  have "raw_lines out = [extension_id_hex i]" unfolding s(2) by (rule raw_lines_id [OF i])
  then have "OpenFile H' path = Some (concat (map (\<lambda>l. l @ newline)
      (before @ [''EXTENSION_ID='' @ extension_id_hex i, ''INSTRUCTION_SENDER='' @ a] @ after)))"
    using assms(7) by simp
  from extension_env_read_back [OF i assms(4-6) this, of E] setup_grants_rights [OF assms(2) set] s(1)
  show ?thesis by auto
qed

theorem registered_extension_passes_checks_witness:
  "\<exists>i idHex w' out. register_extension demo_ext demo_setup (demo_host ''e'' None) demo_chain_eth demo_manager ''p'' ''http://node'' ''aaa'' [] =
       (Ok out, w') \<and>
     parseExtensionEnv (demo_host ''e'' (Some demo_env)) ''e'' = Ok (idHex, ''0x'' @ replicate 40 (CHR ''a'')) \<and>
     extension_id_value idHex = i \<and> KeyType demo_rights w' i (EVMType demo_ext)"
proof -
  obtain s where s: "DefaultSupport demo_ext demo_setup (demo_host ''e'' None) ''p'' ''http://node'' = Ok s" "ChainClient s = demo_client"
    using demo_support by blast
  have code: "AddressHasCode demo_ext (Some demo_client) a l = None" for a l
    by (simp add: AddressHasCode_None has_code_def demo_client_def)
  obtain w' where "SetupExtension demo_ext demo_chain_eth demo_manager
      \<lparr>sKey = Prv s, sChain = sChainID s, sManager = aFlareTeeManager (sAddresses s)\<rparr> (HexToAddress demo_ext ''aaa'') 0 [] = (Ok 7, w')"
    using demo_setup_run by blast
  then have run: "register_extension demo_ext demo_setup (demo_host ''e'' None) demo_chain_eth demo_manager ''p'' ''http://node'' ''aaa'' [] =
      (Ok (extension_id_hex 7 @ newline), w')"
    using s by (simp add: register_extension_def Let_def code)
  have "addressRegex (''0x'' @ replicate 40 (CHR ''a''))"
    by (simp add: addressRegex_def matches_0x_hex_def is_hex_def hexval_def list_all_iff)
  moreover have "OpenFile (demo_host ''e'' (Some demo_env)) ''e'' = Some (concat (map (\<lambda>l. l @ newline) ([demo_comment] @
      [''EXTENSION_ID='' @ last (raw_lines (extension_id_hex 7 @ newline)), ''INSTRUCTION_SENDER='' @ (''0x'' @ replicate 40 (CHR ''a''))] @ demo_tokens)))"
    using raw_lines_id [of 7] by (simp add: demo_host_def demo_env_def)
  moreover have "\<forall>l i. ParseTeeExtensionRegistered demo_manager l = Ok i \<longrightarrow> 0 \<le> i \<and> i < 2 ^ 256" by (simp add: demo_manager_def)
  ultimately show ?thesis
    using registered_extension_passes_checks [OF run demo_contract_laws _ _ _ demo_other_lines] run by blast
qed

end
